(* ===== verification/Go_Prelude.thy ===== *)
theory Go_Prelude
  imports Main "HOL-Library.Word" "HOL-Library.Sublist"
begin

text \<open>
  The vocabulary every component of the LibraWatch model shares.

  \<^item> The functions of Go's \<^verbatim>\<open>strings\<close> package the sources call, on byte strings
    (\<^typ>\<open>string\<close>).  Case mapping and white space follow Go on ASCII; bytes above 127 are left
    as they are.
  \<^item> JSON values as \<^verbatim>\<open>encoding/json\<close> decodes them into \<^verbatim>\<open>map[string]interface{}\<close>, with the
    checked type assertion \<^verbatim>\<open>v, _ := msg[k].(string)\<close>.
  \<^item> Time: \<^verbatim>\<open>time.Time\<close> and \<^verbatim>\<open>time.Duration\<close> are nanosecond counts (\<^typ>\<open>int\<close>); the
    database keeps whole seconds, because \<^verbatim>\<open>fmtTime\<close> prints
    \<^verbatim>\<open>2006-01-02 15:04:05\<close> and SQLite compares those texts, which for the fixed-width
    format is comparison of the second counts.
  \<^item> The lemma collections \<open>go_string\<close> and \<open>go_defs\<close> the component proofs draw on.
\<close>

named_theorems go_string
named_theorems go_defs

subsection \<open>Characters\<close>

definition is_upper :: "char \<Rightarrow> bool" where
  "is_upper c \<longleftrightarrow> 65 \<le> (of_char c :: nat) \<and> (of_char c :: nat) \<le> 90"

definition is_lower :: "char \<Rightarrow> bool" where
  "is_lower c \<longleftrightarrow> 97 \<le> (of_char c :: nat) \<and> (of_char c :: nat) \<le> 122"

definition is_digit :: "char \<Rightarrow> bool" where
  "is_digit c \<longleftrightarrow> 48 \<le> (of_char c :: nat) \<and> (of_char c :: nat) \<le> 57"

definition is_hex :: "char \<Rightarrow> bool" where
  "is_hex c \<longleftrightarrow> is_digit c
     \<or> (65 \<le> (of_char c :: nat) \<and> (of_char c :: nat) \<le> 70)
     \<or> (97 \<le> (of_char c :: nat) \<and> (of_char c :: nat) \<le> 102)"

text \<open>ASCII white space: tab, line feed, vertical tab, form feed, carriage return, blank.\<close>

definition is_space :: "char \<Rightarrow> bool" where
  "is_space c \<longleftrightarrow> (of_char c :: nat) \<in> {9, 10, 11, 12, 13, 32}"

definition lower_char :: "char \<Rightarrow> char" where
  "lower_char c = (if is_upper c then char_of ((of_char c :: nat) + 32) else c)"

definition upper_char :: "char \<Rightarrow> char" where
  "upper_char c = (if is_lower c then char_of ((of_char c :: nat) - 32) else c)"

subsection \<open>The strings package\<close>

definition ToLower :: "string \<Rightarrow> string" where
  "ToLower s = map lower_char s"

definition ToUpper :: "string \<Rightarrow> string" where
  "ToUpper s = map upper_char s"

definition EqualFold :: "string \<Rightarrow> string \<Rightarrow> bool" where
  "EqualFold s t \<longleftrightarrow> ToLower s = ToLower t"

fun HasPrefix :: "'a list \<Rightarrow> 'a list \<Rightarrow> bool" where
  "HasPrefix s [] = True"
| "HasPrefix [] (p # ps) = False"
| "HasPrefix (c # cs) (p # ps) = (c = p \<and> HasPrefix cs ps)"

fun Contains :: "'a list \<Rightarrow> 'a list \<Rightarrow> bool" where
  "Contains [] sub = (sub = [])"
| "Contains (c # cs) sub = (HasPrefix (c # cs) sub \<or> Contains cs sub)"

definition TrimSpace :: "string \<Rightarrow> string" where
  "TrimSpace s = rev (dropWhile is_space (rev (dropWhile is_space s)))"

definition TrimPrefix :: "string \<Rightarrow> string \<Rightarrow> string" where
  "TrimPrefix s p = (if HasPrefix s p then drop (length p) s else s)"

text \<open>
  \<^verbatim>\<open>strings.ReplaceAll\<close> for a nonempty pattern (the only use in the sources): leftmost,
  non-overlapping occurrences.
\<close>

function ReplaceAll :: "'a list \<Rightarrow> 'a list \<Rightarrow> 'a list \<Rightarrow> 'a list" where
  "ReplaceAll [] old new = []"
| "ReplaceAll (c # cs) old new =
     (if old \<noteq> [] \<and> HasPrefix (c # cs) old
      then new @ ReplaceAll (drop (length old) (c # cs)) old new
      else c # ReplaceAll cs old new)"
  by pat_completeness auto
termination
  by (relation "measure (\<lambda>(s, old, new). length s)") auto

fun Fields_from :: "string \<Rightarrow> string \<Rightarrow> string list" where
  "Fields_from cur [] = (if cur = [] then [] else [cur])"
| "Fields_from cur (c # cs) =
     (if is_space c
      then (if cur = [] then Fields_from [] cs else cur # Fields_from [] cs)
      else Fields_from (cur @ [c]) cs)"

definition Fields :: "string \<Rightarrow> string list" where
  "Fields s = Fields_from [] s"

fun Join :: "'a list list \<Rightarrow> 'a list \<Rightarrow> 'a list" where
  "Join [] sep = []"
| "Join [x] sep = x"
| "Join (x # y # ys) sep = x @ sep @ Join (y # ys) sep"

text \<open>\<^verbatim>\<open>strings.Split(s, string(sep))\<close> for a one-byte separator.\<close>

fun Split_char :: "char \<Rightarrow> string \<Rightarrow> string list" where
  "Split_char sep [] = [[]]"
| "Split_char sep (c # cs) =
     (if c = sep then [] # Split_char sep cs
      else (case Split_char sep cs of [] \<Rightarrow> [[c]] | w # ws \<Rightarrow> (c # w) # ws))"

text \<open>\<^verbatim>\<open>s[strings.LastIndexByte(s, b)+1:]\<close>: what follows the last occurrence of \<open>b\<close>.\<close>

fun after_last :: "char \<Rightarrow> string \<Rightarrow> string" where
  "after_last b [] = []"
| "after_last b (c # cs) = (if b \<in> set cs then after_last b cs else if c = b then cs else c # cs)"

text \<open>
  \<^verbatim>\<open>filepath.Ext\<close>: from the last dot of the last path element on.  The separators depend on the
  system the binary runs on.
\<close>

definition unix_sep :: "char \<Rightarrow> bool" where "unix_sep c \<longleftrightarrow> c = CHR ''/''"
definition windows_sep :: "char \<Rightarrow> bool" where "windows_sep c \<longleftrightarrow> c = CHR ''/'' \<or> c = CHR 0x5C"

definition filepath_Ext :: "(char \<Rightarrow> bool) \<Rightarrow> string \<Rightarrow> string" where
  "filepath_Ext sep path =
     (let base = rev (takeWhile (\<lambda>c. \<not> sep c) (rev path)) in
      if CHR ''.'' \<in> set base then CHR ''.'' # after_last (CHR ''.'') base else '''')"

text \<open>The UTF-8 bytes of the dash the message texts use.\<close>

abbreviation em_dash :: string where "em_dash \<equiv> [CHR 0xE2, CHR 0x80, CHR 0x94]"

text \<open>The \<^verbatim>\<open>%q\<close> verb: a quoted string with backslash escapes.\<close>

definition hex_digit :: "nat \<Rightarrow> char" where
  "hex_digit n = (if n < 10 then char_of (n + 48) else char_of (n + 87))"

definition quote_char :: "char \<Rightarrow> string" where
  "quote_char c =
     (let n = (of_char c :: nat) in
      if n = 0x22 \<or> n = 0x5C then [CHR 0x5C, c]
      else if 7 \<le> n \<and> n \<le> 13 then [CHR 0x5C, ''abtnvfr'' ! (n - 7)]
      else if n < 0x20 \<or> n = 0x7F then [CHR 0x5C, CHR ''x'', hex_digit (n div 16), hex_digit (n mod 16)]
      else [c])"

definition go_quote :: "string \<Rightarrow> string" where
  "go_quote s = [CHR 0x22] @ concat (map quote_char s) @ [CHR 0x22]"

text \<open>Slicing \<^verbatim>\<open>s[:n] + suffix\<close> when the byte length exceeds \<open>n\<close>, as the result handlers do.\<close>

definition truncate_output :: "nat \<Rightarrow> string \<Rightarrow> string" where
  "truncate_output n s = (if length s > n then take n s @ ''...[truncated]'' else s)"

subsection \<open>JSON objects\<close>

datatype json = JNull | JBool bool | JNum int | JStr string | JArr "json list" | JObj "(string \<times> json) list"

type_synonym json_object = "string \<rightharpoonup> json"

definition str_field :: "json_object \<Rightarrow> string \<Rightarrow> string" where
  "str_field m k = (case m k of Some (JStr s) \<Rightarrow> s | _ \<Rightarrow> '''')"

definition field_or_null :: "json_object \<Rightarrow> string \<Rightarrow> json" where
  "field_or_null m k = (case m k of Some v \<Rightarrow> v | None \<Rightarrow> JNull)"

text \<open>\<^verbatim>\<open>floatVal\<close>: the number stored under a key, 0 for any other value.\<close>

definition num_field :: "json_object \<Rightarrow> string \<Rightarrow> int" where
  "num_field m k = (case m k of Some (JNum n) \<Rightarrow> n | _ \<Rightarrow> 0)"

subsection \<open>Decimal numbers\<close>

text \<open>\<^verbatim>\<open>%d\<close> and SQLite's text form of an integer.\<close>

definition digit_char :: "nat \<Rightarrow> char" where
  "digit_char d = char_of (48 + d)"

fun show_nat :: "nat \<Rightarrow> string" where
  "show_nat n = (if n < 10 then [digit_char n] else show_nat (n div 10) @ [digit_char (n mod 10)])"

declare show_nat.simps [simp del]

definition show_int :: "int \<Rightarrow> string" where
  "show_int i = (if i < 0 then ''-'' @ show_nat (nat (- i)) else show_nat (nat i))"

text \<open>The value of a digit string.\<close>

definition nat_of_digits :: "string \<Rightarrow> nat" where
  "nat_of_digits ds = foldl (\<lambda>n c. 10 * n + ((of_char c :: nat) - 48)) 0 ds"

subsection \<open>Time\<close>

type_synonym time = int
type_synonym db_time = int

definition nanosecond :: int where "nanosecond = 1"
definition millisecond :: int where "millisecond = 1000000"
definition second :: int where "second = 1000000000"
definition minute :: int where "minute = 60 * second"
definition hour :: int where "hour = 60 * minute"

definition fmtTime :: "time \<Rightarrow> db_time" where
  "fmtTime t = t div second"

definition parseDBTime :: "db_time \<Rightarrow> time" where
  "parseDBTime s = s * second"

subsection \<open>Lemmas\<close>

lemmas time_units [go_defs] = nanosecond_def second_def minute_def hour_def

lemma HasPrefix_iff [go_string]: "HasPrefix s p \<longleftrightarrow> (\<exists>t. s = p @ t)"
  by (induction s p rule: HasPrefix.induct) auto

lemma HasPrefix_append [simp]: "HasPrefix (p @ t) p"
  by (auto simp: HasPrefix_iff)

lemma Contains_iff [go_string]: "Contains s sub \<longleftrightarrow> (\<exists>u v. s = u @ sub @ v)"
proof (induction s)
  case Nil
  then show ?case by auto
next
  case (Cons c cs)
  show ?case
  proof
    assume "Contains (c # cs) sub"
    then show "\<exists>u v. c # cs = u @ sub @ v"
      using Cons by (auto simp: HasPrefix_iff intro: exI [of _ "[]"]) (metis append_Cons)
  next
    assume "\<exists>u v. c # cs = u @ sub @ v"
    then obtain u v where uv: "c # cs = u @ sub @ v" by blast
    show "Contains (c # cs) sub"
    proof (cases u)
      case Nil
      with uv have "HasPrefix (c # cs) sub" by simp
      then show ?thesis by simp
    next
      case (Cons d ds)
      with uv Cons.IH show ?thesis by auto
    qed
  qed
qed

lemma Contains_append_left [go_string]: "Contains s sub \<Longrightarrow> Contains (t @ s) sub"
  unfolding Contains_iff by (metis append.assoc)

lemma Contains_append_right [go_string]: "Contains s sub \<Longrightarrow> Contains (s @ t) sub"
  unfolding Contains_iff by (metis append.assoc)

lemma lower_char_idem [simp]: "lower_char (lower_char c) = lower_char c"
  by (auto simp: lower_char_def is_upper_def)

lemma ToLower_idem [simp]: "ToLower (ToLower s) = ToLower s"
  by (simp add: ToLower_def)

lemma ToLower_append [simp]: "ToLower (s @ t) = ToLower s @ ToLower t"
  by (simp add: ToLower_def)

lemma ToLower_Nil [simp]: "ToLower [] = []"
  by (simp add: ToLower_def)

lemma ToLower_eq_Nil [simp]: "ToLower s = [] \<longleftrightarrow> s = []"
  by (simp add: ToLower_def)

lemma length_ToLower [simp]: "length (ToLower s) = length s"
  by (simp add: ToLower_def)

lemma EqualFold_refl [simp]: "EqualFold s s"
  by (simp add: EqualFold_def)

lemma EqualFold_sym: "EqualFold s t \<longleftrightarrow> EqualFold t s"
  by (auto simp: EqualFold_def)

lemma EqualFold_trans: "EqualFold s t \<Longrightarrow> EqualFold t u \<Longrightarrow> EqualFold s u"
  by (simp add: EqualFold_def)

lemma EqualFold_ToLower [simp]: "EqualFold (ToLower s) t \<longleftrightarrow> EqualFold s t"
  by (simp add: EqualFold_def)

lemma EqualFold_Nil [simp]: "EqualFold [] t \<longleftrightarrow> t = []" "EqualFold s [] \<longleftrightarrow> s = []"
  by (auto simp: EqualFold_def dest: sym)

lemma Split_char_not_Nil [simp]: "Split_char sep s \<noteq> []"
  by (induction s) (auto split: list.splits)

lemma Join_Split_char: "Join (Split_char sep s) [sep] = s"
proof (induction s)
  case Nil
  then show ?case by simp
next
  case (Cons c cs)
  obtain w ws where w: "Split_char sep cs = w # ws"
    by (cases "Split_char sep cs") auto
  with Cons show ?case by (cases ws) auto
qed

lemma Fields_from_nonempty: "w \<in> set (Fields_from cur s) \<Longrightarrow> w \<noteq> []"
  by (induction cur s rule: Fields_from.induct) (auto split: if_splits)

lemma Fields_from_no_space:
  "list_all (\<lambda>c. \<not> is_space c) cur \<Longrightarrow> list_all (list_all (\<lambda>c. \<not> is_space c)) (Fields_from cur s)"
  by (induction cur s rule: Fields_from.induct) simp_all

lemma Fields_no_space [go_string]: "w \<in> set (Fields s) \<Longrightarrow> w \<noteq> [] \<and> list_all (\<lambda>c. \<not> is_space c) w"
  using Fields_from_no_space [of "[]" s] Fields_from_nonempty [of w "[]" s]
  unfolding Fields_def list_all_iff by simp

lemma after_last_no_sep: "b \<notin> set (after_last b s)"
  by (induction s) auto

lemma truncate_output_bound: "length (truncate_output n s) \<le> n + 14"
  by (simp add: truncate_output_def)

lemma truncate_output_short [simp]: "length s \<le> n \<Longrightarrow> truncate_output n s = s"
  by (simp add: truncate_output_def)

lemma fmtTime_mono: "s \<le> t \<Longrightarrow> fmtTime s \<le> fmtTime t"
  by (simp add: fmtTime_def second_def zdiv_mono1)

lemma fmtTime_parseDBTime [simp]: "fmtTime (parseDBTime s) = s"
  by (simp add: fmtTime_def parseDBTime_def second_def)

lemma parseDBTime_fmtTime_le: "parseDBTime (fmtTime t) \<le> t"
  by (simp add: fmtTime_def parseDBTime_def second_def)

lemma parseDBTime_fmtTime_gt: "t < parseDBTime (fmtTime t) + second"
  by (simp add: fmtTime_def parseDBTime_def second_def)

lemma digit_char_digit: "d < 10 \<Longrightarrow> is_digit (digit_char d) \<and> (of_char (digit_char d) :: nat) = 48 + d"
  by (simp add: digit_char_def is_digit_def)

lemma show_nat_digits: "list_all is_digit (show_nat n)"
  by (induction n rule: show_nat.induct)
     (subst show_nat.simps, auto simp: digit_char_digit)

lemma show_nat_not_Nil [simp]: "show_nat n \<noteq> []"
  by (subst show_nat.simps) simp

lemma nat_of_digits_show [simp]: "nat_of_digits (show_nat n) = n"
proof (induction n rule: show_nat.induct)
  case (1 n)
  show ?case
  proof (cases "n < 10")
    case True
    then show ?thesis by (subst show_nat.simps) (simp add: nat_of_digits_def digit_char_digit)
  next
    case False
    with 1 have "nat_of_digits (show_nat (n div 10)) = n div 10" by blast
    with False show ?thesis
      by (subst show_nat.simps) (simp add: nat_of_digits_def digit_char_digit)
  qed
qed

lemma ToLower_ToUpper: "ToLower (ToUpper s) = ToLower s"
proof -
  have "lower_char (upper_char c) = lower_char c" for c
    by (auto simp: lower_char_def upper_char_def is_upper_def is_lower_def)
  then show ?thesis by (simp add: ToLower_def ToUpper_def)
qed

subsection \<open>Lists\<close>

lemma find_append: "find P (xs @ ys) = (case find P xs of None \<Rightarrow> find P ys | Some x \<Rightarrow> Some x)"
  by (induction xs) simp_all

lemma find_unique: "distinct (map key xs) \<Longrightarrow> x \<in> set xs \<Longrightarrow> find (\<lambda>r. key r = key x) xs = Some x"
  by (induction xs) auto

lemma find_unique_key: "distinct (map key xs) \<Longrightarrow> x \<in> set xs \<Longrightarrow> key x = k \<Longrightarrow> find (\<lambda>r. key r = k) xs = Some x"
  using find_unique by metis

lemma find_in: "find P xs = Some x \<Longrightarrow> x \<in> set xs \<and> P x"
  by (auto simp: find_Some_iff)

lemma insort_key_snoc: "f a \<le> f x \<Longrightarrow> insort_key f a (zs @ [x]) = insort_key f a zs @ [x]"
  by (induction zs) auto

lemma sort_key_snoc:
  assumes "list_all (\<lambda>y. f y \<le> f x) xs"
  shows "sort_key f (xs @ [x]) = sort_key f xs @ [x]"
  using assms by (induction xs) (simp_all add: insort_key_snoc)

end
