(* ===== verification/Shared_Command.thy ===== *)
theory Shared_Command
  imports Go_Prelude
begin

text \<open>
  \<^verbatim>\<open>shared/command.go\<close>: which deploy payloads power the target PC off or reboot it.  The
  lease sweeper of the server consults this predicate to decide that a command whose result was
  lost must not be sent again.
\<close>

definition destructive_flags :: "string list" where
  "destructive_flags = [''/s'', ''-s'', ''/r'', ''-r'', ''/g'', ''-g'', ''/p'', ''-p'', ''/hybrid'', ''-hybrid'']"

definition IsDestructivePayload :: "string \<Rightarrow> string \<Rightarrow> bool" where
  "IsDestructivePayload jobType payload =
     (if jobType \<noteq> ''exec'' then False
      else
        let p = ToLower payload in
        if Contains p ''restart-computer'' \<or> Contains p ''stop-computer'' then True
        else
          let p = ReplaceAll p ''.exe'' '''';
              p = Join (Fields p) '' ''
          in list_ex (\<lambda>flag. Contains p (''shutdown '' @ flag) \<or> Contains p (''shutdown'' @ flag))
               destructive_flags)"

end
