(* ===== verification/Shared_Identity.thy ===== *)
theory Shared_Identity
  imports Go_Prelude
begin

text \<open>
  \<^verbatim>\<open>shared/identity.go\<close>: the identity of an executable, its map key, and the comparison the kill
  path and the catalog use.
\<close>

record ApplicationIdentity =
  ai_ExeName :: string
  ai_Company :: string
  ai_ProductName :: string
  ai_OriginalFilename :: string
  ai_FileDescription :: string
  ai_SHA256 :: string
  ai_FullPath :: string

definition NewApplicationIdentity :: "string \<Rightarrow> string \<Rightarrow> ApplicationIdentity" where
  "NewApplicationIdentity exeName fullPath =
     \<lparr>ai_ExeName = exeName, ai_Company = '''', ai_ProductName = '''', ai_OriginalFilename = '''',
      ai_FileDescription = '''', ai_SHA256 = '''', ai_FullPath = fullPath\<rparr>"

definition keep_if_empty :: "string \<Rightarrow> string \<Rightarrow> string" where
  "keep_if_empty new old = (if new \<noteq> '''' then new else old)"

definition WithMetadata ::
  "ApplicationIdentity \<Rightarrow> string \<Rightarrow> string \<Rightarrow> string \<Rightarrow> string \<Rightarrow> string \<Rightarrow> ApplicationIdentity" where
  "WithMetadata i company productName originalFilename fileDescription sha256 =
     i\<lparr>ai_Company := keep_if_empty company (ai_Company i),
       ai_ProductName := keep_if_empty productName (ai_ProductName i),
       ai_OriginalFilename := keep_if_empty originalFilename (ai_OriginalFilename i),
       ai_FileDescription := keep_if_empty fileDescription (ai_FileDescription i),
       ai_SHA256 := keep_if_empty sha256 (ai_SHA256 i)\<rparr>"

definition ApplicationIdentity_Key :: "ApplicationIdentity \<Rightarrow> string" where
  "ApplicationIdentity_Key i =
     (if ai_SHA256 i \<noteq> '''' then ''sha256:'' @ ai_SHA256 i
      else if ai_ProductName i \<noteq> '''' \<and> ai_Company i \<noteq> ''''
      then ToLower (ai_ProductName i) @ ''|'' @ ToLower (ai_Company i)
      else ToLower (ai_ExeName i))"

definition SameApp :: "ApplicationIdentity \<Rightarrow> ApplicationIdentity \<Rightarrow> bool" where
  "SameApp i other =
     (if ai_SHA256 i \<noteq> '''' \<and> ai_SHA256 other \<noteq> '''' then ai_SHA256 i = ai_SHA256 other
      else if ai_ProductName i \<noteq> '''' \<and> ai_Company i \<noteq> ''''
            \<and> ai_ProductName other \<noteq> '''' \<and> ai_Company other \<noteq> ''''
      then EqualFold (ai_ProductName i) (ai_ProductName other)
           \<and> EqualFold (ai_Company i) (ai_Company other)
      else ai_ExeName i \<noteq> '''' \<and> EqualFold (ai_ExeName i) (ai_ExeName other))"

text \<open>A later call with empty data keeps everything an earlier call established.\<close>

lemma keep_if_empty_simps [simp]:
  "keep_if_empty '''' old = old" "new \<noteq> '''' \<Longrightarrow> keep_if_empty new old = new"
  by (simp_all add: keep_if_empty_def)

lemma keep_if_empty_nonempty: "old \<noteq> '''' \<Longrightarrow> keep_if_empty new old \<noteq> ''''"
  by (simp add: keep_if_empty_def)

lemma WithMetadata_empty: "WithMetadata i '''' '''' '''' '''' '''' = i"
  by (simp add: WithMetadata_def)

lemma WithMetadata_twice:
  "WithMetadata (WithMetadata i c p f d s) c p f d s = WithMetadata i c p f d s"
  by (simp add: WithMetadata_def keep_if_empty_def)

lemma SameApp_sym: "SameApp i j \<longleftrightarrow> SameApp j i"
  by (auto simp: SameApp_def EqualFold_sym)

text \<open>
  Two identities that name the same application through the same tier of evidence have the same
  map key: the key is a function of what \<^const>\<open>SameApp\<close> compares.
\<close>

definition evidence_tier :: "ApplicationIdentity \<Rightarrow> nat" where
  "evidence_tier i =
     (if ai_SHA256 i \<noteq> '''' then 0 else if ai_ProductName i \<noteq> '''' \<and> ai_Company i \<noteq> '''' then 1 else 2)"

lemma SameApp_same_key:
  "SameApp i j \<Longrightarrow> evidence_tier i = evidence_tier j \<Longrightarrow>
   ApplicationIdentity_Key i = ApplicationIdentity_Key j"
  by (auto simp: SameApp_def ApplicationIdentity_Key_def evidence_tier_def EqualFold_def split: if_splits)

end
