(* ===== verification/Shared_Policy.thy ===== *)
theory Shared_Policy
  imports Go_Prelude "HOL-Library.Multiset"
begin

text \<open>
  \<^verbatim>\<open>shared/policy.go\<close>: the rule matcher both binaries link.  \<^verbatim>\<open>MatchScore\<close> counts the
  dimensions a rule restricts, \<^verbatim>\<open>Evaluate\<close> keeps the most specific match and, among equals,
  the lowest rule id.  \<^verbatim>\<open>ClassifyExecutionLocation\<close> ranges over a Go map, whose iteration order
  the language leaves open: the model takes the order as an argument.
\<close>

abbreviation PolicyActionLog :: string where "PolicyActionLog \<equiv> ''log''"
abbreviation PolicyActionNotify :: string where "PolicyActionNotify \<equiv> ''notify''"
abbreviation PolicyActionBlock :: string where "PolicyActionBlock \<equiv> ''block''"
abbreviation PolicyActionDelete :: string where "PolicyActionDelete \<equiv> ''delete''"
abbreviation PolicyActionKill :: string where "PolicyActionKill \<equiv> ''kill''"

record PolicyRule =
  pr_ID :: int
  pr_Name :: string
  pr_EventType :: string
  pr_CategoryID :: "int option"
  pr_AppStatus :: string
  pr_FileExtension :: string
  pr_ExecutionLocation :: string
  pr_DeviceGroup :: string
  pr_Action :: string
  pr_Enabled :: bool
  pr_CreatedAt :: time

record PolicyContext =
  pc_AgentID :: string
  pc_DeviceGroup :: string
  pc_EventType :: string
  pc_CategoryID :: "int option"
  pc_AppStatus :: string
  pc_FileExtension :: string
  pc_ExecutionLocation :: string

record PolicyDecision =
  pd_Action :: string
  pd_Rule :: "PolicyRule option"

record PolicyRelevantApp =
  ra_Status :: string
  ra_CategoryID :: "int option"
  ra_Company :: string

definition watchedLocationMarkers :: "(string \<times> string) list" where
  "watchedLocationMarkers =
     [(''downloads'', [CHR 0x5C] @ ''downloads'' @ [CHR 0x5C]),
      (''desktop'', [CHR 0x5C] @ ''desktop'' @ [CHR 0x5C]),
      (''temp'', [CHR 0x5C] @ ''temp'' @ [CHR 0x5C])]"

text \<open>The orders in which \<^verbatim>\<open>range watchedLocationMarkers\<close> may visit the entries.\<close>

definition marker_order :: "(string \<times> string) list \<Rightarrow> bool" where
  "marker_order order \<longleftrightarrow> mset order = mset watchedLocationMarkers"

definition on_foreign_drive :: "string \<Rightarrow> bool" where
  "on_foreign_drive path \<longleftrightarrow>
     length path \<ge> 2 \<and> path ! 1 = CHR '':'' \<and> \<not> EqualFold (take 2 path) ''c:''"

definition ClassifyExecutionLocation :: "(string \<times> string) list \<Rightarrow> string \<Rightarrow> string" where
  "ClassifyExecutionLocation order path =
     (if path = '''' then ''''
      else if on_foreign_drive path then ''usb''
      else
        let lower = ToLower path in
        (case find (\<lambda>(loc, marker). Contains lower marker) order of
           Some (loc, marker) \<Rightarrow> loc
         | None \<Rightarrow> ''''))"

text \<open>
  \<^verbatim>\<open>MatchScore\<close>: each dimension the rule sets must agree with the context and then counts one;
  the first that disagrees returns \<^verbatim>\<open>(0, false)\<close>.
\<close>

definition MatchScore :: "PolicyRule \<Rightarrow> PolicyContext \<Rightarrow> int \<times> bool" where
  "MatchScore r ctx =
     (let score = 0 in
      if pr_EventType r \<noteq> '''' \<and> pr_EventType r \<noteq> pc_EventType ctx then (0, False)
      else let score = (if pr_EventType r \<noteq> '''' then score + 1 else score) in
      if pr_CategoryID r \<noteq> None \<and> (pc_CategoryID ctx = None \<or> the (pr_CategoryID r) \<noteq> the (pc_CategoryID ctx))
      then (0, False)
      else let score = (if pr_CategoryID r \<noteq> None then score + 1 else score) in
      if pr_AppStatus r \<noteq> '''' \<and> pr_AppStatus r \<noteq> pc_AppStatus ctx then (0, False)
      else let score = (if pr_AppStatus r \<noteq> '''' then score + 1 else score) in
      if pr_FileExtension r \<noteq> '''' \<and> \<not> EqualFold (pr_FileExtension r) (pc_FileExtension ctx) then (0, False)
      else let score = (if pr_FileExtension r \<noteq> '''' then score + 1 else score) in
      if pr_ExecutionLocation r \<noteq> '''' \<and> \<not> EqualFold (pr_ExecutionLocation r) (pc_ExecutionLocation ctx)
      then (0, False)
      else let score = (if pr_ExecutionLocation r \<noteq> '''' then score + 1 else score) in
      if pr_DeviceGroup r \<noteq> '''' \<and> \<not> EqualFold (pr_DeviceGroup r) (pc_DeviceGroup ctx) then (0, False)
      else let score = (if pr_DeviceGroup r \<noteq> '''' then score + 1 else score) in
      (score, True))"

text \<open>The loop of \<^verbatim>\<open>Evaluate\<close>: the best rule so far and its score, starting at \<open>-1\<close>.\<close>

fun Evaluate_loop ::
  "PolicyContext \<Rightarrow> PolicyRule list \<Rightarrow> PolicyRule option \<Rightarrow> int \<Rightarrow> PolicyRule option" where
  "Evaluate_loop ctx [] best bestScore = best"
| "Evaluate_loop ctx (r # rs) best bestScore =
     (let (score, ok) = MatchScore r ctx in
      if \<not> ok then Evaluate_loop ctx rs best bestScore
      else if score > bestScore
              \<or> (score = bestScore \<and> best \<noteq> None \<and> pr_ID r < pr_ID (the best))
      then Evaluate_loop ctx rs (Some r) score
      else Evaluate_loop ctx rs best bestScore)"

definition Evaluate :: "PolicyRule list \<Rightarrow> PolicyContext \<Rightarrow> PolicyDecision" where
  "Evaluate rules ctx =
     (case Evaluate_loop ctx rules None (-1) of
        None \<Rightarrow> \<lparr>pd_Action = PolicyActionLog, pd_Rule = None\<rparr>
      | Some best \<Rightarrow> \<lparr>pd_Action = pr_Action best, pd_Rule = Some best\<rparr>)"

subsection \<open>What a rule says, declaratively\<close>

text \<open>A rule matches when every dimension it sets agrees; its specificity is how many it sets.\<close>

definition rule_matches :: "PolicyRule \<Rightarrow> PolicyContext \<Rightarrow> bool" where
  "rule_matches r ctx \<longleftrightarrow>
     (pr_EventType r = '''' \<or> pr_EventType r = pc_EventType ctx)
     \<and> (pr_CategoryID r = None \<or> pr_CategoryID r = pc_CategoryID ctx)
     \<and> (pr_AppStatus r = '''' \<or> pr_AppStatus r = pc_AppStatus ctx)
     \<and> (pr_FileExtension r = '''' \<or> EqualFold (pr_FileExtension r) (pc_FileExtension ctx))
     \<and> (pr_ExecutionLocation r = '''' \<or> EqualFold (pr_ExecutionLocation r) (pc_ExecutionLocation ctx))
     \<and> (pr_DeviceGroup r = '''' \<or> EqualFold (pr_DeviceGroup r) (pc_DeviceGroup ctx))"

definition specificity :: "PolicyRule \<Rightarrow> int" where
  "specificity r =
     of_bool (pr_EventType r \<noteq> '''') + of_bool (pr_CategoryID r \<noteq> None)
     + of_bool (pr_AppStatus r \<noteq> '''') + of_bool (pr_FileExtension r \<noteq> '''')
     + of_bool (pr_ExecutionLocation r \<noteq> '''') + of_bool (pr_DeviceGroup r \<noteq> '''')"

text \<open>\<open>outranks r r'\<close>: the rule \<open>r\<close> is preferred to \<open>r'\<close> or ties with it.\<close>

definition outranks :: "PolicyRule \<Rightarrow> PolicyRule \<Rightarrow> bool" where
  "outranks r r' \<longleftrightarrow>
     specificity r > specificity r' \<or> (specificity r = specificity r' \<and> pr_ID r \<le> pr_ID r')"

lemma specificity_bounds: "0 \<le> specificity r" "specificity r \<le> 6"
  by (simp_all add: specificity_def)

lemma MatchScore_spec:
  "MatchScore r ctx = (if rule_matches r ctx then (specificity r, True) else (0, False))"
  by (cases "pr_CategoryID r"; cases "pc_CategoryID ctx")
     (simp_all add: MatchScore_def rule_matches_def specificity_def Let_def)

lemma outranks_refl [simp]: "outranks r r"
  by (simp add: outranks_def)

lemma outranks_trans: "outranks a b \<Longrightarrow> outranks b c \<Longrightarrow> outranks a c"
  by (auto simp: outranks_def)

lemma outranks_total: "outranks a b \<or> outranks b a"
  by (auto simp: outranks_def)

lemma outranks_antisym: "outranks a b \<Longrightarrow> outranks b a \<Longrightarrow> pr_ID a = pr_ID b"
  by (auto simp: outranks_def)

text \<open>The loop keeps a best-ranked matching rule among the ones it started with and has seen.\<close>

definition best_of :: "PolicyContext \<Rightarrow> PolicyRule set \<Rightarrow> PolicyRule option \<Rightarrow> bool" where
  "best_of ctx R best \<longleftrightarrow>
     (case best of
        None \<Rightarrow> (\<forall>r \<in> R. \<not> rule_matches r ctx)
      | Some b \<Rightarrow> b \<in> R \<and> rule_matches b ctx \<and> (\<forall>r \<in> R. rule_matches r ctx \<longrightarrow> outranks b r))"

definition takes_over :: "PolicyRule \<Rightarrow> PolicyRule option \<Rightarrow> int \<Rightarrow> bool" where
  "takes_over r best bestScore \<longleftrightarrow>
     specificity r > bestScore \<or> (specificity r = bestScore \<and> best \<noteq> None \<and> pr_ID r < pr_ID (the best))"

definition score_of :: "PolicyRule option \<Rightarrow> int" where
  "score_of best = (case best of None \<Rightarrow> -1 | Some b \<Rightarrow> specificity b)"

lemma takes_over_iff:
  "takes_over r best (score_of best) \<longleftrightarrow> (case best of None \<Rightarrow> True | Some b \<Rightarrow> \<not> outranks b r)"
proof (cases best)
  case None
  with specificity_bounds(1) [of r] show ?thesis by (simp add: takes_over_def score_of_def)
next
  case (Some b)
  then show ?thesis by (simp add: takes_over_def score_of_def outranks_def) linarith
qed

lemma best_of_step:
  assumes "best_of ctx R best" and "rule_matches r ctx"
  shows "best_of ctx (insert r R) (if takes_over r best (score_of best) then Some r else best)"
proof (cases best)
  case None
  with assms show ?thesis by (simp add: takes_over_iff best_of_def)
next
  case (Some b)
  with assms(1) have b: "b \<in> R" "rule_matches b ctx" "\<forall>x \<in> R. rule_matches x ctx \<longrightarrow> outranks b x"
    by (simp_all add: best_of_def)
  show ?thesis
  proof (cases "outranks b r")
    case True
    with Some b show ?thesis by (simp add: takes_over_iff best_of_def)
  next
    case False
    then have "outranks r b" using outranks_total by blast
    with b(3) have "\<forall>x \<in> R. rule_matches x ctx \<longrightarrow> outranks r x"
      using outranks_trans by blast
    with False Some assms(2) show ?thesis by (simp add: takes_over_iff best_of_def)
  qed
qed

lemma best_of_skip: "best_of ctx R best \<Longrightarrow> \<not> rule_matches r ctx \<Longrightarrow> best_of ctx (insert r R) best"
  by (auto simp: best_of_def split: option.splits)

lemma Evaluate_loop_Cons:
  "Evaluate_loop ctx (r # rs) best (score_of best) =
     (let best' = (if rule_matches r ctx \<and> takes_over r best (score_of best) then Some r else best)
      in Evaluate_loop ctx rs best' (score_of best'))"
  by (cases best) (simp_all add: MatchScore_spec takes_over_def score_of_def)

lemma Evaluate_loop_best:
  "best_of ctx R best \<Longrightarrow>
   best_of ctx (R \<union> set rules) (Evaluate_loop ctx rules best (score_of best))"
proof (induction rules arbitrary: R best)
  case Nil
  then show ?case by simp
next
  case (Cons r rs)
  let ?best = "if rule_matches r ctx \<and> takes_over r best (score_of best) then Some r else best"
  have "best_of ctx (insert r R) ?best"
    using best_of_step [OF Cons.prems, of r] best_of_skip [OF Cons.prems, of r]
    by (cases "rule_matches r ctx") simp_all
  from Cons.IH [OF this] show ?case by (simp add: Evaluate_loop_Cons Let_def del: Evaluate_loop.simps)
qed

lemma Evaluate_best: "best_of ctx (set rules) (Evaluate_loop ctx rules None (-1))"
  using Evaluate_loop_best [of ctx "{}" None rules] by (simp add: best_of_def score_of_def)

lemma Evaluate_rule: "pd_Rule (Evaluate rules ctx) = Evaluate_loop ctx rules None (-1)"
  by (simp add: Evaluate_def split: option.splits)

lemma Evaluate_action:
  "pd_Action (Evaluate rules ctx) =
     (case pd_Rule (Evaluate rules ctx) of None \<Rightarrow> PolicyActionLog | Some r \<Rightarrow> pr_Action r)"
  by (simp add: Evaluate_def split: option.splits)

lemma best_of_unique:
  assumes "best_of ctx R a" "best_of ctx R b" "inj_on pr_ID R"
  shows "a = b"
proof (cases a; cases b)
  fix x y assume "a = Some x" "b = Some y"
  with assms have "outranks x y" "outranks y x" "x \<in> R" "y \<in> R"
    by (auto simp: best_of_def)
  with assms(3) \<open>a = Some x\<close> \<open>b = Some y\<close> show ?thesis
    by (auto dest: outranks_antisym inj_onD)
qed (use assms in \<open>auto simp: best_of_def\<close>)

end
