(* ===== verification/Shared_Software.thy ===== *)
theory Shared_Software
  imports Go_Prelude
begin

text \<open>
  \<^verbatim>\<open>shared/software.go\<close>: the identity of an installed product, the comparison of version texts,
  and the validation of a registry uninstall command before it is run without a shell.  Version
  components are \<^verbatim>\<open>uint64\<close> values (\<^typ>\<open>64 word\<close>); the regular expressions of the source are
  written out as predicates on the text.
\<close>

subsection \<open>Identity\<close>

record SoftwareIdentity =
  si_WindowsInstaller :: bool
  si_ProductCode :: string
  si_DisplayName :: string
  si_Publisher :: string

text \<open>
  The group of \<^verbatim>\<open>msiProductCodeRe\<close>: runs of 8, 4, 4, 4 and 12 hexadecimal digits joined by dashes.
\<close>

definition is_guid :: "string \<Rightarrow> bool" where
  "is_guid s \<longleftrightarrow> map length (Split_char CHR ''-'' s) = [8, 4, 4, 4, 12]
     \<and> list_all (list_all is_hex) (Split_char CHR ''-'' s)"

definition strip_open_brace :: "string \<Rightarrow> string" where
  "strip_open_brace s = (case s of [] \<Rightarrow> [] | c # cs \<Rightarrow> if c = CHR ''{'' then cs else s)"

definition NormalizeProductCode :: "string \<Rightarrow> string option" where
  "NormalizeProductCode raw =
     (let s = strip_open_brace (TrimSpace raw); body = take 36 s; rest = drop 36 s in
      if is_guid body \<and> (rest = [] \<or> rest = ''}'') then Some (''{'' @ ToUpper body @ ''}'') else None)"

definition SoftwareIdentity_Key :: "SoftwareIdentity \<Rightarrow> string" where
  "SoftwareIdentity_Key s =
     (case (if si_WindowsInstaller s then NormalizeProductCode (si_ProductCode s) else None) of
        Some code \<Rightarrow> ''msi:'' @ code
      | None \<Rightarrow>
          ''np:'' @ ToLower (TrimSpace (si_DisplayName s)) @ ''|'' @ ToLower (TrimSpace (si_Publisher s)))"

subsection \<open>Version comparison\<close>

text \<open>\<^verbatim>\<open>versionDigitsRe.FindAllString\<close>: the maximal runs of digits, in order.\<close>

fun digit_runs_from :: "string \<Rightarrow> string \<Rightarrow> string list" where
  "digit_runs_from cur [] = (if cur = [] then [] else [cur])"
| "digit_runs_from cur (c # cs) =
     (if is_digit c then digit_runs_from (cur @ [c]) cs
      else if cur = [] then digit_runs_from [] cs
      else cur # digit_runs_from [] cs)"

definition decimal_value :: "string \<Rightarrow> nat" where
  "decimal_value ds = foldl (\<lambda>n c. 10 * n + ((of_char c :: nat) - 48)) 0 ds"

text \<open>\<^verbatim>\<open>strconv.ParseUint(m, 10, 64)\<close> on a run of digits fails exactly on overflow.\<close>

definition ParseUint64 :: "string \<Rightarrow> 64 word option" where
  "ParseUint64 ds = (if decimal_value ds < 2 ^ 64 then Some (word_of_nat (decimal_value ds)) else None)"

definition extractVersionParts :: "string \<Rightarrow> 64 word list" where
  "extractVersionParts s =
     map (\<lambda>m. case ParseUint64 m of Some v \<Rightarrow> v | None \<Rightarrow> - 1) (digit_runs_from [] s)"

definition part_at :: "64 word list \<Rightarrow> nat \<Rightarrow> 64 word" where
  "part_at xs i = (if i < length xs then xs ! i else 0)"

function compare_from :: "64 word list \<Rightarrow> 64 word list \<Rightarrow> nat \<Rightarrow> nat \<Rightarrow> int" where
  "compare_from a b i n =
     (if i < n then
        (if part_at a i \<noteq> part_at b i
         then (if part_at a i < part_at b i then -1 else 1)
         else compare_from a b (Suc i) n)
      else 0)"
  by pat_completeness auto
termination
  by (relation "measure (\<lambda>(a, b, i, n). n - i)") auto

declare compare_from.simps [simp del]

definition CompareVersions :: "string \<Rightarrow> string \<Rightarrow> int \<times> bool" where
  "CompareVersions installed available =
     (let a = extractVersionParts installed; b = extractVersionParts available in
      if length a = 0 \<or> length b = 0 then (0, False)
      else (compare_from a b 0 (if length b > length a then length b else length a), True))"

subsection \<open>Quiet-uninstall command validation\<close>

definition blocklistedUninstallHosts :: "string list" where
  "blocklistedUninstallHosts =
     [''cmd.exe'', ''powershell.exe'', ''pwsh.exe'', ''wscript.exe'', ''cscript.exe'', ''mshta.exe'',
      ''rundll32.exe'', ''regsvr32.exe'', ''cmstp.exe'', ''installutil.exe'', ''msbuild.exe'',
      ''forfiles.exe'', ''certutil.exe'', ''bitsadmin.exe'', ''wmic.exe'', ''conhost.exe'', ''control.exe'']"

abbreviation backslash :: char where "backslash \<equiv> CHR 0x5C"

text \<open>
  \<^verbatim>\<open>absoluteExePathRe\<close>: a drive letter, a colon, a backslash, one character other than a
  backslash, anything without a line feed, and \<^verbatim>\<open>.exe\<close> in any case.
\<close>

definition is_absolute_exe :: "string \<Rightarrow> bool" where
  "is_absolute_exe s \<longleftrightarrow>
     (case s of
        d # colon # bs # c # rest \<Rightarrow>
          (is_upper d \<or> is_lower d) \<and> colon = CHR '':'' \<and> bs = backslash \<and> c \<noteq> backslash
          \<and> length rest \<ge> 4
          \<and> ToLower (drop (length rest - 4) rest) = ''.exe''
          \<and> CHR 0x0A \<notin> set (take (length rest - 4) rest)
      | _ \<Rightarrow> False)"

datatype token_error = UnbalancedQuote

text \<open>The loop of \<^verbatim>\<open>tokenizeCommandLine\<close>: tokens so far, current token, the two flags.\<close>

fun tokenize_loop ::
  "string list \<Rightarrow> string \<Rightarrow> bool \<Rightarrow> bool \<Rightarrow> string \<Rightarrow> token_error + string list" where
  "tokenize_loop tokens cur inQuotes hasToken [] =
     (if inQuotes then Inl UnbalancedQuote
      else if hasToken then Inr (tokens @ [cur]) else Inr tokens)"
| "tokenize_loop tokens cur inQuotes hasToken (r # rs) =
     (if r = CHR 0x22 then tokenize_loop tokens cur (\<not> inQuotes) True rs
      else if r = CHR '' '' \<or> r = CHR 0x09 then
        (if inQuotes then tokenize_loop tokens (cur @ [r]) inQuotes hasToken rs
         else if hasToken then tokenize_loop (tokens @ [cur]) [] inQuotes False rs
         else tokenize_loop tokens cur inQuotes hasToken rs)
      else tokenize_loop tokens (cur @ [r]) inQuotes True rs)"

definition tokenizeCommandLine :: "string \<Rightarrow> token_error + string list" where
  "tokenizeCommandLine s = tokenize_loop [] [] False False s"

definition ParseQuietUninstallCommand :: "string \<Rightarrow> (string \<times> string list) option" where
  "ParseQuietUninstallCommand raw =
     (if raw = '''' \<or> CHR 0x00 \<in> set raw then None
      else case tokenizeCommandLine raw of
        Inl e \<Rightarrow> None
      | Inr [] \<Rightarrow> None
      | Inr (candidate # rest) \<Rightarrow>
          if \<not> is_absolute_exe candidate then None
          else if ToLower (after_last backslash candidate) \<in> set blocklistedUninstallHosts then None
          else Some (candidate, rest))"

subsection \<open>Product codes\<close>

lemma upper_char_hex [simp]: "is_hex (upper_char c) = is_hex c"
  by (auto simp: is_hex_def upper_char_def is_lower_def is_digit_def)

lemma of_char_upper_char: "is_lower c \<Longrightarrow> (of_char (upper_char c) :: nat) = of_char c - 32"
proof -
  assume l: "is_lower c"
  then have "of_char c - 32 < (256 :: nat)" by (simp add: is_lower_def) linarith
  with l show ?thesis by (simp add: upper_char_def)
qed

lemma upper_char_dash: "upper_char c = CHR ''-'' \<longleftrightarrow> c = CHR ''-''"
proof (cases "is_lower c")
  case True
  then have "(of_char (upper_char c) :: nat) \<ge> 65"
    unfolding of_char_upper_char [OF True] by (simp add: is_lower_def) linarith
  moreover have "(of_char (CHR ''-'') :: nat) = 45" by simp
  ultimately have "upper_char c \<noteq> CHR ''-''" by auto
  moreover have "c \<noteq> CHR ''-''" using True by (auto simp: is_lower_def)
  ultimately show ?thesis by simp
next
  case False
  then show ?thesis by (simp add: upper_char_def)
qed

lemma upper_char_idem [simp]: "upper_char (upper_char c) = upper_char c"
  by (auto simp: upper_char_def is_lower_def)

lemma ToUpper_idem [simp]: "ToUpper (ToUpper s) = ToUpper s"
  by (simp add: ToUpper_def)

lemma length_ToUpper [simp]: "length (ToUpper s) = length s"
  by (simp add: ToUpper_def)

lemma Split_char_map:
  assumes "\<And>c. f c = sep \<longleftrightarrow> c = sep"
  shows "Split_char sep (map f s) = map (map f) (Split_char sep s)"
  by (induction s) (auto simp: assms split: list.splits)

lemma length_Split_char:
  "length s + 1 = sum_list (map length (Split_char sep s)) + length (Split_char sep s)"
  by (induction s) (auto split: list.splits)

lemma is_guid_ToUpper [simp]: "is_guid (ToUpper s) = is_guid s"
proof -
  have eq: "Split_char CHR ''-'' (ToUpper s) = map ToUpper (Split_char CHR ''-'' s)"
    using Split_char_map [of upper_char "CHR ''-''" s, OF upper_char_dash]
    by (simp add: ToUpper_def [abs_def])
  have len: "length \<circ> ToUpper = length" by (rule ext) simp
  have hex: "list_all is_hex \<circ> ToUpper = list_all is_hex"
    by (rule ext) (simp add: ToUpper_def list_all_iff)
  show ?thesis unfolding is_guid_def eq by (simp add: len hex list.pred_map)
qed

lemma is_guid_length: "is_guid s \<Longrightarrow> length s = 36"
proof -
  assume g: "is_guid s"
  then have l: "map length (Split_char CHR ''-'' s) = [8, 4, 4, 4, 12]" by (simp add: is_guid_def)
  then have "length (map length (Split_char CHR ''-'' s)) = 5" by simp
  then have "length (Split_char CHR ''-'' s) = 5" by simp
  with l length_Split_char [of s "CHR ''-''"] show ?thesis by simp
qed

lemma TrimSpace_id:
  assumes "s \<noteq> []" "\<not> is_space (hd s)" "\<not> is_space (last s)"
  shows "TrimSpace s = s"
proof -
  have "dropWhile is_space s = s" using assms by (cases s) auto
  moreover have "dropWhile is_space (rev s) = rev s"
    using assms by (cases s rule: rev_cases) auto
  ultimately show ?thesis by (simp add: TrimSpace_def)
qed

lemma NormalizeProductCode_Some:
  assumes "NormalizeProductCode raw = Some n"
  obtains body where "is_guid body" "n = ''{'' @ ToUpper body @ ''}''" "length body = 36"
  using assms by (auto simp: NormalizeProductCode_def Let_def is_guid_length split: if_splits)

lemma NormalizeProductCode_braced:
  assumes "is_guid body"
  shows "NormalizeProductCode (''{'' @ body @ ''}'') = Some (''{'' @ ToUpper body @ ''}'')"
proof -
  have "TrimSpace (''{'' @ body @ ''}'') = ''{'' @ body @ ''}''"
    by (rule TrimSpace_id) (simp_all add: is_space_def)
  with assms is_guid_length [OF assms] show ?thesis
    by (simp add: NormalizeProductCode_def strip_open_brace_def)
qed

lemma NormalizeProductCode_idem:
  "NormalizeProductCode raw = Some n \<Longrightarrow> NormalizeProductCode n = Some n"
  by (erule NormalizeProductCode_Some) (use NormalizeProductCode_braced in fastforce)

subsection \<open>Versions\<close>

lemma compare_from_refl: "compare_from a a i n = 0"
proof (induction "n - i" arbitrary: i)
  case 0
  then show ?case by (simp add: compare_from.simps [of a a i n])
next
  case (Suc k)
  from Suc.hyps(1) [of "Suc i"] Suc.hyps(2) show ?case by (simp add: compare_from.simps [of a a i n])
qed

lemma compare_from_antisym: "compare_from b a i n = - compare_from a b i n"
proof (induction a b i n rule: compare_from.induct)
  case (1 a b i n)
  show ?case
  proof (cases "i < n \<and> part_at a i = part_at b i")
    case True
    with 1 show ?thesis by (simp add: compare_from.simps [of a b i n] compare_from.simps [of b a i n])
  next
    case False
    then show ?thesis
      by (auto simp: compare_from.simps [of a b i n] compare_from.simps [of b a i n])
  qed
qed

text \<open>Components beyond both lists are 0 on either side, so looking at more of them changes nothing.\<close>

lemma compare_from_beyond:
  "length a \<le> i \<Longrightarrow> length b \<le> i \<Longrightarrow> compare_from a b i n = 0"
proof (induction a b i n rule: compare_from.induct)
  case (1 a b i n)
  then show ?case by (simp add: compare_from.simps [of a b i n] part_at_def)
qed

lemma compare_from_extend:
  assumes "length a \<le> n" "length b \<le> n" "n \<le> m"
  shows "compare_from a b i m = compare_from a b i n"
  using assms
proof (induction a b i n rule: compare_from.induct)
  case (1 a b i n)
  show ?case
  proof (cases "i < n")
    case True
    with 1 show ?thesis by (simp add: compare_from.simps [of a b i m] compare_from.simps [of a b i n])
  next
    case False
    with 1 show ?thesis by (simp add: compare_from_beyond)
  qed
qed

lemma compare_from_trans:
  "compare_from a b i n \<le> 0 \<Longrightarrow> compare_from b c i n \<le> 0 \<Longrightarrow> compare_from a c i n \<le> 0"
proof (induction a b i n rule: compare_from.induct)
  case (1 a b i n)
  note s = compare_from.simps [of a b i n] compare_from.simps [of b c i n] compare_from.simps [of a c i n]
  show ?case
  proof (cases "i < n \<and> part_at a i = part_at b i \<and> part_at b i = part_at c i")
    case True
    with 1 show ?thesis by (simp add: s)
  next
    case False
    then show ?thesis using 1(2,3)
      by (auto simp: s split: if_splits)
  qed
qed

text \<open>\<^const>\<open>CompareVersions\<close> through any common bound on the component counts.\<close>

lemma CompareVersions_bound:
  assumes "extractVersionParts v \<noteq> []" "extractVersionParts w \<noteq> []"
    "length (extractVersionParts v) \<le> n" "length (extractVersionParts w) \<le> n"
  shows "CompareVersions v w = (compare_from (extractVersionParts v) (extractVersionParts w) 0 n, True)"
proof -
  let ?a = "extractVersionParts v" and ?b = "extractVersionParts w"
  have "compare_from ?a ?b 0 n = compare_from ?a ?b 0 (if length ?b > length ?a then length ?b else length ?a)"
    by (rule compare_from_extend) (use assms in auto)
  with assms show ?thesis by (simp add: CompareVersions_def Let_def)
qed

lemma CompareVersions_ok:
  "snd (CompareVersions v w) \<longleftrightarrow> extractVersionParts v \<noteq> [] \<and> extractVersionParts w \<noteq> []"
  by (simp add: CompareVersions_def Let_def)

lemma digit_runs_from_append_dot:
  "digit_runs_from cur (s @ CHR ''.'' # t) = digit_runs_from cur s @ digit_runs_from [] t"
  by (induction cur s rule: digit_runs_from.induct) (simp_all add: is_digit_def)

lemma extractVersionParts_dot_zero: "extractVersionParts (v @ ''.0'') = extractVersionParts v @ [0]"
  by (simp add: extractVersionParts_def digit_runs_from_append_dot is_digit_def ParseUint64_def decimal_value_def)

lemma part_at_append_zero: "part_at (xs @ [0]) i = part_at xs i"
  by (auto simp: part_at_def nth_append)

lemma compare_from_cong:
  "(\<And>i. part_at a i = part_at a' i) \<Longrightarrow> compare_from a b i n = compare_from a' b i n"
proof (induction a b i n rule: compare_from.induct)
  case (1 a b i n)
  then show ?case by (simp add: compare_from.simps [of a b i n] compare_from.simps [of a' b i n])
qed

subsection \<open>The tokenizer\<close>

definition quote_token :: "string \<Rightarrow> string" where
  "quote_token t = CHR 0x22 # t @ [CHR 0x22]"

lemma tokenize_quoted:
  "CHR 0x22 \<notin> set t \<Longrightarrow>
   tokenize_loop tokens cur True h (t @ CHR 0x22 # rest) = tokenize_loop tokens (cur @ t) False True rest"
  by (induction t arbitrary: cur h) auto

lemma tokenize_join_quoted:
  "\<forall>t \<in> set ts. CHR 0x22 \<notin> set t \<Longrightarrow>
   tokenize_loop tokens [] False False (Join (map quote_token ts) '' '') = Inr (tokens @ ts)"
proof (induction ts arbitrary: tokens)
  case Nil
  then show ?case by simp
next
  case (Cons t ts)
  show ?case
  proof (cases ts)
    case Nil
    with Cons.prems tokenize_quoted [of t tokens "[]" True "[]"] show ?thesis
      by (simp add: quote_token_def)
  next
    case (Cons u us)
    then have "Join (map quote_token (t # ts)) '' '' =
        CHR 0x22 # t @ CHR 0x22 # '' '' @ Join (map quote_token ts) '' ''"
      by (simp add: quote_token_def)
    with Cons.IH [of "tokens @ [t]"] Cons.prems
      tokenize_quoted [of t tokens "[]" True "'' '' @ Join (map quote_token ts) '' ''"]
    show ?thesis by simp
  qed
qed

end
