(* ===== verification/Server_Tables.thy ===== *)
theory Server_Tables
  imports Complex_Main Shared_Policy
begin

text \<open>
  The server's SQLite database (\<^verbatim>\<open>server/db.go\<close>): the row types, the tables as lists of rows in
  insertion (rowid) order, and the queries on the \<^verbatim>\<open>agents\<close> and \<^verbatim>\<open>settings\<close> tables.  Every
  statement runs on the single pooled connection (\<^verbatim>\<open>SetMaxOpenConns(1)\<close>), so an operation of the
  model is one atomic step.

  A statement may fail: each operation takes the set of failing calls as a predicate on the call's
  label (its name followed by its key arguments); a failing call leaves the database as it was and
  returns \<open>Inl\<close>.  Time columns hold seconds; a row keeps them as the time that reading the column
  gives back.  Row ids that nothing refers to (alerts, events, metrics, audit entries) are left out.
  \<^verbatim>\<open>float64\<close> values are rationals.
\<close>

type_synonym float64 = rat
type_synonym db_env = "string list \<Rightarrow> bool"

definition no_faults :: db_env where
  "no_faults call \<longleftrightarrow> False"

datatype db_error = DBFault | ForeignKey | UniqueViolation | NoRows

subsection \<open>Rows\<close>

record Agent =
  ag_ID :: string
  ag_Hostname :: string
  ag_IP :: string
  ag_OS :: string
  ag_LastSeen :: time
  ag_MeshID :: string
  ag_Status :: string
  ag_CreatedAt :: time
  ag_AgentVersion :: string
  ag_WindowsVersion :: string
  ag_DiskCapacityGB :: float64
  ag_DeviceGroup :: string
  ag_MacAddress :: string
  ag_Floor :: string
  ag_DesiredNetworkMode :: string
  ag_CurrentNetworkMode :: string
  ag_NetworkModeStatus :: string
  ag_NetworkModeDetail :: string
  ag_NetworkModeUpdatedAt :: time

record Metric =
  me_AgentID :: string
  me_CPU :: float64
  me_RAM :: float64
  me_RecordedAt :: time

record Process =
  ps_Name :: string
  ps_PID :: int
  ps_CPU :: float64
  ps_RAM :: float64
  ps_Path :: string
  ps_ProductName :: string
  ps_Company :: string
  ps_Description :: string
  ps_ProductVersion :: string
  ps_SHA256 :: string
  ps_Size :: int
  ps_FileCreatedAt :: "time option"
  ps_FileModifiedAt :: "time option"

record Application =
  ap_ID :: int
  ap_ExeName :: string
  ap_Company :: string
  ap_ProductName :: string
  ap_Description :: string
  ap_ProductVersion :: string
  ap_SHA256 :: string
  ap_CategoryID :: "int option"
  ap_Status :: string
  ap_CreatedAt :: time
  ap_UpdatedAt :: time

record AppSighting =
  as_AgentID :: string
  as_ApplicationID :: int
  as_Path :: string
  as_Size :: int
  as_FileCreatedAt :: "time option"
  as_FileModifiedAt :: "time option"
  as_FirstSeen :: time
  as_LastSeen :: time
  as_ExecCount :: int

record Event =
  ev_AgentID :: string
  ev_Type :: string
  ev_Metadata :: json
  ev_Action :: string
  ev_CreatedAt :: time

record Alert =
  al_AgentID :: string
  al_Type :: string
  al_Message :: string
  al_SentAt :: time

record DeployJob =
  dj_ID :: string
  dj_Type :: string
  dj_Payload :: string
  dj_Args :: string
  dj_Targets :: "string list"
  dj_Status :: string
  dj_Priority :: int
  dj_ExpireAt :: "time option"
  dj_CreatedBy :: string
  dj_CreatedAt :: time

record DeployResult =
  dr_ID :: int
  dr_JobID :: string
  dr_AgentID :: string
  dr_Status :: string
  dr_Output :: string
  dr_ExecutedAt :: "time option"
  dr_LeaseUntil :: "time option"
  dr_RetryCount :: int
  dr_MaxRetry :: int
  dr_ExitCode :: "int option"
  dr_DurationMS :: "int option"

record CommandRequestMeta =
  cm_JobID :: string
  cm_Action :: string
  cm_Target :: string
  cm_CorrelationID :: string
  cm_CreatedAt :: time

record AuditLog =
  au_TS :: time
  au_Action :: string
  au_Target :: string
  au_Detail :: string
  au_IP :: string

record SoftwareInventoryItem =
  it_DisplayName :: string
  it_Publisher :: string
  it_DisplayVersion :: string
  it_InstallDate :: string
  it_WindowsInstaller :: bool
  it_ProductCode :: string
  it_UninstallString :: string
  it_QuietUninstallString :: string
  it_Hive :: string
  it_Arch :: string
  it_Scope :: string
  it_WingetID :: string
  it_WingetAvailableVersion :: string

record SoftwareStored =
  sw_AgentID :: string
  sw_IdentityKey :: string
  sw_DisplayName :: string
  sw_Publisher :: string
  sw_DisplayVersion :: string
  sw_InstallDate :: string
  sw_WindowsInstaller :: bool
  sw_ProductCode :: string
  sw_UninstallString :: string
  sw_QuietUninstallString :: string
  sw_Hive :: string
  sw_Arch :: string
  sw_Scope :: string
  sw_WingetID :: string
  sw_WingetAvailableVersion :: string
  sw_FirstSeen :: time
  sw_LastSeen :: time

subsection \<open>The database\<close>

record DB =
  agents :: "Agent list"
  metrics :: "Metric list"
  processes :: "(string \<times> Process) list"
  alerts :: "Alert list"
  deploy_jobs :: "DeployJob list"
  deploy_results :: "DeployResult list"
  results_seq :: int
  command_requests :: "CommandRequestMeta list"
  settings :: "string \<rightharpoonup> string"
  audit_logs :: "AuditLog list"
  applications :: "Application list"
  applications_seq :: int
  app_sightings :: "AppSighting list"
  events :: "Event list"
  policy_rules :: "PolicyRule list"
  policy_rules_seq :: int
  software_inventory :: "SoftwareStored list"
  categories :: "(int \<times> string) list"

definition empty_db :: DB where
  "empty_db = \<lparr>agents = [], metrics = [], processes = [], alerts = [], deploy_jobs = [],
     deploy_results = [], results_seq = 0, command_requests = [], settings = Map.empty,
     audit_logs = [], applications = [], applications_seq = 0, app_sightings = [], events = [],
     policy_rules = [], policy_rules_seq = 0, software_inventory = [], categories = []\<rparr>"

text \<open>The foreign key of a category column; NULL is always allowed.\<close>

definition category_known :: "DB \<Rightarrow> int option \<Rightarrow> bool" where
  "category_known db cat = (case cat of None \<Rightarrow> True | Some i \<Rightarrow> list_ex (\<lambda>c. fst c = i) (categories db))"

text \<open>What a time column gives back: the written time without its fraction of a second.\<close>

definition db_trunc :: "time \<Rightarrow> time" where
  "db_trunc t = parseDBTime (fmtTime t)"

subsection \<open>Agents\<close>

definition agent_known :: "DB \<Rightarrow> string \<Rightarrow> bool" where
  "agent_known db a \<longleftrightarrow> a \<in> set (map ag_ID (agents db))"

definition GetAgentByID :: "DB \<Rightarrow> string \<Rightarrow> Agent option" where
  "GetAgentByID db a = find (\<lambda>r. ag_ID r = a) (agents db)"

definition GetAllAgentIDs :: "db_env \<Rightarrow> DB \<Rightarrow> db_error + string list" where
  "GetAllAgentIDs env db =
     (if env [''GetAllAgentIDs''] then Inl DBFault else Inr (map ag_ID (agents db)))"

text \<open>
  The upsert keeps \<^verbatim>\<open>mesh_id\<close>, \<^verbatim>\<open>created_at\<close> and the admin columns of an existing row, and the
  four profile columns when the incoming value is empty.
\<close>

definition merge_agent :: "Agent \<Rightarrow> Agent \<Rightarrow> Agent" where
  "merge_agent new old =
     old\<lparr>ag_Hostname := ag_Hostname new,
         ag_IP := ag_IP new,
         ag_OS := ag_OS new,
         ag_LastSeen := db_trunc (ag_LastSeen new),
         ag_Status := ag_Status new,
         ag_AgentVersion := (if ag_AgentVersion new \<noteq> '''' then ag_AgentVersion new else ag_AgentVersion old),
         ag_WindowsVersion := (if ag_WindowsVersion new \<noteq> '''' then ag_WindowsVersion new else ag_WindowsVersion old),
         ag_DiskCapacityGB := (if ag_DiskCapacityGB new \<noteq> 0 then ag_DiskCapacityGB new else ag_DiskCapacityGB old),
         ag_MacAddress := (if ag_MacAddress new \<noteq> '''' then ag_MacAddress new else ag_MacAddress old)\<rparr>"

definition fresh_agent :: "Agent \<Rightarrow> Agent" where
  "fresh_agent new =
     new\<lparr>ag_LastSeen := db_trunc (ag_LastSeen new), ag_CreatedAt := db_trunc (ag_CreatedAt new),
         ag_DeviceGroup := '''', ag_Floor := '''', ag_DesiredNetworkMode := ''both'',
         ag_CurrentNetworkMode := '''', ag_NetworkModeStatus := '''', ag_NetworkModeDetail := '''',
         ag_NetworkModeUpdatedAt := 0\<rparr>"

definition UpsertAgent :: "db_env \<Rightarrow> DB \<Rightarrow> Agent \<Rightarrow> db_error + DB" where
  "UpsertAgent env db a =
     (if env [''UpsertAgent'', ag_ID a] then Inl DBFault
      else if agent_known db (ag_ID a)
      then Inr (db\<lparr>agents := map (\<lambda>r. if ag_ID r = ag_ID a then merge_agent a r else r) (agents db)\<rparr>)
      else Inr (db\<lparr>agents := agents db @ [fresh_agent a]\<rparr>))"

definition update_agent :: "DB \<Rightarrow> string \<Rightarrow> (Agent \<Rightarrow> Agent) \<Rightarrow> DB" where
  "update_agent db a f = db\<lparr>agents := map (\<lambda>r. if ag_ID r = a then f r else r) (agents db)\<rparr>"

definition UpdateAgentStatus :: "db_env \<Rightarrow> time \<Rightarrow> DB \<Rightarrow> string \<Rightarrow> string \<Rightarrow> db_error + DB" where
  "UpdateAgentStatus env now db a status =
     (if env [''UpdateAgentStatus'', a, status] then Inl DBFault
      else Inr (update_agent db a (\<lambda>r. r\<lparr>ag_Status := status, ag_LastSeen := db_trunc now\<rparr>)))"

definition SetAgentDeviceGroup :: "db_env \<Rightarrow> DB \<Rightarrow> string \<Rightarrow> string \<Rightarrow> db_error + DB" where
  "SetAgentDeviceGroup env db a g =
     (if env [''SetAgentDeviceGroup'', a] then Inl DBFault
      else Inr (update_agent db a (\<lambda>r. r\<lparr>ag_DeviceGroup := g\<rparr>)))"

definition SetAgentFloor :: "db_env \<Rightarrow> DB \<Rightarrow> string \<Rightarrow> string \<Rightarrow> db_error + DB" where
  "SetAgentFloor env db a fl =
     (if env [''SetAgentFloor'', a] then Inl DBFault
      else Inr (update_agent db a (\<lambda>r. r\<lparr>ag_Floor := fl\<rparr>)))"

definition SetAgentDesiredNetworkMode :: "db_env \<Rightarrow> DB \<Rightarrow> string \<Rightarrow> string \<Rightarrow> db_error + DB" where
  "SetAgentDesiredNetworkMode env db a mode =
     (if env [''SetAgentDesiredNetworkMode'', a] then Inl DBFault
      else Inr (update_agent db a (\<lambda>r. r\<lparr>ag_DesiredNetworkMode := mode\<rparr>)))"

definition UpdateAgentNetworkModeResult ::
  "db_env \<Rightarrow> time \<Rightarrow> DB \<Rightarrow> string \<Rightarrow> string \<Rightarrow> string \<Rightarrow> string \<Rightarrow> db_error + DB" where
  "UpdateAgentNetworkModeResult env now db a mode status detail =
     (if env [''UpdateAgentNetworkModeResult'', a] then Inl DBFault
      else Inr (update_agent db a (\<lambda>r. r\<lparr>ag_CurrentNetworkMode := mode, ag_NetworkModeStatus := status,
                 ag_NetworkModeDetail := detail, ag_NetworkModeUpdatedAt := db_trunc now\<rparr>)))"

text \<open>The single-column lookups; a missing row gives the column's default.\<close>

definition GetAgentDeviceGroup :: "db_env \<Rightarrow> DB \<Rightarrow> string \<Rightarrow> db_error + string" where
  "GetAgentDeviceGroup env db a =
     (if env [''GetAgentDeviceGroup'', a] then Inl DBFault
      else Inr (case GetAgentByID db a of Some r \<Rightarrow> ag_DeviceGroup r | None \<Rightarrow> ''''))"

definition GetAgentDesiredNetworkMode :: "db_env \<Rightarrow> DB \<Rightarrow> string \<Rightarrow> db_error + string" where
  "GetAgentDesiredNetworkMode env db a =
     (if env [''GetAgentDesiredNetworkMode'', a] then Inl DBFault
      else Inr (case GetAgentByID db a of Some r \<Rightarrow> ag_DesiredNetworkMode r | None \<Rightarrow> ''both''))"

definition GetAgentMacAddress :: "db_env \<Rightarrow> DB \<Rightarrow> string \<Rightarrow> db_error + string" where
  "GetAgentMacAddress env db a =
     (if env [''GetAgentMacAddress'', a] then Inl DBFault
      else Inr (case GetAgentByID db a of Some r \<Rightarrow> ag_MacAddress r | None \<Rightarrow> ''''))"

definition GetAgentIP :: "db_env \<Rightarrow> DB \<Rightarrow> string \<Rightarrow> db_error + string" where
  "GetAgentIP env db a =
     (if env [''GetAgentIP'', a] then Inl DBFault
      else Inr (case GetAgentByID db a of Some r \<Rightarrow> ag_IP r | None \<Rightarrow> ''''))"

text \<open>\<^verbatim>\<open>DeleteAgent\<close> runs in a transaction: a failing statement rolls everything back.\<close>

definition DeleteAgent :: "db_env \<Rightarrow> DB \<Rightarrow> string \<Rightarrow> db_error + DB" where
  "DeleteAgent env db a =
     (if env [''DeleteAgent'', a] then Inl DBFault
      else Inr (db\<lparr>
        metrics := filter (\<lambda>m. me_AgentID m \<noteq> a) (metrics db),
        processes := filter (\<lambda>p. fst p \<noteq> a) (processes db),
        alerts := filter (\<lambda>x. al_AgentID x \<noteq> a) (alerts db),
        deploy_results := filter (\<lambda>r. dr_AgentID r \<noteq> a) (deploy_results db),
        app_sightings := filter (\<lambda>s. as_AgentID s \<noteq> a) (app_sightings db),
        events := filter (\<lambda>e. ev_AgentID e \<noteq> a) (events db),
        software_inventory := filter (\<lambda>s. sw_AgentID s \<noteq> a) (software_inventory db),
        agents := filter (\<lambda>r. ag_ID r \<noteq> a) (agents db)\<rparr>))"

subsection \<open>Settings\<close>

definition SetSetting :: "db_env \<Rightarrow> DB \<Rightarrow> string \<Rightarrow> string \<Rightarrow> db_error + DB" where
  "SetSetting env db k v =
     (if env [''SetSetting'', k] then Inl DBFault else Inr (db\<lparr>settings := (settings db)(k \<mapsto> v)\<rparr>))"

definition GetSetting :: "db_env \<Rightarrow> DB \<Rightarrow> string \<Rightarrow> db_error + string" where
  "GetSetting env db k =
     (if env [''GetSetting'', k] then Inl DBFault
      else Inr (case settings db k of Some v \<Rightarrow> v | None \<Rightarrow> ''''))"

definition GetAllSettings :: "db_env \<Rightarrow> DB \<Rightarrow> db_error + (string \<Rightarrow> string)" where
  "GetAllSettings env db =
     (if env [''GetAllSettings''] then Inl DBFault
      else Inr (\<lambda>k. case settings db k of Some v \<Rightarrow> v | None \<Rightarrow> ''''))"

text \<open>
  \<^verbatim>\<open>fmt.Sscanf(s, "%d", &v)\<close>: leading blanks, an optional sign, then digits; what follows is not
  read.  \<^verbatim>\<open>parseIntSetting\<close> replaces a failed scan, and also the value 0, by the default.
\<close>

definition scan_int :: "string \<Rightarrow> int option" where
  "scan_int s =
     (let t = dropWhile (\<lambda>c. c = CHR '' '') s;
          neg = (case t of c # _ \<Rightarrow> c = CHR ''-'' | [] \<Rightarrow> False);
          u = (case t of c # cs \<Rightarrow> if c = CHR ''-'' \<or> c = CHR ''+'' then cs else t | [] \<Rightarrow> []);
          ds = takeWhile is_digit u
      in if ds = [] then None
         else let n = int (nat_of_digits ds) in
           if neg then (if n \<le> 2 ^ 63 then Some (- n) else None)
           else (if n < 2 ^ 63 then Some n else None))"

definition parseIntSetting :: "string \<Rightarrow> int \<Rightarrow> int" where
  "parseIntSetting s def = (case scan_int s of None \<Rightarrow> def | Some v \<Rightarrow> if v = 0 then def else v)"

definition parseBoolSetting :: "string \<Rightarrow> bool" where
  "parseBoolSetting s \<longleftrightarrow> s = ''true'' \<or> s = ''1''"

subsection \<open>Audit log and events\<close>

definition InsertAuditLog :: "db_env \<Rightarrow> time \<Rightarrow> DB \<Rightarrow> string \<Rightarrow> string \<Rightarrow> string \<Rightarrow> string \<Rightarrow> DB" where
  "InsertAuditLog env now db action target detail ip =
     (if env [''InsertAuditLog'', action] then db
      else db\<lparr>audit_logs := audit_logs db @
             [\<lparr>au_TS = db_trunc now, au_Action = action, au_Target = target, au_Detail = detail, au_IP = ip\<rparr>]\<rparr>)"

definition InsertEvent :: "db_env \<Rightarrow> time \<Rightarrow> DB \<Rightarrow> string \<Rightarrow> string \<Rightarrow> json \<Rightarrow> string \<Rightarrow> db_error + DB" where
  "InsertEvent env now db a typ meta action =
     (if env [''InsertEvent'', a, typ] then Inl DBFault
      else if \<not> agent_known db a then Inl ForeignKey
      else Inr (db\<lparr>events := events db @
             [\<lparr>ev_AgentID = a, ev_Type = typ, ev_Metadata = meta, ev_Action = action,
               ev_CreatedAt = db_trunc now\<rparr>]\<rparr>))"

definition InsertAlert :: "db_env \<Rightarrow> time \<Rightarrow> DB \<Rightarrow> string \<Rightarrow> string \<Rightarrow> string \<Rightarrow> db_error + DB" where
  "InsertAlert env now db a typ msg =
     (if env [''InsertAlert'', a, typ] then Inl DBFault
      else if \<not> agent_known db a then Inl ForeignKey
      else Inr (db\<lparr>alerts := alerts db @
             [\<lparr>al_AgentID = a, al_Type = typ, al_Message = msg, al_SentAt = db_trunc now\<rparr>]\<rparr>))"

subsection \<open>Lemmas\<close>

lemmas agent_update_defs =
  UpdateAgentStatus_def SetAgentDeviceGroup_def SetAgentFloor_def SetAgentDesiredNetworkMode_def
  UpdateAgentNetworkModeResult_def update_agent_def

lemma fmtTime_db_trunc [simp]: "fmtTime (db_trunc t) = fmtTime t"
  by (simp add: db_trunc_def)

lemma db_trunc_idem [simp]: "db_trunc (db_trunc t) = db_trunc t"
  by (simp add: db_trunc_def)

lemma db_trunc_le: "db_trunc t \<le> t"
  by (simp add: db_trunc_def parseDBTime_fmtTime_le)

lemma find_map_update:
  "find (\<lambda>r. key r = a) (map (\<lambda>r. if key r = a then f r else r) xs) =
     map_option f (find (\<lambda>r. key r = a) xs)"
  if "\<And>r. key (f r) = key r"
  by (induction xs) (auto simp: that)

lemma GetAgentByID_Some: "GetAgentByID db a = Some r \<Longrightarrow> ag_ID r = a \<and> r \<in> set (agents db)"
  by (auto simp: GetAgentByID_def find_Some_iff)

lemma GetAgentByID_known: "GetAgentByID db a \<noteq> None \<longleftrightarrow> agent_known db a"
  by (auto simp: GetAgentByID_def agent_known_def find_None_iff image_iff)

lemma parseIntSetting_nonzero: "def \<noteq> 0 \<Longrightarrow> parseIntSetting s def \<noteq> 0"
  by (simp add: parseIntSetting_def split: option.splits)

text \<open>A printed number is scanned back.\<close>

lemma scan_int_show:
  assumes "0 \<le> v" "v < 2 ^ 63"
  shows "scan_int (show_int v) = Some v"
proof -
  let ?s = "show_nat (nat v)"
  have d: "list_all is_digit ?s" by (rule show_nat_digits)
  obtain c cs where s: "?s = c # cs" by (cases ?s) simp_all
  with d have c: "is_digit c" by simp
  then have "c \<noteq> CHR '' ''" "c \<noteq> CHR ''-''" "c \<noteq> CHR ''+''" by (auto simp: is_digit_def)
  moreover have "takeWhile is_digit ?s = ?s" using d by (simp add: list_all_iff takeWhile_eq_all_conv)
  moreover have "nat_of_digits (c # cs) = nat v" using nat_of_digits_show [of "nat v"] s by simp
  ultimately show ?thesis using assms s by (simp add: scan_int_def show_int_def Let_def)
qed

end
