(* ===== verification/Transition_System.thy ===== *)
theory Transition_System
  imports Main
begin

text \<open>
  Reachable states of a step relation, and the contract every state machine of the model meets: an
  invariant that holds at the start and that each step keeps.  The consequences are proved once here
  and used through the interpretations for the job queue, the connection table and the agent's worker.
\<close>

inductive reachable :: "('s \<Rightarrow> bool) \<Rightarrow> ('s \<Rightarrow> 's \<Rightarrow> bool) \<Rightarrow> 's \<Rightarrow> bool"
  for init :: "'s \<Rightarrow> bool" and step :: "'s \<Rightarrow> 's \<Rightarrow> bool" where
  reachable_init: "init s \<Longrightarrow> reachable init step s"
| reachable_step: "reachable init step s \<Longrightarrow> step s t \<Longrightarrow> reachable init step t"

fun run_path :: "('s \<Rightarrow> 's \<Rightarrow> bool) \<Rightarrow> 's \<Rightarrow> 's list \<Rightarrow> bool" where
  "run_path step s [] = True"
| "run_path step s (t # ts) = (step s t \<and> run_path step t ts)"

text \<open>Every event of a recorded trace was allowed by what came before it.\<close>

fun licensed :: "('e list \<Rightarrow> 'e \<Rightarrow> bool) \<Rightarrow> 'e list \<Rightarrow> 'e list \<Rightarrow> bool" where
  "licensed P seen [] = True"
| "licensed P seen (e # es) = (P seen e \<and> licensed P (seen @ [e]) es)"

lemma licensed_append: "licensed P seen (xs @ ys) \<longleftrightarrow> licensed P seen xs \<and> licensed P (seen @ xs) ys"
  by (induction xs arbitrary: seen) simp_all

lemma licensed_split: "licensed P seen xs \<longleftrightarrow> (\<forall>pre e post. xs = pre @ e # post \<longrightarrow> P (seen @ pre) e)"
proof (induction xs arbitrary: seen)
  case (Cons x xs)
  show ?case
  proof
    assume "licensed P seen (x # xs)"
    then show "\<forall>pre e post. x # xs = pre @ e # post \<longrightarrow> P (seen @ pre) e"
      using Cons by (auto simp: Cons_eq_append_conv)
  next
    assume *: "\<forall>pre e post. x # xs = pre @ e # post \<longrightarrow> P (seen @ pre) e"
    have "P ((seen @ [x]) @ pre) e" if "xs = pre @ e # post" for pre e post
      using * [rule_format, of "x # pre" e post] that by simp
    moreover have "P seen x" using * [rule_format, of "[]"] by simp
    ultimately show "licensed P seen (x # xs)" using Cons.IH [of "seen @ [x]"] by auto
  qed
qed simp

locale safe_system =
  fixes init :: "'s \<Rightarrow> bool" and step :: "'s \<Rightarrow> 's \<Rightarrow> bool" and inv :: "'s \<Rightarrow> bool"
  assumes inv_init: "init s \<Longrightarrow> inv s"
    and inv_step: "inv s \<Longrightarrow> step s t \<Longrightarrow> inv t"
begin

lemma reachable_inv: "reachable init step s \<Longrightarrow> inv s"
  by (induction rule: reachable.induct) (auto intro: inv_init inv_step)

lemma run_path_inv: "inv s \<Longrightarrow> run_path step s ts \<Longrightarrow> t \<in> set ts \<Longrightarrow> inv t"
proof (induction ts arbitrary: s)
  case Nil
  then show ?case by simp
next
  case (Cons u ts)
  from Cons.prems have "inv u" using inv_step by simp
  with Cons show ?case by auto
qed

end

text \<open>
  A property kept by every step from a state of the invariant stays once it holds: the shape of
  "never undone" claims.
\<close>

locale stable_property = safe_system init step inv
  for init :: "'s \<Rightarrow> bool" and step :: "'s \<Rightarrow> 's \<Rightarrow> bool" and inv :: "'s \<Rightarrow> bool" +
  fixes stays :: "'s \<Rightarrow> bool"
  assumes stays_step: "inv s \<Longrightarrow> stays s \<Longrightarrow> step s t \<Longrightarrow> stays t"
begin

lemma stays_path: "inv s \<Longrightarrow> stays s \<Longrightarrow> run_path step s ts \<Longrightarrow> t \<in> set ts \<Longrightarrow> stays t"
proof (induction ts arbitrary: s)
  case Nil
  then show ?case by simp
next
  case (Cons u ts)
  from Cons.prems have "inv u" "stays u" using inv_step stays_step by simp_all
  with Cons show ?case by auto
qed

end

end
