(* ===== verification/Deploy_Store.thy ===== *)
theory Deploy_Store
  imports Server_Tables Transition_System
begin

text \<open>
  The queue tables of \<^verbatim>\<open>server/db.go\<close>: \<^verbatim>\<open>deploy_jobs\<close> and \<^verbatim>\<open>deploy_results\<close>, one row per
  (job, target agent).  The invariant \<open>queue_inv\<close> says what every statement that writes these tables
  keeps: a row holds a lease exactly while it runs, an agent runs one job at a time, the retry count
  stays within the budget, and every row belongs to a job.  A (job, agent) pair may have several rows
  (a target listed twice), which then share their retry budget.
\<close>

subsection \<open>Statements\<close>

definition isPendingLikeStatus :: "string \<Rightarrow> bool" where
  "isPendingLikeStatus status \<longleftrightarrow> status = ''pending'' \<or> status = ''running''"

definition job_known :: "DB \<Rightarrow> string \<Rightarrow> bool" where
  "job_known db j \<longleftrightarrow> j \<in> set (map dj_ID (deploy_jobs db))"

definition InsertDeployJob :: "db_env \<Rightarrow> DB \<Rightarrow> DeployJob \<Rightarrow> db_error + DB" where
  "InsertDeployJob env db job =
     (if env [''InsertDeployJob'', dj_ID job] then Inl DBFault
      else if job_known db (dj_ID job) then Inl UniqueViolation
      else Inr (db\<lparr>deploy_jobs := deploy_jobs db @
             [job\<lparr>dj_ExpireAt := map_option db_trunc (dj_ExpireAt job),
                  dj_CreatedAt := db_trunc (dj_CreatedAt job)\<rparr>]\<rparr>))"

definition GetDeployJobByID :: "db_env \<Rightarrow> DB \<Rightarrow> string \<Rightarrow> db_error + DeployJob option" where
  "GetDeployJobByID env db j =
     (if env [''GetDeployJobByID'', j] then Inl DBFault
      else Inr (find (\<lambda>r. dj_ID r = j) (deploy_jobs db)))"

definition UpdateDeployJobStatus :: "db_env \<Rightarrow> DB \<Rightarrow> string \<Rightarrow> string \<Rightarrow> db_error + DB" where
  "UpdateDeployJobStatus env db j status =
     (if env [''UpdateDeployJobStatus'', j, status] then Inl DBFault
      else Inr (db\<lparr>deploy_jobs :=
             map (\<lambda>r. if dj_ID r = j then r\<lparr>dj_Status := status\<rparr> else r) (deploy_jobs db)\<rparr>))"

text \<open>
  \<^verbatim>\<open>CancelDeployJob\<close> is two statements: when the second fails the job is already marked.
\<close>

definition cancel_row :: "DeployResult \<Rightarrow> DeployResult" where
  "cancel_row r = r\<lparr>dr_Status := ''cancelled'', dr_Output := ''Job dibatalkan oleh admin'', dr_LeaseUntil := None\<rparr>"

definition cancel_results :: "DB \<Rightarrow> string \<Rightarrow> DB" where
  "cancel_results db j =
     db\<lparr>deploy_results :=
          map (\<lambda>r. if dr_JobID r = j \<and> isPendingLikeStatus (dr_Status r) then cancel_row r else r)
              (deploy_results db)\<rparr>"

definition CancelDeployJob :: "db_env \<Rightarrow> DB \<Rightarrow> string \<Rightarrow> db_error option \<times> DB" where
  "CancelDeployJob env db j =
     (case UpdateDeployJobStatus env db j ''cancelled'' of
        Inl e \<Rightarrow> (Some e, db)
      | Inr db' \<Rightarrow>
          if env [''CancelDeployJob'', j] then (Some DBFault, db') else (None, cancel_results db' j))"

text \<open>
  \<^verbatim>\<open>InsertDeployResult\<close> writes five columns; the others start at their defaults.  Both keys are
  foreign keys (\<^verbatim>\<open>PRAGMA foreign_keys=ON\<close>).
\<close>

definition new_result_row :: "int \<Rightarrow> string \<Rightarrow> string \<Rightarrow> string \<Rightarrow> string \<Rightarrow> int \<Rightarrow> DeployResult" where
  "new_result_row i j a status output maxRetry =
     \<lparr>dr_ID = i, dr_JobID = j, dr_AgentID = a, dr_Status = status, dr_Output = output,
      dr_ExecutedAt = None, dr_LeaseUntil = None, dr_RetryCount = 0, dr_MaxRetry = maxRetry,
      dr_ExitCode = None, dr_DurationMS = None\<rparr>"

definition InsertDeployResult ::
  "db_env \<Rightarrow> DB \<Rightarrow> string \<Rightarrow> string \<Rightarrow> string \<Rightarrow> string \<Rightarrow> int \<Rightarrow> db_error + DB" where
  "InsertDeployResult env db j a status output maxRetry =
     (if env [''InsertDeployResult'', j, a] then Inl DBFault
      else if \<not> job_known db j \<or> \<not> agent_known db a then Inl ForeignKey
      else Inr (db\<lparr>deploy_results := deploy_results db @
                     [new_result_row (results_seq db + 1) j a status output maxRetry],
                   results_seq := results_seq db + 1\<rparr>))"

definition GetDeployResultsByJobID :: "db_env \<Rightarrow> DB \<Rightarrow> string \<Rightarrow> db_error + DeployResult list" where
  "GetDeployResultsByJobID env db j =
     (if env [''GetDeployResultsByJobID'', j] then Inl DBFault
      else Inr (filter (\<lambda>r. dr_JobID r = j) (deploy_results db)))"

text \<open>
  \<^verbatim>\<open>UpdateDeployResult\<close>: the WHERE clause (not cancelled, attempt fence) and the SET clause
  (lease always cleared, COALESCE keeps the old value for a nil argument).
\<close>

definition coalesce :: "'a option \<Rightarrow> 'a option \<Rightarrow> 'a option" where
  "coalesce new old = (case new of None \<Rightarrow> old | Some v \<Rightarrow> Some v)"

definition update_matches :: "string \<Rightarrow> string \<Rightarrow> int option \<Rightarrow> DeployResult \<Rightarrow> bool" where
  "update_matches j a expectedAttempt r \<longleftrightarrow>
     dr_JobID r = j \<and> dr_AgentID r = a \<and> dr_Status r \<noteq> ''cancelled''
     \<and> (expectedAttempt = None \<or> dr_RetryCount r = the expectedAttempt)"

definition set_result ::
  "time \<Rightarrow> string \<Rightarrow> string \<Rightarrow> int option \<Rightarrow> int option \<Rightarrow> int option \<Rightarrow> DeployResult \<Rightarrow> DeployResult" where
  "set_result now status output exitCode durationMS retryCount r =
     r\<lparr>dr_Status := status,
       dr_Output := output,
       dr_ExitCode := coalesce exitCode (dr_ExitCode r),
       dr_DurationMS := coalesce durationMS (dr_DurationMS r),
       dr_RetryCount := (case retryCount of None \<Rightarrow> dr_RetryCount r | Some n \<Rightarrow> n),
       dr_LeaseUntil := None,
       dr_ExecutedAt := coalesce (if isPendingLikeStatus status then None else Some (db_trunc now)) (dr_ExecutedAt r)\<rparr>"

definition UpdateDeployResult ::
  "db_env \<Rightarrow> time \<Rightarrow> DB \<Rightarrow> string \<Rightarrow> string \<Rightarrow> string \<Rightarrow> string \<Rightarrow> int option \<Rightarrow> int option \<Rightarrow> int option
    \<Rightarrow> int option \<Rightarrow> db_error + nat \<times> DB" where
  "UpdateDeployResult env now db j a status output exitCode durationMS retryCount expectedAttempt =
     (if env [''UpdateDeployResult'', j, a, status] then Inl DBFault
      else Inr (length (filter (update_matches j a expectedAttempt) (deploy_results db)),
                db\<lparr>deploy_results :=
                  map (\<lambda>r. if update_matches j a expectedAttempt r
                           then set_result now status output exitCode durationMS retryCount r else r)
                      (deploy_results db)\<rparr>))"

text \<open>\<^verbatim>\<open>UpdateJobStatus\<close>: the job is done once no row of it is pending-like.\<close>

definition UpdateJobStatus :: "db_env \<Rightarrow> DB \<Rightarrow> string \<Rightarrow> db_error + DB" where
  "UpdateJobStatus env db j =
     (case GetDeployResultsByJobID env db j of
        Inl e \<Rightarrow> Inl e
      | Inr rows \<Rightarrow>
          if list_ex (\<lambda>r. isPendingLikeStatus (dr_Status r)) rows then Inr db
          else UpdateDeployJobStatus env db j ''done'')"

definition CountPendingResultsForAgent :: "db_env \<Rightarrow> DB \<Rightarrow> string \<Rightarrow> db_error + nat" where
  "CountPendingResultsForAgent env db a =
     (if env [''CountPendingResultsForAgent'', a] then Inl DBFault
      else Inr (length (filter (\<lambda>r. dr_AgentID r = a \<and> dr_Status r = ''pending'') (deploy_results db))))"

text \<open>
  \<^verbatim>\<open>AcquireNextJob\<close>: the candidates are the join of the agent's pending rows with their unexpired
  jobs; \<^verbatim>\<open>ORDER BY priority DESC, created_at ASC LIMIT 1\<close> takes one that no candidate comes
  before (SQL leaves open which of several equals; the model takes the first in row order).
\<close>

definition unexpired :: "time \<Rightarrow> DeployJob \<Rightarrow> bool" where
  "unexpired now job \<longleftrightarrow>
     (case dj_ExpireAt job of None \<Rightarrow> True | Some e \<Rightarrow> fmtTime e > fmtTime now)"

definition claim_candidates :: "time \<Rightarrow> DB \<Rightarrow> string \<Rightarrow> (DeployJob \<times> DeployResult) list" where
  "claim_candidates now db a =
     concat (map (\<lambda>r. map (\<lambda>j. (j, r))
        (filter (\<lambda>j. dj_ID j = dr_JobID r \<and> unexpired now j) (deploy_jobs db)))
        (filter (\<lambda>r. dr_AgentID r = a \<and> dr_Status r = ''pending'') (deploy_results db)))"

definition comes_before :: "DeployJob \<Rightarrow> DeployJob \<Rightarrow> bool" where
  "comes_before j j' \<longleftrightarrow>
     dj_Priority j > dj_Priority j'
     \<or> (dj_Priority j = dj_Priority j' \<and> fmtTime (dj_CreatedAt j) < fmtTime (dj_CreatedAt j'))"

fun first_claim :: "(DeployJob \<times> DeployResult) list \<Rightarrow> (DeployJob \<times> DeployResult) option" where
  "first_claim [] = None"
| "first_claim (c # cs) =
     (case first_claim cs of
        None \<Rightarrow> Some c
      | Some d \<Rightarrow> if comes_before (fst d) (fst c) then Some d else Some c)"

definition claim_row :: "time \<Rightarrow> DeployResult \<Rightarrow> DeployResult" where
  "claim_row leaseUntil r = r\<lparr>dr_Status := ''running'', dr_LeaseUntil := Some (db_trunc leaseUntil)\<rparr>"

definition claim_rows :: "time \<Rightarrow> DB \<Rightarrow> string \<Rightarrow> string \<Rightarrow> DB" where
  "claim_rows leaseUntil db j a =
     db\<lparr>deploy_results :=
          map (\<lambda>r. if dr_JobID r = j \<and> dr_AgentID r = a then claim_row leaseUntil r else r) (deploy_results db)\<rparr>"

definition AcquireNextJob ::
  "db_env \<Rightarrow> time \<Rightarrow> DB \<Rightarrow> string \<Rightarrow> time \<Rightarrow> (db_error + (DeployJob \<times> int) option) \<times> DB" where
  "AcquireNextJob env now db a leaseUntil =
     (if env [''AcquireNextJob'', a] then (Inl DBFault, db)
      else if list_ex (\<lambda>r. dr_AgentID r = a \<and> dr_Status r = ''running'') (deploy_results db)
      then (Inr None, db)
      else case first_claim (claim_candidates now db a) of
        None \<Rightarrow> (Inr None, db)
      | Some (job, row) \<Rightarrow>
          let db' = claim_rows leaseUntil db (dj_ID job) a in
          (case GetDeployJobByID env db' (dj_ID job) of
             Inl e \<Rightarrow> (Inl e, db')
           | Inr None \<Rightarrow> (Inr None, db')
           | Inr (Some stored) \<Rightarrow> (Inr (Some (stored, dr_RetryCount row)), db')))"

definition GetExpiredLeaseResults :: "db_env \<Rightarrow> time \<Rightarrow> DB \<Rightarrow> db_error + DeployResult list" where
  "GetExpiredLeaseResults env now db =
     (if env [''GetExpiredLeaseResults''] then Inl DBFault
      else Inr (filter (\<lambda>r. dr_Status r = ''running'' \<and>
             (case dr_LeaseUntil r of None \<Rightarrow> False | Some t \<Rightarrow> fmtTime t < fmtTime now)) (deploy_results db)))"

definition expired_job :: "time \<Rightarrow> DeployJob \<Rightarrow> bool" where
  "expired_job now job \<longleftrightarrow> (case dj_ExpireAt job of None \<Rightarrow> False | Some e \<Rightarrow> fmtTime e < fmtTime now)"

definition GetExpiredPendingResults :: "db_env \<Rightarrow> time \<Rightarrow> DB \<Rightarrow> db_error + DeployResult list" where
  "GetExpiredPendingResults env now db =
     (if env [''GetExpiredPendingResults''] then Inl DBFault
      else Inr (filter (\<lambda>r. dr_Status r = ''pending'' \<and>
             list_ex (\<lambda>j. dj_ID j = dr_JobID r \<and> expired_job now j) (deploy_jobs db)) (deploy_results db)))"

subsection \<open>The queue invariant\<close>

text \<open>One row: a lease exactly while running, and the retry count within the budget.\<close>

definition row_ok :: "DeployResult \<Rightarrow> bool" where
  "row_ok r \<longleftrightarrow>
     (dr_Status r = ''running'' \<longleftrightarrow> dr_LeaseUntil r \<noteq> None)
     \<and> 0 \<le> dr_RetryCount r \<and> dr_RetryCount r \<le> max 0 (dr_MaxRetry r)"

definition one_running :: "DeployResult list \<Rightarrow> bool" where
  "one_running rows \<longleftrightarrow>
     (\<forall>r \<in> set rows. \<forall>r' \<in> set rows.
        dr_Status r = ''running'' \<longrightarrow> dr_Status r' = ''running'' \<longrightarrow> dr_AgentID r = dr_AgentID r' \<longrightarrow>
        dr_JobID r = dr_JobID r')"

definition row_key :: "DeployResult \<Rightarrow> string \<times> string" where
  "row_key r = (dr_JobID r, dr_AgentID r)"

definition same_budget :: "DeployResult list \<Rightarrow> bool" where
  "same_budget rows \<longleftrightarrow>
     (\<forall>r \<in> set rows. \<forall>r' \<in> set rows. row_key r = row_key r' \<longrightarrow> dr_MaxRetry r = dr_MaxRetry r')"

definition queue_inv :: "DB \<Rightarrow> bool" where
  "queue_inv db \<longleftrightarrow>
     list_all row_ok (deploy_results db)
     \<and> one_running (deploy_results db)
     \<and> same_budget (deploy_results db)
     \<and> distinct (map dj_ID (deploy_jobs db))
     \<and> (\<forall>r \<in> set (deploy_results db). job_known db (dr_JobID r))"

text \<open>The statuses and retry counts \<^const>\<open>UpdateDeployResult\<close> may be asked to write.\<close>

definition retry_in_budget :: "DB \<Rightarrow> string \<Rightarrow> string \<Rightarrow> int option \<Rightarrow> bool" where
  "retry_in_budget db j a retryCount \<longleftrightarrow>
     (case retryCount of None \<Rightarrow> True
      | Some n \<Rightarrow> \<forall>r \<in> set (deploy_results db). row_key r = (j, a) \<longrightarrow> 0 \<le> n \<and> n \<le> max 0 (dr_MaxRetry r))"

subsection \<open>Every statement keeps the invariant\<close>

lemma queue_inv_empty: "queue_inv empty_db"
  by (simp add: queue_inv_def empty_db_def one_running_def same_budget_def)

lemma queue_inv_cong:
  "deploy_results db' = deploy_results db \<Longrightarrow> map dj_ID (deploy_jobs db') = map dj_ID (deploy_jobs db) \<Longrightarrow>
   queue_inv db' = queue_inv db"
  by (simp add: queue_inv_def job_known_def)

lemma one_runningI:
  "(\<And>r r'. r \<in> set rows \<Longrightarrow> r' \<in> set rows \<Longrightarrow> dr_Status r = ''running'' \<Longrightarrow> dr_Status r' = ''running'' \<Longrightarrow>
      dr_AgentID r = dr_AgentID r' \<Longrightarrow> dr_JobID r = dr_JobID r') \<Longrightarrow> one_running rows"
  unfolding one_running_def by blast

lemma one_runningD:
  "one_running rows \<Longrightarrow> r \<in> set rows \<Longrightarrow> r' \<in> set rows \<Longrightarrow> dr_Status r = ''running'' \<Longrightarrow>
   dr_Status r' = ''running'' \<Longrightarrow> dr_AgentID r = dr_AgentID r' \<Longrightarrow> dr_JobID r = dr_JobID r'"
  unfolding one_running_def by blast

lemma same_budgetI:
  "(\<And>r r'. r \<in> set rows \<Longrightarrow> r' \<in> set rows \<Longrightarrow> row_key r = row_key r' \<Longrightarrow> dr_MaxRetry r = dr_MaxRetry r') \<Longrightarrow>
   same_budget rows"
  unfolding same_budget_def by blast

lemma same_budgetD:
  "same_budget rows \<Longrightarrow> r \<in> set rows \<Longrightarrow> r' \<in> set rows \<Longrightarrow> row_key r = row_key r' \<Longrightarrow>
   dr_MaxRetry r = dr_MaxRetry r'"
  unfolding same_budget_def by blast

lemma same_budget_map:
  assumes "same_budget rows"
    and "\<And>r. r \<in> set rows \<Longrightarrow> row_key (f r) = row_key r"
    and "\<And>r. r \<in> set rows \<Longrightarrow> dr_MaxRetry (f r) = dr_MaxRetry r"
  shows "same_budget (map f rows)"
proof (rule same_budgetI)
  fix r r' assume "r \<in> set (map f rows)" "r' \<in> set (map f rows)" and k: "row_key r = row_key r'"
  then obtain q q' where q: "q \<in> set rows" "r = f q" "q' \<in> set rows" "r' = f q'" by auto
  with k assms(2) have "row_key q = row_key q'" by simp
  with assms(1) q have "dr_MaxRetry q = dr_MaxRetry q'" by (blast dest: same_budgetD)
  with q assms(3) show "dr_MaxRetry r = dr_MaxRetry r'" by simp
qed

lemma queue_invD:
  assumes "queue_inv db"
  shows "list_all row_ok (deploy_results db)" "one_running (deploy_results db)"
    "same_budget (deploy_results db)" "distinct (map dj_ID (deploy_jobs db))"
    "\<And>r. r \<in> set (deploy_results db) \<Longrightarrow> job_known db (dr_JobID r)"
  using assms by (simp_all add: queue_inv_def)

lemma queue_invI:
  assumes "list_all row_ok (deploy_results db)" "one_running (deploy_results db)"
    "same_budget (deploy_results db)" "distinct (map dj_ID (deploy_jobs db))"
    "\<And>r. r \<in> set (deploy_results db) \<Longrightarrow> job_known db (dr_JobID r)"
  shows "queue_inv db"
  using assms unfolding queue_inv_def by blast

lemma job_known_results [simp]: "job_known (db\<lparr>deploy_results := rs\<rparr>) j = job_known db j"
  by (simp add: job_known_def)

lemma queue_inv_map_rows:
  assumes inv: "queue_inv db"
    and key: "\<And>r. r \<in> set (deploy_results db) \<Longrightarrow> row_key (f r) = row_key r"
    and budget: "\<And>r. r \<in> set (deploy_results db) \<Longrightarrow> dr_MaxRetry (f r) = dr_MaxRetry r"
    and ok: "\<And>r. r \<in> set (deploy_results db) \<Longrightarrow> row_ok (f r)"
    and run: "\<And>r. r \<in> set (deploy_results db) \<Longrightarrow> dr_Status (f r) = ''running'' \<Longrightarrow> dr_Status r = ''running''"
  shows "queue_inv (db\<lparr>deploy_results := map f (deploy_results db)\<rparr>)"
proof -
  have "one_running (map f (deploy_results db))"
  proof (rule one_runningI)
    fix r r' assume "r \<in> set (map f (deploy_results db))" "r' \<in> set (map f (deploy_results db))"
      and st: "dr_Status r = ''running''" "dr_Status r' = ''running''" "dr_AgentID r = dr_AgentID r'"
    then obtain q q' where q: "q \<in> set (deploy_results db)" "r = f q" "q' \<in> set (deploy_results db)" "r' = f q'"
      by auto
    have k: "row_key r = row_key q" "row_key r' = row_key q'" using q key by simp_all
    have "dr_Status q = ''running''" "dr_Status q' = ''running''" using q st run by blast+
    moreover have "dr_AgentID q = dr_AgentID q'" using k st by (simp add: row_key_def)
    ultimately have "dr_JobID q = dr_JobID q'" using one_runningD [OF queue_invD(2) [OF inv]] q by blast
    with k show "dr_JobID r = dr_JobID r'" by (simp add: row_key_def)
  qed
  moreover have "job_known db (dr_JobID r)" if "r \<in> set (map f (deploy_results db))" for r
  proof -
    from that obtain q where "q \<in> set (deploy_results db)" "r = f q" by auto
    with key [of q] queue_invD(5) [OF inv, of q] show ?thesis by (simp add: row_key_def)
  qed
  moreover have "list_all row_ok (map f (deploy_results db))"
    using ok by (auto simp: list_all_iff)
  moreover have "same_budget (map f (deploy_results db))"
    using same_budget_map [OF queue_invD(3) [OF inv]] key budget by blast
  ultimately show ?thesis
    using queue_invD(4) [OF inv] by (intro queue_invI) simp_all
qed

lemma queue_inv_row: "queue_inv db \<Longrightarrow> r \<in> set (deploy_results db) \<Longrightarrow> row_ok r"
  by (simp add: queue_inv_def list_all_iff)

lemma InsertDeployJob_inv:
  "queue_inv db \<Longrightarrow> InsertDeployJob env db job = Inr db' \<Longrightarrow> queue_inv db'"
  by (auto simp: InsertDeployJob_def queue_inv_def job_known_def split: if_splits)

lemma UpdateDeployJobStatus_inv:
  "queue_inv db \<Longrightarrow> UpdateDeployJobStatus env db j st = Inr db' \<Longrightarrow> queue_inv db'"
  by (auto simp: UpdateDeployJobStatus_def comp_def if_distrib [of dj_ID] split: if_splits
      cong: if_cong elim!: queue_inv_cong [THEN iffD2, rotated -1])

lemma UpdateJobStatus_inv:
  "queue_inv db \<Longrightarrow> UpdateJobStatus env db j = Inr db' \<Longrightarrow> queue_inv db'"
  by (auto simp: UpdateJobStatus_def UpdateDeployJobStatus_inv split: sum.splits if_splits)

lemma cancel_results_inv: "queue_inv db \<Longrightarrow> queue_inv (cancel_results db j)"
  unfolding cancel_results_def
  by (rule queue_inv_map_rows)
     (auto simp: row_key_def cancel_row_def row_ok_def dest: queue_inv_row split: if_splits)

lemma CancelDeployJob_inv: "queue_inv db \<Longrightarrow> queue_inv (snd (CancelDeployJob env db j))"
  by (auto simp: CancelDeployJob_def intro: cancel_results_inv dest: UpdateDeployJobStatus_inv split: sum.splits)

lemma InsertDeployResult_inv:
  assumes "queue_inv db" "InsertDeployResult env db j a st out mr = Inr db'"
    and "st \<noteq> ''running''"
    and budget: "\<And>r. r \<in> set (deploy_results db) \<Longrightarrow> row_key r = (j, a) \<Longrightarrow> dr_MaxRetry r = mr"
  shows "queue_inv db'"
proof -
  let ?row = "new_result_row (results_seq db + 1) j a st out mr"
  from assms(2) have db': "deploy_results db' = deploy_results db @ [?row]"
      "deploy_jobs db' = deploy_jobs db" and j: "job_known db j"
    by (auto simp: InsertDeployResult_def split: if_splits)
  have row: "row_ok ?row" "dr_Status ?row \<noteq> ''running''" "row_key ?row = (j, a)" "dr_JobID ?row = j"
    "dr_MaxRetry ?row = mr"
    using assms(3) by (simp_all add: new_result_row_def row_ok_def row_key_def)
  have one: "one_running (deploy_results db @ [?row])"
  proof (rule one_runningI)
    fix r r' assume "r \<in> set (deploy_results db @ [?row])" "r' \<in> set (deploy_results db @ [?row])"
      and st: "dr_Status r = ''running''" "dr_Status r' = ''running''" "dr_AgentID r = dr_AgentID r'"
    moreover from st(1,2) row(2) have "r \<noteq> ?row" "r' \<noteq> ?row" by blast+
    ultimately have "r \<in> set (deploy_results db)" "r' \<in> set (deploy_results db)" by simp_all
    with st show "dr_JobID r = dr_JobID r'"
      using one_runningD [OF queue_invD(2) [OF assms(1)]] by blast
  qed
  have keys: "same_budget (deploy_results db @ [?row])"
  proof (rule same_budgetI)
    fix r r' assume "r \<in> set (deploy_results db @ [?row])" "r' \<in> set (deploy_results db @ [?row])"
      and k: "row_key r = row_key r'"
    then consider "r = ?row" "r' = ?row" | "r = ?row" "r' \<in> set (deploy_results db)"
      | "r \<in> set (deploy_results db)" "r' = ?row" | "r \<in> set (deploy_results db)" "r' \<in> set (deploy_results db)"
      by auto
    then show "dr_MaxRetry r = dr_MaxRetry r'"
    proof cases
      case 2
      with k row(3,5) budget show ?thesis by metis
    next
      case 3
      with k row(3,5) budget show ?thesis by metis
    qed (use k same_budgetD [OF queue_invD(3) [OF assms(1)]] in blast)+
  qed
  have fk: "job_known db' (dr_JobID r)" if "r \<in> set (deploy_results db @ [?row])" for r
  proof (cases "r = ?row")
    case True
    with row(4) j db'(2) show ?thesis by (simp add: job_known_def)
  next
    case False
    with that have "r \<in> set (deploy_results db)" by simp
    from queue_invD(5) [OF assms(1) this] db'(2) show ?thesis by (simp add: job_known_def)
  qed
  show ?thesis
    using queue_invD(1,4) [OF assms(1)] one keys fk row(1)
    by (intro queue_invI) (simp_all add: db')
qed

lemma UpdateDeployResult_inv:
  assumes "queue_inv db" "st \<noteq> ''running''" "retry_in_budget db j a retry"
    and "UpdateDeployResult env now db j a st out ec dur retry att = Inr (n, db')"
  shows "queue_inv db'"
proof -
  let ?f = "\<lambda>r. if update_matches j a att r then set_result now st out ec dur retry r else r"
  from assms(4) have db': "db' = db\<lparr>deploy_results := map ?f (deploy_results db)\<rparr>"
    by (auto simp: UpdateDeployResult_def split: if_splits)
  show ?thesis unfolding db'
  proof (rule queue_inv_map_rows [OF assms(1)])
    fix r assume r: "r \<in> set (deploy_results db)"
    show "row_key (?f r) = row_key r" by (simp add: row_key_def set_result_def)
    show "dr_MaxRetry (?f r) = dr_MaxRetry r" by (simp add: set_result_def)
    show "row_ok (?f r)"
      using queue_inv_row [OF assms(1) r] assms(2,3) r
      by (auto simp: row_ok_def set_result_def update_matches_def retry_in_budget_def row_key_def split: option.splits)
    show "dr_Status (?f r) = ''running'' \<Longrightarrow> dr_Status r = ''running''"
      using assms(2) by (auto simp: set_result_def split: if_splits)
  qed
qed

subsection \<open>Claiming\<close>

lemma first_claim_in: "first_claim cs = Some c \<Longrightarrow> c \<in> set cs"
  by (induction cs arbitrary: c) (auto split: option.splits if_splits)

lemma first_claim_None: "first_claim cs = None \<longleftrightarrow> cs = []"
  by (cases cs) (auto split: option.splits)

lemma comes_before_trans: "comes_before x y \<Longrightarrow> comes_before y z \<Longrightarrow> comes_before x z"
  by (auto simp: comes_before_def)

lemma comes_before_irrefl [simp]: "\<not> comes_before x x"
  by (simp add: comes_before_def)

lemma not_comes_before_trans: "\<not> comes_before y x \<Longrightarrow> \<not> comes_before z y \<Longrightarrow> \<not> comes_before z x"
  by (auto simp: comes_before_def)

lemma first_claim_least: "first_claim cs = Some c \<Longrightarrow> d \<in> set cs \<Longrightarrow> \<not> comes_before (fst d) (fst c)"
proof (induction cs arbitrary: c d)
  case Nil
  then show ?case by simp
next
  case (Cons x xs)
  show ?case
  proof (cases "first_claim xs")
    case None
    with Cons.prems show ?thesis by (simp add: first_claim_None)
  next
    case (Some y)
    have y: "\<not> comes_before (fst e) (fst y)" if "e \<in> set xs" for e
      using Cons.IH [OF Some that] .
    show ?thesis
    proof (cases "comes_before (fst y) (fst x)")
      case True
      with Some Cons.prems have "c = y" by simp
      moreover have "\<not> comes_before (fst x) (fst y)" using True comes_before_trans comes_before_irrefl by blast
      ultimately show ?thesis using y Cons.prems(2) by (cases "d = x") simp_all
    next
      case False
      with Some Cons.prems have "c = x" by simp
      moreover have "\<not> comes_before (fst d) (fst x)" if "d \<in> set xs"
        using False y [OF that] not_comes_before_trans by blast
      ultimately show ?thesis using Cons.prems(2) by (cases "d = x") simp_all
    qed
  qed
qed

lemma claim_candidates_iff:
  "(job, r) \<in> set (claim_candidates now db a) \<longleftrightarrow>
     r \<in> set (deploy_results db) \<and> dr_AgentID r = a \<and> dr_Status r = ''pending''
     \<and> job \<in> set (deploy_jobs db) \<and> dj_ID job = dr_JobID r \<and> unexpired now job"
  by (auto simp: claim_candidates_def)

lemma claim_rows_inv:
  assumes inv: "queue_inv db" and idle: "\<not> list_ex (\<lambda>r. dr_AgentID r = a \<and> dr_Status r = ''running'') (deploy_results db)"
  shows "queue_inv (claim_rows l db j a)"
proof -
  let ?f = "\<lambda>r. if dr_JobID r = j \<and> dr_AgentID r = a then claim_row l r else r"
  have key: "row_key (?f r) = row_key r" for r by (simp add: row_key_def claim_row_def)
  have ok: "list_all row_ok (map ?f (deploy_results db))"
    using inv by (auto simp: queue_inv_def list_all_iff row_ok_def claim_row_def)
  have runs: "dr_Status (?f r) = ''running'' \<Longrightarrow> dr_AgentID r = a \<Longrightarrow> dr_JobID r = j"
      "dr_Status (?f r) = ''running'' \<Longrightarrow> dr_AgentID r \<noteq> a \<Longrightarrow> dr_Status r = ''running''"
    if "r \<in> set (deploy_results db)" for r
    using that idle by (auto simp: list_ex_iff split: if_splits)
  have "one_running (map ?f (deploy_results db))"
  proof (rule one_runningI)
    fix r r' assume "r \<in> set (map ?f (deploy_results db))" "r' \<in> set (map ?f (deploy_results db))"
      and st: "dr_Status r = ''running''" "dr_Status r' = ''running''" "dr_AgentID r = dr_AgentID r'"
    then obtain q q' where q: "q \<in> set (deploy_results db)" "r = ?f q" "q' \<in> set (deploy_results db)" "r' = ?f q'"
      by auto
    have k: "row_key r = row_key q" "row_key r' = row_key q'" using q key by simp_all
    then have ag: "dr_AgentID q = dr_AgentID q'" using st by (simp add: row_key_def)
    have "dr_JobID q = dr_JobID q'"
    proof (cases "dr_AgentID q = a")
      case True
      with ag q st runs(1) show ?thesis by metis
    next
      case False
      with ag q st runs(2) have "dr_Status q = ''running''" "dr_Status q' = ''running''" by metis+
      with ag q one_runningD [OF queue_invD(2) [OF inv]] show ?thesis by blast
    qed
    with k show "dr_JobID r = dr_JobID r'" by (simp add: row_key_def)
  qed
  moreover have "job_known db (dr_JobID r)" if "r \<in> set (map ?f (deploy_results db))" for r
    using that queue_invD(5) [OF inv] by (auto simp: claim_row_def)
  moreover have "same_budget (map ?f (deploy_results db))"
    by (rule same_budget_map [OF queue_invD(3) [OF inv]]) (simp_all add: key claim_row_def)
  ultimately show ?thesis
    using queue_invD(4) [OF inv] ok unfolding claim_rows_def by (intro queue_invI) simp_all
qed

lemma AcquireNextJob_inv: "queue_inv db \<Longrightarrow> queue_inv (snd (AcquireNextJob env now db a l))"
  by (auto simp: AcquireNextJob_def Let_def intro: claim_rows_inv split: option.splits sum.splits prod.splits)

end
