(* ===== verification/Hub_Clients.thy ===== *)
theory Hub_Clients
  imports Deploy_Store
begin

text \<open>
  The connection table of \<^verbatim>\<open>server/hub.go\<close>.  A \<^verbatim>\<open>*Client\<close> is an object compared by identity,
  so the model keeps the objects in a heap indexed by a connection number and the table maps an agent
  id to such a number.  The \<^verbatim>\<open>send\<close> channel is a bounded queue that can be closed once; sending on a
  closed channel panics, which is the value \<open>None\<close> of a send.
\<close>

record OutgoingMessage =
  om_Type :: string
  om_JobID :: string
  om_Attempt :: "int option"
  om_Payload :: string
  om_Filename :: string
  om_Checksum :: string
  om_Args :: string
  om_Lines :: int
  om_Action :: string
  om_Password :: string
  om_PID :: int
  om_ProcName :: string
  om_Path :: string
  om_Company :: string
  om_NetworkMode :: string
  om_ExpireAt :: "time option"
  om_PolicyVersion :: int
  om_PolicyRules :: "PolicyRule list"
  om_PolicyApps :: "string \<rightharpoonup> PolicyRelevantApp"
  om_DeviceGroup :: string

text \<open>A message with every optional field absent.\<close>

definition blank_message :: "string \<Rightarrow> OutgoingMessage" where
  "blank_message typ =
     \<lparr>om_Type = typ, om_JobID = '''', om_Attempt = None, om_Payload = '''', om_Filename = '''',
      om_Checksum = '''', om_Args = '''', om_Lines = 0, om_Action = '''', om_Password = '''', om_PID = 0,
      om_ProcName = '''', om_Path = '''', om_Company = '''', om_NetworkMode = '''', om_ExpireAt = None,
      om_PolicyVersion = 0, om_PolicyRules = [], om_PolicyApps = Map.empty, om_DeviceGroup = ''''\<rparr>"

record Client =
  cl_agentID :: string
  cl_send :: "OutgoingMessage list"
  cl_closed :: bool

record Hub =
  hub_conns :: "nat \<rightharpoonup> Client"
  hub_clients :: "string \<rightharpoonup> nat"

definition NewHub :: Hub where
  "NewHub = \<lparr>hub_conns = Map.empty, hub_clients = Map.empty\<rparr>"

definition send_capacity :: nat where "send_capacity = 256"

text \<open>\<^verbatim>\<open>ServeWS\<close> creates the client object; it enters the table with its first metrics message.\<close>

definition new_client :: Client where
  "new_client = \<lparr>cl_agentID = '''', cl_send = [], cl_closed = False\<rparr>"

definition ServeWS :: "string \<Rightarrow> string \<Rightarrow> nat \<Rightarrow> Hub \<Rightarrow> Hub option" where
  "ServeWS authToken token c h =
     (if authToken \<noteq> '''' \<and> token \<noteq> authToken then None
      else Some (h\<lparr>hub_conns := (hub_conns h)(c \<mapsto> new_client)\<rparr>))"

definition safeClose :: "nat \<Rightarrow> Hub \<Rightarrow> Hub" where
  "safeClose c h =
     (case hub_conns h c of
        None \<Rightarrow> h
      | Some cl \<Rightarrow> h\<lparr>hub_conns := (hub_conns h)(c \<mapsto> cl\<lparr>cl_closed := True\<rparr>)\<rparr>)"

definition conn_agent :: "Hub \<Rightarrow> nat \<Rightarrow> string" where
  "conn_agent h c = (case hub_conns h c of None \<Rightarrow> '''' | Some cl \<Rightarrow> cl_agentID cl)"

definition set_conn_agent :: "nat \<Rightarrow> string \<Rightarrow> Hub \<Rightarrow> Hub" where
  "set_conn_agent c a h =
     (case hub_conns h c of
        None \<Rightarrow> h
      | Some cl \<Rightarrow> h\<lparr>hub_conns := (hub_conns h)(c \<mapsto> cl\<lparr>cl_agentID := a\<rparr>)\<rparr>)"

definition addClient :: "nat \<Rightarrow> Hub \<Rightarrow> Hub" where
  "addClient c h =
     (let a = conn_agent h c;
          h' = (case hub_clients h a of
                  Some old \<Rightarrow> if old \<noteq> c then safeClose old h else h
                | None \<Rightarrow> h)
      in h'\<lparr>hub_clients := (hub_clients h')(a \<mapsto> c)\<rparr>)"

text \<open>
  \<^verbatim>\<open>removeClient\<close>: only the connection currently registered for the agent takes the agent offline.
  The second component says that the caller must write \<^verbatim>\<open>status = offline\<close> for that agent.
\<close>

definition removeClient :: "nat \<Rightarrow> Hub \<Rightarrow> Hub \<times> string option" where
  "removeClient c h =
     (let a = conn_agent h c in
      if a \<noteq> '''' \<and> hub_clients h a = Some c
      then (safeClose c (h\<lparr>hub_clients := (hub_clients h)(a := None)\<rparr>), Some a)
      else (safeClose c h, None))"

text \<open>The non-blocking send of \<^verbatim>\<open>select { case client.send <- data: ... default: ... }\<close>.\<close>

definition try_send :: "nat \<Rightarrow> OutgoingMessage \<Rightarrow> Hub \<Rightarrow> bool option \<times> Hub" where
  "try_send c msg h =
     (case hub_conns h c of
        None \<Rightarrow> (Some False, h)
      | Some cl \<Rightarrow>
          if cl_closed cl then (None, h)
          else if length (cl_send cl) < send_capacity
          then (Some True, h\<lparr>hub_conns := (hub_conns h)(c \<mapsto> cl\<lparr>cl_send := cl_send cl @ [msg]\<rparr>)\<rparr>)
          else (Some False, h))"

definition SendToAgent :: "Hub \<Rightarrow> string \<Rightarrow> OutgoingMessage \<Rightarrow> bool option \<times> Hub" where
  "SendToAgent h a msg =
     (case hub_clients h a of None \<Rightarrow> (Some False, h) | Some c \<Rightarrow> try_send c msg h)"

definition IsOnline :: "Hub \<Rightarrow> string \<Rightarrow> bool" where
  "IsOnline h a \<longleftrightarrow> hub_clients h a \<noteq> None"

text \<open>\<^verbatim>\<open>writePump\<close> takes one message off the channel and writes it to the socket.\<close>

definition writePump_take :: "nat \<Rightarrow> Hub \<Rightarrow> OutgoingMessage option \<times> Hub" where
  "writePump_take c h =
     (case hub_conns h c of
        None \<Rightarrow> (None, h)
      | Some cl \<Rightarrow>
          (case cl_send cl of
             [] \<Rightarrow> (None, h)
           | m # ms \<Rightarrow> (Some m, h\<lparr>hub_conns := (hub_conns h)(c \<mapsto> cl\<lparr>cl_send := ms\<rparr>)\<rparr>)))"

text \<open>The messages waiting for an agent on its registered connection.\<close>

definition queued_for :: "Hub \<Rightarrow> string \<Rightarrow> OutgoingMessage list" where
  "queued_for h a =
     (case hub_clients h a of
        None \<Rightarrow> []
      | Some c \<Rightarrow> (case hub_conns h c of None \<Rightarrow> [] | Some cl \<Rightarrow> cl_send cl))"

definition send_room :: "Hub \<Rightarrow> string \<Rightarrow> bool" where
  "send_room h a \<longleftrightarrow> IsOnline h a \<and> length (queued_for h a) < send_capacity"

subsection \<open>The connection table as a state machine\<close>

text \<open>
  Every registered connection exists, is open, carries the agent id it is registered under, and no
  queue exceeds the channel's capacity.
\<close>

definition hub_inv :: "Hub \<Rightarrow> bool" where
  "hub_inv h \<longleftrightarrow>
     (\<forall>a c. hub_clients h a = Some c \<longrightarrow>
        (\<exists>cl. hub_conns h c = Some cl \<and> \<not> cl_closed cl \<and> cl_agentID cl = a))
     \<and> hub_clients h '''' = None
     \<and> (\<forall>c cl. hub_conns h c = Some cl \<longrightarrow> length (cl_send cl) \<le> send_capacity)"

text \<open>
  The steps: a socket is accepted under a fresh number; a connection that has no agent id yet
  registers (the guard of \<^verbatim>\<open>handleMetrics\<close>); a connection's read loop ends; a message is sent; the
  write loop takes one.
\<close>

inductive hub_step :: "Hub \<Rightarrow> Hub \<Rightarrow> bool" where
  hub_accept: "hub_conns h c = None \<Longrightarrow> ServeWS tok given c h = Some h' \<Longrightarrow> hub_step h h'"
| hub_register: "hub_conns h c = Some cl \<Longrightarrow> cl_agentID cl = '''' \<Longrightarrow> \<not> cl_closed cl \<Longrightarrow> a \<noteq> '''' \<Longrightarrow>
     hub_step h (addClient c (set_conn_agent c a h))"
| hub_disconnect: "hub_step h (fst (removeClient c h))"
| hub_send: "hub_step h (snd (SendToAgent h a msg))"
| hub_write: "hub_step h (snd (writePump_take c h))"

inductive_cases hub_stepE: "hub_step h h'"

lemmas hub_op_defs = ServeWS_def new_client_def safeClose_def conn_agent_def set_conn_agent_def
  addClient_def removeClient_def try_send_def SendToAgent_def writePump_take_def

lemma hub_invD:
  assumes "hub_inv h"
  shows "hub_clients h a = Some c \<Longrightarrow> \<exists>cl. hub_conns h c = Some cl \<and> \<not> cl_closed cl \<and> cl_agentID cl = a"
    "hub_conns h c = Some cl \<Longrightarrow> length (cl_send cl) \<le> send_capacity"
    "hub_clients h '''' = None"
  using assms by (auto simp: hub_inv_def)

lemma hub_inv_unique: "hub_inv h \<Longrightarrow> hub_clients h a = Some c \<Longrightarrow> hub_clients h b = Some c \<Longrightarrow> a = b"
  using hub_invD(1) [of h a c] hub_invD(1) [of h b c] by auto

lemma hub_inv_exists: "hub_inv h \<Longrightarrow> hub_conns h c = None \<Longrightarrow> hub_clients h a \<noteq> Some c"
  using hub_invD(1) by fastforce

lemma hub_inv_NewHub: "hub_inv NewHub"
  by (simp add: hub_inv_def NewHub_def)

lemma ServeWS_inv:
  "hub_inv h \<Longrightarrow> hub_conns h c = None \<Longrightarrow> ServeWS tok given c h = Some h' \<Longrightarrow> hub_inv h'"
  using hub_inv_exists [of h c]
  by (auto simp: hub_inv_def ServeWS_def new_client_def split: if_splits)

lemma addClient_inv:
  assumes inv: "hub_inv h" and c: "hub_conns h c = Some cl" "cl_agentID cl = ''''" "\<not> cl_closed cl" "a \<noteq> ''''"
  shows "hub_inv (addClient c (set_conn_agent c a h))"
proof -
  have nreg: "hub_clients h b \<noteq> Some c" for b
    using hub_invD(1) [OF inv, of b c] c inv by (auto simp: hub_inv_def)
  let ?h = "set_conn_agent c a h"
  have h: "hub_conns ?h = (hub_conns h)(c \<mapsto> cl\<lparr>cl_agentID := a\<rparr>)" "hub_clients ?h = hub_clients h"
    using c by (simp_all add: set_conn_agent_def)
  have a: "conn_agent ?h c = a" by (simp add: conn_agent_def h)
  show ?thesis
  proof (cases "hub_clients h a")
    case None
    then have "addClient c ?h = ?h\<lparr>hub_clients := (hub_clients h)(a \<mapsto> c)\<rparr>"
      by (simp add: addClient_def a h)
    with inv c nreg show ?thesis
      by (auto simp: hub_inv_def h)
  next
    case (Some old)
    with nreg have "old \<noteq> c" by auto
    obtain ocl where ocl: "hub_conns h old = Some ocl" "cl_agentID ocl = a"
      using hub_invD(1) [OF inv Some] by blast
    have eq: "addClient c ?h = h\<lparr>hub_conns := (hub_conns h)(c \<mapsto> cl\<lparr>cl_agentID := a\<rparr>, old \<mapsto> ocl\<lparr>cl_closed := True\<rparr>),
        hub_clients := (hub_clients h)(a \<mapsto> c)\<rparr>"
      using c ocl Some \<open>old \<noteq> c\<close> by (simp add: addClient_def a h safeClose_def Let_def)
    have "\<exists>cl'. hub_conns h d = Some cl' \<and> \<not> cl_closed cl' \<and> cl_agentID cl' = b \<and> d \<noteq> c \<and> d \<noteq> old"
      if "hub_clients h b = Some d" "b \<noteq> a" for b d
      using hub_invD(1) [OF inv that(1)] that nreg ocl by auto
    then show ?thesis
      using inv c ocl \<open>old \<noteq> c\<close> unfolding eq by (fastforce simp: hub_inv_def)
  qed
qed

lemma removeClient_inv:
  assumes "hub_inv h"
  shows "hub_inv (fst (removeClient c h))"
proof (cases "hub_conns h c")
  case None
  with assms show ?thesis
    by (auto simp: hub_inv_def removeClient_def conn_agent_def safeClose_def)
next
  case (Some cl)
  show ?thesis
  proof (cases "cl_agentID cl \<noteq> '''' \<and> hub_clients h (cl_agentID cl) = Some c")
    case True
    have "d \<noteq> c" if "hub_clients h b = Some d" "b \<noteq> cl_agentID cl" for b d
      using hub_invD(1) [OF assms that(1)] that Some by auto
    with assms Some True show ?thesis
      by (auto simp: hub_inv_def removeClient_def conn_agent_def safeClose_def Let_def)
  next
    case False
    have "d \<noteq> c" if "hub_clients h b = Some d" for b d
    proof
      assume "d = c"
      with hub_invD(1) [OF assms that] Some that have "b = cl_agentID cl" "hub_clients h (cl_agentID cl) = Some c"
        by auto
      with False hub_invD(3) [OF assms] that show False by auto
    qed
    with assms Some False show ?thesis
      by (auto simp: hub_inv_def removeClient_def conn_agent_def safeClose_def Let_def)
  qed
qed

lemma try_send_inv: "hub_inv h \<Longrightarrow> hub_inv (snd (try_send c msg h))"
  by (auto simp: hub_inv_def try_send_def split: option.splits) fastforce

lemma SendToAgent_inv: "hub_inv h \<Longrightarrow> hub_inv (snd (SendToAgent h a msg))"
  by (auto simp: SendToAgent_def try_send_inv split: option.splits)

lemma writePump_take_inv: "hub_inv h \<Longrightarrow> hub_inv (snd (writePump_take c h))"
  by (auto simp: hub_inv_def writePump_take_def split: option.splits list.splits) fastforce+

interpretation hub: safe_system "\<lambda>h. h = NewHub" hub_step hub_inv
proof unfold_locales
  fix h assume "h = NewHub"
  then show "hub_inv h" by (simp add: hub_inv_NewHub)
next
  fix h h' assume "hub_inv h" "hub_step h h'"
  from this(2,1) show "hub_inv h'"
    by (induction rule: hub_step.induct)
       (auto intro: ServeWS_inv addClient_inv removeClient_inv SendToAgent_inv writePump_take_inv)
qed

subsection \<open>What a send does\<close>

lemma SendToAgent_no_panic: "hub_inv h \<Longrightarrow> fst (SendToAgent h a msg) \<noteq> None"
  by (auto simp: SendToAgent_def try_send_def split: option.splits dest: hub_invD(1))

lemma SendToAgent_clients [simp]: "hub_clients (snd (SendToAgent h a msg)) = hub_clients h"
  by (auto simp: SendToAgent_def try_send_def split: option.splits)

lemma SendToAgent_sent:
  "fst (SendToAgent h a msg) = Some True \<Longrightarrow>
   queued_for (snd (SendToAgent h a msg)) a = queued_for h a @ [msg]"
  by (auto simp: SendToAgent_def try_send_def queued_for_def split: option.splits if_splits)

lemma SendToAgent_not_sent: "fst (SendToAgent h a msg) \<noteq> Some True \<Longrightarrow> snd (SendToAgent h a msg) = h"
  by (auto simp: SendToAgent_def try_send_def split: option.splits if_splits)

lemma SendToAgent_offline: "\<not> IsOnline h a \<Longrightarrow> SendToAgent h a msg = (Some False, h)"
  by (simp add: SendToAgent_def IsOnline_def)

lemma SendToAgent_other:
  assumes "hub_inv h" "b \<noteq> a"
  shows "queued_for (snd (SendToAgent h a msg)) b = queued_for h b"
proof (cases "hub_clients h a")
  case None
  then show ?thesis by (simp add: SendToAgent_def)
next
  case (Some c)
  have "hub_clients h b \<noteq> Some c"
    using hub_inv_unique [OF assms(1) Some] assms(2) by blast
  with Some show ?thesis
    by (auto simp: SendToAgent_def try_send_def queued_for_def split: option.splits)
qed

lemma SendToAgent_iff:
  assumes "hub_inv h"
  shows "fst (SendToAgent h a msg) = Some True \<longleftrightarrow> send_room h a"
  using hub_invD(1) [OF assms, of a]
  by (auto simp: SendToAgent_def try_send_def send_room_def IsOnline_def queued_for_def split: option.splits)

end
