(* ===== verification/Server_World.thy ===== *)
theory Server_World
  imports Hub_Clients
begin

text \<open>
  The state the server's goroutines share, as one record: the database, the connection table, the
  in-memory maps of the hub, the alerter, the policy engine and the metrics batcher, and what leaves
  the process.  A \<^verbatim>\<open>go f(x)\<close> of the source appends a task to \<open>w_tasks\<close>; the theory of the
  component that owns \<open>f\<close> gives its meaning.
\<close>

record metricEntry =
  mb_agentID :: string
  mb_cpu :: float64
  mb_ram :: float64
  mb_ts :: time

datatype task =
    TaskPump string
  | TaskRecovery string string
  | TaskAutoKill string string string
  | TaskActOnExecution string string Process string string PolicyDecision

text \<open>
  The waiter maps hold the channel a caller is waiting on: \<open>w_chans\<close> gives the content of each
  one-place channel, \<open>Inl\<close> for a text reply and \<open>Inr\<close> for a network mode result.
\<close>

record networkModeResult =
  nm_Mode :: string
  nm_Status :: string
  nm_Output :: string

record World =
  w_db :: DB
  w_hub :: Hub
  w_tasks :: "task list"
  w_consecutive :: "string \<rightharpoonup> int"
  w_relevant :: "((string \<rightharpoonup> PolicyRelevantApp) \<times> time) option"
  w_batch :: "metricEntry list"
  w_notices :: "string list"
  w_logWaiters :: "string \<rightharpoonup> nat"
  w_killWaiters :: "string \<rightharpoonup> nat"
  w_networkModeWaiters :: "string \<rightharpoonup> nat"
  w_chans :: "nat \<Rightarrow> (string + networkModeResult) option"

definition NewWorld :: World where
  "NewWorld = \<lparr>w_db = empty_db, w_hub = NewHub, w_tasks = [], w_consecutive = Map.empty, w_relevant = None,
     w_batch = [], w_notices = [], w_logWaiters = Map.empty, w_killWaiters = Map.empty,
     w_networkModeWaiters = Map.empty, w_chans = Map.empty\<rparr>"

text \<open>A goroutine is started; a message is handed to an agent and the caller ignores the outcome.\<close>

definition go_task :: "task \<Rightarrow> World \<Rightarrow> World" where
  "go_task t w = w\<lparr>w_tasks := w_tasks w @ [t]\<rparr>"

definition send_to :: "string \<Rightarrow> OutgoingMessage \<Rightarrow> World \<Rightarrow> bool \<times> World" where
  "send_to a msg w = (let (sent, h) = SendToAgent (w_hub w) a msg in (sent = Some True, w\<lparr>w_hub := h\<rparr>))"

lemma send_to_db [simp]: "w_db (snd (send_to a msg w)) = w_db w"
  by (simp add: send_to_def split: prod.splits)

lemma go_task_simps [simp]: "w_db (go_task t w) = w_db w" "w_hub (go_task t w) = w_hub w"
  by (simp_all add: go_task_def)

lemma send_to_hub: "w_hub (snd (send_to a msg w)) = snd (SendToAgent (w_hub w) a msg)"
  by (simp add: send_to_def split: prod.splits)

lemma send_to_inv: "hub_inv (w_hub w) \<Longrightarrow> hub_inv (w_hub (snd (send_to a msg w)))"
  by (simp add: send_to_hub SendToAgent_inv)

end
