(* ===== verification/Deployer.thy ===== *)
theory Deployer
  imports Server_World Shared_Command
begin

text \<open>
  \<^verbatim>\<open>server/deploy.go\<close>: the job queue.  A job becomes one row per target; \<^verbatim>\<open>PumpAgent\<close> claims the next
  row of an idle agent and sends it; the lease sweeper requeues or fails rows whose agent never
  answered; the expiry sweeper ends rows that were never sent.

  The clock is read once per call (the argument \<open>now\<close>), the random job id is an argument, and
  \<open>cks\<close> stands for \<^verbatim>\<open>fileChecksum\<close> (an open or read error is \<open>None\<close>).  \<close>

type_synonym checksums = "string \<Rightarrow> string option"

definition leaseMinutes :: "db_env \<Rightarrow> DB \<Rightarrow> int" where
  "leaseMinutes env db =
     (case GetAllSettings env db of
        Inl e \<Rightarrow> 10 * minute
      | Inr s \<Rightarrow> parseIntSetting (s ''lease_minutes'') 10 * minute)"

definition DefaultMaxRetry :: "db_env \<Rightarrow> DB \<Rightarrow> int" where
  "DefaultMaxRetry env db =
     (case GetAllSettings env db of
        Inl e \<Rightarrow> 3
      | Inr s \<Rightarrow> parseIntSetting (s ''default_max_retry'') 3)"

definition dispatch_message :: "checksums \<Rightarrow> DeployJob \<Rightarrow> int \<Rightarrow> OutgoingMessage" where
  "dispatch_message cks job attempt =
     (let msg = (blank_message (dj_Type job))\<lparr>om_JobID := dj_ID job, om_Attempt := Some attempt,
                 om_Payload := dj_Payload job, om_Args := dj_Args job, om_ExpireAt := dj_ExpireAt job\<rparr>
      in if dj_Type job = ''file_deploy'' then
           msg\<lparr>om_Filename := dj_Payload job,
               om_Checksum := (case cks (dj_Payload job) of None \<Rightarrow> '''' | Some s \<Rightarrow> s)\<rparr>
         else if dj_Type job = ''deepfreeze'' then
           msg\<lparr>om_Action := dj_Payload job, om_Password := dj_Args job\<rparr>
         else if dj_Type job = ''install_ssh'' then
           msg\<lparr>om_Action := ''install_ssh'', om_Args := dj_Args job\<rparr>
         else msg)"

definition dispatch :: "checksums \<Rightarrow> World \<Rightarrow> string \<Rightarrow> DeployJob \<Rightarrow> int \<Rightarrow> bool \<times> World" where
  "dispatch cks w a job attempt = send_to a (dispatch_message cks job attempt) w"

definition PumpAgent :: "db_env \<Rightarrow> time \<Rightarrow> checksums \<Rightarrow> World \<Rightarrow> string \<Rightarrow> bool \<times> World" where
  "PumpAgent env now cks w a =
     (case AcquireNextJob env now (w_db w) a (now + leaseMinutes env (w_db w)) of
        (Inl e, db) \<Rightarrow> (False, w\<lparr>w_db := db\<rparr>)
      | (Inr None, db) \<Rightarrow> (False, w\<lparr>w_db := db\<rparr>)
      | (Inr (Some (job, attempt)), db) \<Rightarrow>
          (let (sent, w') = dispatch cks (w\<lparr>w_db := db\<rparr>) a job attempt in
           if sent then (True, w')
           else (False,
             case UpdateDeployResult env now (w_db w') (dj_ID job) a ''pending'' '''' None None None None of
               Inl e \<Rightarrow> w'
             | Inr (n, db') \<Rightarrow> w'\<lparr>w_db := db'\<rparr>)))"

definition DispatchPending :: "db_env \<Rightarrow> time \<Rightarrow> checksums \<Rightarrow> World \<Rightarrow> string \<Rightarrow> World" where
  "DispatchPending env now cks w a = snd (PumpAgent env now cks w a)"

definition resolveTargets :: "db_env \<Rightarrow> DB \<Rightarrow> string list \<Rightarrow> db_error + string list" where
  "resolveTargets env db targets =
     (if list_ex (\<lambda>t. t = ''*'') targets then GetAllAgentIDs env db else Inr targets)"

datatype create_error = ResolveFailed db_error | NoTargetAgents | InsertJobFailed db_error

fun insert_results :: "db_env \<Rightarrow> string \<Rightarrow> int \<Rightarrow> string list \<Rightarrow> DB \<Rightarrow> DB" where
  "insert_results env jid maxRetry [] db = db"
| "insert_results env jid maxRetry (a # as) db =
     insert_results env jid maxRetry as
       (case InsertDeployResult env db jid a ''pending'' '''' maxRetry of Inl e \<Rightarrow> db | Inr db' \<Rightarrow> db')"

fun pump_all :: "db_env \<Rightarrow> time \<Rightarrow> checksums \<Rightarrow> string list \<Rightarrow> World \<Rightarrow> World" where
  "pump_all env now cks [] w = w"
| "pump_all env now cks (a # as) w = pump_all env now cks as (snd (PumpAgent env now cks w a))"

text \<open>The closing check of \<^verbatim>\<open>CreateJob\<close>: the job is dispatched once no target is pending.\<close>

definition mark_dispatched :: "db_env \<Rightarrow> DeployJob \<Rightarrow> World \<Rightarrow> DeployJob \<times> World" where
  "mark_dispatched env job w =
     (case GetDeployResultsByJobID env (w_db w) (dj_ID job) of
        Inl e \<Rightarrow> (job, w)
      | Inr rows \<Rightarrow>
          if list_ex (\<lambda>r. dr_Status r = ''pending'') rows then (job, w)
          else (case UpdateDeployJobStatus env (w_db w) (dj_ID job) ''dispatched'' of
                  Inl e \<Rightarrow> (job, w)
                | Inr db \<Rightarrow> (job\<lparr>dj_Status := ''dispatched''\<rparr>, w\<lparr>w_db := db\<rparr>)))"

definition CreateJob ::
  "db_env \<Rightarrow> time \<Rightarrow> checksums \<Rightarrow> string \<Rightarrow> World \<Rightarrow> string \<Rightarrow> string \<Rightarrow> string \<Rightarrow> string list \<Rightarrow> int
    \<Rightarrow> time option \<Rightarrow> int \<Rightarrow> string \<Rightarrow> (create_error + DeployJob) \<times> World" where
  "CreateJob env now cks jid w jobType payload args targets priority expireAt maxRetry createdBy =
     (case resolveTargets env (w_db w) targets of
        Inl e \<Rightarrow> (Inl (ResolveFailed e), w)
      | Inr agentIDs \<Rightarrow>
          if agentIDs = [] then (Inl NoTargetAgents, w)
          else
            let job = \<lparr>dj_ID = jid, dj_Type = jobType, dj_Payload = payload, dj_Args = args,
                       dj_Targets = targets, dj_Status = ''pending'', dj_Priority = priority,
                       dj_ExpireAt = expireAt, dj_CreatedBy = createdBy, dj_CreatedAt = now\<rparr> in
            (case InsertDeployJob env (w_db w) job of
               Inl e \<Rightarrow> (Inl (InsertJobFailed e), w)
             | Inr db \<Rightarrow>
                 let w = w\<lparr>w_db := insert_results env jid maxRetry agentIDs db\<rparr>;
                     w = pump_all env now cks agentIDs w;
                     (job, w) = mark_dispatched env job w
                 in (Inr job, w)))"

subsection \<open>The sweepers\<close>

text \<open>A database write whose error is only logged.\<close>

definition logged_update :: "(db_error + nat \<times> DB) \<Rightarrow> World \<Rightarrow> World" where
  "logged_update res w = (case res of Inl e \<Rightarrow> w | Inr (n, db) \<Rightarrow> w\<lparr>w_db := db\<rparr>)"

definition logged_job_status :: "db_env \<Rightarrow> string \<Rightarrow> World \<Rightarrow> World" where
  "logged_job_status env j w = (case UpdateJobStatus env (w_db w) j of Inl e \<Rightarrow> w | Inr db \<Rightarrow> w\<lparr>w_db := db\<rparr>)"

definition destructive_job :: "db_env \<Rightarrow> DB \<Rightarrow> string \<Rightarrow> bool" where
  "destructive_job env db j =
     (case GetDeployJobByID env db j of
        Inl e \<Rightarrow> False
      | Inr None \<Rightarrow> False
      | Inr (Some job) \<Rightarrow> IsDestructivePayload (dj_Type job) (dj_Payload job))"

abbreviation unconfirmed_text :: string where
  "unconfirmed_text \<equiv> ''execution unconfirmed after agent disconnect '' @ [CHR 0xE2, CHR 0x80, CHR 0x94] @ '' NOT retried''"

definition sweep_lease_row :: "db_env \<Rightarrow> time \<Rightarrow> checksums \<Rightarrow> DeployResult \<Rightarrow> World \<Rightarrow> World" where
  "sweep_lease_row env now cks r w =
     (let j = dr_JobID r; a = dr_AgentID r in
      if destructive_job env (w_db w) j then
        logged_job_status env j
          (logged_update (UpdateDeployResult env now (w_db w) j a ''failed'' unconfirmed_text None None None None) w)
      else if dr_RetryCount r + 1 > dr_MaxRetry r then
        logged_job_status env j
          (logged_update (UpdateDeployResult env now (w_db w) j a ''failed''
             ''Lease timeout: retry limit exceeded'' None None None None) w)
      else
        logged_job_status env j
          (snd (PumpAgent env now cks
             (logged_update (UpdateDeployResult env now (w_db w) j a ''pending'' ''Lease timeout: retrying''
                None None (Some (dr_RetryCount r + 1)) None) w) a)))"

definition sweepExpiredLeases :: "db_env \<Rightarrow> time \<Rightarrow> checksums \<Rightarrow> World \<Rightarrow> World" where
  "sweepExpiredLeases env now cks w =
     (case GetExpiredLeaseResults env now (w_db w) of
        Inl e \<Rightarrow> w
      | Inr expired \<Rightarrow> fold (sweep_lease_row env now cks) expired w)"

definition expire_row :: "db_env \<Rightarrow> time \<Rightarrow> DeployResult \<Rightarrow> World \<Rightarrow> World" where
  "expire_row env now r w =
     logged_job_status env (dr_JobID r)
       (logged_update (UpdateDeployResult env now (w_db w) (dr_JobID r) (dr_AgentID r) ''expired''
          ''Expired before execution'' None None None None) w)"

definition sweepExpiredPending :: "db_env \<Rightarrow> time \<Rightarrow> World \<Rightarrow> World" where
  "sweepExpiredPending env now w =
     (case GetExpiredPendingResults env now (w_db w) of
        Inl e \<Rightarrow> w
      | Inr rows \<Rightarrow> fold (expire_row env now) rows w)"

text \<open>One tick of \<^verbatim>\<open>StartLeaseSweeper\<close>.\<close>

definition lease_sweeper_tick :: "db_env \<Rightarrow> time \<Rightarrow> checksums \<Rightarrow> World \<Rightarrow> World" where
  "lease_sweeper_tick env now cks w = sweepExpiredPending env now (sweepExpiredLeases env now cks w)"

text \<open>
  \<^verbatim>\<open>generateJobID\<close> on the sixteen random bytes: the version and variant bits of a UUID, then the
  bytes in hexadecimal with dashes.
\<close>

definition hex_byte :: "8 word \<Rightarrow> string" where
  "hex_byte b = [hex_digit (unat b div 16), hex_digit (unat b mod 16)]"

unbundle bit_operations_syntax

definition uuid_bits :: "8 word list \<Rightarrow> 8 word list" where
  "uuid_bits b = b[6 := ((b ! 6) AND 0x0f) OR 0x40, 8 := ((b ! 8) AND 0x3f) OR 0x80]"

definition generateJobID :: "8 word list \<Rightarrow> string" where
  "generateJobID random =
     (let b = uuid_bits random; part = (\<lambda>i n. concat (map hex_byte (take n (drop i b)))) in
      part 0 4 @ ''-'' @ part 4 2 @ ''-'' @ part 6 2 @ ''-'' @ part 8 2 @ ''-'' @ part 10 6)"

end
