(* ===== verification/Queue_Machine.thy ===== *)
theory Queue_Machine
  imports Deployer
begin

text \<open>
  The job queue as a state machine.  A step is one database statement, issued with the arguments the
  server issues it with, so a path of steps is any interleaving of the goroutines that share the
  database (result handlers, pumps, the sweeper, the admin API).  Each operation of
  \<^verbatim>\<open>server/deploy.go\<close> is shown to be a path of steps; the invariant and the "never undone" property
  then hold for all of them at once.
\<close>

subsection \<open>Steps\<close>

text \<open>
  \<open>q_insert_result\<close>: a target listed twice gets its second row while the first is not cancelled.
  \<open>q_update\<close>: every caller but an agent's report writes a fixed status, none of them
  \<^verbatim>\<open>running\<close>, and no retry count.  \<open>q_requeue\<close>: the sweeper writes the row it read earlier, so the
  count is only known to be within the budget.  \<open>q_other\<close>: a statement on another table.
\<close>

inductive queue_step :: "DB \<Rightarrow> DB \<Rightarrow> bool" where
  q_insert_job: "InsertDeployJob env db job = Inr db' \<Longrightarrow> queue_step db db'"
| q_insert_result: "InsertDeployResult env db j a st out mr = Inr db' \<Longrightarrow> st \<noteq> ''running'' \<Longrightarrow>
     (\<forall>r \<in> set (deploy_results db). row_key r = (j, a) \<longrightarrow> dr_MaxRetry r = mr \<and> dr_Status r \<noteq> ''cancelled'') \<Longrightarrow>
     queue_step db db'"
| q_acquire: "queue_step db (snd (AcquireNextJob env now db a l))"
| q_update: "UpdateDeployResult env now db j a st out ec dur None att = Inr (n, db') \<Longrightarrow> st \<noteq> ''running'' \<Longrightarrow>
     queue_step db db'"
| q_requeue: "UpdateDeployResult env now db j a ''pending'' out None None (Some k) None = Inr (n, db') \<Longrightarrow>
     retry_in_budget db j a (Some k) \<Longrightarrow> queue_step db db'"
| q_cancel: "queue_step db (snd (CancelDeployJob env db j))"
| q_job_status: "UpdateDeployJobStatus env db j st = Inr db' \<Longrightarrow> queue_step db db'"
| q_other: "deploy_results db' = deploy_results db \<Longrightarrow> deploy_jobs db' = deploy_jobs db \<Longrightarrow> queue_step db db'"

inductive_cases queue_stepE: "queue_step db db'"

text \<open>With the removal of an agent, which drops its rows.\<close>

inductive server_step :: "DB \<Rightarrow> DB \<Rightarrow> bool" where
  s_queue: "queue_step db db' \<Longrightarrow> server_step db db'"
| s_delete_agent: "DeleteAgent env db a = Inr db' \<Longrightarrow> server_step db db'"

inductive_simps server_step_iff: "server_step db db'"

definition all_cancelled :: "string \<Rightarrow> string \<Rightarrow> DB \<Rightarrow> bool" where
  "all_cancelled j a db \<longleftrightarrow>
     list_ex (\<lambda>r. row_key r = (j, a)) (deploy_results db)
     \<and> list_all (\<lambda>r. row_key r = (j, a) \<longrightarrow> dr_Status r = ''cancelled'') (deploy_results db)"

subsection \<open>The invariant\<close>

lemma queue_step_inv: "queue_step db db' \<Longrightarrow> queue_inv db \<Longrightarrow> queue_inv db'"
proof (induction rule: queue_step.induct)
  case (q_insert_result env db j a st out mr db')
  then have "\<And>r. r \<in> set (deploy_results db) \<Longrightarrow> row_key r = (j, a) \<Longrightarrow> dr_MaxRetry r = mr" by blast
  from InsertDeployResult_inv [OF q_insert_result(4,1,2) this] show ?case .
next
  case (q_update env now db j a st out ec dur att n db')
  have "retry_in_budget db j a None" by (simp add: retry_in_budget_def)
  from UpdateDeployResult_inv [OF q_update(3,2) this q_update(1)] show ?case .
next
  case (q_requeue env now db j a out k n db')
  have "''pending'' \<noteq> ''running''" by simp
  from UpdateDeployResult_inv [OF q_requeue(3) this q_requeue(2,1)] show ?case .
next
  case (q_other db' db)
  then show ?case using queue_inv_cong [of db' db] by simp
next
  case (q_insert_job env db job db')
  from InsertDeployJob_inv [OF q_insert_job(2,1)] show ?case .
next
  case (q_job_status env db j st db')
  from UpdateDeployJobStatus_inv [OF q_job_status(2,1)] show ?case .
qed (rule AcquireNextJob_inv CancelDeployJob_inv, assumption)+

lemma DeleteAgent_inv:
  assumes "queue_inv db" "DeleteAgent env db a = Inr db'"
  shows "queue_inv db'"
proof -
  from assms(2) have db': "deploy_results db' = filter (\<lambda>r. dr_AgentID r \<noteq> a) (deploy_results db)"
      "deploy_jobs db' = deploy_jobs db"
    by (auto simp: DeleteAgent_def split: if_splits)
  have sub: "set (deploy_results db') \<subseteq> set (deploy_results db)" by (auto simp: db')
  show ?thesis
  proof (rule queue_invI)
    show "list_all row_ok (deploy_results db')"
      using queue_invD(1) [OF assms(1)] sub by (auto simp: list_all_iff)
    show "one_running (deploy_results db')"
      using queue_invD(2) [OF assms(1)] sub unfolding one_running_def by blast
    show "same_budget (deploy_results db')"
      using queue_invD(3) [OF assms(1)] sub unfolding same_budget_def by blast
    show "distinct (map dj_ID (deploy_jobs db'))" using queue_invD(4) [OF assms(1)] db' by simp
    show "job_known db' (dr_JobID r)" if "r \<in> set (deploy_results db')" for r
      using queue_invD(5) [OF assms(1), of r] sub that db'(2) by (auto simp: job_known_def)
  qed
qed

interpretation queue: safe_system "\<lambda>db. db = empty_db" server_step queue_inv
proof unfold_locales
  show "\<And>s. s = empty_db \<Longrightarrow> queue_inv s" by (simp add: queue_inv_empty)
  show "\<And>s t. queue_inv s \<Longrightarrow> server_step s t \<Longrightarrow> queue_inv t"
    by (auto simp: server_step_iff intro: queue_step_inv DeleteAgent_inv)
qed

subsection \<open>A cancelled row stays cancelled\<close>

lemma all_cancelled_cong: "deploy_results db' = deploy_results db \<Longrightarrow> all_cancelled j a db' = all_cancelled j a db"
  by (simp add: all_cancelled_def)

lemma all_cancelled_map:
  assumes "all_cancelled j a db"
    and "\<And>r. r \<in> set (deploy_results db) \<Longrightarrow> row_key (f r) = row_key r"
    and "\<And>r. r \<in> set (deploy_results db) \<Longrightarrow> dr_Status r = ''cancelled'' \<Longrightarrow> row_key r = (j, a) \<Longrightarrow>
      dr_Status (f r) = ''cancelled''"
  shows "all_cancelled j a (db\<lparr>deploy_results := map f (deploy_results db)\<rparr>)"
  using assms unfolding all_cancelled_def by (auto simp: list_ex_iff list_all_iff)

lemma UpdateDeployResult_cancelled:
  assumes "all_cancelled j a db" "UpdateDeployResult env now db j' a' st out ec dur rt att = Inr (n, db')"
  shows "all_cancelled j a db'"
proof -
  from assms(2) have db': "db' = db\<lparr>deploy_results := map (\<lambda>r. if update_matches j' a' att r
      then set_result now st out ec dur rt r else r) (deploy_results db)\<rparr>"
    by (auto simp: UpdateDeployResult_def split: if_splits)
  show ?thesis unfolding db'
    by (rule all_cancelled_map [OF assms(1)]) (auto simp: row_key_def set_result_def update_matches_def)
qed

lemma AcquireNextJob_claim:
  assumes "snd (AcquireNextJob env now db a l) \<noteq> db"
  obtains job row where "first_claim (claim_candidates now db a) = Some (job, row)"
    "snd (AcquireNextJob env now db a l) = claim_rows l db (dj_ID job) a"
    "\<not> list_ex (\<lambda>r. dr_AgentID r = a \<and> dr_Status r = ''running'') (deploy_results db)"
  using assms by (auto simp: AcquireNextJob_def Let_def split: if_splits option.splits sum.splits prod.splits)

lemma claimed_row:
  assumes "first_claim (claim_candidates now db a) = Some (job, row)"
  shows "row \<in> set (deploy_results db)" "dr_AgentID row = a" "dr_Status row = ''pending''"
    "job \<in> set (deploy_jobs db)" "dj_ID job = dr_JobID row" "unexpired now job"
  using first_claim_in [OF assms] by (auto simp: claim_candidates_iff)

lemma AcquireNextJob_cancelled:
  assumes "all_cancelled j a db"
  shows "all_cancelled j a (snd (AcquireNextJob env now db b l))"
proof (cases "snd (AcquireNextJob env now db b l) = db")
  case True
  with assms show ?thesis by simp
next
  case False
  then obtain job row where c: "first_claim (claim_candidates now db b) = Some (job, row)"
    and eq: "snd (AcquireNextJob env now db b l) = claim_rows l db (dj_ID job) b"
    by (rule AcquireNextJob_claim)
  have "(dj_ID job, b) \<noteq> (j, a)"
  proof
    assume "(dj_ID job, b) = (j, a)"
    with claimed_row [OF c] have "row \<in> set (deploy_results db)" "row_key row = (j, a)" "dr_Status row \<noteq> ''cancelled''"
      by (auto simp: row_key_def)
    with assms show False by (auto simp: all_cancelled_def list_all_iff)
  qed
  with assms show ?thesis unfolding eq claim_rows_def
    by (intro all_cancelled_map) (auto simp: row_key_def claim_row_def)
qed

lemma UpdateDeployJobStatus_results:
  "UpdateDeployJobStatus env db j st = Inr db' \<Longrightarrow> deploy_results db' = deploy_results db"
  by (auto simp: UpdateDeployJobStatus_def split: if_splits)

lemma CancelDeployJob_cancelled:
  assumes "all_cancelled j a db"
  shows "all_cancelled j a (snd (CancelDeployJob env db k))"
proof (cases "UpdateDeployJobStatus env db k ''cancelled''")
  case (Inl e)
  with assms show ?thesis by (simp add: CancelDeployJob_def)
next
  case (Inr db')
  then have "all_cancelled j a db'"
    using assms UpdateDeployJobStatus_results all_cancelled_cong by blast
  then have "all_cancelled j a (cancel_results db' k)" unfolding cancel_results_def
    by (rule all_cancelled_map) (auto simp: row_key_def cancel_row_def)
  with Inr \<open>all_cancelled j a db'\<close> show ?thesis by (simp add: CancelDeployJob_def)
qed

lemma InsertDeployResult_rows:
  "InsertDeployResult env db j a st out mr = Inr db' \<Longrightarrow>
   deploy_results db' = deploy_results db @ [new_result_row (results_seq db + 1) j a st out mr]"
  by (auto simp: InsertDeployResult_def split: if_splits)

lemma queue_step_cancelled: "queue_step db db' \<Longrightarrow> all_cancelled j a db \<Longrightarrow> all_cancelled j a db'"
proof (induction rule: queue_step.induct)
  case (q_insert_job env db job db')
  then have "deploy_results db' = deploy_results db" by (auto simp: InsertDeployJob_def split: if_splits)
  with q_insert_job(2) show ?case by (simp add: all_cancelled_def)
next
  case (q_insert_result env db j' a' st out mr db')
  obtain r where "r \<in> set (deploy_results db)" "row_key r = (j, a)" "dr_Status r = ''cancelled''"
    using q_insert_result(4) by (auto simp: all_cancelled_def list_ex_iff list_all_iff)
  with q_insert_result(3) have "(j', a') \<noteq> (j, a)" by auto
  with InsertDeployResult_rows [OF q_insert_result(1)] q_insert_result(4) show ?case
    by (auto simp: all_cancelled_def new_result_row_def row_key_def)
next
  case (q_update env now db j' a' st out ec dur att n db')
  then show ?case by (blast intro: UpdateDeployResult_cancelled)
next
  case (q_requeue env now db j' a' out k n db')
  then show ?case by (blast intro: UpdateDeployResult_cancelled)
next
  case (q_job_status env db k st db')
  then show ?case using UpdateDeployJobStatus_results all_cancelled_cong by blast
next
  case (q_other db' db)
  then show ?case using all_cancelled_cong by blast
qed (rule AcquireNextJob_cancelled CancelDeployJob_cancelled, assumption)+

interpretation cancelled: stable_property "\<lambda>db. db = empty_db" queue_step queue_inv "all_cancelled j a" for j a
proof unfold_locales
  show "\<And>s. s = empty_db \<Longrightarrow> queue_inv s" by (simp add: queue_inv_empty)
  show "\<And>s t. queue_inv s \<Longrightarrow> queue_step s t \<Longrightarrow> queue_inv t" by (rule queue_step_inv)
  show "\<And>s t. queue_inv s \<Longrightarrow> all_cancelled j a s \<Longrightarrow> queue_step s t \<Longrightarrow> all_cancelled j a t"
    by (rule queue_step_cancelled)
qed

end
