(* ===== verification/Queue_Paths.thy ===== *)
theory Queue_Paths
  imports Queue_Machine
begin

text \<open>
  Every operation of \<^verbatim>\<open>server/deploy.go\<close> as a path of steps of the queue machine, for every
  pattern of failing statements; and the effect of one claim and of one swept row in detail.
\<close>

definition budget_is :: "string \<times> string \<Rightarrow> int \<Rightarrow> DB \<Rightarrow> bool" where
  "budget_is k m db \<longleftrightarrow>
     list_ex (\<lambda>r. row_key r = k) (deploy_results db)
     \<and> list_all (\<lambda>r. row_key r = k \<longrightarrow> dr_MaxRetry r = m) (deploy_results db)"

definition idle_agent :: "DB \<Rightarrow> string \<Rightarrow> bool" where
  "idle_agent db a \<longleftrightarrow> \<not> list_ex (\<lambda>r. dr_AgentID r = a \<and> dr_Status r = ''running'') (deploy_results db)"

definition no_pending :: "string \<times> string \<Rightarrow> DB \<Rightarrow> bool" where
  "no_pending k db \<longleftrightarrow> list_all (\<lambda>r. row_key r = k \<longrightarrow> dr_Status r \<noteq> ''pending'') (deploy_results db)"

definition rows_of :: "string \<times> string \<Rightarrow> DB \<Rightarrow> DeployResult list" where
  "rows_of k db = filter (\<lambda>r. row_key r = k) (deploy_results db)"

definition messages_of :: "string \<times> string \<Rightarrow> Hub \<Rightarrow> OutgoingMessage list" where
  "messages_of k h = filter (\<lambda>m. om_JobID m = fst k) (queued_for h (snd k))"

definition pump_row :: "DeployResult \<Rightarrow> DeployResult \<Rightarrow> bool" where
  "pump_row r r' \<longleftrightarrow> row_key r' = row_key r \<and> dr_RetryCount r' = dr_RetryCount r
     \<and> (dr_Status r' = dr_Status r \<or> isPendingLikeStatus (dr_Status r'))"

text \<open>The kind of a job never changes.\<close>

definition job_kinds :: "DB \<Rightarrow> (string \<times> string \<times> string) list" where
  "job_kinds db = map (\<lambda>j. (dj_ID j, dj_Type j, dj_Payload j)) (deploy_jobs db)"

subsection \<open>The retry budget of a row never changes\<close>

lemma budget_is_map:
  assumes "budget_is k m db"
    and "\<And>r. row_key (f r) = row_key r" "\<And>r. dr_MaxRetry (f r) = dr_MaxRetry r"
  shows "budget_is k m (db\<lparr>deploy_results := map f (deploy_results db)\<rparr>)"
  using assms unfolding budget_is_def by (auto simp: list_ex_iff list_all_iff)

lemma budget_is_cong: "deploy_results db' = deploy_results db \<Longrightarrow> budget_is k m db' = budget_is k m db"
  by (simp add: budget_is_def)

lemma UpdateDeployResult_rows:
  "UpdateDeployResult env now db j a st out ec dur rt att = Inr (n, db') \<Longrightarrow>
   db' = db\<lparr>deploy_results := map (\<lambda>r. if update_matches j a att r
      then set_result now st out ec dur rt r else r) (deploy_results db)\<rparr>"
  by (auto simp: UpdateDeployResult_def split: if_splits)

lemma UpdateDeployResult_budget:
  assumes "UpdateDeployResult env now db j a st out ec dur rt att = Inr (n, db')" "budget_is k m db"
  shows "budget_is k m db'"
  unfolding UpdateDeployResult_rows [OF assms(1)]
  by (rule budget_is_map [OF assms(2)]) (simp_all add: row_key_def set_result_def)

lemma queue_step_budget: "queue_step db db' \<Longrightarrow> budget_is k m db \<Longrightarrow> budget_is k m db'"
proof (induction rule: queue_step.induct)
  case (q_insert_job env db job db')
  then have "deploy_results db' = deploy_results db" by (auto simp: InsertDeployJob_def split: if_splits)
  with q_insert_job(2) show ?case using budget_is_cong by blast
next
  case (q_insert_result env db j a st out mr db')
  obtain r where r: "r \<in> set (deploy_results db)" "row_key r = k" "dr_MaxRetry r = m"
    using q_insert_result(4) by (auto simp: budget_is_def list_ex_iff list_all_iff)
  let ?row = "new_result_row (results_seq db + 1) j a st out mr"
  have "row_key ?row = (j, a)" "dr_MaxRetry ?row = mr" by (simp_all add: new_result_row_def row_key_def)
  moreover have "k = (j, a) \<Longrightarrow> mr = m" using q_insert_result(3) r by blast
  ultimately have "row_key ?row = k \<longrightarrow> dr_MaxRetry ?row = m" by metis
  with q_insert_result(4) show ?case
    unfolding budget_is_def InsertDeployResult_rows [OF q_insert_result(1)] by simp
next
  case (q_acquire db env now a l)
  show ?case
  proof (cases "snd (AcquireNextJob env now db a l) = db")
    case False
    then obtain job row where "first_claim (claim_candidates now db a) = Some (job, row)"
      and eq: "snd (AcquireNextJob env now db a l) = claim_rows l db (dj_ID job) a"
      by (rule AcquireNextJob_claim)
    show ?thesis unfolding eq claim_rows_def
      by (rule budget_is_map [OF q_acquire]) (simp_all add: row_key_def claim_row_def)
  qed (simp add: q_acquire)
next
  case (q_cancel db env j)
  show ?case
  proof (cases "UpdateDeployJobStatus env db j ''cancelled''")
    case (Inr db')
    then have b: "budget_is k m db'" using UpdateDeployJobStatus_results budget_is_cong q_cancel by blast
    then have "budget_is k m (cancel_results db' j)" unfolding cancel_results_def
      by (rule budget_is_map) (simp_all add: row_key_def cancel_row_def)
    with b Inr show ?thesis by (simp add: CancelDeployJob_def)
  qed (simp add: CancelDeployJob_def q_cancel)
next
  case (q_job_status env db j st db')
  then show ?case using UpdateDeployJobStatus_results budget_is_cong by blast
next
  case (q_other db' db)
  then show ?case using budget_is_cong by blast
qed (blast intro: UpdateDeployResult_budget)+

interpretation budget: stable_property "\<lambda>db. db = empty_db" queue_step queue_inv "budget_is k m" for k m
  by unfold_locales (simp_all add: queue_inv_empty queue_step_inv queue_step_budget)

lemma queue_steps_budget: "queue_step\<^sup>*\<^sup>* db db' \<Longrightarrow> budget_is k m db \<Longrightarrow> budget_is k m db'"
  by (induction rule: rtranclp_induct) (auto intro: queue_step_budget)

lemma queue_steps_inv: "queue_step\<^sup>*\<^sup>* db db' \<Longrightarrow> queue_inv db \<Longrightarrow> queue_inv db'"
  by (induction rule: rtranclp_induct) (auto intro: queue_step_inv)

lemma queue_steps_cancelled: "queue_step\<^sup>*\<^sup>* db db' \<Longrightarrow> all_cancelled j a db \<Longrightarrow> all_cancelled j a db'"
  by (induction rule: rtranclp_induct) (auto intro: queue_step_cancelled)

lemma queue_inv_budget:
  assumes "queue_inv db" "r \<in> set (deploy_results db)"
  shows "budget_is (row_key r) (dr_MaxRetry r) db"
  using assms same_budgetD [OF queue_invD(3) [OF assms(1)]] unfolding budget_is_def list_ex_iff list_all_iff by blast

lemma retry_in_budgetI:
  assumes "budget_is (j, a) m db" "0 \<le> k" "k \<le> m"
  shows "retry_in_budget db j a (Some k)"
  using assms by (auto simp: retry_in_budget_def budget_is_def list_all_iff)

subsection \<open>Operations as paths\<close>

lemma logged_update_steps:
  assumes "\<And>n db. res = Inr (n, db) \<Longrightarrow> queue_step (w_db w) db"
  shows "queue_step\<^sup>*\<^sup>* (w_db w) (w_db (logged_update res w))"
  using assms by (auto simp: logged_update_def split: sum.splits)

lemma logged_job_status_steps: "queue_step\<^sup>*\<^sup>* (w_db w) (w_db (logged_job_status env j w))"
  by (auto simp: logged_job_status_def UpdateJobStatus_def intro: q_job_status split: sum.splits if_splits)

lemma dispatch_db [simp]: "w_db (snd (dispatch cks w a job n)) = w_db w"
  by (simp add: dispatch_def send_to_def Let_def split: prod.splits)

lemma PumpAgent_steps: "queue_step\<^sup>*\<^sup>* (w_db w) (w_db (snd (PumpAgent env now cks w a)))"
proof -
  let ?acq = "AcquireNextJob env now (w_db w) a (now + leaseMinutes env (w_db w))"
  obtain res db1 where acq: "?acq = (res, db1)" by fastforce
  have s1: "queue_step (w_db w) db1" using q_acquire [of "w_db w"] acq by (metis snd_conv)
  show ?thesis
  proof (cases "\<exists>job n. res = Inr (Some (job, n))")
    case False
    then have "w_db (snd (PumpAgent env now cks w a)) = db1"
      by (auto simp: PumpAgent_def acq split: sum.splits option.splits)
    with s1 show ?thesis by auto
  next
    case True
    then obtain job n where res: "res = Inr (Some (job, n))" by blast
    obtain sent w1 where d: "dispatch cks (w\<lparr>w_db := db1\<rparr>) a job n = (sent, w1)" by fastforce
    have w1: "w_db w1 = db1" using dispatch_db [of cks "w\<lparr>w_db := db1\<rparr>" a job n] d by simp
    let ?upd = "UpdateDeployResult env now db1 (dj_ID job) a ''pending'' '''' None None None None"
    show ?thesis
    proof (cases sent)
      case True
      with s1 w1 show ?thesis by (auto simp: PumpAgent_def acq res d)
    next
      case False
      have "queue_step db1 db2" if "?upd = Inr (k, db2)" for k db2
        by (rule q_update [OF that]) simp
      with False s1 w1 show ?thesis
        by (auto simp: PumpAgent_def acq res d split: sum.splits)
    qed
  qed
qed

lemma pump_all_steps: "queue_step\<^sup>*\<^sup>* (w_db w) (w_db (pump_all env now cks as w))"
  by (induction as arbitrary: w) (auto intro: PumpAgent_steps rtranclp_trans)

lemma sweep_lease_row_steps:
  assumes "queue_step\<^sup>*\<^sup>* db (w_db w)" "budget_is (row_key r) (dr_MaxRetry r) db" "0 \<le> dr_RetryCount r"
  shows "queue_step\<^sup>*\<^sup>* db (w_db (sweep_lease_row env now cks r w))"
proof -
  let ?j = "dr_JobID r" and ?a = "dr_AgentID r"
  have fail: "queue_step\<^sup>*\<^sup>* (w_db w) (w_db (logged_update (UpdateDeployResult env now (w_db w) ?j ?a ''failed'' out None None None None) w))"
    for out by (rule logged_update_steps) (auto intro: q_update)
  have b: "budget_is (?j, ?a) (dr_MaxRetry r) (w_db w)"
    using queue_steps_budget [OF assms(1,2)] by (simp add: row_key_def)
  have requeue: "queue_step\<^sup>*\<^sup>* (w_db w) (w_db (logged_update (UpdateDeployResult env now (w_db w) ?j ?a ''pending''
      ''Lease timeout: retrying'' None None (Some (dr_RetryCount r + 1)) None) w))"
    if "dr_RetryCount r + 1 \<le> dr_MaxRetry r"
    using retry_in_budgetI [OF b, of "dr_RetryCount r + 1"] assms(3) that
    by (intro logged_update_steps) (auto intro: q_requeue)
  have "queue_step\<^sup>*\<^sup>* (w_db w) (w_db (sweep_lease_row env now cks r w))"
    using rtranclp_trans [OF fail logged_job_status_steps]
      rtranclp_trans [OF rtranclp_trans [OF requeue PumpAgent_steps] logged_job_status_steps]
    by (simp add: sweep_lease_row_def Let_def)
  with assms(1) show ?thesis by (rule rtranclp_trans)
qed

lemma sweep_fold_steps:
  assumes "queue_inv db" "set rows \<subseteq> set (deploy_results db)" "queue_step\<^sup>*\<^sup>* db (w_db w)"
  shows "queue_step\<^sup>*\<^sup>* db (w_db (fold (sweep_lease_row env now cks) rows w))"
  using assms(2,3)
proof (induction rows arbitrary: w)
  case (Cons r rows)
  have r: "r \<in> set (deploy_results db)" using Cons.prems by simp
  have "0 \<le> dr_RetryCount r" using queue_inv_row [OF assms(1) r] by (simp add: row_ok_def)
  from sweep_lease_row_steps [OF Cons.prems(2) queue_inv_budget [OF assms(1) r] this] Cons show ?case by simp
qed simp

lemma sweepExpiredLeases_steps:
  "queue_inv (w_db w) \<Longrightarrow> queue_step\<^sup>*\<^sup>* (w_db w) (w_db (sweepExpiredLeases env now cks w))"
  by (auto simp: sweepExpiredLeases_def GetExpiredLeaseResults_def intro: sweep_fold_steps split: sum.splits if_splits)

lemma expire_row_steps: "queue_step\<^sup>*\<^sup>* (w_db w) (w_db (expire_row env now r w))"
proof -
  have "queue_step\<^sup>*\<^sup>* (w_db w) (w_db (logged_update (UpdateDeployResult env now (w_db w) (dr_JobID r) (dr_AgentID r)
     ''expired'' ''Expired before execution'' None None None None) w))"
    by (rule logged_update_steps) (auto intro: q_update)
  with logged_job_status_steps show ?thesis unfolding expire_row_def by (auto intro: rtranclp_trans)
qed

lemma sweepExpiredPending_steps: "queue_step\<^sup>*\<^sup>* (w_db w) (w_db (sweepExpiredPending env now w))"
proof -
  have "queue_step\<^sup>*\<^sup>* (w_db w) (w_db (fold (expire_row env now) rows w))" for rows
    by (induction rows arbitrary: w) (auto intro: expire_row_steps rtranclp_trans)
  then show ?thesis by (simp add: sweepExpiredPending_def split: sum.splits)
qed

lemma lease_sweeper_tick_steps:
  "queue_inv (w_db w) \<Longrightarrow> queue_step\<^sup>*\<^sup>* (w_db w) (w_db (lease_sweeper_tick env now cks w))"
  unfolding lease_sweeper_tick_def
  by (rule rtranclp_trans [OF sweepExpiredLeases_steps sweepExpiredPending_steps])

lemma insert_results_steps:
  assumes "list_all (\<lambda>r. dr_JobID r = j \<longrightarrow> dr_MaxRetry r = mr \<and> dr_Status r \<noteq> ''cancelled'') (deploy_results db)"
  shows "queue_step\<^sup>*\<^sup>* db (insert_results env j mr as db)"
  using assms
proof (induction as arbitrary: db)
  case (Cons a as)
  show ?case
  proof (cases "InsertDeployResult env db j a ''pending'' '''' mr")
    case (Inl e)
    with Cons show ?thesis by simp
  next
    case (Inr db')
    have row: "\<forall>r \<in> set (deploy_results db). row_key r = (j, a) \<longrightarrow> dr_MaxRetry r = mr \<and> dr_Status r \<noteq> ''cancelled''"
      using Cons.prems by (auto simp: list_all_iff row_key_def)
    have s: "queue_step db db'" by (rule q_insert_result [OF Inr _ row]) simp
    have "list_all (\<lambda>r. dr_JobID r = j \<longrightarrow> dr_MaxRetry r = mr \<and> dr_Status r \<noteq> ''cancelled'') (deploy_results db')"
      using Cons.prems InsertDeployResult_rows [OF Inr] by (simp add: new_result_row_def)
    with Cons.IH have "queue_step\<^sup>*\<^sup>* db' (insert_results env j mr as db')" .
    with s Inr show ?thesis by (simp add: converse_rtranclp_into_rtranclp)
  qed
qed simp

lemma mark_dispatched_steps: "queue_step\<^sup>*\<^sup>* (w_db w) (w_db (snd (mark_dispatched env job w)))"
  by (auto simp: mark_dispatched_def intro: q_job_status split: sum.splits)

lemma CreateJob_steps:
  assumes "queue_inv (w_db w)"
  shows "queue_step\<^sup>*\<^sup>* (w_db w) (w_db (snd (CreateJob env now cks jid w ty pl ar ts pr ex mr by')))"
proof -
  let ?job = "\<lparr>dj_ID = jid, dj_Type = ty, dj_Payload = pl, dj_Args = ar, dj_Targets = ts, dj_Status = ''pending'',
    dj_Priority = pr, dj_ExpireAt = ex, dj_CreatedBy = by', dj_CreatedAt = now\<rparr>"
  have path: "queue_step\<^sup>*\<^sup>* (w_db w) (w_db (snd (mark_dispatched env ?job
      (pump_all env now cks ids (w\<lparr>w_db := insert_results env jid mr ids db\<rparr>)))))"
    if ins: "InsertDeployJob env (w_db w) ?job = Inr db" for ids db
  proof -
    have rows: "deploy_results db = deploy_results (w_db w)" and new: "\<not> job_known (w_db w) jid"
      using ins by (auto simp: InsertDeployJob_def split: if_splits)
    have "\<forall>r \<in> set (deploy_results (w_db w)). dr_JobID r \<noteq> jid"
      using queue_invD(5) [OF assms] new by blast
    then have "list_all (\<lambda>r. dr_JobID r = jid \<longrightarrow> dr_MaxRetry r = mr \<and> dr_Status r \<noteq> ''cancelled'') (deploy_results db)"
      by (auto simp: list_all_iff rows)
    then have "queue_step\<^sup>*\<^sup>* db (insert_results env jid mr ids db)" by (rule insert_results_steps)
    moreover have "queue_step (w_db w) db" by (rule q_insert_job [OF ins])
    moreover have "queue_step\<^sup>*\<^sup>* (insert_results env jid mr ids db)
        (w_db (pump_all env now cks ids (w\<lparr>w_db := insert_results env jid mr ids db\<rparr>)))"
      using pump_all_steps [of "w\<lparr>w_db := insert_results env jid mr ids db\<rparr>"] by simp
    ultimately show ?thesis
      by (meson converse_rtranclp_into_rtranclp mark_dispatched_steps rtranclp_trans)
  qed
  show ?thesis
    using path by (auto simp: CreateJob_def Let_def split: sum.splits prod.splits)
      (metis snd_conv)+
qed

subsection \<open>What a pump leaves alone\<close>

text \<open>
  A pump rewrites rows one by one, keeps keys and retry counts, and changes a status only to
  \<^verbatim>\<open>running\<close> or back to \<^verbatim>\<open>pending\<close>; rows whose key has no pending row are untouched.
\<close>

lemma rows_of_map_other:
  assumes "\<And>r. row_key (f r) = row_key r" "\<And>r. row_key r = k \<Longrightarrow> f r = r"
  shows "rows_of k (db\<lparr>deploy_results := map f (deploy_results db)\<rparr>) = rows_of k db"
proof -
  have "filter (\<lambda>r. row_key r = k) (map f xs) = filter (\<lambda>r. row_key r = k) xs" for xs
    using assms by (induction xs) auto
  then show ?thesis by (simp add: rows_of_def)
qed

lemma rows_filter_map: "(\<And>r. row_key (f r) = row_key r) \<Longrightarrow>
   filter (\<lambda>r. row_key r = k) (map f xs) = map f (filter (\<lambda>r. row_key r = k) xs)"
  by (induction xs) auto

lemma all_cancelled_iff:
  "all_cancelled j a db \<longleftrightarrow> rows_of (j, a) db \<noteq> [] \<and> list_all (\<lambda>r. dr_Status r = ''cancelled'') (rows_of (j, a) db)"
  unfolding all_cancelled_def rows_of_def list_all_iff list_ex_iff filter_empty_conv set_filter by blast

lemma no_pending_iff: "no_pending k db \<longleftrightarrow> list_all (\<lambda>r. dr_Status r \<noteq> ''pending'') (rows_of k db)"
  unfolding no_pending_def rows_of_def list_all_iff set_filter by blast

lemma no_pending_rows: "rows_of k db' = rows_of k db \<Longrightarrow> no_pending k db' = no_pending k db"
  by (simp add: no_pending_iff)

lemma UpdateDeployResult_other:
  assumes "UpdateDeployResult env now db j a st out ec dur rt att = Inr (n, db')" "k \<noteq> (j, a)"
  shows "rows_of k db' = rows_of k db"
  unfolding UpdateDeployResult_rows [OF assms(1)] using assms(2)
  by (intro rows_of_map_other) (auto simp: row_key_def set_result_def update_matches_def)

lemma claim_rows_other: "k \<noteq> (j, a) \<Longrightarrow> rows_of k (claim_rows l db j a) = rows_of k db"
  unfolding claim_rows_def by (rule rows_of_map_other) (auto simp: row_key_def claim_row_def)

lemma pump_row_refl [simp]: "pump_row r r"
  by (simp add: pump_row_def)

lemma pump_rows_claim: "list_all2 pump_row (deploy_results db) (deploy_results (claim_rows l db j a))"
  by (simp add: claim_rows_def list_all2_conv_all_nth pump_row_def row_key_def claim_row_def isPendingLikeStatus_def)

lemma pump_rows_release:
  assumes "UpdateDeployResult env now db j a ''pending'' out None None None att = Inr (n, db')"
  shows "list_all2 pump_row (deploy_results db) (deploy_results db')"
  unfolding UpdateDeployResult_rows [OF assms]
  by (simp add: list_all2_conv_all_nth pump_row_def row_key_def set_result_def isPendingLikeStatus_def)

lemma pump_row_trans: "pump_row r s \<Longrightarrow> pump_row s t \<Longrightarrow> pump_row r t"
  unfolding pump_row_def by metis

lemma pump_rows_refl: "list_all2 pump_row xs xs"
  by (simp add: list.rel_refl)

lemma pump_rows_trans: "list_all2 pump_row xs ys \<Longrightarrow> list_all2 pump_row ys zs \<Longrightarrow> list_all2 pump_row xs zs"
  by (rule list_all2_trans [OF pump_row_trans])

text \<open>The three ways a pump ends: nothing claimed, claimed and (maybe) sent, claimed and released.\<close>

lemma AcquireNextJob_cases:
  obtains "snd (AcquireNextJob env now db a l) = db" "\<And>x. fst (AcquireNextJob env now db a l) \<noteq> Inr (Some x)"
  | job row where "first_claim (claim_candidates now db a) = Some (job, row)"
      "snd (AcquireNextJob env now db a l) = claim_rows l db (dj_ID job) a"
      "\<And>x n. fst (AcquireNextJob env now db a l) = Inr (Some (x, n)) \<Longrightarrow> dj_ID x = dj_ID job"
proof (cases "env [''AcquireNextJob'', a] \<or> list_ex (\<lambda>r. dr_AgentID r = a \<and> dr_Status r = ''running'') (deploy_results db)
    \<or> first_claim (claim_candidates now db a) = None")
  case True
  then show thesis using that(1) by (auto simp: AcquireNextJob_def)
next
  case False
  then obtain job row where c: "first_claim (claim_candidates now db a) = Some (job, row)" by auto
  have "dj_ID x = dj_ID job" if "fst (AcquireNextJob env now db a l) = Inr (Some (x, n))" for x n
    using that c False
    by (auto simp: AcquireNextJob_def Let_def GetDeployJobByID_def find_Some_iff split: sum.splits option.splits if_splits)
  moreover have "snd (AcquireNextJob env now db a l) = claim_rows l db (dj_ID job) a"
    using c False by (auto simp: AcquireNextJob_def Let_def split: sum.splits option.splits)
  ultimately show thesis using that(2) [OF c] by blast
qed

lemma PumpAgent_cases:
  obtains (idle) "snd (PumpAgent env now cks w a) = w"
  | (claim) job row where "first_claim (claim_candidates now (w_db w) a) = Some (job, row)"
      "w_hub (snd (PumpAgent env now cks w a)) = w_hub w
       \<or> (\<exists>msg. om_JobID msg = dj_ID job \<and> w_hub (snd (PumpAgent env now cks w a)) = snd (SendToAgent (w_hub w) a msg))"
      "w_db (snd (PumpAgent env now cks w a)) = claim_rows (now + leaseMinutes env (w_db w)) (w_db w) (dj_ID job) a
       \<or> (\<exists>n. UpdateDeployResult env now (claim_rows (now + leaseMinutes env (w_db w)) (w_db w) (dj_ID job) a)
            (dj_ID job) a ''pending'' '''' None None None None = Inr (n, w_db (snd (PumpAgent env now cks w a))))"
proof -
  let ?l = "now + leaseMinutes env (w_db w)"
  let ?acq = "AcquireNextJob env now (w_db w) a ?l"
  show thesis
  proof (rule AcquireNextJob_cases [of env now "w_db w" a ?l])
    assume "snd ?acq = w_db w" "\<And>x. fst ?acq \<noteq> Inr (Some x)"
    then have "snd (PumpAgent env now cks w a) = w"
      by (cases ?acq) (auto simp: PumpAgent_def split: sum.splits option.splits)
    then show thesis by (rule idle)
  next
    fix job row
    assume c: "first_claim (claim_candidates now (w_db w) a) = Some (job, row)"
      and db: "snd ?acq = claim_rows ?l (w_db w) (dj_ID job) a"
      and id: "\<And>x n. fst ?acq = Inr (Some (x, n)) \<Longrightarrow> dj_ID x = dj_ID job"
    show thesis
    proof (cases "\<exists>x n. fst ?acq = Inr (Some (x, n))")
      case False
      then have "snd (PumpAgent env now cks w a) = w\<lparr>w_db := snd ?acq\<rparr>"
        by (cases ?acq) (auto simp: PumpAgent_def split: sum.splits option.splits)
      with db show thesis by (intro claim [OF c]) simp_all
    next
      case True
      then obtain x n where x: "?acq = (Inr (Some (x, n)), snd ?acq)" by (metis prod.collapse)
      with id have xid: "dj_ID x = dj_ID job" by (metis fst_conv)
      let ?msg = "dispatch_message cks x n"
      have msg: "om_JobID ?msg = dj_ID job" using xid by (simp add: dispatch_message_def Let_def)
      have eq: "PumpAgent env now cks w a =
        (let (sent, w') = dispatch cks (w\<lparr>w_db := snd ?acq\<rparr>) a x n in
           if sent then (True, w')
           else (False, case UpdateDeployResult env now (w_db w') (dj_ID x) a ''pending'' '''' None None None None of
               Inl e \<Rightarrow> w' | Inr (n, db') \<Rightarrow> w'\<lparr>w_db := db'\<rparr>))"
        by (subst PumpAgent_def, subst x) simp
      obtain s h where send: "SendToAgent (w_hub w) a ?msg = (s, h)" by fastforce
      show thesis
      proof (rule claim [OF c])
        have "w_hub (snd (PumpAgent env now cks w a)) = h"
          by (auto simp: eq dispatch_def send_to_def send split: sum.splits)
        with send msg show "w_hub (snd (PumpAgent env now cks w a)) = w_hub w
          \<or> (\<exists>msg. om_JobID msg = dj_ID job \<and> w_hub (snd (PumpAgent env now cks w a)) = snd (SendToAgent (w_hub w) a msg))"
          by (metis snd_conv)
        show "w_db (snd (PumpAgent env now cks w a)) = claim_rows ?l (w_db w) (dj_ID job) a
          \<or> (\<exists>n. UpdateDeployResult env now (claim_rows ?l (w_db w) (dj_ID job) a) (dj_ID job) a ''pending'' ''''
              None None None None = Inr (n, w_db (snd (PumpAgent env now cks w a))))"
          by (auto simp: eq dispatch_def send_to_def send db xid split: sum.splits)
      qed
    qed
  qed
qed

lemma PumpAgent_rows:
  "list_all2 pump_row (deploy_results (w_db w)) (deploy_results (w_db (snd (PumpAgent env now cks w a))))"
proof (rule PumpAgent_cases [of env now cks w a])
  assume "snd (PumpAgent env now cks w a) = w"
  then show ?thesis by (simp add: pump_rows_refl)
next
  fix job :: DeployJob and row :: DeployResult
  let ?db = "claim_rows (now + leaseMinutes env (w_db w)) (w_db w) (dj_ID job) a"
  let ?db' = "w_db (snd (PumpAgent env now cks w a))"
  assume "?db' = ?db \<or> (\<exists>n. UpdateDeployResult env now ?db (dj_ID job) a ''pending'' '''' None None None None = Inr (n, ?db'))"
  then show ?thesis
    using pump_rows_claim [of "w_db w"] pump_rows_release pump_rows_trans by metis
qed

lemma PumpAgent_no_pending:
  assumes np: "no_pending k (w_db w)" and hub: "hub_inv (w_hub w)"
  shows "rows_of k (w_db (snd (PumpAgent env now cks w a))) = rows_of k (w_db w)"
    "messages_of k (w_hub (snd (PumpAgent env now cks w a))) = messages_of k (w_hub w)"
proof -
  let ?w' = "snd (PumpAgent env now cks w a)"
  have "rows_of k (w_db ?w') = rows_of k (w_db w) \<and> messages_of k (w_hub ?w') = messages_of k (w_hub w)"
  proof (rule PumpAgent_cases [of env now cks w a])
    assume "?w' = w"
    then show ?thesis by simp
  next
    fix job :: DeployJob and row :: DeployResult
    let ?db = "claim_rows (now + leaseMinutes env (w_db w)) (w_db w) (dj_ID job) a"
    assume c: "first_claim (claim_candidates now (w_db w) a) = Some (job, row)"
      and h: "w_hub ?w' = w_hub w \<or> (\<exists>msg. om_JobID msg = dj_ID job \<and> w_hub ?w' = snd (SendToAgent (w_hub w) a msg))"
      and d: "w_db ?w' = ?db \<or> (\<exists>n. UpdateDeployResult env now ?db (dj_ID job) a ''pending'' '''' None None None None = Inr (n, w_db ?w'))"
    have k: "k \<noteq> (dj_ID job, a)"
      using claimed_row [OF c] np by (auto simp: no_pending_def list_all_iff row_key_def)
    have "messages_of k (snd (SendToAgent (w_hub w) a msg)) = messages_of k (w_hub w)" if "om_JobID msg = dj_ID job" for msg
    proof (cases "snd k = a")
      case True
      with k have "fst k \<noteq> dj_ID job" by (metis prod.collapse)
      with that True show ?thesis
        using SendToAgent_sent [of "w_hub w" a msg] SendToAgent_not_sent [of "w_hub w" a msg]
        by (cases "fst (SendToAgent (w_hub w) a msg) = Some True") (auto simp: messages_of_def)
    next
      case False
      with SendToAgent_other [OF hub, of "snd k" a] show ?thesis by (simp add: messages_of_def)
    qed
    moreover have "rows_of k (w_db ?w') = rows_of k (w_db w)"
      using d claim_rows_other [OF k] UpdateDeployResult_other [OF _ k] by metis
    ultimately show ?thesis using h by auto
  qed
  then show "rows_of k (w_db ?w') = rows_of k (w_db w)" "messages_of k (w_hub ?w') = messages_of k (w_hub w)"
    by simp_all
qed

lemma PumpAgent_hub_inv: "hub_inv (w_hub w) \<Longrightarrow> hub_inv (w_hub (snd (PumpAgent env now cks w a)))"
  by (rule PumpAgent_cases [of env now cks w a]) (auto intro: SendToAgent_inv)

end
