(* ===== verification/Queue_Properties.thy ===== *)
theory Queue_Properties
  imports Queue_Paths
begin

text \<open>
  What the job queue guarantees: the properties of \<^verbatim>\<open>server/deploy.go\<close> and of the queue tables of
  \<^verbatim>\<open>server/db.go\<close>, each with a concrete instance.
\<close>

subsection \<open>A sample queue\<close>

text \<open>One known agent \<^verbatim>\<open>pc1\<close>, online, with one pending row for the given job.\<close>

definition sample_agent :: "string \<Rightarrow> Agent" where
  "sample_agent a =
     \<lparr>ag_ID = a, ag_Hostname = a, ag_IP = ''10.0.0.5'', ag_OS = ''windows'', ag_LastSeen = 0, ag_MeshID = '''',
      ag_Status = ''online'', ag_CreatedAt = 0, ag_AgentVersion = '''', ag_WindowsVersion = '''',
      ag_DiskCapacityGB = 0, ag_DeviceGroup = '''', ag_MacAddress = '''', ag_Floor = '''',
      ag_DesiredNetworkMode = ''both'', ag_CurrentNetworkMode = '''', ag_NetworkModeStatus = '''',
      ag_NetworkModeDetail = '''', ag_NetworkModeUpdatedAt = 0\<rparr>"

definition sample_job :: "string \<Rightarrow> string \<Rightarrow> string \<Rightarrow> DeployJob" where
  "sample_job j typ payload =
     \<lparr>dj_ID = j, dj_Type = typ, dj_Payload = payload, dj_Args = '''', dj_Targets = [''pc1''],
      dj_Status = ''pending'', dj_Priority = 0, dj_ExpireAt = None, dj_CreatedBy = ''admin'', dj_CreatedAt = 0\<rparr>"

definition sample_world :: "DeployJob \<Rightarrow> DeployResult \<Rightarrow> World" where
  "sample_world job row =
     NewWorld\<lparr>w_db := empty_db\<lparr>agents := [sample_agent ''pc1''], deploy_jobs := [job], deploy_results := [row]\<rparr>,
       w_hub := \<lparr>hub_conns = [0 \<mapsto> \<lparr>cl_agentID = ''pc1'', cl_send = [], cl_closed = False\<rparr>],
                 hub_clients = [''pc1'' \<mapsto> 0]\<rparr>\<rparr>"

definition sample_row :: "string \<Rightarrow> DeployResult" where
  "sample_row j = new_result_row 1 j ''pc1'' ''pending'' '''' 3"

definition sample_running :: "string \<Rightarrow> DeployResult" where
  "sample_running j = (sample_row j)\<lparr>dr_Status := ''running'', dr_LeaseUntil := Some 0\<rparr>"

definition sample_offline :: "DeployJob \<Rightarrow> DeployResult \<Rightarrow> World" where
  "sample_offline job row = (sample_world job row)\<lparr>w_hub := NewHub\<rparr>"

lemmas sample_defs = sample_agent_def sample_job_def sample_world_def sample_row_def new_result_row_def empty_db_def

subsection \<open>Claiming and sending\<close>

lemma GetDeployJobByID_unique:
  "distinct (map dj_ID (deploy_jobs db)) \<Longrightarrow> job \<in> set (deploy_jobs db) \<Longrightarrow>
   find (\<lambda>r. dj_ID r = dj_ID job) (deploy_jobs db) = Some job"
  by (rule find_unique)

lemma AcquireNextJob_Some:
  assumes "AcquireNextJob env now db a l = (Inr (Some (job, n)), db')" "queue_inv db"
  obtains row where "first_claim (claim_candidates now db a) = Some (job, row)" "n = dr_RetryCount row"
    "db' = claim_rows l db (dj_ID job) a" "idle_agent db a"
proof -
  from assms(1) obtain j row where c: "first_claim (claim_candidates now db a) = Some (j, row)"
      and s: "find (\<lambda>r. dj_ID r = dj_ID j) (deploy_jobs db) = Some job" "n = dr_RetryCount row"
        "db' = claim_rows l db (dj_ID j) a" and i: "idle_agent db a"
    by (auto simp: AcquireNextJob_def Let_def GetDeployJobByID_def claim_rows_def idle_agent_def
        split: if_splits option.splits sum.splits prod.splits)
  have "job = j"
    using s(1) GetDeployJobByID_unique [OF queue_invD(4) [OF assms(2)] claimed_row(4) [OF c]] by simp
  with c s i that show thesis by blast
qed

lemma AcquireNextJob_no_faults:
  assumes "queue_inv db"
  shows "AcquireNextJob no_faults now db a l =
    (if \<not> idle_agent db a then (Inr None, db)
     else case first_claim (claim_candidates now db a) of
       None \<Rightarrow> (Inr None, db)
     | Some (job, row) \<Rightarrow> (Inr (Some (job, dr_RetryCount row)), claim_rows l db (dj_ID job) a))"
proof (cases "first_claim (claim_candidates now db a)")
  case None
  then show ?thesis by (simp add: AcquireNextJob_def no_faults_def idle_agent_def)
next
  case (Some c)
  obtain job row where c: "c = (job, row)" by (cases c)
  have "find (\<lambda>r. dj_ID r = dj_ID job) (deploy_jobs db) = Some job"
    using GetDeployJobByID_unique [OF queue_invD(4) [OF assms] claimed_row(4)] Some c by simp
  with Some c show ?thesis
    by (simp add: AcquireNextJob_def no_faults_def idle_agent_def GetDeployJobByID_def claim_rows_def Let_def)
qed

lemma dispatch_sent:
  "fst (dispatch cks w a job n) \<Longrightarrow>
   queued_for (w_hub (snd (dispatch cks w a job n))) a = queued_for (w_hub w) a @ [dispatch_message cks job n]"
  using SendToAgent_sent [of "w_hub w" a "dispatch_message cks job n"]
  by (auto simp: dispatch_def send_to_def Let_def split: prod.splits)

lemma dispatch_not_sent: "\<not> fst (dispatch cks w a job n) \<Longrightarrow> snd (dispatch cks w a job n) = w"
  using SendToAgent_not_sent [of "w_hub w" a "dispatch_message cks job n"]
  by (auto simp: dispatch_def send_to_def Let_def split: prod.splits)

lemma dispatch_iff: "hub_inv (w_hub w) \<Longrightarrow> fst (dispatch cks w a job n) \<longleftrightarrow> send_room (w_hub w) a"
  using SendToAgent_iff [of "w_hub w" a "dispatch_message cks job n"]
  by (auto simp: dispatch_def send_to_def Let_def split: prod.splits)

lemma PumpAgent_sent:
  assumes "PumpAgent env now cks w a = (True, w')"
  obtains job n db where
    "AcquireNextJob env now (w_db w) a (now + leaseMinutes env (w_db w)) = (Inr (Some (job, n)), db)"
    "fst (dispatch cks (w\<lparr>w_db := db\<rparr>) a job n)" "w' = snd (dispatch cks (w\<lparr>w_db := db\<rparr>) a job n)"
  using assms by (auto simp: PumpAgent_def Let_def split: prod.splits sum.splits option.splits if_splits)

text \<open>
  C2.  When \<^verbatim>\<open>PumpAgent\<close> reports that it sent a job, the agent had no running row; the job's row was
  pending, the job was not expired and no claimable job of that agent has a higher priority, or the
  same priority and an earlier creation time; exactly the rows of this job and agent became running,
  leased until now plus the configured lease; and the last message queued for the agent is this job's,
  stamped with the row's retry count as its attempt.
\<close>

theorem PumpAgent_dispatches:
  assumes inv: "queue_inv (w_db w)" and pump: "PumpAgent env now cks w a = (True, w')"
  shows "\<exists>job row. row \<in> set (deploy_results (w_db w)) \<and> dr_AgentID row = a \<and> dr_Status row = ''pending''
    \<and> job \<in> set (deploy_jobs (w_db w)) \<and> dj_ID job = dr_JobID row \<and> unexpired now job
    \<and> idle_agent (w_db w) a
    \<and> list_all (\<lambda>c. \<not> comes_before (fst c) job) (claim_candidates now (w_db w) a)
    \<and> deploy_results (w_db w') =
        map (\<lambda>r. if dr_JobID r = dj_ID job \<and> dr_AgentID r = a
                 then r\<lparr>dr_Status := ''running'', dr_LeaseUntil := Some (db_trunc (now + leaseMinutes env (w_db w)))\<rparr>
                 else r) (deploy_results (w_db w))
    \<and> queued_for (w_hub w') a = queued_for (w_hub w) a @ [dispatch_message cks job (dr_RetryCount row)]"
proof -
  from pump obtain job n db where acq: "AcquireNextJob env now (w_db w) a (now + leaseMinutes env (w_db w)) = (Inr (Some (job, n)), db)"
    and d: "fst (dispatch cks (w\<lparr>w_db := db\<rparr>) a job n)" "w' = snd (dispatch cks (w\<lparr>w_db := db\<rparr>) a job n)"
    by (rule PumpAgent_sent)
  from acq inv obtain row where c: "first_claim (claim_candidates now (w_db w) a) = Some (job, row)" "n = dr_RetryCount row"
    and db: "db = claim_rows (now + leaseMinutes env (w_db w)) (w_db w) (dj_ID job) a" and i: "idle_agent (w_db w) a"
    by (rule AcquireNextJob_Some)
  have "list_all (\<lambda>x. \<not> comes_before (fst x) job) (claim_candidates now (w_db w) a)"
    using first_claim_least [OF c(1)] by (auto simp: list_all_iff)
  moreover have "deploy_results (w_db w') = deploy_results db" using d(2) by simp
  moreover have "queued_for (w_hub w') a = queued_for (w_hub w) a @ [dispatch_message cks job (dr_RetryCount row)]"
    using dispatch_sent [OF d(1)] d(2) c(2) by simp
  ultimately show ?thesis
    using claimed_row [OF c(1)] i by (intro exI [of _ job] exI [of _ row]) (simp add: db claim_rows_def claim_row_def)
qed

text \<open>
  C3.  With a healthy database \<^verbatim>\<open>PumpAgent\<close> sends a job exactly when the agent is idle, has a
  claimable job, and is connected with room in its send queue: it never skips a job it could send, and
  never sends a second one to a busy agent.
\<close>

theorem PumpAgent_sends_iff:
  assumes "queue_inv (w_db w)" "hub_inv (w_hub w)"
  shows "fst (PumpAgent no_faults now cks w a) \<longleftrightarrow>
    idle_agent (w_db w) a \<and> claim_candidates now (w_db w) a \<noteq> [] \<and> send_room (w_hub w) a"
proof (cases "idle_agent (w_db w) a \<and> claim_candidates now (w_db w) a \<noteq> []")
  case False
  then have "AcquireNextJob no_faults now (w_db w) a l = (Inr None, w_db w)" for l
    using first_claim_None [of "claim_candidates now (w_db w) a"] by (auto simp: AcquireNextJob_no_faults [OF assms(1)])
  then have "\<not> fst (PumpAgent no_faults now cks w a)" by (simp add: PumpAgent_def)
  with False show ?thesis by blast
next
  case True
  then obtain job row where "first_claim (claim_candidates now (w_db w) a) = Some (job, row)"
    using first_claim_None [of "claim_candidates now (w_db w) a"] by fastforce
  with True have acq: "AcquireNextJob no_faults now (w_db w) a l = (Inr (Some (job, dr_RetryCount row)), claim_rows l (w_db w) (dj_ID job) a)" for l
    by (simp add: AcquireNextJob_no_faults [OF assms(1)])
  have "fst (PumpAgent no_faults now cks w a) \<longleftrightarrow> fst (dispatch cks
      (w\<lparr>w_db := claim_rows (now + leaseMinutes no_faults (w_db w)) (w_db w) (dj_ID job) a\<rparr>) a job (dr_RetryCount row))"
    by (simp add: PumpAgent_def acq split: prod.splits)
  also have "\<dots> \<longleftrightarrow> send_room (w_hub w) a" using dispatch_iff [of "w\<lparr>w_db := _\<rparr>"] assms(2) by simp
  finally show ?thesis using True by simp
qed

text \<open>The sample world is a state of the invariants, and its agent gets its job.\<close>

lemma sample_inv: "queue_inv (w_db (sample_world (sample_job j typ pl) (sample_row j)))"
  by (simp add: sample_defs queue_inv_def one_running_def same_budget_def row_ok_def job_known_def)

lemma sample_hub_inv: "hub_inv (w_hub (sample_world job row))"
  by (simp add: sample_defs hub_inv_def)

lemma sample_candidates:
  "claim_candidates now (w_db (sample_world (sample_job j typ pl) (sample_row j))) ''pc1'' =
     [(sample_job j typ pl, sample_row j)]"
  by (simp add: claim_candidates_def sample_defs unexpired_def)

lemma sample_room: "send_room (w_hub (sample_world job row)) ''pc1''"
  by (simp add: send_room_def sample_defs IsOnline_def queued_for_def send_capacity_def)

lemma sample_idle: "idle_agent (w_db (sample_world job (sample_row j))) ''pc1''"
  by (simp add: idle_agent_def sample_defs)

lemma sample_sends:
  "fst (PumpAgent no_faults now cks (sample_world (sample_job j typ pl) (sample_row j)) ''pc1'')"
proof -
  let ?w = "sample_world (sample_job j typ pl) (sample_row j)"
  have f: "first_claim (claim_candidates now (w_db ?w) ''pc1'') = Some (sample_job j typ pl, sample_row j)"
    unfolding sample_candidates by simp
  have acq: "\<exists>db. AcquireNextJob no_faults now (w_db ?w) ''pc1'' l =
      (Inr (Some (sample_job j typ pl, dr_RetryCount (sample_row j))), db)" for l
    unfolding AcquireNextJob_no_faults [OF sample_inv] f using sample_idle by simp
  have d: "fst (dispatch cks (?w\<lparr>w_db := db\<rparr>) ''pc1'' (sample_job j typ pl) n)" for db n
    using dispatch_iff [of "?w\<lparr>w_db := db\<rparr>"] sample_hub_inv sample_room by simp
  obtain db where "AcquireNextJob no_faults now (w_db ?w) ''pc1'' (now + leaseMinutes no_faults (w_db ?w)) =
      (Inr (Some (sample_job j typ pl, dr_RetryCount (sample_row j))), db)" using acq by blast
  with d show ?thesis unfolding PumpAgent_def by (simp split: prod.splits) (metis fst_conv)
qed

lemma fst_True: "fst p \<Longrightarrow> p = (True, snd p)"
  by (cases p) simp

theorem PumpAgent_dispatches_witness:
  "let w = sample_world (sample_job ''j1'' ''exec'' ''whoami'') (sample_row ''j1'');
       w' = snd (PumpAgent no_faults 0 Map.empty w ''pc1'')
   in list_ex (\<lambda>m. om_JobID m = ''j1'' \<and> om_Attempt m = Some 0) (queued_for (w_hub w') ''pc1'')"
proof -
  let ?w = "sample_world (sample_job ''j1'' ''exec'' ''whoami'') (sample_row ''j1'')"
  have "PumpAgent no_faults 0 Map.empty ?w ''pc1'' = (True, snd (PumpAgent no_faults 0 Map.empty ?w ''pc1''))"
    by (rule fst_True [OF sample_sends])
  from PumpAgent_dispatches [OF sample_inv this] obtain job row where
    "row \<in> set (deploy_results (w_db ?w))" "job \<in> set (deploy_jobs (w_db ?w))"
    "queued_for (w_hub (snd (PumpAgent no_faults 0 Map.empty ?w ''pc1''))) ''pc1'' =
       queued_for (w_hub ?w) ''pc1'' @ [dispatch_message Map.empty job (dr_RetryCount row)]"
    by blast
  then show ?thesis by (simp add: sample_defs dispatch_message_def blank_message_def Let_def)
qed

theorem PumpAgent_sends_iff_witness:
  "fst (PumpAgent no_faults 0 Map.empty (sample_world (sample_job ''j1'' ''exec'' ''whoami'') (sample_row ''j1'')) ''pc1'')"
  unfolding PumpAgent_sends_iff [OF sample_inv sample_hub_inv]
  by (simp add: sample_candidates sample_room sample_idle)

subsection \<open>All interleavings\<close>


text \<open>A job with one target, inserted and claimed from the empty database.\<close>

lemma sample_reachable:
  "reachable (\<lambda>db. db = empty_db) server_step
     (claim_rows 600 ((w_db (sample_world (sample_job ''j1'' ''exec'' ''whoami'') (sample_row ''j1'')))\<lparr>results_seq := 1\<rparr>) ''j1'' ''pc1'')"
proof -
  let ?job = "sample_job ''j1'' ''exec'' ''whoami''"
  let ?w = "w_db (sample_world ?job (sample_row ''j1''))"
  let ?d1 = "empty_db\<lparr>agents := [sample_agent ''pc1'']\<rparr>"
  let ?d2 = "?d1\<lparr>deploy_jobs := [?job]\<rparr>"
  let ?d3 = "?w\<lparr>results_seq := 1\<rparr>"
  have 0: "reachable (\<lambda>db. db = empty_db) server_step empty_db" by (simp add: reachable_init)
  have "server_step empty_db ?d1" by (intro s_queue q_other) simp_all
  with 0 have 1: "reachable (\<lambda>db. db = empty_db) server_step ?d1" by (rule reachable_step)
  have "InsertDeployJob no_faults ?d1 ?job = Inr ?d2"
    by (simp add: InsertDeployJob_def no_faults_def job_known_def sample_defs db_trunc_def parseDBTime_def fmtTime_def)
  then have "server_step ?d1 ?d2" by (intro s_queue) (rule q_insert_job)
  with 1 have 2: "reachable (\<lambda>db. db = empty_db) server_step ?d2" by (rule reachable_step)
  have "InsertDeployResult no_faults ?d2 ''j1'' ''pc1'' ''pending'' '''' 3 = Inr ?d3"
    by (simp add: InsertDeployResult_def no_faults_def job_known_def agent_known_def sample_defs)
  then have "server_step ?d2 ?d3" by (intro s_queue) (erule q_insert_result, simp_all add: empty_db_def)
  with 2 have 3: "reachable (\<lambda>db. db = empty_db) server_step ?d3" by (rule reachable_step)
  have inv: "queue_inv ?d3" by (rule queue.reachable_inv [OF 3])
  have "claim_candidates 0 ?d3 ''pc1'' = [(?job, sample_row ''j1'')]"
    by (simp add: claim_candidates_def sample_defs unexpired_def)
  then have "snd (AcquireNextJob no_faults 0 ?d3 ''pc1'' 600) = claim_rows 600 ?d3 ''j1'' ''pc1''"
    unfolding AcquireNextJob_no_faults [OF inv] by (simp add: idle_agent_def sample_defs)
  then have "server_step ?d3 (claim_rows 600 ?d3 ''j1'' ''pc1'')"
    using s_queue [OF q_acquire, of ?d3 no_faults 0 "''pc1''" 600] by simp
  with 3 show ?thesis by (rule reachable_step)
qed


lemma row_key_cancel [simp]: "row_key (cancel_row r) = row_key r"
  by (simp add: row_key_def cancel_row_def)

lemma cancel_results_all_cancelled:
  assumes "rows_of (j, a) db \<noteq> []" "list_all (\<lambda>r. isPendingLikeStatus (dr_Status r)) (rows_of (j, a) db)"
  shows "all_cancelled j a (cancel_results db j)"
proof -
  have p: "isPendingLikeStatus (dr_Status r)" if "r \<in> set (deploy_results db)" "row_key r = (j, a)" for r
    using assms(2) that unfolding rows_of_def list_all_iff set_filter by blast
  let ?f = "\<lambda>r. if dr_JobID r = j \<and> isPendingLikeStatus (dr_Status r) then cancel_row r else r"
  have "rows_of (j, a) (cancel_results db j) = map ?f (rows_of (j, a) db)"
    by (simp add: rows_of_def cancel_results_def rows_filter_map [of ?f] row_key_cancel)
  also have "\<dots> = map cancel_row (rows_of (j, a) db)"
    by (rule map_cong) (use p in \<open>auto simp: rows_of_def row_key_def\<close>)
  finally have rows: "rows_of (j, a) (cancel_results db j) = map cancel_row (rows_of (j, a) db)" .
  have "list_all (\<lambda>r. dr_Status r = ''cancelled'') (rows_of (j, a) (cancel_results db j))"
    unfolding rows by (simp add: list_all_iff cancel_row_def)
  with assms(1) show ?thesis unfolding all_cancelled_iff rows by simp
qed

lemma CancelDeployJob_done:
  "CancelDeployJob env db j = (None, db') \<Longrightarrow> \<exists>db1. deploy_results db1 = deploy_results db \<and> db' = cancel_results db1 j"
  by (auto simp: CancelDeployJob_def split: sum.splits if_splits dest: UpdateDeployJobStatus_results)

text \<open>
  C4.  Once \<^verbatim>\<open>CancelDeployJob\<close> has succeeded while every row of an agent for that job was pending or
  running, these rows read cancelled in every later state, whatever statements follow: a late result,
  a lease sweep or a new claim never revives them.
\<close>

theorem cancel_is_final:
  assumes "queue_inv db" "CancelDeployJob env db j = (None, db')"
    and "rows_of (j, a) db \<noteq> []" "list_all (\<lambda>r. isPendingLikeStatus (dr_Status r)) (rows_of (j, a) db)"
    and "run_path queue_step db' later" "db'' \<in> set later"
  shows "list_all (\<lambda>r. dr_Status r = ''cancelled'') (rows_of (j, a) db'')"
proof -
  obtain db1 where db1: "deploy_results db1 = deploy_results db" "db' = cancel_results db1 j"
    using CancelDeployJob_done [OF assms(2)] by blast
  have "rows_of (j, a) db1 = rows_of (j, a) db" by (simp add: rows_of_def db1)
  with db1 assms(3,4) have "all_cancelled j a db'" using cancel_results_all_cancelled by metis
  moreover have "queue_inv db'" using CancelDeployJob_inv [OF assms(1), of env j] assms(2) by simp
  ultimately have "all_cancelled j a db''"
    using cancelled.stays_path [OF _ _ assms(5,6)] by blast
  then show ?thesis unfolding all_cancelled_iff by blast
qed

theorem cancel_is_final_witness:
  "let w = w_db (sample_world (sample_job ''j1'' ''exec'' ''whoami'') (sample_row ''j1''));
       db' = snd (CancelDeployJob no_faults w ''j1'');
       late = snd (AcquireNextJob no_faults 0 db' ''pc1'' 600)
   in list_all (\<lambda>r. dr_Status r = ''cancelled'') (rows_of (''j1'', ''pc1'') late)"
proof -
  let ?w = "w_db (sample_world (sample_job ''j1'' ''exec'' ''whoami'') (sample_row ''j1''))"
  let ?db = "snd (CancelDeployJob no_faults ?w ''j1'')"
  let ?late = "snd (AcquireNextJob no_faults 0 ?db ''pc1'' 600)"
  have c: "CancelDeployJob no_faults ?w ''j1'' = (None, ?db)"
    by (simp add: CancelDeployJob_def UpdateDeployJobStatus_def no_faults_def)
  have r: "rows_of (''j1'', ''pc1'') ?w = [sample_row ''j1'']"
    by (simp add: rows_of_def sample_defs row_key_def)
  have "run_path queue_step ?db [?late]" by (simp add: q_acquire)
  from cancel_is_final [OF sample_inv c _ _ this, of "''pc1''"] r show ?thesis
    by (simp add: isPendingLikeStatus_def sample_row_def new_result_row_def)
qed

subsection \<open>The lease sweep\<close>

lemma logged_update_rows:
  "w_db (logged_update (UpdateDeployResult env now (w_db w) j a st out ec dur rt att) w) =
     (if env [''UpdateDeployResult'', j, a, st] then w_db w
      else (w_db w)\<lparr>deploy_results := map (\<lambda>r. if update_matches j a att r
         then set_result now st out ec dur rt r else r) (deploy_results (w_db w))\<rparr>)"
  by (simp add: logged_update_def UpdateDeployResult_def)

lemma logged_update_hub [simp]: "w_hub (logged_update res w) = w_hub w"
  by (simp add: logged_update_def split: sum.splits prod.splits)

lemma logged_job_status_hub [simp]: "w_hub (logged_job_status env j w) = w_hub w"
  by (simp add: logged_job_status_def split: sum.splits)

lemma UpdateJobStatus_results: "UpdateJobStatus env db j = Inr db' \<Longrightarrow> deploy_results db' = deploy_results db"
  by (auto simp: UpdateJobStatus_def dest: UpdateDeployJobStatus_results split: sum.splits if_splits)

lemma logged_job_status_results [simp]: "deploy_results (w_db (logged_job_status env j w)) = deploy_results (w_db w)"
  by (auto simp: logged_job_status_def dest: UpdateJobStatus_results split: sum.splits)

lemma rows_of_cong: "deploy_results db' = deploy_results db \<Longrightarrow> rows_of k db' = rows_of k db"
  by (simp add: rows_of_def)

lemma find_map_job_kinds:
  "map_option (\<lambda>j. (dj_Type j, dj_Payload j)) (find (\<lambda>r. dj_ID r = j) jobs) =
   map_of (map (\<lambda>j. (dj_ID j, dj_Type j, dj_Payload j)) jobs) j"
  by (induction jobs) auto

lemma destructive_job_kinds:
  "destructive_job env db j \<longleftrightarrow> \<not> env [''GetDeployJobByID'', j]
     \<and> (case map_of (job_kinds db) j of None \<Rightarrow> False | Some (ty, pl) \<Rightarrow> IsDestructivePayload ty pl)"
  unfolding job_kinds_def find_map_job_kinds [symmetric]
  by (auto simp: destructive_job_def GetDeployJobByID_def split: option.splits)

lemma UpdateDeployJobStatus_kinds: "UpdateDeployJobStatus env db j st = Inr db' \<Longrightarrow> job_kinds db' = job_kinds db"
  by (auto simp: UpdateDeployJobStatus_def job_kinds_def split: if_splits)

lemma PumpAgent_kinds: "job_kinds (w_db (snd (PumpAgent env now cks w a))) = job_kinds (w_db w)"
  by (rule PumpAgent_cases [of env now cks w a])
     (auto simp: job_kinds_def claim_rows_def dest!: UpdateDeployResult_rows)

lemma logged_job_status_kinds: "job_kinds (w_db (logged_job_status env j w)) = job_kinds (w_db w)"
  by (auto simp: logged_job_status_def UpdateJobStatus_def dest: UpdateDeployJobStatus_kinds split: sum.splits if_splits)

lemma logged_update_kinds:
  "job_kinds (w_db (logged_update (UpdateDeployResult env now (w_db w) j a st out ec dur rt att) w)) = job_kinds (w_db w)"
  by (simp add: logged_update_rows job_kinds_def)

lemma sweep_lease_row_kinds: "job_kinds (w_db (sweep_lease_row env now cks r w)) = job_kinds (w_db w)"
  by (simp add: sweep_lease_row_def Let_def logged_job_status_kinds logged_update_kinds PumpAgent_kinds)

lemma sweep_lease_row_hub_inv: "hub_inv (w_hub w) \<Longrightarrow> hub_inv (w_hub (sweep_lease_row env now cks r w))"
  by (simp add: sweep_lease_row_def Let_def PumpAgent_hub_inv)

lemma row_key_set_result [simp]: "row_key (set_result now st out ec dur rt r) = row_key r"
  by (simp add: row_key_def set_result_def)

lemma logged_update_other:
  "k \<noteq> (j, a) \<Longrightarrow>
   rows_of k (w_db (logged_update (UpdateDeployResult env now (w_db w) j a st out ec dur rt att) w)) = rows_of k (w_db w)"
  by (auto simp: logged_update_def dest: UpdateDeployResult_other split: sum.splits)

lemma logged_update_no_pending:
  assumes "no_pending k (w_db w)" "st \<noteq> ''pending''"
  shows "no_pending k (w_db (logged_update (UpdateDeployResult env now (w_db w) j a st out ec dur rt att) w))"
  using assms unfolding logged_update_rows by (auto simp: no_pending_def list_all_iff set_result_def row_key_def)

text \<open>
  One row of the sweep, seen from a job that is destructive and has no pending row for the agent: it
  stays without a pending row, and nothing is sent for it.
\<close>

lemma sweep_lease_row_destructive:
  assumes d: "destructive_job env (w_db w) j" and np: "no_pending (j, a) (w_db w)" and h: "hub_inv (w_hub w)"
  shows "no_pending (j, a) (w_db (sweep_lease_row env now cks r w)) \<and>
    messages_of (j, a) (w_hub (sweep_lease_row env now cks r w)) = messages_of (j, a) (w_hub w)"
proof (cases "destructive_job env (w_db w) (dr_JobID r) \<or> dr_RetryCount r + 1 > dr_MaxRetry r")
  case True
  have "no_pending (j, a) (w_db (logged_job_status env i (logged_update
      (UpdateDeployResult env now (w_db w) i b ''failed'' out None None None None) w)))" for i b out
    using logged_update_no_pending [OF np, of "''failed''"] by (simp add: no_pending_def)
  with True show ?thesis by (auto simp: sweep_lease_row_def Let_def)
next
  case False
  with d have j: "(j, a) \<noteq> (dr_JobID r, dr_AgentID r)" by auto
  let ?w1 = "logged_update (UpdateDeployResult env now (w_db w) (dr_JobID r) (dr_AgentID r) ''pending''
     ''Lease timeout: retrying'' None None (Some (dr_RetryCount r + 1)) None) w"
  have np1: "no_pending (j, a) (w_db ?w1)" using no_pending_rows [OF logged_update_other [OF j]] np by simp
  have h1: "hub_inv (w_hub ?w1)" using h by simp
  note p = PumpAgent_no_pending [OF np1 h1, of env now cks "dr_AgentID r"]
  have eq: "sweep_lease_row env now cks r w = logged_job_status env (dr_JobID r) (snd (PumpAgent env now cks ?w1 (dr_AgentID r)))"
    using False by (simp add: sweep_lease_row_def Let_def)
  have "no_pending (j, a) (w_db (snd (PumpAgent env now cks ?w1 (dr_AgentID r))))"
    using no_pending_rows [OF p(1)] np1 by simp
  then show ?thesis unfolding eq using p(2) by (simp add: no_pending_def)
qed

lemma sweep_fold_destructive:
  assumes "destructive_job env (w_db w) j" "no_pending (j, a) (w_db w)" "hub_inv (w_hub w)"
  shows "no_pending (j, a) (w_db (fold (sweep_lease_row env now cks) rs w)) \<and>
    messages_of (j, a) (w_hub (fold (sweep_lease_row env now cks) rs w)) = messages_of (j, a) (w_hub w)"
  using assms
proof (induction rs arbitrary: w)
  case (Cons r rs)
  let ?w1 = "sweep_lease_row env now cks r w"
  have 1: "no_pending (j, a) (w_db ?w1)" "messages_of (j, a) (w_hub ?w1) = messages_of (j, a) (w_hub w)"
    using sweep_lease_row_destructive [OF Cons.prems] by blast+
  have 2: "destructive_job env (w_db ?w1) j"
    using Cons.prems(1) by (simp add: destructive_job_kinds sweep_lease_row_kinds)
  have 3: "hub_inv (w_hub ?w1)" by (rule sweep_lease_row_hub_inv [OF Cons.prems(3)])
  from Cons.IH [OF 2 1(1) 3] 1(2) show ?case by simp
qed simp

text \<open>
  C5.  A shutdown or restart whose result never came back is not sent again: when the job is readable
  and destructive and its row for an agent is not pending, a whole lease sweep, under any pattern of
  other failing statements, queues no message of this job for the agent and leaves no pending row of it
  behind for a later pump.
\<close>

theorem destructive_never_resent:
  assumes "hub_inv (w_hub w)" "destructive_job env (w_db w) j" "no_pending (j, a) (w_db w)"
  shows "messages_of (j, a) (w_hub (sweepExpiredLeases env now cks w)) = messages_of (j, a) (w_hub w)
    \<and> no_pending (j, a) (w_db (sweepExpiredLeases env now cks w))"
  using sweep_fold_destructive [OF assms(2,3,1)] assms(3)
  by (auto simp: sweepExpiredLeases_def split: sum.splits)

theorem destructive_never_resent_witness:
  "messages_of (''j1'', ''pc1'') (w_hub (sweepExpiredLeases no_faults hour Map.empty
      (sample_world (sample_job ''j1'' ''exec'' ''shutdown /r /t 0'') (sample_running ''j1'')))) = []"
proof -
  let ?w = "sample_world (sample_job ''j1'' ''exec'' ''shutdown /r /t 0'') (sample_running ''j1'')"
  have d: "destructive_job no_faults (w_db ?w) ''j1''"
    by (simp add: destructive_job_def GetDeployJobByID_def no_faults_def sample_defs) code_simp
  have n: "no_pending (''j1'', ''pc1'') (w_db ?w)"
    by (simp add: no_pending_def sample_defs sample_running_def)
  have "messages_of (''j1'', ''pc1'') (w_hub ?w) = []"
    by (simp add: messages_of_def queued_for_def sample_defs)
  with destructive_never_resent [OF sample_hub_inv d n, of hour Map.empty] show ?thesis by simp
qed

lemma rows_of_logged_update:
  "\<not> env [''UpdateDeployResult'', j, a, st] \<Longrightarrow>
   rows_of (j, a) (w_db (logged_update (UpdateDeployResult env now (w_db w) j a st out ec dur rt None) w)) =
   map (\<lambda>r. if dr_Status r \<noteq> ''cancelled'' then set_result now st out ec dur rt r else r) (rows_of (j, a) (w_db w))"
proof -
  assume "\<not> env [''UpdateDeployResult'', j, a, st]"
  let ?f = "\<lambda>r. if update_matches j a None r then set_result now st out ec dur rt r else r"
  have "filter (\<lambda>r. row_key r = (j, a)) (map ?f xs) = map ?f (filter (\<lambda>r. row_key r = (j, a)) xs)" for xs
    by (rule rows_filter_map) simp
  moreover have "map ?f (rows_of (j, a) (w_db w)) =
      map (\<lambda>r. if dr_Status r \<noteq> ''cancelled'' then set_result now st out ec dur rt r else r) (rows_of (j, a) (w_db w))"
    by (rule map_cong) (auto simp: rows_of_def row_key_def update_matches_def)
  ultimately show ?thesis using \<open>\<not> env _\<close> by (simp add: logged_update_rows rows_of_def)
qed

lemma pump_rows_of:
  assumes "list_all2 pump_row xs ys"
  shows "list_all2 pump_row (filter (\<lambda>r. row_key r = k) xs) (filter (\<lambda>r. row_key r = k) ys)"
  using assms by (induction rule: list_all2_induct) (auto simp: pump_row_def)

lemma list_all2_list_all: "list_all2 R xs ys \<Longrightarrow> list_all P xs \<Longrightarrow> (\<And>x y. R x y \<Longrightarrow> P x \<Longrightarrow> Q y) \<Longrightarrow> list_all Q ys"
  by (induction rule: list_all2_induct) auto

lemma pump_row_requeued:
  "pump_row x y \<Longrightarrow> isPendingLikeStatus (dr_Status x) \<and> dr_RetryCount x = n \<Longrightarrow>
   isPendingLikeStatus (dr_Status y) \<and> dr_RetryCount y = n"
  unfolding pump_row_def by (elim conjE disjE) simp_all

text \<open>
  C6.  A row whose lease ran out and whose job may be repeated: while retries remain, every row of its
  job and agent that was not cancelled goes back to the queue (pending, or running again when the agent
  is connected) with the retry count raised by one; when the budget is used up it fails for good and
  nothing is sent.
\<close>

theorem lease_timeout_outcome:
  assumes "\<not> destructive_job env (w_db w) (dr_JobID r)"
    and "\<not> env [''UpdateDeployResult'', dr_JobID r, dr_AgentID r, ''pending'']"
    and "\<not> env [''UpdateDeployResult'', dr_JobID r, dr_AgentID r, ''failed'']"
    and "list_all (\<lambda>q. dr_Status q \<noteq> ''cancelled'') (rows_of (row_key r) (w_db w))"
  shows "if dr_RetryCount r < dr_MaxRetry r
    then list_all (\<lambda>q. isPendingLikeStatus (dr_Status q) \<and> dr_RetryCount q = dr_RetryCount r + 1)
           (rows_of (row_key r) (w_db (sweep_lease_row env now cks r w)))
    else list_all (\<lambda>q. dr_Status q = ''failed'' \<and> dr_LeaseUntil q = None)
           (rows_of (row_key r) (w_db (sweep_lease_row env now cks r w)))
         \<and> w_hub (sweep_lease_row env now cks r w) = w_hub w"
proof (cases "dr_RetryCount r < dr_MaxRetry r")
  case False
  then have eq: "sweep_lease_row env now cks r w = logged_job_status env (dr_JobID r) (logged_update (UpdateDeployResult env now
      (w_db w) (dr_JobID r) (dr_AgentID r) ''failed'' ''Lease timeout: retry limit exceeded'' None None None None) w)"
    using assms(1) by (simp add: sweep_lease_row_def Let_def)
  have "rows_of (row_key r) (w_db (sweep_lease_row env now cks r w)) =
     map (\<lambda>q. if dr_Status q \<noteq> ''cancelled'' then set_result now ''failed'' ''Lease timeout: retry limit exceeded'' None None None q
              else q) (rows_of (row_key r) (w_db w))"
    unfolding eq rows_of_cong [OF logged_job_status_results] using rows_of_logged_update [of env, OF assms(3)]
    by (simp add: row_key_def [of r])
  then show ?thesis using False assms(4) by (simp add: list_all_iff set_result_def) (simp add: eq)
next
  case True
  let ?w1 = "logged_update (UpdateDeployResult env now (w_db w) (dr_JobID r) (dr_AgentID r) ''pending''
     ''Lease timeout: retrying'' None None (Some (dr_RetryCount r + 1)) None) w"
  have eq: "sweep_lease_row env now cks r w = logged_job_status env (dr_JobID r) (snd (PumpAgent env now cks ?w1 (dr_AgentID r)))"
    using True assms(1) by (simp add: sweep_lease_row_def Let_def)
  have "rows_of (row_key r) (w_db ?w1) = map (\<lambda>q. if dr_Status q \<noteq> ''cancelled'' then set_result now ''pending''
     ''Lease timeout: retrying'' None None (Some (dr_RetryCount r + 1)) q else q) (rows_of (row_key r) (w_db w))"
    using rows_of_logged_update [of env, OF assms(2)] by (simp add: row_key_def [of r])
  then have 1: "list_all (\<lambda>q. isPendingLikeStatus (dr_Status q) \<and> dr_RetryCount q = dr_RetryCount r + 1) (rows_of (row_key r) (w_db ?w1))"
    using assms(4) by (simp add: list_all_iff set_result_def isPendingLikeStatus_def)
  have "list_all2 pump_row (rows_of (row_key r) (w_db ?w1)) (rows_of (row_key r) (w_db (snd (PumpAgent env now cks ?w1 (dr_AgentID r)))))"
    unfolding rows_of_def by (rule pump_rows_of [OF PumpAgent_rows])
  from list_all2_list_all [OF this 1 pump_row_requeued] show ?thesis
    using True unfolding eq rows_of_cong [OF logged_job_status_results] by simp
qed

theorem lease_timeout_outcome_witness:
  "list_all (\<lambda>q. isPendingLikeStatus (dr_Status q) \<and> dr_RetryCount q = 1) (rows_of (''j1'', ''pc1'')
     (w_db (sweep_lease_row no_faults hour Map.empty (sample_running ''j1'')
        (sample_world (sample_job ''j1'' ''exec'' ''whoami'') (sample_running ''j1'')))))"
proof -
  let ?r = "sample_running ''j1''" and ?w = "sample_world (sample_job ''j1'' ''exec'' ''whoami'') (sample_running ''j1'')"
  have k: "row_key ?r = (''j1'', ''pc1'')" "dr_JobID ?r = ''j1''" "dr_RetryCount ?r = 0" "dr_MaxRetry ?r = 3"
    by (simp_all add: row_key_def sample_running_def sample_defs)
  have d: "\<not> destructive_job no_faults (w_db ?w) (dr_JobID ?r)"
    by (simp add: destructive_job_def GetDeployJobByID_def no_faults_def sample_defs sample_running_def) code_simp
  have "list_all (\<lambda>q. dr_Status q \<noteq> ''cancelled'') (rows_of (row_key ?r) (w_db ?w))"
    by (simp add: k rows_of_def sample_defs sample_running_def)
  from lease_timeout_outcome [OF d _ _ this, of hour Map.empty] show ?thesis by (simp add: k no_faults_def)
qed

lemma claim_then_release:
  assumes "queue_inv db" "distinct (map row_key (deploy_results db))"
    and c: "first_claim (claim_candidates now db a) = Some (job, row)"
    and u: "UpdateDeployResult env now (claim_rows l db (dj_ID job) a) (dj_ID job) a ''pending'' '''' None None None None = Inr (n, db')"
  shows "map (dr_Output_update (\<lambda>_. '''')) (deploy_results db') = map (dr_Output_update (\<lambda>_. '''')) (deploy_results db)"
proof -
  note row = claimed_row [OF c]
  have "q = row" if "q \<in> set (deploy_results db)" "dr_JobID q = dj_ID job" "dr_AgentID q = a" for q
    using assms(2) row(1,2,5) that by (metis (mono_tags, lifting) distinct_map inj_onD row_key_def)
  moreover have "row_ok row" using queue_inv_row [OF assms(1) row(1)] .
  then have "dr_LeaseUntil row = None" using row(3) by (auto simp: row_ok_def)
  ultimately show ?thesis
    using row(3) unfolding UpdateDeployResult_rows [OF u]
    by (auto simp: claim_rows_def claim_row_def update_matches_def set_result_def coalesce_def isPendingLikeStatus_def)
qed

text \<open>
  C7.  When the send fails (agent offline or its queue full) the claim is released without charging a
  retry: apart from the cleared output column every row is as it was, and no message is queued.
\<close>

theorem failed_send_uncharged:
  assumes inv: "queue_inv (w_db w)" and "hub_inv (w_hub w)" and dist: "distinct (map row_key (deploy_results (w_db w)))"
    and "\<not> send_room (w_hub w) a"
  shows "map (dr_Output_update (\<lambda>_. '''')) (deploy_results (w_db (snd (PumpAgent no_faults now cks w a))))
       = map (dr_Output_update (\<lambda>_. '''')) (deploy_results (w_db w))
    \<and> w_hub (snd (PumpAgent no_faults now cks w a)) = w_hub w"
proof (cases "idle_agent (w_db w) a \<and> first_claim (claim_candidates now (w_db w) a) \<noteq> None")
  case False
  then have "AcquireNextJob no_faults now (w_db w) a l = (Inr None, w_db w)" for l
    by (cases "idle_agent (w_db w) a") (simp_all add: AcquireNextJob_no_faults [OF inv] split: option.splits)
  then show ?thesis by (simp add: PumpAgent_def)
next
  case True
  then obtain job row where c: "first_claim (claim_candidates now (w_db w) a) = Some (job, row)" by auto
  let ?l = "now + leaseMinutes no_faults (w_db w)"
  let ?db = "claim_rows ?l (w_db w) (dj_ID job) a"
  have acq: "AcquireNextJob no_faults now (w_db w) a ?l = (Inr (Some (job, dr_RetryCount row)), ?db)"
    using True c by (simp add: AcquireNextJob_no_faults [OF inv])
  have ns: "\<not> fst (dispatch cks (w\<lparr>w_db := ?db\<rparr>) a job (dr_RetryCount row))"
    using dispatch_iff [of "w\<lparr>w_db := ?db\<rparr>"] assms(2,4) by simp
  then have d: "dispatch cks (w\<lparr>w_db := ?db\<rparr>) a job (dr_RetryCount row) = (False, w\<lparr>w_db := ?db\<rparr>)"
    using dispatch_not_sent [OF ns] by (metis (full_types) prod.collapse)
  obtain n db' where u: "UpdateDeployResult no_faults now ?db (dj_ID job) a ''pending'' '''' None None None None = Inr (n, db')"
    by (simp add: UpdateDeployResult_def no_faults_def)
  have "snd (PumpAgent no_faults now cks w a) = w\<lparr>w_db := db'\<rparr>"
    unfolding PumpAgent_def by (simp add: acq d u)
  with claim_then_release [OF inv dist c u] show ?thesis by simp
qed

theorem failed_send_uncharged_witness:
  "map dr_Status (deploy_results (w_db (snd (PumpAgent no_faults 0 Map.empty
     (sample_offline (sample_job ''j1'' ''exec'' ''whoami'') (sample_row ''j1'')) ''pc1'')))) = [''pending'']"
proof -
  let ?w = "sample_offline (sample_job ''j1'' ''exec'' ''whoami'') (sample_row ''j1'')"
  have i: "queue_inv (w_db ?w)" using sample_inv by (simp add: sample_offline_def)
  have h: "hub_inv (w_hub ?w)" by (simp add: sample_offline_def hub_inv_NewHub)
  have d: "distinct (map row_key (deploy_results (w_db ?w)))" by (simp add: sample_offline_def sample_defs)
  have o: "\<not> send_room (w_hub ?w) ''pc1''" by (simp add: sample_offline_def send_room_def IsOnline_def NewHub_def)
  have "map dr_Status (map (dr_Output_update (\<lambda>_. '''')) xs) = map dr_Status xs" for xs by simp
  with failed_send_uncharged [OF i h d o, of 0 Map.empty]
  have "map dr_Status (deploy_results (w_db (snd (PumpAgent no_faults 0 Map.empty ?w ''pc1'')))) = map dr_Status (deploy_results (w_db ?w))"
    by metis
  then show ?thesis by (simp add: sample_offline_def sample_defs)
qed

end
