(* ===== verification/Queue_Admission.thy ===== *)
theory Queue_Admission
  imports Queue_Properties
begin

text \<open>
  Creating jobs and ending them: what \<^verbatim>\<open>CreateJob\<close> leaves in the tables, what the expiry sweep
  ends, and that each operation keeps the queue invariant under every pattern of failing statements.
\<close>

definition job_rows :: "string \<Rightarrow> DB \<Rightarrow> DeployResult list" where
  "job_rows j db = filter (\<lambda>r. dr_JobID r = j) (deploy_results db)"

definition expired_pending :: "time \<Rightarrow> DB \<Rightarrow> DeployResult \<Rightarrow> bool" where
  "expired_pending now db r \<longleftrightarrow> dr_Status r = ''pending''
     \<and> list_ex (\<lambda>j. dj_ID j = dr_JobID r \<and> expired_job now j) (deploy_jobs db)"

definition job_deadlines :: "DB \<Rightarrow> (string \<times> time option) list" where
  "job_deadlines db = map (\<lambda>j. (dj_ID j, dj_ExpireAt j)) (deploy_jobs db)"

text \<open>What the queue never touches: the agents, the command requests and the set of jobs.\<close>

definition queue_frame :: "DB \<Rightarrow> Agent list \<times> CommandRequestMeta list \<times> string list" where
  "queue_frame db = (agents db, command_requests db, map dj_ID (deploy_jobs db))"

subsection \<open>CreateJob\<close>

lemma insert_results_rows:
  assumes "job_known db j" "list_all (agent_known db) as"
  shows "\<exists>rs. deploy_results (insert_results no_faults j mr as db) = deploy_results db @ rs
     \<and> map dr_AgentID rs = as
     \<and> list_all (\<lambda>r. dr_JobID r = j \<and> dr_Status r = ''pending'' \<and> dr_RetryCount r = 0 \<and> dr_MaxRetry r = mr) rs"
  using assms
proof (induction as arbitrary: db)
  case (Cons a as)
  let ?row = "new_result_row (results_seq db + 1) j a ''pending'' '''' mr"
  let ?db = "db\<lparr>deploy_results := deploy_results db @ [?row], results_seq := results_seq db + 1\<rparr>"
  have ins: "InsertDeployResult no_faults db j a ''pending'' '''' mr = Inr ?db"
    using Cons.prems by (simp add: InsertDeployResult_def no_faults_def)
  have "job_known ?db j" "list_all (agent_known ?db) as"
    using Cons.prems by (simp_all add: job_known_def agent_known_def list_all_iff)
  from Cons.IH [OF this] obtain rs where
    "deploy_results (insert_results no_faults j mr as ?db) = deploy_results ?db @ rs" "map dr_AgentID rs = as"
    "list_all (\<lambda>r. dr_JobID r = j \<and> dr_Status r = ''pending'' \<and> dr_RetryCount r = 0 \<and> dr_MaxRetry r = mr) rs" by blast
  then show ?case by (intro exI [of _ "?row # rs"]) (simp add: ins new_result_row_def)
qed simp

lemma pump_all_rows:
  "list_all2 pump_row (deploy_results (w_db w)) (deploy_results (w_db (pump_all env now cks as w)))"
proof (induction as arbitrary: w)
  case Nil
  then show ?case by (simp add: pump_rows_refl)
next
  case (Cons a as)
  show ?case using pump_rows_trans [OF PumpAgent_rows Cons.IH] by simp
qed

lemma pump_job_rows:
  assumes "list_all2 pump_row xs ys"
  shows "list_all2 pump_row (filter (\<lambda>r. dr_JobID r = j) xs) (filter (\<lambda>r. dr_JobID r = j) ys)"
  using assms by (induction rule: list_all2_induct) (auto simp: pump_row_def row_key_def)

lemma pump_rows_agents: "list_all2 pump_row xs ys \<Longrightarrow> map dr_AgentID ys = map dr_AgentID xs"
  by (induction rule: list_all2_induct) (auto simp: pump_row_def row_key_def)

lemma mark_dispatched_spec:
  "snd (mark_dispatched no_faults job w) = w \<and> fst (mark_dispatched no_faults job w) = job
      \<and> list_ex (\<lambda>r. dr_Status r = ''pending'') (job_rows (dj_ID job) (w_db w))
   \<or> deploy_results (w_db (snd (mark_dispatched no_faults job w))) = deploy_results (w_db w)
      \<and> fst (mark_dispatched no_faults job w) = job\<lparr>dj_Status := ''dispatched''\<rparr>
      \<and> \<not> list_ex (\<lambda>r. dr_Status r = ''pending'') (job_rows (dj_ID job) (w_db w))"
  by (simp add: mark_dispatched_def GetDeployResultsByJobID_def UpdateDeployJobStatus_def no_faults_def job_rows_def)

lemma mark_dispatched_results:
  "deploy_results (w_db (snd (mark_dispatched no_faults job w))) = deploy_results (w_db w)"
  "dj_ID (fst (mark_dispatched no_faults job w)) = dj_ID job"
  "dj_Status job = ''pending'' \<Longrightarrow> dj_Status (fst (mark_dispatched no_faults job w)) = ''dispatched'' \<longleftrightarrow>
     \<not> list_ex (\<lambda>r. dr_Status r = ''pending'') (job_rows (dj_ID job) (w_db w))"
  using mark_dispatched_spec [of job w] by auto

lemma PumpAgent_frame: "queue_frame (w_db (snd (PumpAgent env now cks w a))) = queue_frame (w_db w)"
  by (rule PumpAgent_cases [of env now cks w a])
     (auto simp: queue_frame_def claim_rows_def dest!: UpdateDeployResult_rows)

lemma pump_all_frame: "queue_frame (w_db (pump_all env now cks as w)) = queue_frame (w_db w)"
  by (induction as arbitrary: w) (simp_all add: PumpAgent_frame)

lemma insert_results_frame: "queue_frame (insert_results env jid mr as db) = queue_frame db"
proof (induction as arbitrary: db)
  case (Cons a as)
  then show ?case by (simp add: InsertDeployResult_def queue_frame_def split: sum.splits)
qed simp

lemma mark_dispatched_frame: "queue_frame (w_db (snd (mark_dispatched env job w))) = queue_frame (w_db w)"
  by (auto simp: mark_dispatched_def UpdateDeployJobStatus_def queue_frame_def split: sum.splits if_splits)

lemma CreateJob_frame:
  assumes "CreateJob env now cks jid w ty pl ar targets pr ex mr creator = (Inr job, w')"
  shows "agents (w_db w') = agents (w_db w)" "command_requests (w_db w') = command_requests (w_db w)"
    "map dj_ID (deploy_jobs (w_db w')) = map dj_ID (deploy_jobs (w_db w)) @ [jid]" "\<not> job_known (w_db w) jid"
proof -
  let ?job = "\<lparr>dj_ID = jid, dj_Type = ty, dj_Payload = pl, dj_Args = ar, dj_Targets = targets, dj_Status = ''pending'',
    dj_Priority = pr, dj_ExpireAt = ex, dj_CreatedBy = creator, dj_CreatedAt = now\<rparr>"
  obtain ids db where ids: "resolveTargets env (w_db w) targets = Inr ids" "ids \<noteq> []"
    and db: "InsertDeployJob env (w_db w) ?job = Inr db"
    using assms by (auto simp: CreateJob_def Let_def split: sum.splits if_splits)
  have "w' = snd (mark_dispatched env ?job (pump_all env now cks ids (w\<lparr>w_db := insert_results env jid mr ids db\<rparr>)))"
    using assms ids db by (simp add: CreateJob_def Let_def split: prod.splits)
  then have "queue_frame (w_db w') = queue_frame db"
    by (simp add: mark_dispatched_frame pump_all_frame insert_results_frame)
  with db show "agents (w_db w') = agents (w_db w)" "command_requests (w_db w') = command_requests (w_db w)"
    "map dj_ID (deploy_jobs (w_db w')) = map dj_ID (deploy_jobs (w_db w)) @ [jid]" "\<not> job_known (w_db w) jid"
    by (auto simp: queue_frame_def InsertDeployJob_def split: if_splits)
qed

lemma CreateJob_error: "CreateJob env now cks jid w ty pl ar targets pr ex mr creator = (Inl e, w') \<Longrightarrow> w' = w"
  by (auto simp: CreateJob_def Let_def split: sum.splits if_splits prod.splits)

lemma CreateJob_effect:
  assumes inv: "queue_inv (w_db w)" and new: "\<not> job_known (w_db w) jid"
    and ids: "resolveTargets no_faults (w_db w) targets = Inr ids" "ids \<noteq> []" "list_all (agent_known (w_db w)) ids"
  shows "\<exists>job w'. CreateJob no_faults now cks jid w ty pl ar targets pr ex mr creator = (Inr job, w')
    \<and> dj_ID job = jid
    \<and> map dr_AgentID (job_rows jid (w_db w')) = ids
    \<and> list_all (\<lambda>r. isPendingLikeStatus (dr_Status r) \<and> dr_RetryCount r = 0) (job_rows jid (w_db w'))
    \<and> (dj_Status job = ''dispatched'' \<longleftrightarrow> \<not> list_ex (\<lambda>r. dr_Status r = ''pending'') (job_rows jid (w_db w')))"
proof -
  let ?job = "\<lparr>dj_ID = jid, dj_Type = ty, dj_Payload = pl, dj_Args = ar, dj_Targets = targets, dj_Status = ''pending'',
    dj_Priority = pr, dj_ExpireAt = ex, dj_CreatedBy = creator, dj_CreatedAt = now\<rparr>"
  obtain db where db: "InsertDeployJob no_faults (w_db w) ?job = Inr db" "deploy_results db = deploy_results (w_db w)"
      "job_known db jid" "agents db = agents (w_db w)"
    using new by (auto simp: InsertDeployJob_def no_faults_def job_known_def)
  let ?w1 = "w\<lparr>w_db := insert_results no_faults jid mr ids db\<rparr>"
  let ?w2 = "pump_all no_faults now cks ids ?w1"
  let ?m = "mark_dispatched no_faults ?job ?w2"
  have "list_all (agent_known db) ids" using ids(3) db(4) by (simp add: agent_known_def list_all_iff)
  from insert_results_rows [OF db(3) this, of mr] obtain rs where
    rs: "deploy_results (w_db ?w1) = deploy_results (w_db w) @ rs" "map dr_AgentID rs = ids"
      "list_all (\<lambda>r. dr_JobID r = jid \<and> dr_Status r = ''pending'' \<and> dr_RetryCount r = 0 \<and> dr_MaxRetry r = mr) rs"
    using db(2) by auto
  have "filter (\<lambda>r. dr_JobID r = jid) (deploy_results (w_db w)) = []"
    using queue_invD(5) [OF inv] new unfolding filter_empty_conv by blast
  with rs have old: "filter (\<lambda>r. dr_JobID r = jid) (deploy_results (w_db ?w1)) = rs" by (simp add: list_all_iff)
  have p: "list_all2 pump_row rs (job_rows jid (w_db ?w2))"
    using pump_job_rows [OF pump_all_rows, of jid ?w1 no_faults now cks ids] unfolding old job_rows_def .
  have m: "job_rows jid (w_db (snd ?m)) = job_rows jid (w_db ?w2)"
    by (simp add: job_rows_def mark_dispatched_results(1))
  have "list_all (\<lambda>r. isPendingLikeStatus (dr_Status r) \<and> dr_RetryCount r = 0) rs"
    using rs(3) by (auto simp: list_all_iff isPendingLikeStatus_def)
  then have st: "list_all (\<lambda>r. isPendingLikeStatus (dr_Status r) \<and> dr_RetryCount r = 0) (job_rows jid (w_db ?w2))"
    by (rule list_all2_list_all [OF p _ pump_row_requeued])
  have "CreateJob no_faults now cks jid w ty pl ar targets pr ex mr creator = (Inr (fst ?m), snd ?m)"
    using ids db(1) by (simp add: CreateJob_def Let_def split: prod.splits)
  then show ?thesis
    using pump_rows_agents [OF p] rs(2) st m mark_dispatched_results(2,3) [of ?job ?w2]
    by (intro exI [of _ "fst ?m"] exI [of _ "snd ?m"]) simp
qed

text \<open>
  C8.  With a healthy database, \<^verbatim>\<open>CreateJob\<close> on known targets and a new id succeeds and leaves exactly
  one row per target in the target order, each pending or already running, with no retry used and the
  requested budget; the returned job reads \<^verbatim>\<open>dispatched\<close> exactly when no row of it is left pending.
\<close>

theorem CreateJob_rows:
  assumes inv: "queue_inv (w_db w)" and new: "\<not> job_known (w_db w) jid"
    and ids: "resolveTargets no_faults (w_db w) targets = Inr ids" "ids \<noteq> []" "list_all (agent_known (w_db w)) ids"
  shows "\<exists>job w'. CreateJob no_faults now cks jid w ty pl ar targets pr ex mr creator = (Inr job, w')
    \<and> dj_ID job = jid
    \<and> map dr_AgentID (job_rows jid (w_db w')) = ids
    \<and> list_all (\<lambda>r. isPendingLikeStatus (dr_Status r) \<and> dr_RetryCount r = 0) (job_rows jid (w_db w'))
    \<and> (dj_Status job = ''dispatched'' \<longleftrightarrow> \<not> list_ex (\<lambda>r. dr_Status r = ''pending'') (job_rows jid (w_db w')))"
  by (rule CreateJob_effect [OF assms])

theorem CreateJob_rows_witness:
  "\<exists>job w'. CreateJob no_faults 0 Map.empty ''j2'' (sample_world (sample_job ''j1'' ''exec'' ''whoami'') (sample_row ''j1''))
      ''exec'' ''hostname'' '''' [''*''] 5 None 3 ''admin'' = (Inr job, w')
    \<and> map dr_AgentID (job_rows ''j2'' (w_db w')) = [''pc1'']"
proof -
  let ?w = "sample_world (sample_job ''j1'' ''exec'' ''whoami'') (sample_row ''j1'')"
  have n: "\<not> job_known (w_db ?w) ''j2''" by (simp add: job_known_def sample_defs)
  have t: "resolveTargets no_faults (w_db ?w) [''*''] = Inr [''pc1'']"
    by (simp add: resolveTargets_def GetAllAgentIDs_def no_faults_def sample_defs)
  have "list_all (agent_known (w_db ?w)) [''pc1'']" by (simp add: agent_known_def sample_defs)
  from CreateJob_rows [OF sample_inv n t _ this, of 0 Map.empty "''exec''" "''hostname''" "''''" 5 None 3 "''admin''"]
  show ?thesis by auto
qed

subsection \<open>The invariant under faults\<close>

text \<open>
  Every operation of the deployer keeps the queue invariant and cancelled rows cancelled, whichever
  of its database statements fail: a new job, a pump, and a tick of the lease sweeper.
\<close>

theorem deployer_keeps_queue:
  assumes "queue_inv (w_db w)"
  shows "queue_inv (w_db (snd (CreateJob env now cks jid w ty pl ar ts pr ex mr creator)))
    \<and> queue_inv (w_db (snd (PumpAgent env now cks w a)))
    \<and> queue_inv (w_db (lease_sweeper_tick env now cks w))
    \<and> (all_cancelled j b (w_db w) \<longrightarrow> all_cancelled j b (w_db (lease_sweeper_tick env now cks w)))"
  using assms queue_steps_inv queue_steps_cancelled CreateJob_steps PumpAgent_steps lease_sweeper_tick_steps
  by (intro conjI impI) metis+

theorem deployer_keeps_queue_witness:
  "queue_inv (w_db (lease_sweeper_tick (\<lambda>call. hd call = ''UpdateDeployResult'') hour Map.empty
     (sample_world (sample_job ''j1'' ''exec'' ''whoami'') (sample_row ''j1''))))"
  using deployer_keeps_queue [OF sample_inv] by blast

subsection \<open>The expiry sweep\<close>

lemma expire_row_no_faults:
  "deploy_results (w_db (expire_row no_faults now r w)) =
     map (\<lambda>q. if update_matches (dr_JobID r) (dr_AgentID r) None q
              then set_result now ''expired'' ''Expired before execution'' None None None q else q)
         (deploy_results (w_db w))"
  by (simp add: expire_row_def logged_update_rows no_faults_def)

lemma expire_row_hub [simp]: "w_hub (expire_row env now r w) = w_hub w"
  by (simp add: expire_row_def)

lemma expire_row_no_pending:
  assumes "k = row_key r \<or> no_pending k (w_db w)"
  shows "no_pending k (w_db (expire_row no_faults now r w))"
proof -
  have "dr_Status q \<noteq> ''pending''" if "q \<in> set (deploy_results (w_db w))" "row_key q = k"
      "\<not> update_matches (dr_JobID r) (dr_AgentID r) None q" for q
    using assms that by (auto simp: no_pending_def list_all_iff update_matches_def row_key_def)
  then show ?thesis
    by (auto simp: no_pending_def list_all_iff expire_row_no_faults set_result_def row_key_def split: if_splits)
qed

lemma expire_row_other: "k \<noteq> row_key r \<Longrightarrow> rows_of k (w_db (expire_row no_faults now r w)) = rows_of k (w_db w)"
  unfolding expire_row_def rows_of_cong [OF logged_job_status_results]
  by (rule logged_update_other) (simp add: row_key_def)

lemma expired_pending_deadlines:
  "expired_pending now db r \<longleftrightarrow> dr_Status r = ''pending''
     \<and> list_ex (\<lambda>(i, e). i = dr_JobID r \<and> (case e of None \<Rightarrow> False | Some x \<Rightarrow> fmtTime x < fmtTime now)) (job_deadlines db)"
  by (simp add: expired_pending_def job_deadlines_def list_ex_iff expired_job_def)

lemma expire_row_deadlines: "job_deadlines (w_db (expire_row no_faults now r w)) = job_deadlines (w_db w)"
proof -
  have "job_deadlines db' = job_deadlines db" if "UpdateJobStatus env db j = Inr db'" for env db db' j
    using that by (auto simp: UpdateJobStatus_def UpdateDeployJobStatus_def job_deadlines_def split: sum.splits if_splits)
  then have "job_deadlines (w_db (logged_job_status no_faults j v)) = job_deadlines (w_db v)" for j v
    by (simp add: logged_job_status_def split: sum.splits)
  then show ?thesis by (simp add: expire_row_def logged_update_rows job_deadlines_def)
qed

lemma expire_fold:
  "w_hub (fold (expire_row no_faults now) rs w) = w_hub w
   \<and> job_deadlines (w_db (fold (expire_row no_faults now) rs w)) = job_deadlines (w_db w)
   \<and> (k \<in> row_key ` set rs \<or> no_pending k (w_db w) \<longrightarrow> no_pending k (w_db (fold (expire_row no_faults now) rs w)))
   \<and> (k \<notin> row_key ` set rs \<longrightarrow> rows_of k (w_db (fold (expire_row no_faults now) rs w)) = rows_of k (w_db w))"
proof (induction rs arbitrary: w)
  case (Cons r rs)
  show ?case using Cons.IH [of "expire_row no_faults now r w"]
    by (auto simp: expire_row_deadlines expire_row_other intro: expire_row_no_pending)
qed simp

text \<open>
  With a healthy database the expiry sweep ends every pending row whose job has expired, changes
  no row of a (job, agent) pair without such a row, and sends nothing: an expired command is never
  delivered by a later pump.
\<close>

theorem expiry_sweep:
  fixes w :: World
  shows "list_all (\<lambda>r. \<not> expired_pending now (w_db (sweepExpiredPending no_faults now w)) r)
           (deploy_results (w_db (sweepExpiredPending no_faults now w)))
    \<and> (list_all (\<lambda>r. row_key r = k \<longrightarrow> \<not> expired_pending now (w_db w) r) (deploy_results (w_db w)) \<longrightarrow>
         rows_of k (w_db (sweepExpiredPending no_faults now w)) = rows_of k (w_db w))
    \<and> w_hub (sweepExpiredPending no_faults now w) = w_hub w"
proof -
  let ?rs = "filter (expired_pending now (w_db w)) (deploy_results (w_db w))"
  let ?w' = "fold (expire_row no_faults now) ?rs w"
  have eq: "sweepExpiredPending no_faults now w = ?w'"
    by (simp add: sweepExpiredPending_def GetExpiredPendingResults_def no_faults_def expired_pending_def [abs_def])
  note f = expire_fold [of now ?rs w]
  have "\<not> expired_pending now (w_db ?w') q" if q: "q \<in> set (deploy_results (w_db ?w'))" for q
  proof (cases "row_key q \<in> row_key ` set ?rs")
    case True
    with f have "no_pending (row_key q) (w_db ?w')" by blast
    with q have "dr_Status q \<noteq> ''pending''" unfolding no_pending_def list_all_iff by blast
    then show ?thesis by (simp add: expired_pending_def)
  next
    case False
    with f have "rows_of (row_key q) (w_db ?w') = rows_of (row_key q) (w_db w)" by blast
    moreover have "q \<in> set (rows_of (row_key q) (w_db ?w'))" using q by (simp add: rows_of_def)
    ultimately have "q \<in> set (deploy_results (w_db w))" by (simp add: rows_of_def)
    with False have "\<not> expired_pending now (w_db w) q" by auto
    with f show ?thesis by (simp add: expired_pending_deadlines)
  qed
  moreover have "k \<notin> row_key ` set ?rs" if "list_all (\<lambda>r. row_key r = k \<longrightarrow> \<not> expired_pending now (w_db w) r) (deploy_results (w_db w))"
    using that by (auto simp: list_all_iff)
  ultimately show ?thesis using f unfolding eq list_all_iff by blast
qed

theorem expiry_sweep_witness:
  "let job = (sample_job ''j1'' ''exec'' ''whoami'')\<lparr>dj_ExpireAt := Some 0\<rparr>; w = sample_world job (sample_row ''j1'')
   in rows_of (''j9'', ''pc1'') (w_db (sweepExpiredPending no_faults hour w)) = []"
proof -
  let ?w = "sample_world ((sample_job ''j1'' ''exec'' ''whoami'')\<lparr>dj_ExpireAt := Some 0\<rparr>) (sample_row ''j1'')"
  have "list_all (\<lambda>r. row_key r = (''j9'', ''pc1'') \<longrightarrow> \<not> expired_pending hour (w_db ?w) r) (deploy_results (w_db ?w))"
    by (simp add: sample_defs row_key_def)
  with expiry_sweep [of hour ?w "(''j9'', ''pc1'')"]
  have "rows_of (''j9'', ''pc1'') (w_db (sweepExpiredPending no_faults hour ?w)) = rows_of (''j9'', ''pc1'') (w_db ?w)" by blast
  then show ?thesis by (simp add: rows_of_def sample_defs row_key_def)
qed

end
