(* ===== verification/Policy_Store.thy ===== *)
theory Policy_Store
  imports Deploy_Store
begin

text \<open>
  The catalog and policy statements of \<^verbatim>\<open>server/db.go\<close> (applications, sightings, policy rules and
  the policy version) and the catalog pipeline of \<^verbatim>\<open>server/catalog.go\<close>.  The categories table is not
  modelled: a category id that does not exist makes the statement one of the failing calls.
\<close>

subsection \<open>Applications\<close>

abbreviation AppStatusPendingReview :: string where "AppStatusPendingReview \<equiv> ''pending_review''"

record AppMetadata =
  am_ProductName :: string
  am_Company :: string
  am_Description :: string
  am_ProductVersion :: string
  am_SHA256 :: string

definition same_identity :: "string \<Rightarrow> string \<Rightarrow> Application \<Rightarrow> bool" where
  "same_identity exe company r \<longleftrightarrow> ap_ExeName r = exe \<and> ap_Company r = company"

definition keep_new :: "string \<Rightarrow> string \<Rightarrow> string" where
  "keep_new new old = (if new \<noteq> '''' then new else old)"

definition new_application :: "int \<Rightarrow> time \<Rightarrow> string \<Rightarrow> string \<Rightarrow> string \<Rightarrow> string \<Rightarrow> string \<Rightarrow> string \<Rightarrow> Application" where
  "new_application i now exe company product descr version sha =
     \<lparr>ap_ID = i, ap_ExeName = exe, ap_Company = company, ap_ProductName = product, ap_Description = descr,
      ap_ProductVersion = version, ap_SHA256 = sha, ap_CategoryID = None, ap_Status = AppStatusPendingReview,
      ap_CreatedAt = db_trunc now, ap_UpdatedAt = db_trunc now\<rparr>"

text \<open>
  \<^verbatim>\<open>UpsertApplication\<close>: the unique index on (exe name, company) covers only rows with an exe name, so
  an empty exe name always inserts.  The second statement reads the id back.
\<close>

definition UpsertApplication ::
  "db_env \<Rightarrow> time \<Rightarrow> DB \<Rightarrow> string \<Rightarrow> string \<Rightarrow> AppMetadata option \<Rightarrow> (db_error + int) \<times> DB" where
  "UpsertApplication env now db exe company meta =
     (let product = (case meta of None \<Rightarrow> '''' | Some m \<Rightarrow> am_ProductName m);
          descr = (case meta of None \<Rightarrow> '''' | Some m \<Rightarrow> am_Description m);
          version = (case meta of None \<Rightarrow> '''' | Some m \<Rightarrow> am_ProductVersion m);
          sha = (case meta of None \<Rightarrow> '''' | Some m \<Rightarrow> am_SHA256 m)
      in if env [''UpsertApplication'', exe, company] then (Inl DBFault, db)
         else
           let db' = (if exe \<noteq> '''' \<and> list_ex (same_identity exe company) (applications db)
                      then db\<lparr>applications := map (\<lambda>r. if same_identity exe company r
                             then r\<lparr>ap_ProductName := keep_new product (ap_ProductName r),
                                    ap_Description := keep_new descr (ap_Description r),
                                    ap_ProductVersion := keep_new version (ap_ProductVersion r),
                                    ap_SHA256 := keep_new sha (ap_SHA256 r),
                                    ap_UpdatedAt := db_trunc now\<rparr>
                             else r) (applications db)\<rparr>
                      else db\<lparr>applications := applications db @
                             [new_application (applications_seq db + 1) now exe company product descr version sha],
                           applications_seq := applications_seq db + 1\<rparr>)
           in if env [''UpsertApplication.id'', exe, company] then (Inl DBFault, db')
              else (case find (same_identity exe company) (applications db') of
                      None \<Rightarrow> (Inl NoRows, db') | Some r \<Rightarrow> (Inr (ap_ID r), db')))"

definition same_product :: "string \<Rightarrow> string \<Rightarrow> Application \<Rightarrow> bool" where
  "same_product product company r \<longleftrightarrow> EqualFold (ap_ProductName r) product \<and> EqualFold (ap_Company r) company"

definition UpsertApplicationByProduct ::
  "db_env \<Rightarrow> time \<Rightarrow> DB \<Rightarrow> string \<Rightarrow> string \<Rightarrow> AppMetadata option \<Rightarrow> (db_error + int) \<times> DB" where
  "UpsertApplicationByProduct env now db product company meta =
     (let descr = (case meta of None \<Rightarrow> '''' | Some m \<Rightarrow> am_Description m);
          version = (case meta of None \<Rightarrow> '''' | Some m \<Rightarrow> am_ProductVersion m)
      in if env [''UpsertApplicationByProduct'', product, company] then (Inl DBFault, db)
         else (case find (same_product product company) (applications db) of
                 Some r0 \<Rightarrow>
                   (if env [''UpsertApplicationByProduct.update'', product, company] then (Inl DBFault, db)
                    else (Inr (ap_ID r0), db\<lparr>applications := map (\<lambda>r. if ap_ID r = ap_ID r0
                           then r\<lparr>ap_Description := keep_new descr (ap_Description r),
                                  ap_ProductVersion := keep_new version (ap_ProductVersion r),
                                  ap_UpdatedAt := db_trunc now\<rparr>
                           else r) (applications db)\<rparr>))
               | None \<Rightarrow>
                   (if env [''UpsertApplicationByProduct.insert'', product, company] then (Inl DBFault, db)
                    else (Inr (applications_seq db + 1),
                          db\<lparr>applications := applications db @
                               [new_application (applications_seq db + 1) now '''' company product descr version ''''],
                             applications_seq := applications_seq db + 1\<rparr>))))"

text \<open>
  \<^verbatim>\<open>UpdateApplicationStatus\<close> writes the row and then every other row of the same product, so that the
  process-detected and the install-detected row of one application agree.
\<close>

definition set_status :: "time \<Rightarrow> string \<Rightarrow> int option \<Rightarrow> Application \<Rightarrow> Application" where
  "set_status now status cat r = r\<lparr>ap_Status := status, ap_CategoryID := cat, ap_UpdatedAt := db_trunc now\<rparr>"

definition UpdateApplicationStatus ::
  "db_env \<Rightarrow> time \<Rightarrow> DB \<Rightarrow> int \<Rightarrow> string \<Rightarrow> int option \<Rightarrow> db_error option \<times> DB" where
  "UpdateApplicationStatus env now db i status cat =
     (if env [''UpdateApplicationStatus''] then (Some DBFault, db)
      else if \<not> category_known db cat \<and> list_ex (\<lambda>r. ap_ID r = i) (applications db) then (Some ForeignKey, db)
      else
        let db1 = db\<lparr>applications := map (\<lambda>r. if ap_ID r = i then set_status now status cat r else r) (applications db)\<rparr>
        in if env [''UpdateApplicationStatus.product''] then (Some DBFault, db1)
           else (case find (\<lambda>r. ap_ID r = i) (applications db1) of
                   None \<Rightarrow> (Some NoRows, db1)
                 | Some r0 \<Rightarrow>
                     if ap_ProductName r0 = '''' then (None, db1)
                     else if env [''UpdateApplicationStatus.siblings''] then (Some DBFault, db1)
                     else (None, db1\<lparr>applications := map (\<lambda>r.
                            if ap_ID r \<noteq> i \<and> same_product (ap_ProductName r0) (ap_Company r0) r
                            then set_status now status cat r else r) (applications db1)\<rparr>)))"

subsection \<open>Sightings\<close>

definition GetSightingApplicationID :: "db_env \<Rightarrow> DB \<Rightarrow> string \<Rightarrow> string \<Rightarrow> db_error + int option" where
  "GetSightingApplicationID env db a path =
     (if env [''GetSightingApplicationID'', a, path] then Inl DBFault
      else Inr (map_option as_ApplicationID
             (find (\<lambda>s. as_AgentID s = a \<and> as_Path s = path) (app_sightings db))))"

definition UpsertSighting ::
  "db_env \<Rightarrow> time \<Rightarrow> DB \<Rightarrow> string \<Rightarrow> int \<Rightarrow> string \<Rightarrow> int \<Rightarrow> time option \<Rightarrow> time option \<Rightarrow> db_error + DB" where
  "UpsertSighting env now db a app path sz created modified =
     (if env [''UpsertSighting'', a, path] then Inl DBFault
      else if \<not> agent_known db a \<or> app \<notin> set (map ap_ID (applications db)) then Inl ForeignKey
      else if list_ex (\<lambda>s. as_AgentID s = a \<and> as_ApplicationID s = app \<and> as_Path s = path) (app_sightings db)
      then Inr (db\<lparr>app_sightings := map (\<lambda>s. if as_AgentID s = a \<and> as_ApplicationID s = app \<and> as_Path s = path
             then s\<lparr>as_LastSeen := db_trunc now, as_ExecCount := as_ExecCount s + 1,
                    as_Size := (if sz > 0 then sz else as_Size s),
                    as_FileCreatedAt := coalesce (map_option db_trunc created) (as_FileCreatedAt s),
                    as_FileModifiedAt := coalesce (map_option db_trunc modified) (as_FileModifiedAt s)\<rparr>
             else s) (app_sightings db)\<rparr>)
      else Inr (db\<lparr>app_sightings := app_sightings db @
             [\<lparr>as_AgentID = a, as_ApplicationID = app, as_Path = path, as_Size = sz,
               as_FileCreatedAt = map_option db_trunc created, as_FileModifiedAt = map_option db_trunc modified,
               as_FirstSeen = db_trunc now, as_LastSeen = db_trunc now, as_ExecCount = 1\<rparr>]\<rparr>))"

subsection \<open>Policy rules\<close>

definition GetAllPolicyRules :: "db_env \<Rightarrow> DB \<Rightarrow> db_error + PolicyRule list" where
  "GetAllPolicyRules env db =
     (if env [''GetAllPolicyRules''] then Inl DBFault else Inr (sort_key pr_ID (policy_rules db)))"

definition GetEnabledPolicyRules :: "db_env \<Rightarrow> DB \<Rightarrow> db_error + PolicyRule list" where
  "GetEnabledPolicyRules env db =
     (case GetAllPolicyRules env db of Inl e \<Rightarrow> Inl e | Inr rules \<Rightarrow> Inr (filter pr_Enabled rules))"

definition relevant_entry :: "Application \<Rightarrow> PolicyRelevantApp" where
  "relevant_entry r =
     \<lparr>ra_Status = (if ap_Status r \<noteq> AppStatusPendingReview then ap_Status r else ''''),
      ra_CategoryID = ap_CategoryID r, ra_Company = ap_Company r\<rparr>"

fun relevant_loop ::
  "Application list \<Rightarrow> (string \<rightharpoonup> PolicyRelevantApp) \<Rightarrow> (string \<rightharpoonup> PolicyRelevantApp)" where
  "relevant_loop [] result = result"
| "relevant_loop (r # rs) result =
     (let key = ToLower (ap_ExeName r) in
      if result key \<noteq> None then relevant_loop rs result
      else relevant_loop rs (result(key \<mapsto> relevant_entry r)))"

definition policy_relevant :: "Application \<Rightarrow> bool" where
  "policy_relevant r \<longleftrightarrow> ap_ExeName r \<noteq> '''' \<and> (ap_Status r \<noteq> AppStatusPendingReview \<or> ap_CategoryID r \<noteq> None)"

definition GetPolicyRelevantApps :: "db_env \<Rightarrow> DB \<Rightarrow> db_error + (string \<rightharpoonup> PolicyRelevantApp)" where
  "GetPolicyRelevantApps env db =
     (if env [''GetPolicyRelevantApps''] then Inl DBFault
      else Inr (relevant_loop (filter policy_relevant (applications db)) Map.empty))"

definition InsertPolicyRule :: "db_env \<Rightarrow> time \<Rightarrow> DB \<Rightarrow> PolicyRule \<Rightarrow> db_error + int \<times> DB" where
  "InsertPolicyRule env now db r =
     (if env [''InsertPolicyRule''] then Inl DBFault
      else if \<not> category_known db (pr_CategoryID r) then Inl ForeignKey
      else Inr (policy_rules_seq db + 1,
             db\<lparr>policy_rules := policy_rules db @ [r\<lparr>pr_ID := policy_rules_seq db + 1, pr_CreatedAt := db_trunc now\<rparr>],
                policy_rules_seq := policy_rules_seq db + 1\<rparr>))"

definition UpdatePolicyRule :: "db_env \<Rightarrow> DB \<Rightarrow> int \<Rightarrow> PolicyRule \<Rightarrow> db_error + DB" where
  "UpdatePolicyRule env db i r =
     (if env [''UpdatePolicyRule''] then Inl DBFault
      else if \<not> category_known db (pr_CategoryID r) \<and> list_ex (\<lambda>q. pr_ID q = i) (policy_rules db) then Inl ForeignKey
      else Inr (db\<lparr>policy_rules := map (\<lambda>q. if pr_ID q = i
             then r\<lparr>pr_ID := pr_ID q, pr_CreatedAt := pr_CreatedAt q\<rparr> else q) (policy_rules db)\<rparr>))"

definition DeletePolicyRule :: "db_env \<Rightarrow> DB \<Rightarrow> int \<Rightarrow> db_error + DB" where
  "DeletePolicyRule env db i =
     (if env [''DeletePolicyRule''] then Inl DBFault
      else Inr (db\<lparr>policy_rules := filter (\<lambda>q. pr_ID q \<noteq> i) (policy_rules db)\<rparr>))"

subsection \<open>The policy version\<close>

text \<open>SQLite's \<^verbatim>\<open>CAST(value AS INTEGER)\<close>: the longest numeric prefix, 0 without one, clamped to 64 bits.\<close>

definition cast_integer :: "string \<Rightarrow> int" where
  "cast_integer s =
     (let t = dropWhile is_space s;
          neg = (case t of c # _ \<Rightarrow> c = CHR ''-'' | [] \<Rightarrow> False);
          u = (case t of c # cs \<Rightarrow> if c = CHR ''-'' \<or> c = CHR ''+'' then cs else t | [] \<Rightarrow> []);
          n = int (nat_of_digits (takeWhile is_digit u))
      in if neg then max (- (2 ^ 63)) (- n) else min (2 ^ 63 - 1) n)"

definition GetPolicyVersion :: "db_env \<Rightarrow> DB \<Rightarrow> db_error + int" where
  "GetPolicyVersion env db =
     (case GetSetting env db ''policy_version'' of
        Inl e \<Rightarrow> Inl e
      | Inr value \<Rightarrow>
          if value = '''' then Inr 0
          else (case scan_int value of None \<Rightarrow> Inl DBFault | Some v \<Rightarrow> Inr v))"

definition BumpPolicyVersion :: "db_env \<Rightarrow> DB \<Rightarrow> (db_error + int) \<times> DB" where
  "BumpPolicyVersion env db =
     (if env [''BumpPolicyVersion''] then (Inl DBFault, db)
      else
        let db' = db\<lparr>settings := (settings db)(''policy_version'' \<mapsto>
                    (case settings db ''policy_version'' of
                       None \<Rightarrow> ''1'' | Some v \<Rightarrow> show_int (cast_integer v + 1)))\<rparr>
        in (GetPolicyVersion env db', db'))"

subsection \<open>The catalog pipeline\<close>

definition process_metadata :: "Process \<Rightarrow> AppMetadata option" where
  "process_metadata p =
     (if ps_ProductName p \<noteq> '''' \<or> ps_Company p \<noteq> '''' \<or> ps_Description p \<noteq> '''' \<or> ps_ProductVersion p \<noteq> ''''
         \<or> ps_SHA256 p \<noteq> ''''
      then Some \<lparr>am_ProductName = ps_ProductName p, am_Company = ps_Company p, am_Description = ps_Description p,
                 am_ProductVersion = ps_ProductVersion p, am_SHA256 = ps_SHA256 p\<rparr>
      else None)"

definition observeOne :: "db_env \<Rightarrow> time \<Rightarrow> string \<Rightarrow> Process \<Rightarrow> DB \<Rightarrow> DB" where
  "observeOne env now a p db =
     (case GetSightingApplicationID env db a (ps_Path p) of
        Inl e \<Rightarrow> db
      | Inr found \<Rightarrow>
          let (res, db1) = (case found of
                Some i \<Rightarrow> (Inr i, db)
              | None \<Rightarrow> UpsertApplication env now db (ps_Name p) (ps_Company p) (process_metadata p))
          in (case res of
                Inl e \<Rightarrow> db1
              | Inr app \<Rightarrow>
                  (case UpsertSighting env now db1 a app (ps_Path p) (ps_Size p) (ps_FileCreatedAt p) (ps_FileModifiedAt p) of
                     Inl e \<Rightarrow> db1 | Inr db2 \<Rightarrow> db2)))"

fun Observe_loop :: "db_env \<Rightarrow> time \<Rightarrow> string \<Rightarrow> Process list \<Rightarrow> string set \<Rightarrow> DB \<Rightarrow> DB" where
  "Observe_loop env now a [] seen db = db"
| "Observe_loop env now a (p # ps) seen db =
     (if ps_Path p = '''' \<or> ps_Path p \<in> seen then Observe_loop env now a ps seen db
      else Observe_loop env now a ps (insert (ps_Path p) seen) (observeOne env now a p db))"

definition Observe :: "db_env \<Rightarrow> time \<Rightarrow> string \<Rightarrow> Process list \<Rightarrow> DB \<Rightarrow> DB" where
  "Observe env now a procs db = Observe_loop env now a procs {} db"

subsection \<open>The catalog invariant\<close>

text \<open>Application ids are unique and below the sequence; an identity with an exe name occurs once.\<close>

definition catalog_inv :: "DB \<Rightarrow> bool" where
  "catalog_inv db \<longleftrightarrow>
     distinct (map ap_ID (applications db))
     \<and> list_all (\<lambda>r. ap_ID r \<le> applications_seq db) (applications db)
     \<and> distinct (map (\<lambda>r. (ap_ExeName r, ap_Company r)) (filter (\<lambda>r. ap_ExeName r \<noteq> '''') (applications db)))"

definition version_is :: "DB \<Rightarrow> int \<Rightarrow> bool" where
  "version_is db v \<longleftrightarrow>
     (settings db ''policy_version'' = None \<and> v = 0)
     \<or> (settings db ''policy_version'' = Some (show_int v) \<and> 0 < v)"

lemma filter_map_key:
  "(\<And>r. key (f r) = key r) \<Longrightarrow> (\<And>r. P (f r) = P r) \<Longrightarrow> map key (filter P (map f xs)) = map key (filter P xs)"
  by (induction xs) auto

lemma catalog_inv_map:
  assumes "catalog_inv db" "\<And>r. ap_ID (f r) = ap_ID r" "\<And>r. ap_ExeName (f r) = ap_ExeName r"
    "\<And>r. ap_Company (f r) = ap_Company r"
  shows "catalog_inv (db\<lparr>applications := map f (applications db)\<rparr>)"
proof -
  have "map ap_ID (map f (applications db)) = map ap_ID (applications db)" using assms(2) by simp
  moreover have "map (\<lambda>r. (ap_ExeName r, ap_Company r)) (filter (\<lambda>r. ap_ExeName r \<noteq> '''') (map f (applications db))) =
      map (\<lambda>r. (ap_ExeName r, ap_Company r)) (filter (\<lambda>r. ap_ExeName r \<noteq> '''') (applications db))"
    by (rule filter_map_key) (simp_all add: assms)
  ultimately show ?thesis using assms(1,2) by (simp add: catalog_inv_def list_all_iff comp_def)
qed

lemma catalog_inv_append:
  assumes "catalog_inv db" "ap_ID r = applications_seq db + 1"
    and "ap_ExeName r = '''' \<or> \<not> list_ex (same_identity (ap_ExeName r) (ap_Company r)) (applications db)"
  shows "catalog_inv (db\<lparr>applications := applications db @ [r], applications_seq := applications_seq db + 1\<rparr>)"
proof -
  have "ap_ID r \<notin> set (map ap_ID (applications db))" using assms(1,2) by (auto simp: catalog_inv_def list_all_iff)
  moreover have "ap_ExeName r = '''' \<or> (ap_ExeName r, ap_Company r) \<notin> (\<lambda>r. (ap_ExeName r, ap_Company r)) ` set (applications db)"
    using assms(3) by (auto simp: list_ex_iff same_identity_def)
  ultimately show ?thesis using assms(1,2) unfolding catalog_inv_def
    by (auto simp: list_all_iff)
qed

lemma UpsertApplication_inv: "catalog_inv db \<Longrightarrow> catalog_inv (snd (UpsertApplication env now db exe company meta))"
proof -
  assume inv: "catalog_inv db"
  have 1: "catalog_inv (db\<lparr>applications := map (\<lambda>r. if same_identity exe company r
      then r\<lparr>ap_ProductName := keep_new a (ap_ProductName r), ap_Description := keep_new b (ap_Description r),
             ap_ProductVersion := keep_new c (ap_ProductVersion r), ap_SHA256 := keep_new d (ap_SHA256 r),
             ap_UpdatedAt := e\<rparr> else r) (applications db)\<rparr>)" for a b c d e
    by (rule catalog_inv_map [OF inv]) simp_all
  have 2: "catalog_inv (db\<lparr>applications := applications db @ [new_application (applications_seq db + 1) now exe company a b c d],
      applications_seq := applications_seq db + 1\<rparr>)"
    if "\<not> (exe \<noteq> '''' \<and> list_ex (same_identity exe company) (applications db))" for a b c d
    by (rule catalog_inv_append [OF inv]) (use that in \<open>auto simp: new_application_def\<close>)
  show ?thesis unfolding UpsertApplication_def Let_def
    using inv 1 2 by (auto split: option.splits)
qed

lemma UpsertApplicationByProduct_inv:
  assumes "catalog_inv db"
  shows "catalog_inv (snd (UpsertApplicationByProduct env now db product company meta))"
proof -
  have 1: "catalog_inv (db\<lparr>applications := map (\<lambda>r. if ap_ID r = i
      then r\<lparr>ap_Description := keep_new b (ap_Description r), ap_ProductVersion := keep_new c (ap_ProductVersion r),
             ap_UpdatedAt := e\<rparr> else r) (applications db)\<rparr>)" for i b c e
    by (rule catalog_inv_map [OF assms]) simp_all
  have 2: "catalog_inv (db\<lparr>applications := applications db @ [new_application (applications_seq db + 1) now '''' company a b c d],
      applications_seq := applications_seq db + 1\<rparr>)" for a b c d
    by (rule catalog_inv_append [OF assms]) (auto simp: new_application_def)
  show ?thesis unfolding UpsertApplicationByProduct_def Let_def
    using assms 1 2 by (auto split: option.splits)
qed

lemma UpdateApplicationStatus_inv:
  assumes "catalog_inv db"
  shows "catalog_inv (snd (UpdateApplicationStatus env now db i status cat))"
proof -
  have 1: "catalog_inv d \<Longrightarrow> catalog_inv (d\<lparr>applications := map (\<lambda>r. if P r then set_status now status cat r else r) (applications d)\<rparr>)"
    for d P by (erule catalog_inv_map) (simp_all add: set_status_def)
  show ?thesis unfolding UpdateApplicationStatus_def Let_def
    using 1 [OF assms] 1 [OF 1 [OF assms]] assms by (auto split: option.splits)
qed

lemma UpsertSighting_applications:
  "UpsertSighting env now db a app path sz c m = Inr db' \<Longrightarrow>
   applications db' = applications db \<and> applications_seq db' = applications_seq db"
  by (auto simp: UpsertSighting_def split: if_splits)

lemma observeOne_inv:
  assumes "catalog_inv db"
  shows "catalog_inv (observeOne env now a p db)"
proof -
  have s: "catalog_inv d'" if "UpsertSighting env now d a app path sz c m = Inr d'" "catalog_inv d" for d d' app path sz c m
    using UpsertSighting_applications [OF that(1)] that(2) by (simp add: catalog_inv_def)
  have u: "catalog_inv d" if "UpsertApplication env now db (ps_Name p) (ps_Company p) (process_metadata p) = (r, d)" for r d
    using UpsertApplication_inv [OF assms] that by (metis snd_conv)
  show ?thesis unfolding observeOne_def
    using assms s u by (auto split: sum.splits option.splits prod.splits)
qed

lemma Observe_inv: "catalog_inv db \<Longrightarrow> catalog_inv (Observe env now a procs db)"
proof -
  have "catalog_inv db \<Longrightarrow> catalog_inv (Observe_loop env now a procs seen db)" for seen
    by (induction env now a procs seen db rule: Observe_loop.induct) (auto intro: observeOne_inv)
  then show "catalog_inv db \<Longrightarrow> ?thesis" by (simp add: Observe_def)
qed

subsection \<open>The relevant applications\<close>

lemma relevant_loop_find:
  "relevant_loop rs result k =
     (case result k of Some v \<Rightarrow> Some v
      | None \<Rightarrow> map_option relevant_entry (find (\<lambda>r. ToLower (ap_ExeName r) = k) rs))"
proof (induction rs arbitrary: result)
  case Nil
  then show ?case by (simp split: option.splits)
next
  case (Cons r rs)
  show ?case
  proof (cases "result (ToLower (ap_ExeName r))")
    case None
    then show ?thesis
      by (cases "ToLower (ap_ExeName r) = k") (simp_all add: Let_def Cons.IH split: option.splits)
  next
    case (Some v)
    then show ?thesis
      by (cases "ToLower (ap_ExeName r) = k") (simp_all add: Let_def Cons.IH split: option.splits)
  qed
qed

lemma relevant_loop_keys: "relevant_loop rs Map.empty k \<noteq> None \<Longrightarrow> ToLower k = k"
  by (auto simp: relevant_loop_find find_Some_iff)

subsection \<open>The version counter\<close>

lemma show_int_head:
  assumes "0 \<le> v"
  obtains c cs where "show_int v = c # cs" "is_digit c" "list_all is_digit (show_int v)" "nat_of_digits (show_int v) = nat v"
proof -
  have s: "show_int v = show_nat (nat v)" using assms by (simp add: show_int_def)
  obtain c cs where c: "show_nat (nat v) = c # cs" by (cases "show_nat (nat v)") simp_all
  with show_nat_digits [of "nat v"] have "is_digit c" by simp
  moreover have "nat_of_digits (show_int v) = nat v" "list_all is_digit (show_int v)"
    using s show_nat_digits by simp_all
  ultimately show thesis using s c by (intro that [of c cs]) simp_all
qed

lemma cast_integer_show:
  assumes "0 \<le> v" "v < 2 ^ 63"
  shows "cast_integer (show_int v) = v"
proof -
  obtain c cs where s: "show_int v = c # cs" "is_digit c" "list_all is_digit (show_int v)" "nat_of_digits (show_int v) = nat v"
    by (rule show_int_head [OF assms(1)])
  then have "\<not> is_space c" "c \<noteq> CHR ''-''" "c \<noteq> CHR ''+''" by (auto simp: is_digit_def is_space_def)
  moreover have tw: "takeWhile is_digit cs = cs"
    using s(1,3) by (simp add: list_all_iff takeWhile_eq_all_conv)
  moreover have "nat_of_digits (c # cs) = nat v" using s(1,4) by simp
  ultimately show ?thesis using s(1,2) assms by (simp add: cast_integer_def Let_def tw)
qed

lemma version_is_get:
  assumes "version_is db v" "v < 2 ^ 63" "\<not> env [''GetSetting'', ''policy_version'']"
  shows "GetPolicyVersion env db = Inr v"
proof (cases "settings db ''policy_version''")
  case None
  with assms show ?thesis by (simp add: version_is_def GetPolicyVersion_def GetSetting_def)
next
  case (Some s)
  with assms have s: "s = show_int v" "0 < v" by (auto simp: version_is_def)
  obtain c cs where "show_int v = c # cs" by (rule show_int_head [of v]) (use s in simp_all)
  with Some s assms scan_int_show [of v] show ?thesis by (simp add: GetPolicyVersion_def GetSetting_def)
qed

lemma version_is_bump:
  assumes "version_is db v" "v < 2 ^ 63" "\<not> env [''BumpPolicyVersion'']"
  shows "version_is (snd (BumpPolicyVersion env db)) (v + 1)"
proof -
  have "show_int 1 = ''1''" by code_simp
  with assms show ?thesis
    by (auto simp: version_is_def BumpPolicyVersion_def Let_def cast_integer_show)
qed

end
