(* ===== verification/Hub_Requests.thy ===== *)
theory Hub_Requests
  imports Server_World
begin

text \<open>
  The request/reply calls of \<^verbatim>\<open>server/hub.go\<close>: a caller registers a one-place channel for the agent,
  sends a request and waits; the read loop of the agent's connection puts the reply into the channel
  registered at that moment.  A blocking call is two definitions, up to the wait and from the wake-up on;
  the channel number \<open>ch\<close> is fresh, and waking up with an empty channel is the timeout.
\<close>

record IncomingMessage =
  im_Type :: string
  im_AgentID :: string
  im_Hostname :: string
  im_IP :: string
  im_OS :: string
  im_CPU :: float64
  im_RAM :: float64
  im_Processes :: "Process list"
  im_AgentVersion :: string
  im_WindowsVersion :: string
  im_DiskCapacityGB :: float64
  im_MacAddress :: string
  im_JobID :: string
  im_Attempt :: "int option"
  im_Status :: string
  im_Output :: string
  im_ExitCode :: "int option"
  im_DurationMS :: "int option"
  im_NetworkMode :: string
  im_EventType :: string
  im_Metadata :: "(string \<times> json) list"
  im_PolicyVersion :: int
  im_SoftwareItems :: "SoftwareInventoryItem list"

text \<open>
  The metadata object is kept as the list of its members in key order, the order
  \<^verbatim>\<open>json.Marshal\<close> prints a map in.
\<close>

datatype request_error = AgentNotOnline | RequestTimedOut

text \<open>The agent a handler attributes a message to: the connection's, else the one in the message.\<close>

definition sender :: "World \<Rightarrow> nat \<Rightarrow> IncomingMessage \<Rightarrow> string" where
  "sender w c msg = (if conn_agent (w_hub w) c = '''' then im_AgentID msg else conn_agent (w_hub w) c)"

definition offer :: "nat \<Rightarrow> string + networkModeResult \<Rightarrow> World \<Rightarrow> World" where
  "offer ch v w = (if w_chans w ch = None then w\<lparr>w_chans := (w_chans w)(ch \<mapsto> v)\<rparr> else w)"

subsection \<open>Logs\<close>

definition handleLogResult :: "nat \<Rightarrow> IncomingMessage \<Rightarrow> World \<Rightarrow> World" where
  "handleLogResult c msg w =
     (case w_logWaiters w (sender w c msg) of None \<Rightarrow> w | Some ch \<Rightarrow> offer ch (Inl (im_Output msg)) w)"

definition RequestAgentLogs_begin :: "nat \<Rightarrow> string \<Rightarrow> int \<Rightarrow> World \<Rightarrow> bool \<times> World" where
  "RequestAgentLogs_begin ch a lines w =
     (let w = w\<lparr>w_logWaiters := (w_logWaiters w)(a \<mapsto> ch), w_chans := (w_chans w)(ch := None)\<rparr>;
          (sent, w) = send_to a ((blank_message ''get_logs'')\<lparr>om_Lines := lines\<rparr>) w
      in if sent then (True, w) else (False, w\<lparr>w_logWaiters := (w_logWaiters w)(a := None)\<rparr>))"

definition RequestAgentLogs_end :: "nat \<Rightarrow> string \<Rightarrow> World \<Rightarrow> (request_error + string) \<times> World" where
  "RequestAgentLogs_end ch a w =
     ((case w_chans w ch of Some (Inl out) \<Rightarrow> Inr out | _ \<Rightarrow> Inl RequestTimedOut),
      w\<lparr>w_logWaiters := (w_logWaiters w)(a := None)\<rparr>)"

subsection \<open>Kills\<close>

definition handleKillResult :: "nat \<Rightarrow> IncomingMessage \<Rightarrow> World \<Rightarrow> World" where
  "handleKillResult c msg w =
     (case w_killWaiters w (sender w c msg) of None \<Rightarrow> w | Some ch \<Rightarrow> offer ch (Inl (im_Output msg)) w)"

definition kill_begin :: "nat \<Rightarrow> string \<Rightarrow> OutgoingMessage \<Rightarrow> World \<Rightarrow> bool \<times> World" where
  "kill_begin ch a msg w =
     (let w = w\<lparr>w_killWaiters := (w_killWaiters w)(a \<mapsto> ch), w_chans := (w_chans w)(ch := None)\<rparr>;
          (sent, w) = send_to a msg w
      in if sent then (True, w) else (False, w\<lparr>w_killWaiters := (w_killWaiters w)(a := None)\<rparr>))"

definition KillProcess_begin :: "nat \<Rightarrow> string \<Rightarrow> int \<Rightarrow> string \<Rightarrow> World \<Rightarrow> bool \<times> World" where
  "KillProcess_begin ch a pid name =
     kill_begin ch a ((blank_message ''kill_process'')\<lparr>om_PID := pid, om_ProcName := name\<rparr>)"

definition KillProcessByIdentity_begin :: "nat \<Rightarrow> string \<Rightarrow> string \<Rightarrow> string \<Rightarrow> int \<Rightarrow> World \<Rightarrow> bool \<times> World" where
  "KillProcessByIdentity_begin ch a name company pid =
     kill_begin ch a ((blank_message ''kill_by_identity'')\<lparr>om_ProcName := name, om_Company := company, om_PID := pid\<rparr>)"

definition kill_end :: "nat \<Rightarrow> string \<Rightarrow> World \<Rightarrow> (request_error + string) \<times> World" where
  "kill_end ch a w =
     ((case w_chans w ch of Some (Inl out) \<Rightarrow> Inr out | _ \<Rightarrow> Inl RequestTimedOut),
      w\<lparr>w_killWaiters := (w_killWaiters w)(a := None)\<rparr>)"

subsection \<open>Network mode\<close>

definition handleNetworkModeResult :: "db_env \<Rightarrow> time \<Rightarrow> IncomingMessage \<Rightarrow> World \<Rightarrow> World" where
  "handleNetworkModeResult env now msg w =
     (if im_AgentID msg = '''' then w
      else
        let detail = truncate_output 2048 (im_Output msg);
            w = (case UpdateAgentNetworkModeResult env now (w_db w) (im_AgentID msg) (im_NetworkMode msg) (im_Status msg) detail of
                   Inl e \<Rightarrow> w | Inr db \<Rightarrow> w\<lparr>w_db := db\<rparr>)
        in (case w_networkModeWaiters w (im_AgentID msg) of
              None \<Rightarrow> w
            | Some ch \<Rightarrow> offer ch (Inr \<lparr>nm_Mode = im_NetworkMode msg, nm_Status = im_Status msg, nm_Output = detail\<rparr>) w))"

definition SetNetworkMode_begin :: "nat \<Rightarrow> string \<Rightarrow> string \<Rightarrow> World \<Rightarrow> bool \<times> World" where
  "SetNetworkMode_begin ch a mode w =
     (let w = w\<lparr>w_networkModeWaiters := (w_networkModeWaiters w)(a \<mapsto> ch), w_chans := (w_chans w)(ch := None)\<rparr>;
          (sent, w) = send_to a ((blank_message ''network_mode'')\<lparr>om_NetworkMode := mode\<rparr>) w
      in if sent then (True, w) else (False, w\<lparr>w_networkModeWaiters := (w_networkModeWaiters w)(a := None)\<rparr>))"

definition SetNetworkMode_end :: "nat \<Rightarrow> string \<Rightarrow> World \<Rightarrow> (request_error + networkModeResult) \<times> World" where
  "SetNetworkMode_end ch a w =
     ((case w_chans w ch of Some (Inr r) \<Rightarrow> Inr r | _ \<Rightarrow> Inl RequestTimedOut),
      w\<lparr>w_networkModeWaiters := (w_networkModeWaiters w)(a := None)\<rparr>)"

subsection \<open>Lemmas\<close>

lemma send_to_frame [simp]:
  "w_killWaiters (snd (send_to a m w)) = w_killWaiters w" "w_chans (snd (send_to a m w)) = w_chans w"
  "w_logWaiters (snd (send_to a m w)) = w_logWaiters w" "w_networkModeWaiters (snd (send_to a m w)) = w_networkModeWaiters w"
  by (simp_all add: send_to_def split: prod.splits)

lemma kill_begin_sent:
  assumes "kill_begin ch a msg w = (True, w')"
  shows "w_killWaiters w' = (w_killWaiters w)(a \<mapsto> ch)" "w_chans w' ch = None" "w_db w' = w_db w"
proof -
  let ?w = "w\<lparr>w_killWaiters := (w_killWaiters w)(a \<mapsto> ch), w_chans := (w_chans w)(ch := None)\<rparr>"
  have "w' = snd (send_to a msg ?w)"
    using assms by (auto simp: kill_begin_def Let_def split: prod.splits if_splits)
  then show "w_killWaiters w' = (w_killWaiters w)(a \<mapsto> ch)" "w_chans w' ch = None" "w_db w' = w_db w"
    by simp_all
qed

end
