(* ===== verification/Policy_Engine.thy ===== *)
theory Policy_Engine
  imports Policy_Store Hub_Requests
begin

text \<open>
  \<^verbatim>\<open>server/policy.go\<close>, the policy synchronisation of \<^verbatim>\<open>server/hub.go\<close> and the event recorder of
  \<^verbatim>\<open>server/events.go\<close>.  \<open>order\<close> is the iteration order of the location markers and \<open>sep\<close> the path
  separators of the server's operating system.
\<close>

subsection \<open>Notifications\<close>

text \<open>\<^verbatim>\<open>Alerter.NotifyEvent\<close>: the text goes to the Telegram and e-mail senders.\<close>

definition NotifyEvent :: "db_env \<Rightarrow> string \<Rightarrow> World \<Rightarrow> World" where
  "NotifyEvent env message w =
     (case GetAllSettings env (w_db w) of Inl e \<Rightarrow> w | Inr s \<Rightarrow> w\<lparr>w_notices := w_notices w @ [message]\<rparr>)"

subsection \<open>Evaluation\<close>

definition relevantAppsCacheTTL :: int where "relevantAppsCacheTTL = 5 * second"

definition relevantApps :: "db_env \<Rightarrow> time \<Rightarrow> World \<Rightarrow> (db_error + (string \<rightharpoonup> PolicyRelevantApp)) \<times> World" where
  "relevantApps env now w =
     (case w_relevant w of
        Some (cached, stamp) \<Rightarrow>
          if now - stamp < relevantAppsCacheTTL then (Inr cached, w)
          else (case GetPolicyRelevantApps env (w_db w) of
                  Inl e \<Rightarrow> (Inl e, w) | Inr fresh \<Rightarrow> (Inr fresh, w\<lparr>w_relevant := Some (fresh, now)\<rparr>))
      | None \<Rightarrow> (case GetPolicyRelevantApps env (w_db w) of
                  Inl e \<Rightarrow> (Inl e, w) | Inr fresh \<Rightarrow> (Inr fresh, w\<lparr>w_relevant := Some (fresh, now)\<rparr>)))"

definition PolicyEngine_Evaluate :: "db_env \<Rightarrow> DB \<Rightarrow> PolicyContext \<Rightarrow> PolicyDecision" where
  "PolicyEngine_Evaluate env db ctx =
     (case GetEnabledPolicyRules env db of
        Inl e \<Rightarrow> \<lparr>pd_Action = ''log'', pd_Rule = None\<rparr>
      | Inr rules \<Rightarrow> Evaluate rules ctx)"

definition describeExecutionLocation :: "string \<Rightarrow> string" where
  "describeExecutionLocation loc = (if loc = '''' then ''lokasi instalasi standar'' else loc)"

definition file_extension :: "(char \<Rightarrow> bool) \<Rightarrow> string \<Rightarrow> string" where
  "file_extension sep path = TrimPrefix (ToLower (filepath_Ext sep path)) ''.''"

definition no_app :: PolicyRelevantApp where
  "no_app = \<lparr>ra_Status = '''', ra_CategoryID = None, ra_Company = ''''\<rparr>"

definition app_or_none :: "PolicyRelevantApp option \<Rightarrow> PolicyRelevantApp" where
  "app_or_none a = (case a of None \<Rightarrow> no_app | Some x \<Rightarrow> x)"

text \<open>One process of the loop: skipped, or the decision for it.\<close>

definition process_decision ::
  "db_env \<Rightarrow> (string \<times> string) list \<Rightarrow> (char \<Rightarrow> bool) \<Rightarrow> DB \<Rightarrow> (string \<rightharpoonup> PolicyRelevantApp) \<Rightarrow> string \<Rightarrow> Process
    \<Rightarrow> PolicyDecision option" where
  "process_decision env order sep db apps a proc =
     (let loc = ClassifyExecutionLocation order (ps_Path proc);
          app = apps (ToLower (ps_Name proc))
      in if loc = '''' \<and> app = None then None
         else Some (PolicyEngine_Evaluate env db
           \<lparr>pc_AgentID = a,
            pc_DeviceGroup = (case GetAgentDeviceGroup env db a of Inl e \<Rightarrow> '''' | Inr g \<Rightarrow> g),
            pc_EventType = '''',
            pc_CategoryID = ra_CategoryID (app_or_none app),
            pc_AppStatus = ra_Status (app_or_none app),
            pc_FileExtension = file_extension sep (ps_Path proc),
            pc_ExecutionLocation = loc\<rparr>))"

definition EvaluateProcesses ::
  "db_env \<Rightarrow> time \<Rightarrow> (string \<times> string) list \<Rightarrow> (char \<Rightarrow> bool) \<Rightarrow> string \<Rightarrow> string \<Rightarrow> Process list \<Rightarrow> World \<Rightarrow> World" where
  "EvaluateProcesses env now order sep a hostname procs w =
     (let (res, w) = relevantApps env now w;
          apps = (case res of Inl e \<Rightarrow> Map.empty | Inr m \<Rightarrow> m)
      in fold (\<lambda>proc w.
           (case process_decision env order sep (w_db w) apps a proc of
              None \<Rightarrow> w
            | Some decision \<Rightarrow>
                if pd_Action decision = ''log'' then w
                else go_task (TaskActOnExecution a hostname proc
                       (ClassifyExecutionLocation order (ps_Path proc))
                       (ra_Company (app_or_none (apps (ToLower (ps_Name proc))))) decision) w)) procs w)"

subsection \<open>Acting on a decision\<close>

definition exec_message :: "string \<Rightarrow> Process \<Rightarrow> string \<Rightarrow> string" where
  "exec_message hostname proc loc =
     ''Kebijakan eksekusi: '' @ ps_Name proc @ '' dijalankan dari '' @ describeExecutionLocation loc @ '' di '' @ hostname"

definition killed_message :: "string \<Rightarrow> Process \<Rightarrow> string \<Rightarrow> string \<Rightarrow> string" where
  "killed_message hostname proc loc output =
     [CHR 0xF0, CHR 0x9F, CHR 0x9A, CHR 0xAB] @ '' Proses '' @ ps_Name proc @ '' dari '' @ describeExecutionLocation loc
     @ '' di '' @ hostname @ '' dihentikan (kebijakan eksekusi) '' @ em_dash @ '' '' @ output"

text \<open>
  \<^verbatim>\<open>actOnExecution\<close> up to the wait for the kill reply, and from there on.  For an action other than kill
  the first part does nothing and the second ignores the reply.
\<close>

definition actOnExecution_begin :: "nat \<Rightarrow> string \<Rightarrow> Process \<Rightarrow> string \<Rightarrow> PolicyDecision \<Rightarrow> World \<Rightarrow> bool \<times> World" where
  "actOnExecution_begin ch a proc company decision w =
     (if pd_Action decision = PolicyActionKill
      then KillProcessByIdentity_begin ch a (ps_Name proc) company (ps_PID proc) w
      else (False, w))"

definition final_action :: "string \<Rightarrow> request_error + string \<Rightarrow> string" where
  "final_action action reply =
     (if action = PolicyActionKill then (case reply of Inl e \<Rightarrow> ''log'' | Inr out \<Rightarrow> ''killed'')
      else if action = PolicyActionNotify then ''notify''
      else if action = PolicyActionBlock \<or> action = PolicyActionDelete then ''blocked''
      else action)"

definition actOnExecution_end ::
  "db_env \<Rightarrow> time \<Rightarrow> string \<Rightarrow> string \<Rightarrow> Process \<Rightarrow> string \<Rightarrow> PolicyDecision \<Rightarrow> request_error + string \<Rightarrow> World \<Rightarrow> World" where
  "actOnExecution_end env now a hostname proc loc decision reply w =
     (let action = pd_Action decision;
          killOutput = (case reply of Inr out \<Rightarrow> (if action = PolicyActionKill then out else '''') | Inl e \<Rightarrow> '''');
          w = (if action = PolicyActionKill
               then NotifyEvent env (case reply of Inl e \<Rightarrow> exec_message hostname proc loc
                                     | Inr out \<Rightarrow> killed_message hostname proc loc out) w
               else if action = PolicyActionNotify then NotifyEvent env (exec_message hostname proc loc) w
               else w);
          ruleName = (case pd_Rule decision of None \<Rightarrow> '''' | Some r \<Rightarrow> pr_Name r);
          policyVersion = (case GetPolicyVersion env (w_db w) of Inl e \<Rightarrow> 0 | Inr v \<Rightarrow> v);
          metadata = JObj [(''process'', JStr (ps_Name proc)), (''pid'', JNum (ps_PID proc)), (''path'', JStr (ps_Path proc)),
                      (''execution_location'', JStr loc), (''policy_action'', JStr action),
                      (''policy_version'', JNum policyVersion), (''evaluation_source'', JStr ''server_tick''),
                      (''rule'', JStr ruleName), (''kill_output'', JStr killOutput)]
      in (case InsertEvent env now (w_db w) a ''exec_policy'' metadata (final_action action reply) of
            Inl e \<Rightarrow> w | Inr db \<Rightarrow> w\<lparr>w_db := db\<rparr>))"

subsection \<open>Synchronising the agents\<close>

definition sendPolicyUpdateTo :: "db_env \<Rightarrow> string \<Rightarrow> int \<Rightarrow> World \<Rightarrow> bool \<times> World" where
  "sendPolicyUpdateTo env a version w =
     (case GetEnabledPolicyRules env (w_db w) of
        Inl e \<Rightarrow> (False, w)
      | Inr rules \<Rightarrow>
          (case GetPolicyRelevantApps env (w_db w) of
             Inl e \<Rightarrow> (False, w)
           | Inr apps \<Rightarrow>
               send_to a ((blank_message ''policy_update'')\<lparr>om_PolicyVersion := version, om_PolicyRules := rules,
                   om_PolicyApps := apps,
                   om_DeviceGroup := (case GetAgentDeviceGroup env (w_db w) a of Inl e \<Rightarrow> '''' | Inr g \<Rightarrow> g)\<rparr>) w))"

definition handlePolicyVersionCheck :: "db_env \<Rightarrow> nat \<Rightarrow> IncomingMessage \<Rightarrow> World \<Rightarrow> World" where
  "handlePolicyVersionCheck env c msg w =
     (let a = sender w c msg in
      if a = '''' then w
      else case GetPolicyVersion env (w_db w) of
        Inl e \<Rightarrow> w
      | Inr current \<Rightarrow>
          if im_PolicyVersion msg \<ge> current then w
          else snd (sendPolicyUpdateTo env a current w))"

text \<open>\<^verbatim>\<open>BroadcastPolicyUpdate\<close> over the online ids, in the order the map iteration gives them.\<close>

definition BroadcastPolicyUpdate :: "db_env \<Rightarrow> string list \<Rightarrow> World \<Rightarrow> World" where
  "BroadcastPolicyUpdate env online w =
     (case GetPolicyVersion env (w_db w) of
        Inl e \<Rightarrow> w
      | Inr version \<Rightarrow> fold (\<lambda>a w. snd (sendPolicyUpdateTo env a version w)) online w)"

definition AllOnlineIDs :: "Hub \<Rightarrow> string list \<Rightarrow> bool" where
  "AllOnlineIDs h ids \<longleftrightarrow> distinct ids \<and> set ids = dom (hub_clients h)"

definition bumpPolicyVersionAndBroadcast :: "db_env \<Rightarrow> string list \<Rightarrow> World \<Rightarrow> World" where
  "bumpPolicyVersionAndBroadcast env online w =
     (case BumpPolicyVersion env (w_db w) of
        (Inl e, db) \<Rightarrow> w\<lparr>w_db := db\<rparr>
      | (Inr v, db) \<Rightarrow> BroadcastPolicyUpdate env online (w\<lparr>w_db := db\<rparr>))"

definition handlePolicyEnforcement :: "db_env \<Rightarrow> time \<Rightarrow> nat \<Rightarrow> IncomingMessage \<Rightarrow> World \<Rightarrow> World" where
  "handlePolicyEnforcement env now c msg w =
     (let a = sender w c msg in
      if a = '''' \<or> im_EventType msg = '''' then w
      else case InsertEvent env now (w_db w) a (im_EventType msg) (JObj (im_Metadata msg)) (im_Status msg) of
        Inl e \<Rightarrow> w | Inr db \<Rightarrow> w\<lparr>w_db := db\<rparr>)"

lemma sendPolicyUpdateTo_db [simp]: "w_db (snd (sendPolicyUpdateTo env a v w)) = w_db w"
  by (simp add: sendPolicyUpdateTo_def split: sum.splits)

lemma sendPolicyUpdateTo_inv: "hub_inv (w_hub w) \<Longrightarrow> hub_inv (w_hub (snd (sendPolicyUpdateTo env a v w)))"
  by (simp add: sendPolicyUpdateTo_def send_to_inv split: sum.splits)

end
