(* ===== verification/Agent_Policy.thy ===== *)
theory Agent_Policy
  imports Policy_Engine
begin

text \<open>
  \<^verbatim>\<open>agent/policycache.go\<close>: the agent's copy of the policy, and its agreement with the server.  A
  message field decoded through JSON is absent, undecodable, or a value; the cache file is missing,
  corrupt, or a cache.
\<close>

datatype 'a decoded = Absent | Undecodable | Decoded 'a

record PolicyCache =
  pca_Version :: int
  pca_ServerURL :: string
  pca_DeviceGroup :: string
  pca_Rules :: "PolicyRule list"
  pca_RelevantApps :: "string \<rightharpoonup> PolicyRelevantApp"
  pca_UpdatedAt :: time

record AgentPolicy =
  agp_cache :: "PolicyCache option"
  agp_file :: "PolicyCache decoded"

definition empty_cache :: PolicyCache where
  "empty_cache = \<lparr>pca_Version = 0, pca_ServerURL = '''', pca_DeviceGroup = '''', pca_Rules = [],
     pca_RelevantApps = Map.empty, pca_UpdatedAt = 0\<rparr>"

text \<open>\<open>keys\<close> enumerates the map in the order the iteration visits it.\<close>

definition normalizeRelevantApps :: "string list \<Rightarrow> (string \<rightharpoonup> PolicyRelevantApp) \<Rightarrow> (string \<rightharpoonup> PolicyRelevantApp)" where
  "normalizeRelevantApps keys apps =
     fold (\<lambda>k out. case apps k of None \<Rightarrow> out | Some v \<Rightarrow> out(ToLower k \<mapsto> v)) keys Map.empty"

definition currentPolicyCache :: "AgentPolicy \<Rightarrow> PolicyCache" where
  "currentPolicyCache s = (case agp_cache s of Some pc \<Rightarrow> pc | None \<Rightarrow> empty_cache)"

text \<open>The file is replaced by a rename; a failing save leaves the old one.\<close>

definition setPolicyCache :: "bool \<Rightarrow> PolicyCache \<Rightarrow> AgentPolicy \<Rightarrow> AgentPolicy" where
  "setPolicyCache save_fails pc s =
     s\<lparr>agp_cache := Some pc, agp_file := (if save_fails then agp_file s else Decoded pc)\<rparr>"

definition loadPolicyCacheFile :: "string list \<Rightarrow> AgentPolicy \<Rightarrow> PolicyCache option" where
  "loadPolicyCacheFile keys s =
     (case agp_file s of
        Absent \<Rightarrow> None
      | Undecodable \<Rightarrow> None
      | Decoded pc \<Rightarrow> Some (pc\<lparr>pca_RelevantApps := normalizeRelevantApps keys (pca_RelevantApps pc)\<rparr>))"

definition initPolicyCache :: "string list \<Rightarrow> string \<Rightarrow> AgentPolicy \<Rightarrow> AgentPolicy" where
  "initPolicyCache keys currentServer s =
     (case loadPolicyCacheFile keys s of
        None \<Rightarrow> s
      | Some pc \<Rightarrow>
          if pca_ServerURL pc \<noteq> '''' \<and> pca_ServerURL pc \<noteq> currentServer then s
          else s\<lparr>agp_cache := Some pc\<rparr>)"

definition handlePolicyUpdate ::
  "bool \<Rightarrow> time \<Rightarrow> string \<Rightarrow> string list \<Rightarrow> int \<Rightarrow> string \<Rightarrow> PolicyRule list decoded
    \<Rightarrow> (string \<rightharpoonup> PolicyRelevantApp) decoded \<Rightarrow> AgentPolicy \<Rightarrow> AgentPolicy" where
  "handlePolicyUpdate save_fails now serverURL keys version deviceGroup rules apps s =
     (case rules of
        Undecodable \<Rightarrow> s
      | _ \<Rightarrow>
        (case apps of
           Undecodable \<Rightarrow> s
         | _ \<Rightarrow>
           setPolicyCache save_fails
             \<lparr>pca_Version = version, pca_ServerURL = serverURL, pca_DeviceGroup = deviceGroup,
              pca_Rules = (case rules of Decoded rs \<Rightarrow> rs | _ \<Rightarrow> []),
              pca_RelevantApps = normalizeRelevantApps keys (case apps of Decoded m \<Rightarrow> m | _ \<Rightarrow> Map.empty),
              pca_UpdatedAt = now\<rparr> s))"

text \<open>The fields of a \<^verbatim>\<open>policy_update\<close> as the agent decodes them: \<^verbatim>\<open>omitempty\<close> drops empty ones.\<close>

definition update_rules :: "OutgoingMessage \<Rightarrow> PolicyRule list decoded" where
  "update_rules m = (if om_PolicyRules m = [] then Absent else Decoded (om_PolicyRules m))"

definition update_apps :: "OutgoingMessage \<Rightarrow> (string \<rightharpoonup> PolicyRelevantApp) decoded" where
  "update_apps m = (if om_PolicyApps m = Map.empty then Absent else Decoded (om_PolicyApps m))"

definition receive_policy_update ::
  "bool \<Rightarrow> time \<Rightarrow> string \<Rightarrow> string list \<Rightarrow> OutgoingMessage \<Rightarrow> AgentPolicy \<Rightarrow> AgentPolicy" where
  "receive_policy_update save_fails now serverURL keys m s =
     handlePolicyUpdate save_fails now serverURL keys (om_PolicyVersion m) (om_DeviceGroup m) (update_rules m) (update_apps m) s"

definition enabledOnly :: "PolicyRule list \<Rightarrow> PolicyRule list" where
  "enabledOnly rules = filter pr_Enabled rules"

definition evaluateProcessLocally ::
  "(string \<times> string) list \<Rightarrow> (char \<Rightarrow> bool) \<Rightarrow> AgentPolicy \<Rightarrow> string \<Rightarrow> string \<Rightarrow> (PolicyDecision \<times> PolicyRelevantApp) option" where
  "evaluateProcessLocally order sep s name path =
     (let cache = currentPolicyCache s;
          loc = ClassifyExecutionLocation order path;
          app = pca_RelevantApps cache (ToLower name)
      in if loc = '''' \<and> app = None then None
         else Some (Evaluate (enabledOnly (pca_Rules cache))
           \<lparr>pc_AgentID = '''', pc_DeviceGroup = pca_DeviceGroup cache, pc_EventType = '''',
            pc_CategoryID = ra_CategoryID (app_or_none app), pc_AppStatus = ra_Status (app_or_none app),
            pc_FileExtension = file_extension sep path, pc_ExecutionLocation = loc\<rparr>, app_or_none app))"

text \<open>What \<^verbatim>\<open>sendPolicyVersionCheck\<close> reports.\<close>

definition sendPolicyVersionCheck :: "AgentPolicy \<Rightarrow> int" where
  "sendPolicyVersionCheck s = pca_Version (currentPolicyCache s)"

subsection \<open>One decision procedure\<close>

text \<open>
  What both sides compute from a policy source: the enabled rules, the flagged applications and the
  device group.
\<close>

definition decide ::
  "PolicyRule list \<Rightarrow> (string \<rightharpoonup> PolicyRelevantApp) \<Rightarrow> string \<Rightarrow> (string \<times> string) list \<Rightarrow> (char \<Rightarrow> bool) \<Rightarrow> string \<Rightarrow> string
    \<Rightarrow> PolicyDecision option" where
  "decide rules apps grp order sep name path =
     (let loc = ClassifyExecutionLocation order path; app = apps (ToLower name) in
      if loc = '''' \<and> app = None then None
      else Some (Evaluate rules
        \<lparr>pc_AgentID = '''', pc_DeviceGroup = grp, pc_EventType = '''',
         pc_CategoryID = ra_CategoryID (app_or_none app), pc_AppStatus = ra_Status (app_or_none app),
         pc_FileExtension = file_extension sep path, pc_ExecutionLocation = loc\<rparr>))"

definition server_rules :: "DB \<times> string \<Rightarrow> PolicyRule list" where
  "server_rules s = filter pr_Enabled (sort_key pr_ID (policy_rules (fst s)))"

definition server_apps :: "DB \<times> string \<Rightarrow> (string \<rightharpoonup> PolicyRelevantApp)" where
  "server_apps s = relevant_loop (filter policy_relevant (applications (fst s))) Map.empty"

definition server_group :: "DB \<times> string \<Rightarrow> string" where
  "server_group s = (case GetAgentByID (fst s) (snd s) of Some r \<Rightarrow> ag_DeviceGroup r | None \<Rightarrow> '''')"

definition cache_rules :: "AgentPolicy \<Rightarrow> PolicyRule list" where
  "cache_rules s = enabledOnly (pca_Rules (currentPolicyCache s))"

definition cache_apps :: "AgentPolicy \<Rightarrow> (string \<rightharpoonup> PolicyRelevantApp)" where
  "cache_apps s = pca_RelevantApps (currentPolicyCache s)"

definition cache_group :: "AgentPolicy \<Rightarrow> string" where
  "cache_group s = pca_DeviceGroup (currentPolicyCache s)"

definition lower_keys :: "(string \<rightharpoonup> 'a) \<Rightarrow> bool" where
  "lower_keys m \<longleftrightarrow> (\<forall>k. m k \<noteq> None \<longrightarrow> ToLower k = k)"

definition cache_inv :: "AgentPolicy \<Rightarrow> bool" where
  "cache_inv s \<longleftrightarrow> lower_keys (cache_apps s)"

locale policy_source =
  fixes rules_of :: "'s \<Rightarrow> PolicyRule list"
    and apps_of :: "'s \<Rightarrow> (string \<rightharpoonup> PolicyRelevantApp)"
    and group_of :: "'s \<Rightarrow> string"
    and inv :: "'s \<Rightarrow> bool"
  assumes rules_enabled: "r \<in> set (rules_of s) \<Longrightarrow> pr_Enabled r"
    and apps_lower: "inv s \<Longrightarrow> lower_keys (apps_of s)"
begin

lemma decision_rule:
  assumes "decide (rules_of s) (apps_of s) (group_of s) order sep name path = Some d" "pd_Action d \<noteq> ''log''"
  obtains r where "r \<in> set (rules_of s)" "pr_Enabled r" "pd_Rule d = Some r" "pd_Action d = pr_Action r"
proof -
  obtain ctx where d: "d = Evaluate (rules_of s) ctx"
    using assms(1) by (auto simp: decide_def Let_def split: if_splits)
  then obtain r where "Evaluate_loop ctx (rules_of s) None (-1) = Some r" "d = \<lparr>pd_Action = pr_Action r, pd_Rule = Some r\<rparr>"
    using assms(2) by (auto simp: Evaluate_def split: option.splits)
  moreover from this have "r \<in> set (rules_of s)" using Evaluate_best [of ctx "rules_of s"] by (simp add: best_of_def)
  ultimately show thesis using rules_enabled by (intro that [of r]) simp_all
qed

lemma name_case: "ToLower name = ToLower name' \<Longrightarrow>
    decide (rules_of s) (apps_of s) (group_of s) order sep name path =
    decide (rules_of s) (apps_of s) (group_of s) order sep name' path"
  by (simp add: decide_def)

lemma flagged_lookup: "inv s \<Longrightarrow> apps_of s k = Some app \<Longrightarrow> apps_of s (ToLower k) = Some app"
  using apps_lower [of s] unfolding lower_keys_def by (metis option.distinct(1))

lemma unflagged_skipped:
  "inv s \<Longrightarrow> apps_of s (ToLower name) = None \<Longrightarrow> ClassifyExecutionLocation order path = '''' \<Longrightarrow>
   decide (rules_of s) (apps_of s) (group_of s) order sep name path = None"
  by (simp add: decide_def)

end

subsection \<open>The two sources\<close>

lemma lower_keys_relevant: "lower_keys (relevant_loop rs Map.empty)"
  unfolding lower_keys_def using relevant_loop_keys by blast

lemma normalize_step:
  "lower_keys out \<Longrightarrow> lower_keys (fold (\<lambda>k out. case apps k of None \<Rightarrow> out | Some v \<Rightarrow> out(ToLower k \<mapsto> v)) keys out)"
proof (induction keys arbitrary: out)
  case (Cons k ks)
  have "lower_keys (case apps k of None \<Rightarrow> out | Some v \<Rightarrow> out(ToLower k \<mapsto> v))"
    using Cons.prems by (auto simp: lower_keys_def split: option.splits)
  from Cons.IH [OF this] show ?case by simp
qed simp

lemma normalizeRelevantApps_lower: "lower_keys (normalizeRelevantApps keys apps)"
  unfolding normalizeRelevantApps_def by (rule normalize_step) (simp add: lower_keys_def)

lemma normalize_same:
  assumes "lower_keys apps"
  shows "fold (\<lambda>k out. case apps k of None \<Rightarrow> out | Some v \<Rightarrow> out(ToLower k \<mapsto> v)) keys out =
    (\<lambda>k. if k \<in> set keys \<and> apps k \<noteq> None then apps k else out k)"
proof (induction keys arbitrary: out)
  case (Cons k ks)
  show ?case
  proof (cases "apps k")
    case (Some v)
    then have "ToLower k = k" using assms by (simp add: lower_keys_def)
    with Some Cons show ?thesis by (auto simp: fun_eq_iff)
  qed (auto simp: Cons fun_eq_iff)
qed simp

lemma normalizeRelevantApps_id:
  assumes "lower_keys apps" "dom apps \<subseteq> set keys"
  shows "normalizeRelevantApps keys apps = apps"
proof
  fix k
  show "normalizeRelevantApps keys apps k = apps k"
    using assms(2) by (cases "apps k") (auto simp: normalizeRelevantApps_def normalize_same [OF assms(1)])
qed

interpretation server_source: policy_source server_rules server_apps server_group "\<lambda>s. True"
  by unfold_locales (auto simp: server_rules_def server_apps_def lower_keys_relevant)

interpretation cache_source: policy_source cache_rules cache_apps cache_group cache_inv
  by unfold_locales (auto simp: cache_rules_def enabledOnly_def cache_inv_def)

lemma cache_inv_update: "cache_inv s \<Longrightarrow> cache_inv (handlePolicyUpdate sf now url keys v g rules apps s)"
  by (auto simp: handlePolicyUpdate_def setPolicyCache_def cache_inv_def cache_apps_def currentPolicyCache_def
      normalizeRelevantApps_lower split: decoded.splits)

lemma cache_inv_init: "cache_inv s \<Longrightarrow> cache_inv (initPolicyCache keys url s)"
  by (auto simp: initPolicyCache_def loadPolicyCacheFile_def cache_inv_def cache_apps_def currentPolicyCache_def
      normalizeRelevantApps_lower split: decoded.splits option.splits)

lemma cache_inv_start: "cache_inv \<lparr>agp_cache = None, agp_file = f\<rparr>"
  by (simp add: cache_inv_def cache_apps_def currentPolicyCache_def empty_cache_def lower_keys_def)

subsection \<open>Both sides compute the same decision\<close>

lemma MatchScore_agent [simp]: "MatchScore r (ctx\<lparr>pc_AgentID := a\<rparr>) = MatchScore r ctx"
  by (cases ctx) (simp only: MatchScore_def PolicyContext.select_convs PolicyContext.update_convs)

lemma Evaluate_agent: "Evaluate rules (ctx\<lparr>pc_AgentID := a\<rparr>) = Evaluate rules ctx"
proof -
  have "Evaluate_loop (ctx\<lparr>pc_AgentID := a\<rparr>) rules best n = Evaluate_loop ctx rules best n" for best n
    by (induction rules arbitrary: best n) (auto simp: Let_def case_prod_beta)
  then show ?thesis by (simp add: Evaluate_def)
qed

lemma process_decision_decide:
  "process_decision no_faults order sep db (server_apps (db, a)) a proc =
   decide (server_rules (db, a)) (server_apps (db, a)) (server_group (db, a)) order sep (ps_Name proc) (ps_Path proc)"
proof -
  have "PolicyEngine_Evaluate no_faults db ctx = Evaluate (server_rules (db, a)) ctx" for ctx
    by (simp add: PolicyEngine_Evaluate_def GetEnabledPolicyRules_def GetAllPolicyRules_def no_faults_def server_rules_def)
  moreover have "(case GetAgentDeviceGroup no_faults db a of Inl e \<Rightarrow> '''' | Inr g \<Rightarrow> g) = server_group (db, a)"
    by (simp add: GetAgentDeviceGroup_def no_faults_def server_group_def)
  moreover have "Evaluate rules \<lparr>pc_AgentID = a, pc_DeviceGroup = g, pc_EventType = e, pc_CategoryID = c, pc_AppStatus = st,
      pc_FileExtension = x, pc_ExecutionLocation = l\<rparr> =
    Evaluate rules \<lparr>pc_AgentID = '''', pc_DeviceGroup = g, pc_EventType = e, pc_CategoryID = c, pc_AppStatus = st,
      pc_FileExtension = x, pc_ExecutionLocation = l\<rparr>" for rules g e c st x l
    using Evaluate_agent [of rules a "\<lparr>pc_AgentID = '''', pc_DeviceGroup = g, pc_EventType = e, pc_CategoryID = c, pc_AppStatus = st,
      pc_FileExtension = x, pc_ExecutionLocation = l\<rparr>"] by simp
  ultimately show ?thesis by (simp add: process_decision_def decide_def Let_def)
qed

lemma evaluateProcessLocally_decide:
  "evaluateProcessLocally order sep s name path =
   map_option (\<lambda>d. (d, app_or_none (cache_apps s (ToLower name))))
     (decide (cache_rules s) (cache_apps s) (cache_group s) order sep name path)"
  by (simp add: evaluateProcessLocally_def decide_def cache_rules_def cache_apps_def cache_group_def Let_def)

end
