(* ===== verification/Policy_Properties.thy ===== *)
theory Policy_Properties
  imports Agent_Policy
begin

text \<open>
  Properties of policy evaluation and synchronisation across \<^verbatim>\<open>shared/policy.go\<close>,
  \<^verbatim>\<open>server/policy.go\<close>, \<^verbatim>\<open>server/hub.go\<close> and \<^verbatim>\<open>agent/policycache.go\<close>.
\<close>

subsection \<open>A sample policy\<close>

definition kill_rule :: PolicyRule where
  "kill_rule = \<lparr>pr_ID = 1, pr_Name = ''no games'', pr_EventType = '''', pr_CategoryID = None, pr_AppStatus = ''blocked'',
     pr_FileExtension = '''', pr_ExecutionLocation = '''', pr_DeviceGroup = '''', pr_Action = ''kill'', pr_Enabled = True,
     pr_CreatedAt = 0\<rparr>"

definition blocked_app :: Application where
  "blocked_app = \<lparr>ap_ID = 1, ap_ExeName = ''Game.exe'', ap_Company = ''Acme'', ap_ProductName = ''Game'',
     ap_Description = '''', ap_ProductVersion = '''', ap_SHA256 = '''', ap_CategoryID = None, ap_Status = ''blocked'',
     ap_CreatedAt = 0, ap_UpdatedAt = 0\<rparr>"

definition sample_policy_db :: DB where
  "sample_policy_db = empty_db\<lparr>policy_rules := [kill_rule], applications := [blocked_app], applications_seq := 1\<rparr>"

definition fresh_agent_policy :: AgentPolicy where
  "fresh_agent_policy = \<lparr>agp_cache = None, agp_file = Absent\<rparr>"

definition policy_message :: "DB \<Rightarrow> string \<Rightarrow> int \<Rightarrow> OutgoingMessage" where
  "policy_message db a version =
     (blank_message ''policy_update'')\<lparr>om_PolicyVersion := version, om_PolicyRules := server_rules (db, a),
        om_PolicyApps := server_apps (db, a), om_DeviceGroup := server_group (db, a)\<rparr>"

definition sample_message :: "string \<Rightarrow> string \<Rightarrow> IncomingMessage" where
  "sample_message typ a =
     \<lparr>im_Type = typ, im_AgentID = a, im_Hostname = a, im_IP = '''', im_OS = ''windows'', im_CPU = 0, im_RAM = 0,
      im_Processes = [], im_AgentVersion = '''', im_WindowsVersion = '''', im_DiskCapacityGB = 0, im_MacAddress = '''',
      im_JobID = '''', im_Attempt = None, im_Status = '''', im_Output = '''', im_ExitCode = None, im_DurationMS = None,
      im_NetworkMode = '''', im_EventType = '''', im_Metadata = [], im_PolicyVersion = 0, im_SoftwareItems = []\<rparr>"

definition online_hub :: Hub where
  "online_hub = \<lparr>hub_conns = [0 \<mapsto> \<lparr>cl_agentID = ''pc1'', cl_send = [], cl_closed = False\<rparr>], hub_clients = [''pc1'' \<mapsto> 0]\<rparr>"

definition sample_policy_world :: World where
  "sample_policy_world = NewWorld\<lparr>w_db := sample_policy_db\<lparr>settings := [''policy_version'' \<mapsto> ''1'']\<rparr>, w_hub := online_hub\<rparr>"

subsection \<open>Most specific wins\<close>

text \<open>
  C11.  \<^verbatim>\<open>Evaluate\<close> returns the action of a matching rule that no matching rule outranks: more
  dimensions win, among equals the lowest id, and the result does not depend on the order of the rules
  when their ids differ.  Without a matching rule the action is \<^verbatim>\<open>log\<close>.
\<close>

theorem Evaluate_most_specific:
  assumes "inj_on pr_ID (set rules)" "set rules' = set rules"
  shows "(case pd_Rule (Evaluate rules ctx) of
       None \<Rightarrow> pd_Action (Evaluate rules ctx) = ''log'' \<and> list_all (\<lambda>r. \<not> rule_matches r ctx) rules
     | Some b \<Rightarrow> pd_Action (Evaluate rules ctx) = pr_Action b \<and> b \<in> set rules \<and> rule_matches b ctx
         \<and> list_all (\<lambda>r. rule_matches r ctx \<longrightarrow> outranks b r) rules)
    \<and> Evaluate rules' ctx = Evaluate rules ctx"
proof -
  let ?b = "Evaluate_loop ctx rules None (-1)"
  have b: "best_of ctx (set rules) ?b" by (rule Evaluate_best)
  have "best_of ctx (set rules) (Evaluate_loop ctx rules' None (-1))"
    using Evaluate_best [of ctx rules'] assms(2) by simp
  then have "Evaluate_loop ctx rules' None (-1) = ?b" using best_of_unique [OF _ b assms(1)] by blast
  then have "Evaluate rules' ctx = Evaluate rules ctx" by (simp add: Evaluate_def)
  moreover have "case ?b of None \<Rightarrow> list_all (\<lambda>r. \<not> rule_matches r ctx) rules
     | Some b \<Rightarrow> b \<in> set rules \<and> rule_matches b ctx \<and> list_all (\<lambda>r. rule_matches r ctx \<longrightarrow> outranks b r) rules"
    using b by (auto simp: best_of_def list_all_iff split: option.splits)
  ultimately show ?thesis unfolding Evaluate_rule Evaluate_action by (auto split: option.splits)
qed

theorem Evaluate_most_specific_witness:
  "Evaluate [kill_rule, kill_rule\<lparr>pr_ID := 2, pr_AppStatus := ''''\<rparr>]
      \<lparr>pc_AgentID = ''pc1'', pc_DeviceGroup = '''', pc_EventType = '''', pc_CategoryID = None, pc_AppStatus = ''blocked'',
       pc_FileExtension = ''exe'', pc_ExecutionLocation = ''''\<rparr> =
   Evaluate [kill_rule\<lparr>pr_ID := 2, pr_AppStatus := ''''\<rparr>, kill_rule]
      \<lparr>pc_AgentID = ''pc1'', pc_DeviceGroup = '''', pc_EventType = '''', pc_CategoryID = None, pc_AppStatus = ''blocked'',
       pc_FileExtension = ''exe'', pc_ExecutionLocation = ''''\<rparr>"
proof -
  let ?l = "[kill_rule\<lparr>pr_ID := 2, pr_AppStatus := ''''\<rparr>, kill_rule]"
  have "inj_on pr_ID (set ?l)" by (simp add: kill_rule_def)
  moreover have "set [kill_rule, kill_rule\<lparr>pr_ID := 2, pr_AppStatus := ''''\<rparr>] = set ?l" by auto
  ultimately show ?thesis by (rule Evaluate_most_specific [THEN conjunct2])
qed

subsection \<open>Server and agent agree\<close>

lemma receive_policy_message:
  assumes "dom (server_apps (db, a)) \<subseteq> set keys"
  shows "cache_rules (receive_policy_update sf now url keys (policy_message db a v) s) = server_rules (db, a)"
    "cache_apps (receive_policy_update sf now url keys (policy_message db a v) s) = server_apps (db, a)"
    "cache_group (receive_policy_update sf now url keys (policy_message db a v) s) = server_group (db, a)"
    "sendPolicyVersionCheck (receive_policy_update sf now url keys (policy_message db a v) s) = v"
proof -
  have lower: "lower_keys (server_apps (db, a))" by (simp add: server_apps_def lower_keys_relevant)
  have id: "normalizeRelevantApps keys (server_apps (db, a)) = server_apps (db, a)"
    by (rule normalizeRelevantApps_id [OF lower assms])
  have e: "normalizeRelevantApps keys Map.empty = Map.empty"
    by (rule normalizeRelevantApps_id) (simp_all add: lower_keys_def)
  have r: "enabledOnly (server_rules (db, a)) = server_rules (db, a)"
    by (simp add: enabledOnly_def server_rules_def)
  have n: "enabledOnly [] = []" by (simp add: enabledOnly_def)
  note defs = receive_policy_update_def handlePolicyUpdate_def update_rules_def update_apps_def policy_message_def
    setPolicyCache_def currentPolicyCache_def
  show "cache_rules (receive_policy_update sf now url keys (policy_message db a v) s) = server_rules (db, a)"
    by (auto simp: cache_rules_def defs r n)
  show "cache_apps (receive_policy_update sf now url keys (policy_message db a v) s) = server_apps (db, a)"
    by (auto simp: cache_apps_def defs id e)
  show "cache_group (receive_policy_update sf now url keys (policy_message db a v) s) = server_group (db, a)"
    by (auto simp: cache_group_def defs)
  show "sendPolicyVersionCheck (receive_policy_update sf now url keys (policy_message db a v) s) = v"
    by (auto simp: sendPolicyVersionCheck_def defs)
qed

lemma sendPolicyUpdateTo_message:
  "sendPolicyUpdateTo no_faults a v w = send_to a (policy_message (w_db w) a v) w"
  by (simp add: sendPolicyUpdateTo_def GetEnabledPolicyRules_def GetAllPolicyRules_def GetPolicyRelevantApps_def
      GetAgentDeviceGroup_def no_faults_def policy_message_def server_rules_def server_apps_def server_group_def)


lemma sample_apps: "server_apps (sample_policy_db, a) = [''game.exe'' \<mapsto> \<lparr>ra_Status = ''blocked'', ra_CategoryID = None, ra_Company = ''Acme''\<rparr>]"
proof -
  have "ToLower ''Game.exe'' = ''game.exe''" by code_simp
  then show ?thesis
    by (simp add: server_apps_def sample_policy_db_def empty_db_def blocked_app_def policy_relevant_def relevant_entry_def)
qed



lemma sample_kill:
  "\<exists>d. decide (server_rules (sample_policy_db, ''pc1'')) (server_apps (sample_policy_db, ''pc1'')) g watchedLocationMarkers sep
     ''GAME.EXE'' '''' = Some d \<and> pd_Action d = ''kill''"
proof -
  have l: "ToLower ''GAME.EXE'' = ''game.exe''" by code_simp
  have r: "server_rules (sample_policy_db, ''pc1'') = [kill_rule]"
    by (simp add: server_rules_def sample_policy_db_def empty_db_def) (simp add: kill_rule_def)
  show ?thesis unfolding decide_def r sample_apps l
    by (simp add: ClassifyExecutionLocation_def app_or_none_def Evaluate_def MatchScore_def kill_rule_def)
qed


subsection \<open>Version synchronisation\<close>


lemma online_hub_inv: "hub_inv online_hub"
  by (simp add: hub_inv_def online_hub_def)

lemma online_hub_room: "send_room online_hub ''pc1''"
  by (simp add: send_room_def online_hub_def IsOnline_def queued_for_def send_capacity_def)

lemma sample_version: "version_is (w_db sample_policy_world) 1"
proof -
  have "show_int 1 = ''1''" by code_simp
  then show ?thesis by (simp add: version_is_def sample_policy_world_def)
qed

lemma sample_world_apps: "server_apps (w_db sample_policy_world, a) = server_apps (sample_policy_db, a)"
  by (simp add: server_apps_def sample_policy_world_def)


lemma broadcast_fold:
  assumes "hub_inv (w_hub w)" "distinct ids"
  shows "let w' = fold (\<lambda>a w. snd (sendPolicyUpdateTo no_faults a v w)) ids w in
    w_db w' = w_db w \<and> (\<forall>b. queued_for (w_hub w') b =
      (if b \<in> set ids \<and> send_room (w_hub w) b then queued_for (w_hub w) b @ [policy_message (w_db w) b v] else queued_for (w_hub w) b))"
  using assms
proof (induction ids arbitrary: w)
  case (Cons a ids)
  let ?m = "policy_message (w_db w) a v"
  let ?w1 = "snd (send_to a ?m w)"
  have inv: "hub_inv (w_hub ?w1)" by (rule send_to_inv [OF Cons.prems(1)])
  have own: "queued_for (w_hub ?w1) a = (if send_room (w_hub w) a then queued_for (w_hub w) a @ [?m] else queued_for (w_hub w) a)"
    using SendToAgent_iff [OF Cons.prems(1), of a ?m] SendToAgent_sent [of "w_hub w" a ?m] SendToAgent_not_sent [of "w_hub w" a ?m]
    by (auto simp: send_to_hub)
  have other: "queued_for (w_hub ?w1) b = queued_for (w_hub w) b" if "b \<noteq> a" for b
    using SendToAgent_other [OF Cons.prems(1) that] by (simp add: send_to_hub)
  have room: "send_room (w_hub ?w1) b = send_room (w_hub w) b" if "b \<noteq> a" for b
    using other [OF that] by (simp add: send_room_def IsOnline_def send_to_hub)
  have na: "a \<notin> set ids" "distinct ids" using Cons.prems(2) by simp_all
  note IH = Cons.IH [OF inv na(2), unfolded Let_def]
  have db: "w_db ?w1 = w_db w" by simp
  show ?case unfolding Let_def fold_simps comp_apply sendPolicyUpdateTo_message [of a v w]
  proof (intro conjI allI)
    show "w_db (fold (\<lambda>a w. snd (sendPolicyUpdateTo no_faults a v w)) ids ?w1) = w_db w" using IH db by simp
  next
    fix b
    show "queued_for (w_hub (fold (\<lambda>a w. snd (sendPolicyUpdateTo no_faults a v w)) ids ?w1)) b =
      (if b \<in> set (a # ids) \<and> send_room (w_hub w) b then queued_for (w_hub w) b @ [policy_message (w_db w) b v]
       else queued_for (w_hub w) b)"
      using IH own other [of b] room [of b] na(1) db by (cases "b = a") simp_all
  qed
qed simp

text \<open>
  C14.  An edit that bumps the policy version reaches every connected agent: the counter grows by one,
  and each agent with room in its queue has the new rules under the new version as its last message.
\<close>

theorem policy_edit_reaches_agents:
  assumes "version_is (w_db w) v" "v + 1 < 2 ^ 63" "hub_inv (w_hub w)" "AllOnlineIDs (w_hub w) ids" "send_room (w_hub w) a"
  shows "let w' = bumpPolicyVersionAndBroadcast no_faults ids w in
    GetPolicyVersion no_faults (w_db w') = Inr (v + 1)
    \<and> queued_for (w_hub w') a = queued_for (w_hub w) a @ [policy_message (w_db w') a (v + 1)]"
proof -
  obtain res db where b: "BumpPolicyVersion no_faults (w_db w) = (res, db)" by fastforce
  have v: "version_is db (v + 1)" using version_is_bump [OF assms(1), of no_faults] assms(2) b by (simp add: no_faults_def)
  then have g: "GetPolicyVersion no_faults db = Inr (v + 1)"
    by (rule version_is_get) (use assms(2) in \<open>simp_all add: no_faults_def\<close>)
  have "res = Inr (v + 1)" using b g by (auto simp: BumpPolicyVersion_def Let_def no_faults_def)
  let ?w1 = "w\<lparr>w_db := db\<rparr>"
  have w': "bumpPolicyVersionAndBroadcast no_faults ids w =
      fold (\<lambda>a w. snd (sendPolicyUpdateTo no_faults a (v + 1) w)) ids ?w1"
    using \<open>res = _\<close> g by (simp add: bumpPolicyVersionAndBroadcast_def b BroadcastPolicyUpdate_def)
  have "a \<in> set ids" "distinct ids" using assms(4,5) by (auto simp: AllOnlineIDs_def send_room_def IsOnline_def)
  with broadcast_fold [of ?w1 ids "v + 1"] assms(3,5) g show ?thesis unfolding Let_def w' by simp
qed

theorem policy_edit_reaches_agents_witness:
  "GetPolicyVersion no_faults (w_db (bumpPolicyVersionAndBroadcast no_faults [''pc1''] sample_policy_world)) = Inr 2"
proof -
  have h: "w_hub sample_policy_world = online_hub" by (simp add: sample_policy_world_def)
  have o: "AllOnlineIDs (w_hub sample_policy_world) [''pc1'']" by (simp add: h AllOnlineIDs_def online_hub_def)
  from policy_edit_reaches_agents [OF sample_version _ _ o, of "''pc1''"] show ?thesis
    by (simp add: h online_hub_inv online_hub_room Let_def)
qed

subsection \<open>The catalog\<close>

text \<open>
  The catalog keeps one row per (exe name, company) identity and unique ids, whatever fails: a
  batch of observed processes, an install event and a status edit all preserve it.
\<close>

theorem catalog_identities_unique:
  assumes "catalog_inv db"
  shows "catalog_inv (Observe env now a procs db)
    \<and> catalog_inv (snd (UpsertApplicationByProduct env now db product company meta))
    \<and> catalog_inv (snd (UpdateApplicationStatus env now db i status cat))"
  using assms Observe_inv UpsertApplicationByProduct_inv UpdateApplicationStatus_inv by blast

theorem catalog_identities_unique_witness:
  "catalog_inv (snd (UpdateApplicationStatus no_faults 0 sample_policy_db 1 ''allowed'' None))"
proof -
  have "catalog_inv sample_policy_db" by (simp add: catalog_inv_def sample_policy_db_def empty_db_def blocked_app_def)
  from catalog_identities_unique [OF this] show ?thesis by blast
qed

lemma find_map_set_status:
  "find (\<lambda>r. ap_ID r = i) (map (\<lambda>r. if ap_ID r = i then set_status now st cat r else r) xs) =
   map_option (set_status now st cat) (find (\<lambda>r. ap_ID r = i) xs)"
  by (induction xs) (auto simp: set_status_def)

text \<open>
  C15.  A status edit to a known category writes the new status, category and time into exactly the edited
  row and the rows with the same product name and company, ignoring case; every other row, and the rest of
  the database, stays as it is.
\<close>

theorem status_edit_reaches_siblings:
  assumes "find (\<lambda>r. ap_ID r = i) (applications db) = Some r0" "ap_ProductName r0 \<noteq> ''''" "category_known db cat"
  shows "UpdateApplicationStatus no_faults now db i status cat =
    (None, db\<lparr>applications := map (\<lambda>r. if ap_ID r = i \<or> same_product (ap_ProductName r0) (ap_Company r0) r
       then r\<lparr>ap_Status := status, ap_CategoryID := cat, ap_UpdatedAt := db_trunc now\<rparr> else r) (applications db)\<rparr>)"
proof -
  let ?s = "set_status now status cat"
  have s: "same_product p c (?s r) = same_product p c r" "ap_ID (?s r) = ap_ID r" for p c r
    by (simp_all add: same_product_def set_status_def)
  have "UpdateApplicationStatus no_faults now db i status cat = (None, db\<lparr>applications :=
    map (\<lambda>r. if ap_ID r \<noteq> i \<and> same_product (ap_ProductName r0) (ap_Company r0) r then ?s r else r)
      (map (\<lambda>r. if ap_ID r = i then ?s r else r) (applications db))\<rparr>)"
    using assms by (simp add: UpdateApplicationStatus_def no_faults_def Let_def find_map_set_status set_status_def)
  also have "map (\<lambda>r. if ap_ID r \<noteq> i \<and> same_product (ap_ProductName r0) (ap_Company r0) r then ?s r else r)
      (map (\<lambda>r. if ap_ID r = i then ?s r else r) (applications db)) =
    map (\<lambda>r. if ap_ID r = i \<or> same_product (ap_ProductName r0) (ap_Company r0) r then ?s r else r) (applications db)"
    by (simp add: s)
  finally show ?thesis by (simp add: set_status_def)
qed

theorem status_edit_reaches_siblings_witness:
  "map ap_Status
     (applications (snd (UpdateApplicationStatus no_faults 0
        (sample_policy_db\<lparr>applications := [blocked_app, blocked_app\<lparr>ap_ID := 2, ap_ExeName := '''', ap_ProductName := ''GAME''\<rparr>]\<rparr>)
        1 ''allowed'' None))) = [''allowed'', ''allowed'']"
proof -
  let ?db = "sample_policy_db\<lparr>applications := [blocked_app, blocked_app\<lparr>ap_ID := 2, ap_ExeName := '''', ap_ProductName := ''GAME''\<rparr>]\<rparr>"
  have f: "find (\<lambda>r. ap_ID r = 1) (applications ?db) = Some blocked_app" by (simp add: blocked_app_def)
  have p: "ap_ProductName blocked_app \<noteq> ''''" "category_known ?db None" "ap_ID blocked_app = 1"
    by (simp_all add: blocked_app_def category_known_def)
  have "EqualFold ''Game'' ''GAME''" "EqualFold ''GAME'' ''Game''" by code_simp+
  then have "same_product (ap_ProductName blocked_app) (ap_Company blocked_app)
      (blocked_app\<lparr>ap_ID := 2, ap_ExeName := '''', ap_ProductName := ''GAME''\<rparr>)"
    by (simp add: same_product_def blocked_app_def)
  with p show ?thesis by (simp add: status_edit_reaches_siblings [OF f p(1,2)])
qed

end
