(* ===== verification/Alerts.thy ===== *)
theory Alerts
  imports Policy_Engine "HOL-Library.List_Lexorder" "HOL-Library.Char_ord"
begin

text \<open>
  \<^verbatim>\<open>server/alert.go\<close> and the alert, metric and process statements of \<^verbatim>\<open>server/db.go\<close>: thresholds that
  must be exceeded three times in a row, cooldowns read back from the alerts table, blacklisted programs,
  offline and recovery alerts, and the metrics batcher of \<^verbatim>\<open>server/batcher.go\<close>.

  An alert that is stored is also handed to the Telegram and e-mail senders; those network calls are
  outside the model and \<open>w_notices\<close> lists the texts handed over.  The blacklist setting is a JSON array;
  decoding it is the \<^verbatim>\<open>encoding/json\<close> package, the parameter \<open>unmarshal\<close>.
\<close>

subsection \<open>Text\<close>

text \<open>\<^verbatim>\<open>%.<d>f\<close>: the exact value rounded to \<open>d\<close> places, ties to even.\<close>

definition round_half_even :: "rat \<Rightarrow> int" where
  "round_half_even x =
     (let n = \<lfloor>x\<rfloor>; r = x - of_int n in
      if r < 1/2 then n else if r > 1/2 then n + 1 else if even n then n else n + 1)"

definition pad_left :: "nat \<Rightarrow> string \<Rightarrow> string" where
  "pad_left n s = replicate (n - length s) (CHR ''0'') @ s"

definition show_fixed :: "nat \<Rightarrow> rat \<Rightarrow> string" where
  "show_fixed d x =
     (let n = nat (round_half_even (\<bar>x\<bar> * 10 ^ d)) in
      (if x < 0 then ''-'' else '''') @ show_nat (n div 10 ^ d) @
      (if d = 0 then '''' else ''.'' @ pad_left d (show_nat (n mod 10 ^ d))))"

text \<open>\<^verbatim>\<open>Format("15:04 WIB")\<close> in the zone UTC+7.\<close>

definition show_clock :: "time \<Rightarrow> string" where
  "show_clock t =
     (let secs = (t div second + 7 * 3600) mod 86400 in
      pad_left 2 (show_int (secs div 3600)) @ '':'' @ pad_left 2 (show_int (secs mod 3600 div 60)) @ '' WIB'')"

text \<open>
  \<^verbatim>\<open>fmt.Sscanf(s, "%f", &v)\<close> on decimal numbers: leading blanks, a sign, digits, a fraction.  The other
  notations the verb knows (exponents, hexadecimal, infinities) are read up to their first other character.
\<close>

definition scan_float :: "string \<Rightarrow> rat option" where
  "scan_float s =
     (let t = dropWhile (\<lambda>c. c = CHR '' '') s;
          neg = (case t of c # _ \<Rightarrow> c = CHR ''-'' | [] \<Rightarrow> False);
          u = (case t of c # cs \<Rightarrow> if c = CHR ''-'' \<or> c = CHR ''+'' then cs else t | [] \<Rightarrow> []);
          whole = takeWhile is_digit u;
          rest = dropWhile is_digit u;
          frac = (case rest of c # cs \<Rightarrow> if c = CHR ''.'' then takeWhile is_digit cs else [] | [] \<Rightarrow> [])
      in if whole = [] \<and> frac = [] then None
         else let v = of_nat (nat_of_digits whole) + of_nat (nat_of_digits frac) / 10 ^ length frac in
           Some (if neg then - v else v))"

definition parseFloatSetting :: "string \<Rightarrow> rat \<Rightarrow> rat" where
  "parseFloatSetting s def = (case scan_float s of None \<Rightarrow> def | Some v \<Rightarrow> if v = 0 then def else v)"

definition parseBlacklistSetting :: "(string \<Rightarrow> string list option) \<Rightarrow> string \<Rightarrow> string list" where
  "parseBlacklistSetting unmarshal s = (if s = '''' then [] else case unmarshal s of None \<Rightarrow> [] | Some l \<Rightarrow> l)"

text \<open>SQL \<^verbatim>\<open>LIKE\<close>: \<^verbatim>\<open>%\<close> any text, \<^verbatim>\<open>_\<close> any one character, letters in either case.\<close>

fun sql_like :: "string \<Rightarrow> string \<Rightarrow> bool" where
  "sql_like [] s = (s = [])"
| "sql_like (p # ps) [] = (p = CHR ''%'' \<and> sql_like ps [])"
| "sql_like (p # ps) (c # cs) =
     (if p = CHR ''%'' then sql_like ps (c # cs) \<or> sql_like (p # ps) cs
      else (p = CHR ''_'' \<or> ToLower [p] = ToLower [c]) \<and> sql_like ps cs)"

subsection \<open>Statements\<close>

definition newest_alert :: "(Alert \<Rightarrow> bool) \<Rightarrow> DB \<Rightarrow> Alert option" where
  "newest_alert P db =
     foldl (\<lambda>best x. case best of None \<Rightarrow> Some x | Some b \<Rightarrow> if al_SentAt b \<le> al_SentAt x then Some x else best)
       None (filter P (alerts db))"

definition GetLastAlert :: "db_env \<Rightarrow> DB \<Rightarrow> string \<Rightarrow> string \<Rightarrow> db_error + Alert option" where
  "GetLastAlert env db a typ =
     (if env [''GetLastAlert'', a, typ] then Inl DBFault
      else Inr (newest_alert (\<lambda>x. al_AgentID x = a \<and> al_Type x = typ) db))"

definition GetLastAlertForApp :: "db_env \<Rightarrow> DB \<Rightarrow> string \<Rightarrow> string \<Rightarrow> db_error + Alert option" where
  "GetLastAlertForApp env db a appName =
     (if env [''GetLastAlertForApp'', a, appName] then Inl DBFault
      else Inr (newest_alert (\<lambda>x. al_AgentID x = a \<and> al_Type x = ''blacklisted_app''
                  \<and> sql_like (''%'' @ appName @ ''%'') (al_Message x)) db))"

definition InsertMetric :: "db_env \<Rightarrow> time \<Rightarrow> DB \<Rightarrow> string \<Rightarrow> rat \<Rightarrow> rat \<Rightarrow> db_error + DB" where
  "InsertMetric env now db a cpu ram =
     (if env [''InsertMetric'', a] then Inl DBFault
      else if \<not> agent_known db a then Inl ForeignKey
      else Inr (db\<lparr>metrics := metrics db @ [\<lparr>me_AgentID = a, me_CPU = cpu, me_RAM = ram, me_RecordedAt = db_trunc now\<rparr>]\<rparr>))"

definition GetMetrics24h :: "db_env \<Rightarrow> time \<Rightarrow> DB \<Rightarrow> string \<Rightarrow> db_error + Metric list" where
  "GetMetrics24h env now db a =
     (if env [''GetMetrics24h'', a] then Inl DBFault
      else Inr (sort_key me_RecordedAt
        (filter (\<lambda>m. me_AgentID m = a \<and> fmtTime (now - 24 * hour) \<le> fmtTime (me_RecordedAt m)) (metrics db))))"

definition PurgeOldMetrics :: "db_env \<Rightarrow> time \<Rightarrow> DB \<Rightarrow> db_error + DB" where
  "PurgeOldMetrics env now db =
     (if env [''PurgeOldMetrics''] then Inl DBFault
      else Inr (db\<lparr>metrics := filter (\<lambda>m. \<not> fmtTime (me_RecordedAt m) < fmtTime (now - 7 * 24 * hour)) (metrics db)\<rparr>))"

text \<open>The process list of an agent is replaced in one transaction; only four columns are kept.\<close>

definition process_row :: "Process \<Rightarrow> Process" where
  "process_row p = \<lparr>ps_Name = ps_Name p, ps_PID = ps_PID p, ps_CPU = ps_CPU p, ps_RAM = ps_RAM p, ps_Path = '''',
     ps_ProductName = '''', ps_Company = '''', ps_Description = '''', ps_ProductVersion = '''', ps_SHA256 = '''',
     ps_Size = 0, ps_FileCreatedAt = None, ps_FileModifiedAt = None\<rparr>"

definition UpsertProcesses :: "db_env \<Rightarrow> DB \<Rightarrow> string \<Rightarrow> Process list \<Rightarrow> db_error + DB" where
  "UpsertProcesses env db a procs =
     (if env [''UpsertProcesses'', a] then Inl DBFault
      else if procs \<noteq> [] \<and> \<not> agent_known db a then Inl ForeignKey
      else Inr (db\<lparr>processes := filter (\<lambda>p. fst p \<noteq> a) (processes db) @ map (\<lambda>p. (a, process_row p)) procs\<rparr>))"

definition GetProcesses :: "db_env \<Rightarrow> DB \<Rightarrow> string \<Rightarrow> db_error + Process list" where
  "GetProcesses env db a =
     (if env [''GetProcesses'', a] then Inl DBFault
      else Inr (sort_key (\<lambda>p. - ps_CPU p) (map snd (filter (\<lambda>p. fst p = a) (processes db)))))"

text \<open>The agent list of the dashboard: each agent with its newest metric, its busiest process and counts.\<close>

record AgentWithMetrics = Agent +
  aw_CPU :: rat
  aw_RAM :: rat
  aw_TopProcess :: string
  aw_InstalledSoftwareCount :: nat
  aw_RunningProcessCount :: nat

definition newest_metric :: "DB \<Rightarrow> string \<Rightarrow> Metric option" where
  "newest_metric db a = (case sort_key me_RecordedAt (filter (\<lambda>m. me_AgentID m = a) (metrics db)) of [] \<Rightarrow> None | ms \<Rightarrow> Some (last ms))"

definition with_metrics :: "DB \<Rightarrow> Agent \<Rightarrow> AgentWithMetrics" where
  "with_metrics db r =
     (let a = ag_ID r; mine = map snd (filter (\<lambda>p. fst p = a) (processes db)) in
      Agent.extend r (AgentWithMetrics.fields
        (case newest_metric db a of None \<Rightarrow> 0 | Some m \<Rightarrow> me_CPU m)
        (case newest_metric db a of None \<Rightarrow> 0 | Some m \<Rightarrow> me_RAM m)
        (case sort_key (\<lambda>p. - ps_CPU p) mine of [] \<Rightarrow> '''' | p # _ \<Rightarrow> ps_Name p)
        (card (as_ApplicationID ` set (filter (\<lambda>s. as_AgentID s = a) (app_sightings db))))
        (length mine)))"

definition GetAllAgents :: "db_env \<Rightarrow> DB \<Rightarrow> db_error + AgentWithMetrics list" where
  "GetAllAgents env db =
     (if env [''GetAllAgents''] then Inl DBFault else Inr (map (with_metrics db) (sort_key ag_Hostname (agents db))))"

subsection \<open>The alerter\<close>

definition cpuRAMCooldown :: int where "cpuRAMCooldown = 30 * minute"
definition blacklistCooldown :: int where "blacklistCooldown = 60 * minute"
definition consecutiveRequired :: int where "consecutiveRequired = 3"

definition getConsecutive :: "World \<Rightarrow> string \<Rightarrow> string \<Rightarrow> int" where
  "getConsecutive w a typ = (case w_consecutive w (a @ '':'' @ typ) of None \<Rightarrow> 0 | Some n \<Rightarrow> n)"

definition setConsecutive :: "string \<Rightarrow> string \<Rightarrow> int \<Rightarrow> World \<Rightarrow> World" where
  "setConsecutive a typ n w = w\<lparr>w_consecutive := (w_consecutive w)(a @ '':'' @ typ \<mapsto> n)\<rparr>"

definition fire :: "db_env \<Rightarrow> time \<Rightarrow> string \<Rightarrow> string \<Rightarrow> string \<Rightarrow> World \<Rightarrow> World" where
  "fire env now a alertType message w =
     (case InsertAlert env now (w_db w) a alertType message of
        Inl e \<Rightarrow> w
      | Inr db \<Rightarrow> w\<lparr>w_db := db, w_notices := w_notices w @ [message]\<rparr>)"

definition warning_sign :: string where "warning_sign = [CHR 0xE2, CHR 0x9A, CHR 0xA0, CHR 0xEF, CHR 0xB8, CHR 0x8F]"
definition prohibited_sign :: string where "prohibited_sign = [CHR 0xF0, CHR 0x9F, CHR 0x9A, CHR 0xAB]"
definition check_mark :: string where "check_mark = [CHR 0xE2, CHR 0x9C, CHR 0x85]"
definition siren :: string where "siren = [CHR 0xF0, CHR 0x9F, CHR 0x9A, CHR 0xA8]"
definition red_circle :: string where "red_circle = [CHR 0xF0, CHR 0x9F, CHR 0x94, CHR 0xB4]"

text \<open>No alert of the kind, or none newer than the cooldown; a failed query counts as no alert.\<close>

definition cooled_down :: "time \<Rightarrow> int \<Rightarrow> db_error + Alert option \<Rightarrow> bool" where
  "cooled_down now cooldown recent = (case recent of Inr (Some x) \<Rightarrow> now - al_SentAt x \<ge> cooldown | _ \<Rightarrow> True)"

text \<open>The CPU and the RAM part of \<^verbatim>\<open>CheckMetrics\<close>: the same code with other names.\<close>

definition check_threshold ::
  "db_env \<Rightarrow> time \<Rightarrow> string \<Rightarrow> string \<Rightarrow> string \<Rightarrow> string \<Rightarrow> string \<Rightarrow> rat \<Rightarrow> rat \<Rightarrow> World \<Rightarrow> World" where
  "check_threshold env now a hostname key alertType label value threshold w =
     (if value > threshold then
        let n = getConsecutive w a key + 1;
            w = setConsecutive a key n w
        in if n \<ge> consecutiveRequired \<and> cooled_down now cpuRAMCooldown (GetLastAlert env (w_db w) a alertType)
           then setConsecutive a key 0
             (fire env now a alertType
               (warning_sign @ '' '' @ label @ '' tinggi di '' @ hostname @ '': '' @ show_fixed 1 value @ ''% (threshold ''
                @ show_fixed 0 threshold @ ''%) '' @ em_dash @ '' '' @ show_clock now) w)
           else w
      else setConsecutive a key 0 w)"

definition check_process :: "db_env \<Rightarrow> time \<Rightarrow> string \<Rightarrow> string \<Rightarrow> string list \<Rightarrow> bool \<Rightarrow> Process \<Rightarrow> World \<Rightarrow> World" where
  "check_process env now a hostname blacklist autoKill proc w =
     (if \<not> list_ex (\<lambda>bl. EqualFold (ps_Name proc) bl) blacklist then w
      else
        let w = (if cooled_down now blacklistCooldown (GetLastAlertForApp env (w_db w) a (ps_Name proc))
                 then fire env now a ''blacklisted_app''
                   (prohibited_sign @ '' Aplikasi terlarang terdeteksi di '' @ hostname @ '': '' @ ps_Name proc @ '' ''
                    @ em_dash @ '' '' @ show_clock now) w
                 else w)
        in if autoKill then go_task (TaskAutoKill a hostname (ps_Name proc)) w else w)"

definition CheckMetrics ::
  "(string \<Rightarrow> string list option) \<Rightarrow> db_env \<Rightarrow> time \<Rightarrow> string \<Rightarrow> string \<Rightarrow> rat \<Rightarrow> rat \<Rightarrow> Process list \<Rightarrow> World \<Rightarrow> World" where
  "CheckMetrics unmarshal env now a hostname cpu ram procs w =
     (case GetAllSettings env (w_db w) of
        Inl e \<Rightarrow> w
      | Inr cfg \<Rightarrow>
          let w = check_threshold env now a hostname ''cpu'' ''cpu_high'' ''CPU'' cpu
                    (parseFloatSetting (cfg ''cpu_threshold'') 85) w;
              w = check_threshold env now a hostname ''ram'' ''ram_high'' ''RAM'' ram
                    (parseFloatSetting (cfg ''ram_threshold'') 85) w
          in fold (check_process env now a hostname (parseBlacklistSetting unmarshal (cfg ''blacklist''))
                    (parseBoolSetting (cfg ''auto_kill_enabled''))) procs w)"

text \<open>\<^verbatim>\<open>autoKill\<close> around the wait for the agent's reply.\<close>

definition autoKill_begin :: "nat \<Rightarrow> string \<Rightarrow> string \<Rightarrow> World \<Rightarrow> bool \<times> World" where
  "autoKill_begin ch a procName = KillProcess_begin ch a 0 procName"

definition kill_error_text :: "request_error \<Rightarrow> string" where
  "kill_error_text e = (case e of AgentNotOnline \<Rightarrow> ''agent not online'' | RequestTimedOut \<Rightarrow> ''kill request timed out'')"

definition autoKill_end :: "db_env \<Rightarrow> time \<Rightarrow> string \<Rightarrow> string \<Rightarrow> request_error + string \<Rightarrow> World \<Rightarrow> World" where
  "autoKill_end env now a procName reply w =
     (case reply of
        Inl e \<Rightarrow> w\<lparr>w_db := InsertAuditLog env now (w_db w) ''auto_kill_failed'' a
                   (''name='' @ procName @ '' error='' @ kill_error_text e) ''system''\<rparr>
      | Inr output \<Rightarrow> w\<lparr>w_db := InsertAuditLog env now (w_db w) ''auto_kill'' a
                   (''name='' @ procName @ '' output='' @ output) ''system''\<rparr>)"

definition CheckRecovery :: "db_env \<Rightarrow> time \<Rightarrow> string \<Rightarrow> string \<Rightarrow> World \<Rightarrow> World" where
  "CheckRecovery env now a hostname w =
     (case GetAllSettings env (w_db w) of
        Inl e \<Rightarrow> w
      | Inr cfg \<Rightarrow>
          fire env now a ''recovery'' (check_mark @ '' PC kembali online: '' @ hostname @ '' '' @ em_dash @ '' '' @ show_clock now) w)"

definition FireTamperAlert :: "db_env \<Rightarrow> time \<Rightarrow> string \<Rightarrow> string \<Rightarrow> string \<Rightarrow> string \<Rightarrow> World \<Rightarrow> World" where
  "FireTamperAlert env now a hostname deviceName deviceClass w =
     (case GetAllSettings env (w_db w) of
        Inl e \<Rightarrow> w
      | Inr cfg \<Rightarrow>
          let label = (if deviceClass = ''keyboard'' then ''Keyboard''
                       else if deviceClass = ''pointing_device'' then ''Mouse'' else ''Perangkat'')
          in fire env now a ''peripheral_removed''
               (siren @ '' '' @ label @ '' terlepas di '' @ hostname @ '': '' @ deviceName @ '' '' @ em_dash @ '' '' @ show_clock now) w)"

definition check_offline_agent :: "db_env \<Rightarrow> time \<Rightarrow> time \<Rightarrow> AgentWithMetrics \<Rightarrow> World \<Rightarrow> World" where
  "check_offline_agent env now cutoff ag w =
     (if ag_Status ag \<noteq> ''offline'' \<or> \<not> ag_LastSeen ag < cutoff then w
      else if (case GetLastAlert env (w_db w) (ag_ID ag) ''offline'' of
                 Inr (Some x) \<Rightarrow> al_SentAt x > ag_LastSeen ag | _ \<Rightarrow> False) then w
      else fire env now (ag_ID ag) ''offline''
             (red_circle @ '' PC offline: '' @ ag_Hostname ag @ '' '' @ em_dash @ '' sejak '' @ show_clock (ag_LastSeen ag)) w)"

definition checkOfflineAgents :: "db_env \<Rightarrow> time \<Rightarrow> World \<Rightarrow> World" where
  "checkOfflineAgents env now w =
     (case GetAllSettings env (w_db w) of
        Inl e \<Rightarrow> w
      | Inr cfg \<Rightarrow>
          let cutoff = now - parseIntSetting (cfg ''offline_after_minutes'') 5 * minute in
          case GetAllAgents env (w_db w) of
            Inl e \<Rightarrow> w
          | Inr ags \<Rightarrow> fold (check_offline_agent env now cutoff) ags w)"

subsection \<open>The metrics batcher\<close>

definition batchBufferSize :: nat where "batchBufferSize = 1000"

text \<open>\<open>w_batch\<close> is the channel; \<open>buf\<close> is the worker's own buffer.\<close>

definition batcher_Add :: "time \<Rightarrow> string \<Rightarrow> rat \<Rightarrow> rat \<Rightarrow> World \<Rightarrow> World" where
  "batcher_Add now a cpu ram w =
     (if length (w_batch w) < batchBufferSize
      then w\<lparr>w_batch := w_batch w @ [\<lparr>mb_agentID = a, mb_cpu = cpu, mb_ram = ram, mb_ts = now\<rparr>]\<rparr> else w)"

text \<open>One transaction: a row that cannot be inserted is skipped, a failing commit loses them all.\<close>

definition batch_row :: "metricEntry \<Rightarrow> Metric" where
  "batch_row e = \<lparr>me_AgentID = mb_agentID e, me_CPU = mb_cpu e, me_RAM = mb_ram e, me_RecordedAt = db_trunc (mb_ts e)\<rparr>"

definition batcher_flush :: "db_env \<Rightarrow> metricEntry list \<Rightarrow> DB \<Rightarrow> DB" where
  "batcher_flush env entries db =
     (if env [''batch begin''] \<or> env [''batch prepare''] \<or> env [''batch commit''] then db
      else db\<lparr>metrics := metrics db @ map batch_row
             (filter (\<lambda>e. agent_known db (mb_agentID e) \<and> \<not> env [''batch insert'', mb_agentID e]) entries)\<rparr>)"

datatype batch_event = BatchReceive | BatchTick | BatchStop

definition batcher_run :: "db_env \<Rightarrow> batch_event \<Rightarrow> metricEntry list \<times> World \<Rightarrow> metricEntry list \<times> World" where
  "batcher_run env ev st =
     (let (buf, w) = st in
      case ev of
        BatchReceive \<Rightarrow>
          (case w_batch w of
             [] \<Rightarrow> (buf, w)
           | e # rest \<Rightarrow>
               let buf = buf @ [e]; w = w\<lparr>w_batch := rest\<rparr> in
               if length buf \<ge> batchBufferSize then ([], w\<lparr>w_db := batcher_flush env buf (w_db w)\<rparr>) else (buf, w))
      | BatchTick \<Rightarrow> if buf \<noteq> [] then ([], w\<lparr>w_db := batcher_flush env buf (w_db w)\<rparr>) else (buf, w)
      | BatchStop \<Rightarrow>
          let buf = buf @ w_batch w; w = w\<lparr>w_batch := []\<rparr> in
          if buf \<noteq> [] then ([], w\<lparr>w_db := batcher_flush env buf (w_db w)\<rparr>) else (buf, w))"

subsection \<open>Specifications\<close>

text \<open>Alerts of one kind about one agent are at least \<open>gap\<close> apart, and the column holds whole seconds.\<close>

definition apart :: "string \<Rightarrow> int \<Rightarrow> Alert \<Rightarrow> Alert \<Rightarrow> bool" where
  "apart typ gap x y \<longleftrightarrow> (al_AgentID x = al_AgentID y \<and> al_Type x = typ \<and> al_Type y = typ \<longrightarrow> al_SentAt y - al_SentAt x \<ge> gap)"

definition spaced :: "string \<Rightarrow> int \<Rightarrow> DB \<Rightarrow> bool" where
  "spaced typ gap db \<longleftrightarrow> sorted_wrt (apart typ gap) (alerts db) \<and> list_all (\<lambda>x. db_trunc (al_SentAt x) = al_SentAt x) (alerts db)"

text \<open>How many offline alerts an agent has had since it was last seen.\<close>

definition offline_alerts :: "DB \<Rightarrow> string \<Rightarrow> time \<Rightarrow> nat" where
  "offline_alerts db a since = length (filter (\<lambda>x. al_AgentID x = a \<and> al_Type x = ''offline'' \<and> al_SentAt x > since) (alerts db))"

definition offline_once :: "DB \<Rightarrow> bool" where
  "offline_once db \<longleftrightarrow> list_all (\<lambda>r. offline_alerts db (ag_ID r) (ag_LastSeen r) \<le> 1) (agents db)"

fun batcher_events :: "db_env \<Rightarrow> batch_event list \<Rightarrow> metricEntry list \<times> World \<Rightarrow> metricEntry list \<times> World" where
  "batcher_events env [] st = st"
| "batcher_events env (ev # evs) st = batcher_events env evs (batcher_run env ev st)"

text \<open>A machine on which \<^verbatim>\<open>game.exe\<close> has just been reported, and a process called \<^verbatim>\<open>me.exe\<close>.\<close>

definition sample_process :: Process where
  "sample_process = \<lparr>ps_Name = ''me.exe'', ps_PID = 7, ps_CPU = 0, ps_RAM = 0, ps_Path = '''', ps_ProductName = '''', ps_Company = '''',
     ps_Description = '''', ps_ProductVersion = '''', ps_SHA256 = '''', ps_Size = 0, ps_FileCreatedAt = None, ps_FileModifiedAt = None\<rparr>"

definition alerted_world :: World where
  "alerted_world = NewWorld\<lparr>w_db := empty_db\<lparr>alerts := [\<lparr>al_AgentID = ''pc1'', al_Type = ''blacklisted_app'',
     al_Message = ''Aplikasi terlarang terdeteksi di PC: game.exe'', al_SentAt = 0\<rparr>]\<rparr>\<rparr>"

definition offline_world :: World where
  "offline_world = NewWorld\<lparr>w_db := empty_db\<lparr>agents := [\<lparr>ag_ID = ''pc1'', ag_Hostname = ''PC'', ag_IP = '''', ag_OS = '''', ag_LastSeen = 0,
     ag_MeshID = '''', ag_Status = ''offline'', ag_CreatedAt = 0, ag_AgentVersion = '''', ag_WindowsVersion = '''', ag_DiskCapacityGB = 0,
     ag_DeviceGroup = '''', ag_MacAddress = '''', ag_Floor = '''', ag_DesiredNetworkMode = ''both'', ag_CurrentNetworkMode = '''',
     ag_NetworkModeStatus = '''', ag_NetworkModeDetail = '''', ag_NetworkModeUpdatedAt = 0\<rparr>]\<rparr>\<rparr>"

subsection \<open>The newest alert\<close>

lemma newest_fold:
  "foldl (\<lambda>best x. case best of None \<Rightarrow> Some x | Some b \<Rightarrow> if al_SentAt b \<le> al_SentAt x then Some x else best) (Some b) xs = Some y \<Longrightarrow>
   al_SentAt b \<le> al_SentAt y \<and> (\<forall>x \<in> set xs. al_SentAt x \<le> al_SentAt y)"
  by (induction xs arbitrary: b) (auto split: if_splits, force+)

lemma newest_fold_Some:
  "\<exists>y. foldl (\<lambda>best x. case best of None \<Rightarrow> Some x | Some b \<Rightarrow> if al_SentAt b \<le> al_SentAt x then Some x else best) (Some b) xs = Some y"
  by (induction xs arbitrary: b) auto

lemma newest_alert_None: "newest_alert P db = None \<longleftrightarrow> \<not> list_ex P (alerts db)"
proof (cases "filter P (alerts db)")
  case Nil
  then show ?thesis by (auto simp: newest_alert_def list_ex_iff filter_empty_conv)
next
  case (Cons x xs)
  then have "x \<in> set (alerts db)" "P x" by (metis filter_eq_ConsD in_set_conv_decomp)+
  with Cons show ?thesis using newest_fold_Some [of x xs] by (auto simp: newest_alert_def list_ex_iff)
qed

lemma newest_alert_le:
  assumes "newest_alert P db = Some x" "y \<in> set (alerts db)" "P y"
  shows "al_SentAt y \<le> al_SentAt x"
proof (cases "filter P (alerts db)")
  case Nil
  with assms(2,3) show ?thesis by (auto simp: filter_empty_conv)
next
  case (Cons z zs)
  from assms(2,3) have "y \<in> set (filter P (alerts db))" by simp
  then have "y = z \<or> y \<in> set zs" unfolding Cons by simp
  moreover have "al_SentAt z \<le> al_SentAt x" "\<forall>y \<in> set zs. al_SentAt y \<le> al_SentAt x"
    using newest_fold [of z zs x] assms(1) by (simp_all add: newest_alert_def Cons)
  ultimately show ?thesis by auto
qed

lemma fire_db:
  "w_db (fire env now a typ msg w) \<in> {w_db w, (w_db w)\<lparr>alerts := alerts (w_db w) @
     [\<lparr>al_AgentID = a, al_Type = typ, al_Message = msg, al_SentAt = db_trunc now\<rparr>]\<rparr>}"
  by (auto simp: fire_def InsertAlert_def split: sum.splits)

lemma whole_seconds: "db_trunc s = s \<Longrightarrow> s + k * second \<le> t \<Longrightarrow> s + k * second \<le> db_trunc t"
proof -
  assume s: "db_trunc s = s" and le: "s + k * second \<le> t"
  have "s + k * second = (s div second + k) * second"
    using s by (simp add: db_trunc_def parseDBTime_def fmtTime_def algebra_simps)
  also have "\<dots> \<le> (t div second) * second"
  proof -
    have "(s div second + k) * second \<le> t" using le s by (simp add: db_trunc_def parseDBTime_def fmtTime_def algebra_simps)
    then have "s div second + k \<le> t div second" by (simp add: second_def)
    then show ?thesis by (simp add: second_def)
  qed
  finally show ?thesis by (simp add: db_trunc_def parseDBTime_def fmtTime_def)
qed

lemma fire_spaced_other: "spaced typ gap (w_db w) \<Longrightarrow> typ' \<noteq> typ \<Longrightarrow> spaced typ gap (w_db (fire env now a typ' msg w))"
  using fire_db [of env now a typ' msg w] by (auto simp: spaced_def sorted_wrt_append apart_def)

lemma fire_spaced:
  assumes "spaced typ (k * second) (w_db w)" "\<not> env [''GetLastAlert'', a, typ]"
    and "cooled_down now (k * second) (GetLastAlert env (w_db w) a typ)"
  shows "spaced typ (k * second) (w_db (fire env now a typ msg w))"
proof -
  let ?P = "\<lambda>x. al_AgentID x = a \<and> al_Type x = typ"
  have far: "db_trunc now - al_SentAt y \<ge> k * second" if "y \<in> set (alerts (w_db w))" "?P y" for y
  proof (cases "newest_alert ?P (w_db w)")
    case None
    then show ?thesis using that newest_alert_None [of ?P "w_db w"] by (auto simp: list_ex_iff)
  next
    case (Some x)
    then have "now - al_SentAt x \<ge> k * second" using assms(2,3) by (simp add: cooled_down_def GetLastAlert_def)
    from newest_alert_le [OF Some that] this have "al_SentAt y + k * second \<le> now" by simp
    moreover have "db_trunc (al_SentAt y) = al_SentAt y" using assms(1) that(1) by (simp add: spaced_def list_all_iff)
    ultimately show ?thesis using whole_seconds by fastforce
  qed
  then show ?thesis using fire_db [of env now a "typ" msg w] assms(1)
    by (auto simp: spaced_def sorted_wrt_append apart_def)
qed

subsection \<open>Cooldowns\<close>

lemma set_consecutive_db [simp]: "w_db (setConsecutive a key n w) = w_db w"
  by (simp add: setConsecutive_def)

lemma check_threshold_spaced:
  assumes "spaced kind cpuRAMCooldown (w_db w)" "\<not> env [''GetLastAlert'', a, kind]"
  shows "spaced kind cpuRAMCooldown (w_db (check_threshold env now a host key kind label v thr w))"
proof -
  have c: "cpuRAMCooldown = 1800 * second" by (simp add: cpuRAMCooldown_def minute_def)
  show ?thesis using assms fire_spaced [of kind 1800] unfolding c
    by (auto simp: check_threshold_def Let_def cpuRAMCooldown_def minute_def)
qed

lemma check_threshold_other:
  "spaced kind gap (w_db w) \<Longrightarrow> kind' \<noteq> kind \<Longrightarrow> spaced kind gap (w_db (check_threshold env now a host key kind' label v thr w))"
  by (simp add: check_threshold_def Let_def fire_spaced_other)

lemma check_process_other:
  "spaced kind gap (w_db w) \<Longrightarrow> kind \<noteq> ''blacklisted_app'' \<Longrightarrow>
   spaced kind gap (w_db (check_process env now a host bl auto proc w))"
  by (simp add: check_process_def Let_def fire_spaced_other)

lemma check_processes_other:
  "spaced kind gap (w_db w) \<Longrightarrow> kind \<noteq> ''blacklisted_app'' \<Longrightarrow>
   spaced kind gap (w_db (fold (check_process env now a host bl auto) procs w))"
  by (induction procs arbitrary: w) (simp_all add: check_process_other)



subsection \<open>A cooldown that hides another program\<close>

lemma sql_like_literal: "sql_like ps s \<Longrightarrow> sql_like (p @ ps) (p @ s)"
proof (induction p)
  case (Cons c p)
  then have IH: "sql_like (p @ ps) (p @ s)" by blast
  show ?case
  proof (cases "c = CHR ''%''")
    case True
    have "sql_like (c # p @ ps) (p @ s)" using IH True by (cases "p @ s") auto
    with True show ?thesis by simp
  qed (use IH in simp)
qed simp

lemma sql_like_all: "sql_like ''%'' s"
  by (induction s) simp_all

lemma sql_like_skip: "sql_like (CHR ''%'' # ps) s \<Longrightarrow> sql_like (CHR ''%'' # ps) (u @ s)"
  by (induction u) simp_all

lemma sql_like_contains: "Contains s p \<Longrightarrow> sql_like (''%'' @ p @ ''%'') s"
proof -
  assume "Contains s p"
  then obtain u v where s: "s = u @ p @ v" by (auto simp: Contains_iff)
  have "sql_like (p @ ''%'') (p @ v)" by (rule sql_like_literal [OF sql_like_all])
  then have "sql_like (CHR ''%'' # p @ ''%'') (p @ v)" by (cases "p @ v") simp_all
  from sql_like_skip [OF this, of u] s show ?thesis by simp
qed

text \<open>
  The cooldown of blacklisted programs is not one per program: an alert sent less than an hour ago
  whose text contains the program's name anywhere, for instance as the tail of another program's name,
  keeps a blacklisted program from being reported.
\<close>

theorem cooldown_hides_other_program:
  assumes "x \<in> set (alerts (w_db w))" "al_AgentID x = a" "al_Type x = ''blacklisted_app''" "Contains (al_Message x) (ps_Name proc)"
    and "now - al_SentAt x < 60 * minute" "\<not> env [''GetLastAlertForApp'', a, ps_Name proc]"
  shows "w_db (check_process env now a hostname blacklist autoKill proc w) = w_db w"
proof -
  let ?P = "\<lambda>x. al_AgentID x = a \<and> al_Type x = ''blacklisted_app'' \<and> sql_like (''%'' @ ps_Name proc @ ''%'') (al_Message x)"
  have P: "?P x" using assms(2-4) sql_like_contains by blast
  then obtain y where y: "newest_alert ?P (w_db w) = Some y"
    using assms(1) newest_alert_None [of ?P "w_db w"] by (fastforce simp: list_ex_iff)
  have "\<not> cooled_down now blacklistCooldown (GetLastAlertForApp env (w_db w) a (ps_Name proc))"
    using newest_alert_le [OF y assms(1) P] y assms(5,6) by (simp add: cooled_down_def GetLastAlertForApp_def blacklistCooldown_def)
  then show ?thesis by (simp add: check_process_def Let_def)
qed

theorem cooldown_hides_other_program_witness:
  "w_db (check_process no_faults (30 * minute) ''pc1'' ''PC'' [''me.exe''] False sample_process alerted_world) = w_db alerted_world"
proof (rule cooldown_hides_other_program [of "\<lparr>al_AgentID = ''pc1'', al_Type = ''blacklisted_app'',
     al_Message = ''Aplikasi terlarang terdeteksi di PC: game.exe'', al_SentAt = 0\<rparr>"])
  have "Contains ''Aplikasi terlarang terdeteksi di PC: game.exe'' ''me.exe''" by code_simp
  then show "Contains (al_Message \<lparr>al_AgentID = ''pc1'', al_Type = ''blacklisted_app'',
     al_Message = ''Aplikasi terlarang terdeteksi di PC: game.exe'', al_SentAt = 0\<rparr>) (ps_Name sample_process)"
    by (simp add: sample_process_def)
qed (simp_all add: alerted_world_def no_faults_def time_units)

subsection \<open>Offline alerts\<close>

lemma offline_alerts_other:
  "a \<noteq> b \<or> kind \<noteq> ''offline'' \<Longrightarrow> offline_alerts (w_db (fire env now a kind msg w)) b t = offline_alerts (w_db w) b t"
  using fire_db [of env now a kind msg w] by (auto simp: offline_alerts_def)

lemma offline_alerts_fire: "offline_alerts (w_db (fire env now a kind msg w)) b t \<le> Suc (offline_alerts (w_db w) b t)"
  using fire_db [of env now a kind msg w] by (auto simp: offline_alerts_def)

lemma fire_agents [simp]: "agents (w_db (fire env now a kind msg w)) = agents (w_db w)"
  using fire_db [of env now a kind msg w] by auto

lemma check_offline_agents [simp]: "agents (w_db (check_offline_agent env now cutoff ag w)) = agents (w_db w)"
  by (simp add: check_offline_agent_def)

lemma no_newer_alert:
  assumes "\<not> env [''GetLastAlert'', a, ''offline'']"
    and "\<not> (case GetLastAlert env db a ''offline'' of Inr (Some x) \<Rightarrow> al_SentAt x > since | _ \<Rightarrow> False)"
  shows "offline_alerts db a since = 0"
proof -
  let ?P = "\<lambda>x. al_AgentID x = a \<and> al_Type x = ''offline''"
  have "\<not> (?P x \<and> al_SentAt x > since)" if "x \<in> set (alerts db)" for x
  proof (cases "newest_alert ?P db")
    case None
    with that show ?thesis using newest_alert_None [of ?P db] by (auto simp: list_ex_iff)
  next
    case (Some y)
    with assms have "al_SentAt y \<le> since" by (auto simp: GetLastAlert_def)
    with newest_alert_le [OF Some that] show ?thesis by fastforce
  qed
  then show ?thesis by (auto simp: offline_alerts_def filter_empty_conv)
qed

lemma check_offline_once:
  assumes "offline_alerts (w_db w) (ag_ID r) (ag_LastSeen r) \<le> 1" "\<not> env [''GetLastAlert'', ag_ID ag, ''offline'']"
    and "ag_ID ag = ag_ID r \<Longrightarrow> ag_LastSeen ag = ag_LastSeen r"
  shows "offline_alerts (w_db (check_offline_agent env now cutoff ag w)) (ag_ID r) (ag_LastSeen r) \<le> 1"
proof (cases "ag_ID ag = ag_ID r")
  case True
  let ?a = "ag_ID ag" and ?t = "ag_LastSeen ag"
  show ?thesis
  proof (cases "case GetLastAlert env (w_db w) ?a ''offline'' of Inr (Some x) \<Rightarrow> al_SentAt x > ?t | _ \<Rightarrow> False")
    case alerted: True
    then show ?thesis using assms(1) by (simp add: check_offline_agent_def)
  next
    case False
    have z: "offline_alerts (w_db w) ?a ?t = 0" by (rule no_newer_alert [OF assms(2) False])
    show ?thesis using offline_alerts_fire [of env now ?a "''offline''" _ w ?a ?t] z assms(1) True assms(3) [OF True]
      by (simp add: check_offline_agent_def)
  qed
next
  case False
  then show ?thesis using assms(1) by (simp add: check_offline_agent_def offline_alerts_other)
qed

lemma fold_offline_once:
  assumes "\<And>r. r \<in> set (agents (w_db w)) \<Longrightarrow> offline_alerts (w_db w) (ag_ID r) (ag_LastSeen r) \<le> 1"
    and "\<And>b. \<not> env [''GetLastAlert'', b, ''offline'']"
    and "\<And>ag r. ag \<in> set ags \<Longrightarrow> r \<in> set (agents (w_db w)) \<Longrightarrow> ag_ID ag = ag_ID r \<Longrightarrow> ag_LastSeen ag = ag_LastSeen r"
  shows "r \<in> set (agents (w_db w)) \<Longrightarrow>
    offline_alerts (w_db (fold (check_offline_agent env now cutoff) ags w)) (ag_ID r) (ag_LastSeen r) \<le> 1"
  using assms
proof (induction ags arbitrary: w)
  case (Cons ag ags)
  let ?w = "check_offline_agent env now cutoff ag w"
  have "offline_alerts (w_db ?w) (ag_ID q) (ag_LastSeen q) \<le> 1" if "q \<in> set (agents (w_db w))" for q
    using Cons.prems that by (intro check_offline_once) auto
  then show ?case using Cons.IH [of ?w] Cons.prems by simp
qed simp

lemma fold_offline_agents [simp]: "agents (w_db (fold (check_offline_agent env now cutoff) ags w)) = agents (w_db w)"
  by (induction ags arbitrary: w) simp_all

lemma with_metrics_agent: "ag_ID (with_metrics db r) = ag_ID r" "ag_LastSeen (with_metrics db r) = ag_LastSeen r"
  by (simp_all add: with_metrics_def Let_def Agent.defs)

text \<open>
  One offline alert per disconnect: a check of the offline agents, at any time, never leaves an agent
  with two offline alerts newer than the moment it was last seen, as long as the query for the last alert
  does not fail.
\<close>

theorem offline_alert_once:
  assumes "offline_once (w_db w)" "distinct (map ag_ID (agents (w_db w)))" "\<And>b. \<not> env [''GetLastAlert'', b, ''offline'']"
  shows "offline_once (w_db (checkOfflineAgents env now w))"
proof (cases "GetAllSettings env (w_db w)")
  case (Inr cfg)
  show ?thesis
  proof (cases "GetAllAgents env (w_db w)")
    case all: (Inr ags)
    have "ags = map (with_metrics (w_db w)) (sort_key ag_Hostname (agents (w_db w)))"
      using all by (simp add: GetAllAgents_def split: if_splits)
    then have ags: "set ags = with_metrics (w_db w) ` set (agents (w_db w))" by simp
    have same: "ag_LastSeen ag = ag_LastSeen r" if mem: "ag \<in> set ags" and "r \<in> set (agents (w_db w))" "ag_ID ag = ag_ID r" for ag r
    proof -
      obtain q where q: "q \<in> set (agents (w_db w))" "ag = with_metrics (w_db w) q"
        using mem by (auto simp: ags)
      have inj: "inj_on ag_ID (set (agents (w_db w)))" using assms(2) by (simp add: distinct_map)
      have "ag_ID q = ag_ID r" using that(3) q(2) by (simp add: with_metrics_agent)
      then have "q = r" by (rule inj_onD [OF inj _ q(1) that(2)])
      with q show ?thesis by (simp add: with_metrics_agent)
    qed
    let ?cut = "now - parseIntSetting (cfg ''offline_after_minutes'') 5 * minute"
    have "offline_once (w_db (fold (check_offline_agent env now ?cut) ags w))"
      using fold_offline_once [of w env ags _ now ?cut] assms(1,3) same by (auto simp: offline_once_def list_all_iff)
    then show ?thesis using Inr all by (simp add: checkOfflineAgents_def Let_def)
  qed (use Inr assms(1) in \<open>simp add: checkOfflineAgents_def Let_def\<close>)
qed (use assms(1) in \<open>simp add: checkOfflineAgents_def\<close>)

theorem offline_alert_once_witness: "offline_once (w_db (checkOfflineAgents no_faults (60 * minute) offline_world))"
  by (rule offline_alert_once) (simp_all add: offline_once_def offline_alerts_def offline_world_def empty_db_def no_faults_def)

subsection \<open>Metrics reach the database\<close>

lemma flush_agents [simp]: "agents (batcher_flush env es db) = agents db"
  by (simp add: batcher_flush_def)

lemma flush_known [simp]: "agent_known (batcher_flush env es db) = agent_known db"
  by (simp add: fun_eq_iff agent_known_def)

lemma flush_ok: "metrics (batcher_flush no_faults es db) = metrics db @ map batch_row (filter (\<lambda>e. agent_known db (mb_agentID e)) es)"
  by (simp add: batcher_flush_def no_faults_def)

text \<open>What is stored and what is still under way, for a fixed set of agents.\<close>

lemma batcher_run_total:
  assumes "batcher_run no_faults ev (buf, w) = (buf', w')"
  shows "agent_known (w_db w') = agent_known (w_db w) \<and>
    metrics (w_db w') @ map batch_row (filter (\<lambda>e. agent_known (w_db w) (mb_agentID e)) (buf' @ w_batch w')) =
    metrics (w_db w) @ map batch_row (filter (\<lambda>e. agent_known (w_db w) (mb_agentID e)) (buf @ w_batch w))"
  using assms by (cases ev) (auto simp: batcher_run_def Let_def flush_ok split: list.splits if_splits)

text \<open>
  The batcher loses nothing: after any sequence of receives and ticks and a final stop, with a healthy
  database, every entry that was in the channel or the buffer has become one metrics row of its agent, in
  order, exactly once (entries of agents that are not in the database are rejected by the foreign key).
\<close>

theorem batcher_delivers_all:
  "let (buf', w') = batcher_events no_faults (evs @ [BatchStop]) (buf, w) in
   buf' = [] \<and> w_batch w' = [] \<and>
   metrics (w_db w') = metrics (w_db w) @ map batch_row (filter (\<lambda>e. agent_known (w_db w) (mb_agentID e)) (buf @ w_batch w))"
proof (induction evs arbitrary: buf w)
  case Nil
  show ?case by (auto simp: batcher_run_def Let_def flush_ok)
next
  case (Cons ev evs)
  obtain buf1 w1 where s: "batcher_run no_faults ev (buf, w) = (buf1, w1)" by (cases "batcher_run no_faults ev (buf, w)")
  from Cons.IH [of buf1 w1] batcher_run_total [OF s] show ?case
    by (simp add: s Let_def case_prod_beta)
qed

end
