(* ===== verification/Server_Software.thy ===== *)
theory Server_Software
  imports Deployer Shared_Software Alerts
begin

text \<open>
  The software inventory of the server: \<^verbatim>\<open>server/software.go\<close> (reconciling an agent's snapshot, the
  fleet view, the uninstall tiers and the uninstall request) and \<^verbatim>\<open>validateDeployRequest\<close> of
  \<^verbatim>\<open>server/api.go\<close>, the gate of every job payload.
\<close>

subsection \<open>Items and rows\<close>

definition identityKey :: "SoftwareInventoryItem \<Rightarrow> string" where
  "identityKey item = SoftwareIdentity_Key
     \<lparr>si_WindowsInstaller = it_WindowsInstaller item, si_ProductCode = it_ProductCode item,
      si_DisplayName = it_DisplayName item, si_Publisher = it_Publisher item\<rparr>"

record SoftwareInventoryRow = SoftwareStored +
  sr_Hostname :: string
  sr_UpdateStatus :: string
  sr_UninstallSupported :: bool
  sr_UninstallTier :: string
  sr_UninstallReason :: string

record SoftwareAggregateRow =
  sg_IdentityKey :: string
  sg_Name :: string
  sg_Vendor :: string
  sg_Version :: string
  sg_VersionVaries :: bool
  sg_NewestUpdate :: string
  sg_InstallType :: string
  sg_UpdateStatus :: string
  sg_Platform :: string
  sg_EndpointCount :: nat
  sg_AnyUninstallSupported :: bool

subsection \<open>Reconciling a snapshot\<close>

definition stored_item :: "string \<Rightarrow> time \<Rightarrow> time \<Rightarrow> SoftwareInventoryItem \<Rightarrow> SoftwareStored" where
  "stored_item a firstSeen now item =
     \<lparr>sw_AgentID = a, sw_IdentityKey = identityKey item, sw_DisplayName = it_DisplayName item, sw_Publisher = it_Publisher item,
      sw_DisplayVersion = it_DisplayVersion item, sw_InstallDate = it_InstallDate item,
      sw_WindowsInstaller = it_WindowsInstaller item, sw_ProductCode = it_ProductCode item,
      sw_UninstallString = it_UninstallString item, sw_QuietUninstallString = it_QuietUninstallString item,
      sw_Hive = it_Hive item, sw_Arch = it_Arch item, sw_Scope = it_Scope item, sw_WingetID = it_WingetID item,
      sw_WingetAvailableVersion = it_WingetAvailableVersion item, sw_FirstSeen = firstSeen, sw_LastSeen = now\<rparr>"

definition is_entry :: "string \<Rightarrow> string \<Rightarrow> SoftwareStored \<Rightarrow> bool" where
  "is_entry a k r \<longleftrightarrow> sw_AgentID r = a \<and> sw_IdentityKey r = k"

text \<open>The upsert on \<^verbatim>\<open>(agent_id, identity_key)\<close>: an existing row keeps its \<^verbatim>\<open>first_seen\<close>.\<close>

definition upsert_item :: "string \<Rightarrow> time \<Rightarrow> SoftwareInventoryItem \<Rightarrow> SoftwareStored list \<Rightarrow> SoftwareStored list" where
  "upsert_item a now item rows =
     (if list_ex (is_entry a (identityKey item)) rows
      then map (\<lambda>r. if is_entry a (identityKey item) r then stored_item a (sw_FirstSeen r) now item else r) rows
      else rows @ [stored_item a now now item])"

definition ReconcileSoftwareInventory :: "db_env \<Rightarrow> time \<Rightarrow> DB \<Rightarrow> string \<Rightarrow> SoftwareInventoryItem list \<Rightarrow> db_error + DB" where
  "ReconcileSoftwareInventory env now db a items =
     (if env [''ReconcileSoftwareInventory'', a] then Inl DBFault
      else if items \<noteq> [] \<and> \<not> agent_known db a then Inl ForeignKey
      else
        let keys = map identityKey items;
            rows = fold (upsert_item a (db_trunc now)) items (software_inventory db)
        in Inr (db\<lparr>software_inventory := filter (\<lambda>r. \<not> (sw_AgentID r = a \<and> sw_IdentityKey r \<notin> set keys)) rows\<rparr>))"

subsection \<open>Update status and uninstall tiers\<close>

definition computeUpdateStatus :: "'a SoftwareStored_scheme \<Rightarrow> string" where
  "computeUpdateStatus row =
     (if sw_WingetID row = '''' \<or> sw_WingetAvailableVersion row = '''' then ''unknown''
      else let (cmp, ok) = CompareVersions (sw_DisplayVersion row) (sw_WingetAvailableVersion row) in
        if \<not> ok then ''unknown'' else if cmp < 0 then ''update_available'' else ''up_to_date'')"

text \<open>\<^verbatim>\<open>wingetIDRe\<close>: a letter or digit, then letters, digits, underscores, dots, dashes and plus signs.\<close>

definition is_alnum :: "char \<Rightarrow> bool" where
  "is_alnum c \<longleftrightarrow> is_upper c \<or> is_lower c \<or> is_digit c"

definition wingetIDRe :: "string \<Rightarrow> bool" where
  "wingetIDRe s = (case s of [] \<Rightarrow> False
     | c # cs \<Rightarrow> is_alnum c \<and> list_all (\<lambda>d. is_alnum d \<or> d \<in> {CHR ''_'', CHR ''.'', CHR ''-'', CHR ''+''}) cs)"

record uninstall_plan =
  up_tier :: string
  up_jobType :: string
  up_payload :: string
  up_args :: string
  up_ok :: bool
  up_reason :: string

definition no_uninstall_reason :: string where
  "no_uninstall_reason = ''No MSI ProductCode, no safely-parseable QuietUninstallString, and no recognized winget package ID '' @
     em_dash @ '' this software has no known silent uninstall mechanism''"

definition winget_uninstall :: "string \<Rightarrow> string" where
  "winget_uninstall wid = ''winget uninstall --id '' @ wid @ '' --silent --accept-source-agreements''"

definition classifyUninstall :: "'a SoftwareStored_scheme \<Rightarrow> uninstall_plan" where
  "classifyUninstall row =
     (case (if sw_WindowsInstaller row then NormalizeProductCode (sw_ProductCode row) else None) of
        Some guid \<Rightarrow> \<lparr>up_tier = ''A'', up_jobType = ''msiexec_uninstall'', up_payload = guid, up_args = '''', up_ok = True, up_reason = ''''\<rparr>
      | None \<Rightarrow>
          if sw_QuietUninstallString row \<noteq> '''' \<and> ParseQuietUninstallCommand (sw_QuietUninstallString row) \<noteq> None
          then \<lparr>up_tier = ''B'', up_jobType = ''quiet_uninstall'', up_payload = sw_QuietUninstallString row,
                up_args = sw_IdentityKey row, up_ok = True, up_reason = ''''\<rparr>
          else if sw_WingetID row \<noteq> '''' \<and> wingetIDRe (sw_WingetID row)
          then \<lparr>up_tier = ''C'', up_jobType = ''winget'', up_payload = winget_uninstall (sw_WingetID row), up_args = '''',
                up_ok = True, up_reason = ''''\<rparr>
          else \<lparr>up_tier = ''D'', up_jobType = '''', up_payload = '''', up_args = '''', up_ok = False, up_reason = no_uninstall_reason\<rparr>)"

subsection \<open>Queries\<close>

record softwareRowFilter =
  sf_search :: string
  sf_identityKey :: string
  sf_agentID :: string

definition row_selected :: "softwareRowFilter \<Rightarrow> SoftwareStored \<Rightarrow> bool" where
  "row_selected f r \<longleftrightarrow>
     (sf_search f = '''' \<or> sql_like (''%'' @ sf_search f @ ''%'') (sw_DisplayName r) \<or> sql_like (''%'' @ sf_search f @ ''%'') (sw_Publisher r))
     \<and> (sf_identityKey f = '''' \<or> sw_IdentityKey r = sf_identityKey f)
     \<and> (sf_agentID f = '''' \<or> sw_AgentID r = sf_agentID f)"

definition inventory_row :: "string \<Rightarrow> SoftwareStored \<Rightarrow> SoftwareInventoryRow" where
  "inventory_row hostname r =
     (let plan = classifyUninstall r in
      SoftwareStored.extend r (SoftwareInventoryRow.fields hostname (computeUpdateStatus r) (up_ok plan) (up_tier plan) (up_reason plan)))"

text \<open>The join with \<^verbatim>\<open>agents\<close>, ordered by identity key and then by hostname.\<close>

definition querySoftwareInventoryRows :: "db_env \<Rightarrow> DB \<Rightarrow> softwareRowFilter \<Rightarrow> db_error + SoftwareInventoryRow list" where
  "querySoftwareInventoryRows env db f =
     (if env [''querySoftwareInventoryRows''] then Inl DBFault
      else Inr (sort_key sw_IdentityKey (sort_key sr_Hostname
        (concat (map (\<lambda>r. case GetAgentByID db (sw_AgentID r) of None \<Rightarrow> [] | Some ag \<Rightarrow> [inventory_row (ag_Hostname ag) r])
          (filter (row_selected f) (software_inventory db)))))))"

definition GetSoftwareInventoryByIdentityKey :: "db_env \<Rightarrow> DB \<Rightarrow> string \<Rightarrow> db_error + SoftwareInventoryRow list" where
  "GetSoftwareInventoryByIdentityKey env db k = querySoftwareInventoryRows env db \<lparr>sf_search = '''', sf_identityKey = k, sf_agentID = ''''\<rparr>"

definition GetSoftwareInventoryRowForUninstall :: "db_env \<Rightarrow> DB \<Rightarrow> string \<Rightarrow> string \<Rightarrow> db_error + SoftwareInventoryRow option" where
  "GetSoftwareInventoryRowForUninstall env db a k =
     (case querySoftwareInventoryRows env db \<lparr>sf_search = '''', sf_identityKey = k, sf_agentID = a\<rparr> of
        Inl e \<Rightarrow> Inl e
      | Inr [] \<Rightarrow> Inr None
      | Inr (r # _) \<Rightarrow> Inr (Some r))"

subsection \<open>The fleet view\<close>

definition collapseStringSet :: "string set \<Rightarrow> string" where
  "collapseStringSet s = (if s = {} then '''' else if card s = 1 then the_elem s else ''mixed'')"

definition newer_version :: "string \<Rightarrow> SoftwareInventoryRow \<Rightarrow> string" where
  "newer_version newest r =
     (if sw_WingetAvailableVersion r = '''' then newest
      else if newest = '''' then sw_WingetAvailableVersion r
      else let (cmp, ok) = CompareVersions newest (sw_WingetAvailableVersion r) in
        if ok \<and> cmp < 0 then sw_WingetAvailableVersion r else newest)"

definition aggregateOneSoftwareGroup :: "string \<Rightarrow> SoftwareInventoryRow list \<Rightarrow> SoftwareAggregateRow" where
  "aggregateOneSoftwareGroup key rows =
     (let versions = sw_DisplayVersion ` set rows; statuses = sr_UpdateStatus ` set rows in
      case rows of
        [] \<Rightarrow> \<lparr>sg_IdentityKey = key, sg_Name = '''', sg_Vendor = '''', sg_Version = '''', sg_VersionVaries = False, sg_NewestUpdate = '''',
               sg_InstallType = '''', sg_UpdateStatus = '''', sg_Platform = '''', sg_EndpointCount = 0, sg_AnyUninstallSupported = False\<rparr>
      | r0 # _ \<Rightarrow>
          \<lparr>sg_IdentityKey = key, sg_Name = sw_DisplayName r0, sg_Vendor = sw_Publisher r0,
           sg_Version = (if card versions = 1 then the_elem versions else ''varies''),
           sg_VersionVaries = (card versions \<noteq> 1),
           sg_NewestUpdate = foldl newer_version '''' rows,
           sg_InstallType = collapseStringSet ((\<lambda>r. if sw_WindowsInstaller r then ''msi'' else ''exe'') ` set rows),
           sg_UpdateStatus = (if ''update_available'' \<in> statuses then ''update_available''
                              else if statuses = {''up_to_date''} then ''up_to_date'' else ''unknown''),
           sg_Platform = collapseStringSet (sw_Arch ` set rows - {''''}),
           sg_EndpointCount = length rows,
           sg_AnyUninstallSupported = list_ex sr_UninstallSupported rows\<rparr>)"

definition aggregateSoftwareRows :: "SoftwareInventoryRow list \<Rightarrow> string \<Rightarrow> string \<Rightarrow> string \<Rightarrow> SoftwareAggregateRow list" where
  "aggregateSoftwareRows rows installTypeFilter updateStatusFilter platformFilter =
     filter (\<lambda>g. (installTypeFilter = '''' \<or> sg_InstallType g = installTypeFilter)
               \<and> (updateStatusFilter = '''' \<or> sg_UpdateStatus g = updateStatusFilter)
               \<and> (platformFilter = '''' \<or> sg_Platform g = platformFilter))
       (map (\<lambda>k. aggregateOneSoftwareGroup k (filter (\<lambda>r. sw_IdentityKey r = k) rows))
         (rev (remdups (rev (map sw_IdentityKey rows)))))"

definition GetSoftwareInventoryAggregated ::
  "db_env \<Rightarrow> DB \<Rightarrow> string \<Rightarrow> string \<Rightarrow> string \<Rightarrow> string \<Rightarrow> db_error + SoftwareAggregateRow list" where
  "GetSoftwareInventoryAggregated env db srch installType updateStatus platform =
     (case querySoftwareInventoryRows env db \<lparr>sf_search = srch, sf_identityKey = '''', sf_agentID = ''''\<rparr> of
        Inl e \<Rightarrow> Inl e | Inr rows \<Rightarrow> Inr (aggregateSoftwareRows rows installType updateStatus platform))"

subsection \<open>The payload gate\<close>

datatype validate_error =
    PayloadTooLong | PayloadNul | WingetFormat | WingetID | ArgsTooLong | ArgsNul | DeepFreezeAction
  | NotAProductCode | UnsafeCommand | MissingArgs | UnknownType string

definition validateDeployRequest :: "string \<Rightarrow> string \<Rightarrow> string \<Rightarrow> validate_error option" where
  "validateDeployRequest jobType payload args =
     (if jobType = ''exec'' then
        (if length payload > 8192 then Some PayloadTooLong
         else if CHR 0x00 \<in> set payload then Some PayloadNul else None)
      else if jobType = ''winget'' then
        (let fields = Fields payload in
         if length fields < 4 \<or> fields ! 0 \<noteq> ''winget'' \<or> (fields ! 1 \<noteq> ''install'' \<and> fields ! 1 \<noteq> ''uninstall'')
            \<or> fields ! 2 \<noteq> ''--id'' then Some WingetFormat
         else if \<not> wingetIDRe (fields ! 3) then Some WingetID else None)
      else if jobType = ''file_deploy'' then
        (if length args > 512 then Some ArgsTooLong else if CHR 0x00 \<in> set args then Some ArgsNul else None)
      else if jobType = ''deepfreeze'' then
        (if payload \<noteq> ''thaw'' \<and> payload \<noteq> ''freeze'' \<and> payload \<noteq> ''query_df'' then Some DeepFreezeAction else None)
      else if jobType = ''install_ssh'' then None
      else if jobType = ''msiexec_uninstall'' then
        (if NormalizeProductCode payload = None then Some NotAProductCode else None)
      else if jobType = ''quiet_uninstall'' then
        (if ParseQuietUninstallCommand payload = None then Some UnsafeCommand
         else if args = '''' then Some MissingArgs else None)
      else Some (UnknownType jobType))"

subsection \<open>The uninstall request\<close>

record uninstall_reply =
  ur_jobs :: "(string \<times> string \<times> string) list"
  ur_skipped :: "(string \<times> string) list"

text \<open>One target: \<open>jid\<close> is the id the next job would get.\<close>

definition uninstall_one ::
  "db_env \<Rightarrow> time \<Rightarrow> checksums \<Rightarrow> string \<Rightarrow> string \<Rightarrow> string \<Rightarrow> uninstall_reply \<times> World \<Rightarrow> uninstall_reply \<times> World" where
  "uninstall_one env now cks key jid a st =
     (let (reply, w) = st; skip = (\<lambda>reason. (reply\<lparr>ur_skipped := ur_skipped reply @ [(a, reason)]\<rparr>, w)) in
      case GetSoftwareInventoryRowForUninstall env (w_db w) a key of
        Inl e \<Rightarrow> skip ''lookup failed''
      | Inr None \<Rightarrow> skip ''software not currently installed on this endpoint''
      | Inr (Some row) \<Rightarrow>
          let plan = classifyUninstall row in
          if \<not> up_ok plan then skip (up_reason plan)
          else if validateDeployRequest (up_jobType plan) (up_payload plan) (up_args plan) \<noteq> None then skip ''internal validation error''
          else
            (case CreateJob env now cks jid w (up_jobType plan) (up_payload plan) (up_args plan) [a] 0 None
                    (DefaultMaxRetry env (w_db w)) ''admin'' of
               (Inl e, w) \<Rightarrow> (reply\<lparr>ur_skipped := ur_skipped reply @ [(a, ''job dispatch failed'')]\<rparr>, w)
             | (Inr job, w) \<Rightarrow> (reply\<lparr>ur_jobs := ur_jobs reply @ [(a, dj_ID job, up_tier plan)]\<rparr>, w)))"

definition handlePostSoftwareUninstall ::
  "db_env \<Rightarrow> time \<Rightarrow> checksums \<Rightarrow> (nat \<Rightarrow> string) \<Rightarrow> string \<Rightarrow> string \<Rightarrow> string list \<Rightarrow> World \<Rightarrow> (string + uninstall_reply) \<times> World" where
  "handlePostSoftwareUninstall env now cks jids ip key agentIDs w =
     (if key = '''' \<or> agentIDs = [] then (Inl ''identity_key and agent_ids are required'', w)
      else
        let (reply, w) = fold (\<lambda>(i, a). uninstall_one env now cks key (jids i) a) (enumerate 0 agentIDs)
              (\<lparr>ur_jobs = [], ur_skipped = []\<rparr>, w);
            w = (if ur_jobs reply \<noteq> []
                 then w\<lparr>w_db := InsertAuditLog env now (w_db w) ''uninstall_software'' (Join agentIDs '','')
                        (''identity_key='' @ key @ '' job_ids='' @ Join (map (\<lambda>j. fst (snd j)) (ur_jobs reply)) '','') ip\<rparr>
                 else w)
        in (Inr reply, w))"

subsection \<open>Specification of the inventory\<close>

text \<open>The inventory as a map: what is stored for an agent under a key; and its primary key.\<close>

definition installed :: "DB \<Rightarrow> string \<Rightarrow> string \<Rightarrow> SoftwareStored option" where
  "installed db a k = find (is_entry a k) (software_inventory db)"

definition entry_key :: "SoftwareStored \<Rightarrow> string \<times> string" where
  "entry_key r = (sw_AgentID r, sw_IdentityKey r)"

definition inventory_inv :: "DB \<Rightarrow> bool" where
  "inventory_inv db \<longleftrightarrow> distinct (map entry_key (software_inventory db))"

definition last_item :: "SoftwareInventoryItem list \<Rightarrow> string \<Rightarrow> SoftwareInventoryItem option" where
  "last_item items k = find (\<lambda>i. identityKey i = k) (rev items)"

definition sample_item :: SoftwareInventoryItem where
  "sample_item = \<lparr>it_DisplayName = ''Firefox'', it_Publisher = ''Mozilla'', it_DisplayVersion = ''1.0'', it_InstallDate = '''',
     it_WindowsInstaller = False, it_ProductCode = '''', it_UninstallString = '''', it_QuietUninstallString = '''', it_Hive = ''HKLM'',
     it_Arch = ''x64'', it_Scope = ''machine'', it_WingetID = ''Mozilla.Firefox'', it_WingetAvailableVersion = ''2.0''\<rparr>"

lemma is_entry_key: "is_entry a k r \<longleftrightarrow> entry_key r = (a, k)"
  by (auto simp: is_entry_def entry_key_def)

lemma entry_key_stored [simp]: "entry_key (stored_item a f now item) = (a, identityKey item)"
  by (simp add: entry_key_def stored_item_def)

lemma first_seen_stored [simp]: "sw_FirstSeen (stored_item a f now item) = f"
  by (simp add: stored_item_def)

lemma upsert_keys:
  "map entry_key (upsert_item a now item rows) =
     map entry_key rows @ (if (a, identityKey item) \<in> entry_key ` set rows then [] else [(a, identityKey item)])"
  by (auto simp: upsert_item_def list_ex_iff is_entry_key image_iff) (metis)

lemma find_replace:
  "find (is_entry b k) (map (\<lambda>r. if is_entry a i r then stored_item a (sw_FirstSeen r) now item else r) rows) =
     (if b = a \<and> k = i then map_option (\<lambda>r. stored_item a (sw_FirstSeen r) now item) (find (is_entry a i) rows)
      else find (is_entry b k) rows)" if "i = identityKey item"
  using that by (induction rows) (auto simp: is_entry_key)

lemma find_upsert:
  "find (is_entry b k) (upsert_item a now item rows) =
     (if b = a \<and> k = identityKey item
      then Some (stored_item a (case find (is_entry a k) rows of None \<Rightarrow> now | Some r \<Rightarrow> sw_FirstSeen r) now item)
      else find (is_entry b k) rows)"
proof (cases "find (is_entry a (identityKey item)) rows")
  case None
  then have "\<not> list_ex (is_entry a (identityKey item)) rows" by (simp add: find_None_iff list_ex_iff)
  with None show ?thesis by (auto simp: upsert_item_def find_append is_entry_key split: option.splits)
next
  case (Some r)
  then have "list_ex (is_entry a (identityKey item)) rows" by (auto simp: list_ex_iff dest: find_in)
  with Some show ?thesis by (simp add: upsert_item_def find_replace)
qed

lemma find_filter_decided:
  assumes "\<And>r. C \<Longrightarrow> Q r \<Longrightarrow> \<not> P r" "\<And>r. \<not> C \<Longrightarrow> Q r \<Longrightarrow> P r"
  shows "find Q (filter P xs) = (if C then None else find Q xs)"
  using assms by (induction xs) auto

lemma fold_upsert_keys:
  "distinct (map entry_key rows) \<Longrightarrow> distinct (map entry_key (fold (upsert_item a now) items rows))"
proof (induction items arbitrary: rows)
  case (Cons item items)
  have "distinct (map entry_key (upsert_item a now item rows))"
    using Cons.prems by (simp add: upsert_keys)
  then show ?case by (simp add: Cons.IH)
qed simp

lemma fold_upsert_find:
  "find (is_entry b k) (fold (upsert_item a now) items rows) =
     (if b = a then
        (case last_item items k of
           None \<Rightarrow> find (is_entry b k) rows
         | Some item \<Rightarrow> Some (stored_item a (case find (is_entry a k) rows of None \<Rightarrow> now | Some r \<Rightarrow> sw_FirstSeen r) now item))
      else find (is_entry b k) rows)"
proof (induction items arbitrary: rows)
  case Nil
  show ?case by (simp add: last_item_def)
next
  case (Cons item items)
  have "last_item (item # items) k = (case last_item items k of None \<Rightarrow> if identityKey item = k then Some item else None | Some i \<Rightarrow> Some i)"
    by (simp add: last_item_def find_append split: option.splits)
  with Cons [of "upsert_item a now item rows"] show ?case
    by (auto simp: find_upsert split: option.splits)
qed

lemma reconcile_effect:
  assumes "inventory_inv db" "ReconcileSoftwareInventory env now db a items = Inr db'"
  shows "inventory_inv db' \<and>
    installed db' b k =
      (if b \<noteq> a then installed db b k
       else case last_item items k of
         None \<Rightarrow> None
       | Some item \<Rightarrow> Some (stored_item a (case installed db a k of None \<Rightarrow> db_trunc now | Some r \<Rightarrow> sw_FirstSeen r) (db_trunc now) item))"
proof -
  let ?rows = "fold (upsert_item a (db_trunc now)) items (software_inventory db)"
  let ?keep = "\<lambda>r. \<not> (sw_AgentID r = a \<and> sw_IdentityKey r \<notin> set (map identityKey items))"
  have db': "software_inventory db' = filter ?keep ?rows"
    using assms(2) by (auto simp: ReconcileSoftwareInventory_def Let_def split: if_splits)
  have d: "distinct (map entry_key ?rows)" using assms(1) fold_upsert_keys by (simp add: inventory_inv_def)
  have "find (is_entry b k) (filter ?keep xs) = (if b = a \<and> k \<notin> set (map identityKey items) then None else find (is_entry b k) xs)" for xs
    by (rule find_filter_decided) (auto simp: is_entry_def)
  moreover have "last_item items k = None \<longleftrightarrow> k \<notin> set (map identityKey items)"
    by (auto simp: last_item_def find_None_iff)
  ultimately show ?thesis
    using d fold_upsert_find [of b k a "db_trunc now" items "software_inventory db"]
    by (auto simp: inventory_inv_def installed_def db' distinct_map_filter split: option.splits)
qed

text \<open>
  C24.  A snapshot is reconciled exactly.  Afterwards an agent has an entry for a key if and only if the
  snapshot has an item with that key; the entry is the last such item, seen now, first seen when the key
  first appeared; the entries of every other agent are untouched, and the primary key still holds.
\<close>

theorem reconcile_exact:
  assumes "inventory_inv db" "ReconcileSoftwareInventory env now db a items = Inr db'"
  shows "inventory_inv db' \<and>
    installed db' b k =
      (if b \<noteq> a then installed db b k
       else case last_item items k of
         None \<Rightarrow> None
       | Some item \<Rightarrow> Some (stored_item a (case installed db a k of None \<Rightarrow> db_trunc now | Some r \<Rightarrow> sw_FirstSeen r) (db_trunc now) item))"
  using assms by (rule reconcile_effect)

theorem reconcile_exact_witness:
  "\<exists>db'. ReconcileSoftwareInventory no_faults 0 (w_db offline_world) ''pc1'' [sample_item] = Inr db'
     \<and> installed db' ''pc1'' (identityKey sample_item) = Some (stored_item ''pc1'' 0 0 sample_item)"
proof -
  have inv: "inventory_inv (w_db offline_world)" by (simp add: inventory_inv_def offline_world_def empty_db_def)
  obtain db' where db': "ReconcileSoftwareInventory no_faults 0 (w_db offline_world) ''pc1'' [sample_item] = Inr db'"
    by (simp add: ReconcileSoftwareInventory_def no_faults_def agent_known_def offline_world_def)
  have "installed (w_db offline_world) ''pc1'' k = None" for k by (simp add: installed_def offline_world_def empty_db_def)
  with reconcile_exact [OF inv db', of "''pc1''" "identityKey sample_item"] db' show ?thesis
    by (simp add: last_item_def db_trunc_def fmtTime_def parseDBTime_def)
qed

subsection \<open>What the server builds passes its own gate\<close>

lemma Fields_from_word:
  "list_all (\<lambda>c. \<not> is_space c) u \<Longrightarrow> is_space c \<Longrightarrow> cur @ u \<noteq> [] \<Longrightarrow> Fields_from cur (u @ c # t) = (cur @ u) # Fields_from [] t"
  by (induction u arbitrary: cur) (auto split: if_splits)

lemma Fields_word:
  "list_all (\<lambda>c. \<not> is_space c) u \<Longrightarrow> u \<noteq> [] \<Longrightarrow> Fields (u @ CHR '' '' # t) = u # Fields t"
  using Fields_from_word [of u "CHR '' ''" "[]" t] by (simp add: Fields_def is_space_def)

lemma winget_id_no_space: "wingetIDRe s \<Longrightarrow> s \<noteq> [] \<and> list_all (\<lambda>c. \<not> is_space c) s"
  by (cases s) (auto simp: wingetIDRe_def is_alnum_def is_upper_def is_lower_def is_digit_def is_space_def list_all_iff)

lemma winget_fields:
  assumes "wingetIDRe wid" "list_all (\<lambda>c. \<not> is_space c) verb" "verb \<noteq> []"
  shows "Fields (''winget '' @ verb @ '' --id '' @ wid @ '' '' @ rest) = ''winget'' # verb # ''--id'' # wid # Fields rest"
proof -
  have w: "Fields (''winget'' @ CHR '' '' # t) = ''winget'' # Fields t" for t by (rule Fields_word) (simp_all add: is_space_def)
  have i: "Fields (''--id'' @ CHR '' '' # t) = ''--id'' # Fields t" for t by (rule Fields_word) (simp_all add: is_space_def)
  have "''winget '' @ verb @ '' --id '' @ wid @ '' '' @ rest =
      ''winget'' @ CHR '' '' # (verb @ CHR '' '' # (''--id'' @ CHR '' '' # (wid @ CHR '' '' # rest)))" by simp
  then show ?thesis using w i Fields_word [OF assms(2,3)] winget_id_no_space [OF assms(1)] Fields_word [of wid] by simp
qed

lemma winget_accepted:
  "wingetIDRe wid \<Longrightarrow> validateDeployRequest ''winget'' (''winget uninstall --id '' @ wid @ '' '' @ rest) args = None"
  using winget_fields [of wid "''uninstall''" rest] by (simp add: validateDeployRequest_def Let_def is_space_def)

text \<open>
  Every uninstall the server offers passes the payload gate: for a row with a supported tier and a
  non-empty identity key, the job built from it is never refused by \<^verbatim>\<open>validateDeployRequest\<close>, so the
  \<^verbatim>\<open>internal validation error\<close> branch of the uninstall request is dead.
\<close>

theorem offered_uninstall_is_valid:
  assumes "up_ok (classifyUninstall row)" "sw_IdentityKey row \<noteq> ''''"
  shows "validateDeployRequest (up_jobType (classifyUninstall row)) (up_payload (classifyUninstall row)) (up_args (classifyUninstall row)) = None"
proof (cases "if sw_WindowsInstaller row then NormalizeProductCode (sw_ProductCode row) else None")
  case (Some guid)
  then have "NormalizeProductCode guid = Some guid" using NormalizeProductCode_idem by (auto split: if_splits)
  with Some show ?thesis by (simp add: classifyUninstall_def validateDeployRequest_def)
next
  case None
  show ?thesis
  proof (cases "sw_QuietUninstallString row \<noteq> '''' \<and> ParseQuietUninstallCommand (sw_QuietUninstallString row) \<noteq> None")
    case True
    with None assms(2) show ?thesis unfolding classifyUninstall_def None by (simp add: validateDeployRequest_def)
  next
    case False
    with None assms(1) have w: "wingetIDRe (sw_WingetID row)" "up_jobType (classifyUninstall row) = ''winget''"
      "up_payload (classifyUninstall row) = winget_uninstall (sw_WingetID row)"
      unfolding classifyUninstall_def None by (auto split: if_splits)
    show ?thesis using winget_accepted [OF w(1), of "''--silent --accept-source-agreements''"] by (simp add: w winget_uninstall_def)
  qed
qed

theorem offered_uninstall_is_valid_witness:
  "validateDeployRequest ''winget'' (winget_uninstall ''Mozilla.Firefox'') '''' = None"
proof -
  let ?row = "stored_item ''pc1'' 0 0 sample_item"
  have c: "classifyUninstall ?row = \<lparr>up_tier = ''C'', up_jobType = ''winget'', up_payload = winget_uninstall ''Mozilla.Firefox'', up_args = '''',
      up_ok = True, up_reason = ''''\<rparr>"
    by (simp add: classifyUninstall_def stored_item_def sample_item_def wingetIDRe_def is_alnum_def is_upper_def is_lower_def is_digit_def)
  have "sw_IdentityKey ?row \<noteq> ''''" by (simp add: stored_item_def identityKey_def SoftwareIdentity_Key_def split: option.splits)
  with offered_uninstall_is_valid [of ?row] c show ?thesis by simp
qed

text \<open>
  The gate of winget jobs looks at the first four words only: whatever follows a valid package id is
  accepted, including a separator and a second command, and the agent passes the whole text to PowerShell.
\<close>

theorem winget_tail_unchecked:
  assumes "wingetIDRe wid"
  shows "validateDeployRequest ''winget'' (''winget install --id '' @ wid @ '' '' @ tail) args = None"
  using winget_fields [OF assms, of "''install''" tail] by (simp add: validateDeployRequest_def Let_def is_space_def assms)

theorem winget_tail_unchecked_witness:
  "validateDeployRequest ''winget'' ''winget install --id A.B ; Stop-Computer'' '''' = None"
  using winget_tail_unchecked [of "''A.B''" "''; Stop-Computer''" "''''"]
  by (simp add: wingetIDRe_def is_alnum_def is_upper_def is_lower_def is_digit_def)

end
