(* ===== verification/Go_Net.thy ===== *)
theory Go_Net
  imports Go_Prelude
begin

text \<open>
  The part of Go's \<^verbatim>\<open>net\<close> package that the Wake-on-LAN code uses: textual addresses, networks and hardware
  addresses.  As in Go an address is its bytes, four for IPv4 and sixteen for IPv6 or for an IPv4 address in
  its mapped form, and a mask has as many bytes as the address family it was written for.
\<close>

type_synonym byte = "8 word"
type_synonym IP = "byte list"

unbundle bit_operations_syntax

subsection \<open>Numbers\<close>

definition hex_value :: "char \<Rightarrow> nat" where
  "hex_value c =
     (let n = (of_char c :: nat) in if is_digit c then n - 48 else if n < 97 then n - 55 else n - 87)"

definition nat_of_hex :: "string \<Rightarrow> nat" where
  "nat_of_hex ds = foldl (\<lambda>n c. 16 * n + hex_value c) 0 ds"

text \<open>\<^verbatim>\<open>strconv.Atoi\<close> on a 64-bit platform.\<close>

definition Atoi :: "string \<Rightarrow> int option" where
  "Atoi s =
     (let neg = (case s of c # _ \<Rightarrow> c = CHR ''-'' | [] \<Rightarrow> False);
          ds = (case s of c # cs \<Rightarrow> if c = CHR ''-'' \<or> c = CHR ''+'' then cs else s | [] \<Rightarrow> []);
          n = int (nat_of_digits ds)
      in if ds = [] \<or> \<not> list_all is_digit ds then None
         else if neg then (if n \<le> 2 ^ 63 then Some (- n) else None)
         else (if n < 2 ^ 63 then Some n else None))"

subsection \<open>Addresses\<close>

text \<open>A decimal octet: digits, no leading zero, at most 255.\<close>

definition parse_octet :: "string \<Rightarrow> byte option" where
  "parse_octet ds =
     (if ds = [] \<or> \<not> list_all is_digit ds then None
      else if length ds > 1 \<and> hd ds = CHR ''0'' then None
      else if nat_of_digits ds > 255 then None
      else Some (word_of_nat (nat_of_digits ds)))"

definition parseIPv4Fields :: "string \<Rightarrow> IP option" where
  "parseIPv4Fields s =
     (let fields = Split_char (CHR ''.'') s in
      if length fields = 4 then those (map parse_octet fields) else None)"

text \<open>
  The loop of \<^verbatim>\<open>netip.parseIPv6\<close>: \<open>left\<close> is the number of two-byte groups that still fit, \<open>ip\<close> the bytes
  read, \<open>ellipsis\<close> the place of a double colon.  It returns the text that is left with the final state.
\<close>

fun parse6_loop :: "nat \<Rightarrow> string \<Rightarrow> IP \<Rightarrow> nat option \<Rightarrow> (string \<times> IP \<times> nat option) option" where
  "parse6_loop 0 s ip ellipsis = Some (s, ip, ellipsis)"
| "parse6_loop (Suc left) s ip ellipsis =
     (let ds = takeWhile is_hex s; rest = dropWhile is_hex s; acc = nat_of_hex ds in
      if ds = [] \<or> length ds > 4 then None
      else
        (case rest of
           [] \<Rightarrow> Some ([], ip @ [word_of_nat (acc div 256), word_of_nat (acc mod 256)], ellipsis)
         | c # cs \<Rightarrow>
             if c = CHR ''.'' then
               (if ellipsis = None \<and> length ip \<noteq> 12 then None
                else if length ip + 4 > 16 then None
                else case parseIPv4Fields s of None \<Rightarrow> None | Some v4 \<Rightarrow> Some ([], ip @ v4, ellipsis))
             else if c \<noteq> CHR '':'' \<or> cs = [] then None
             else
               let ip = ip @ [word_of_nat (acc div 256), word_of_nat (acc mod 256)] in
               if hd cs = CHR '':'' then
                 (if ellipsis \<noteq> None then None
                  else if tl cs = [] then Some ([], ip, Some (length ip))
                  else parse6_loop left (tl cs) ip (Some (length ip)))
               else parse6_loop left cs ip ellipsis))"

definition parseIPv6 :: "string \<Rightarrow> IP option" where
  "parseIPv6 s =
     (let (s, ellipsis) = (if HasPrefix s ''::'' then (drop 2 s, Some 0) else (s, None)) in
      if s = [] then (if ellipsis = None then None else Some (replicate 16 0))
      else
          (case parse6_loop 8 s [] ellipsis of
             None \<Rightarrow> None
           | Some (rest, ip, ellipsis) \<Rightarrow>
               if rest \<noteq> [] then None
               else if length ip < 16 then
                 (case ellipsis of
                    None \<Rightarrow> None
                  | Some e \<Rightarrow> Some (take e ip @ replicate (16 - length ip) 0 @ drop e ip))
               else if ellipsis \<noteq> None then None
               else Some ip))"

definition v4InV6Prefix :: IP where
  "v4InV6Prefix = replicate 10 0 @ [0xff, 0xff]"

text \<open>
  \<^verbatim>\<open>netip.ParseAddr\<close>: the first of a dot, a colon or a percent sign decides the family.  An address with a
  zone is refused by both callers, so the text after the percent sign is not kept.
\<close>

datatype parsed_addr = AddrV4 IP | AddrV6 IP

definition ParseAddr :: "string \<Rightarrow> parsed_addr option" where
  "ParseAddr s =
     (case find (\<lambda>c. c = CHR ''.'' \<or> c = CHR '':'' \<or> c = CHR ''%'') s of
        None \<Rightarrow> None
      | Some c \<Rightarrow>
          if c = CHR ''.'' then map_option AddrV4 (parseIPv4Fields s)
          else if c = CHR '':'' \<and> CHR ''%'' \<notin> set s then map_option AddrV6 (parseIPv6 s)
          else None)"

definition As16 :: "parsed_addr \<Rightarrow> IP" where
  "As16 p = (case p of AddrV4 ip \<Rightarrow> v4InV6Prefix @ ip | AddrV6 ip \<Rightarrow> ip)"

definition BitLen :: "parsed_addr \<Rightarrow> nat" where
  "BitLen p = (case p of AddrV4 _ \<Rightarrow> 32 | AddrV6 _ \<Rightarrow> 128)"

definition ParseIP :: "string \<Rightarrow> IP option" where
  "ParseIP s = map_option As16 (ParseAddr s)"

definition To4 :: "IP \<Rightarrow> IP option" where
  "To4 ip =
     (if length ip = 4 then Some ip
      else if length ip = 16 \<and> take 12 ip = v4InV6Prefix then Some (drop 12 ip)
      else None)"

text \<open>\<^verbatim>\<open>IP.Equal\<close>: an IPv4 address equals its mapped form.\<close>

definition IP_Equal :: "IP \<Rightarrow> IP \<Rightarrow> bool" where
  "IP_Equal a b \<longleftrightarrow>
     (if length a = length b then a = b
      else if length a = 4 \<and> length b = 16 then b = v4InV6Prefix @ a
      else length a = 16 \<and> length b = 4 \<and> a = v4InV6Prefix @ b)"

text \<open>\<^verbatim>\<open>IP.String\<close> of a four-byte address.\<close>

definition IPv4_String :: "IP \<Rightarrow> string" where
  "IPv4_String ip = Join (map (\<lambda>b. show_nat (unat b)) ip) ''.''"

subsection \<open>Networks\<close>

fun CIDRMask :: "nat \<Rightarrow> nat \<Rightarrow> IP" where
  "CIDRMask n 0 = []"
| "CIDRMask n (Suc l) = (if n \<ge> 8 then 0xff # CIDRMask (n - 8) l else NOT (drop_bit n 0xff) # CIDRMask 0 l)"

record IPNet =
  ipn_IP :: IP
  ipn_Mask :: IP

definition IP_Mask :: "IP \<Rightarrow> IP \<Rightarrow> IP" where
  "IP_Mask ip m =
     (let ip = (if length m = 4 \<and> length ip = 16 \<and> take 12 ip = v4InV6Prefix then drop 12 ip else ip)
      in map2 (AND) ip m)"

definition ParseCIDR :: "string \<Rightarrow> (IP \<times> IPNet) option" where
  "ParseCIDR s =
     (if CHR ''/'' \<notin> set s then None
      else
        let addr = takeWhile (\<lambda>c. c \<noteq> CHR ''/'') s; bits = tl (dropWhile (\<lambda>c. c \<noteq> CHR ''/'') s) in
        (case ParseAddr addr of
           None \<Rightarrow> None
         | Some p \<Rightarrow>
             let n = nat_of_digits bits in
             if bits = [] \<or> \<not> list_all is_digit bits \<or> n > BitLen p then None
             else
               let m = CIDRMask n (BitLen p div 8) in
               Some (As16 p, \<lparr>ipn_IP = IP_Mask (As16 p) m, ipn_Mask = m\<rparr>)))"

definition networkNumberAndMask :: "IPNet \<Rightarrow> (IP \<times> IP) option" where
  "networkNumberAndMask n =
     (let ip = (case To4 (ipn_IP n) of Some x \<Rightarrow> x | None \<Rightarrow> ipn_IP n); m = ipn_Mask n in
      if length ip \<noteq> 4 \<and> length ip \<noteq> 16 then None
      else if length m = 4 then (if length ip = 4 then Some (ip, m) else None)
      else if length m = 16 then Some (ip, if length ip = 4 then drop 12 m else m)
      else None)"

definition IPNet_Contains :: "IPNet \<Rightarrow> IP \<Rightarrow> bool" where
  "IPNet_Contains n ip =
     (case networkNumberAndMask n of
        None \<Rightarrow> ip = []
      | Some (nn, m) \<Rightarrow>
          let ip = (case To4 ip of Some x \<Rightarrow> x | None \<Rightarrow> ip) in
          length ip = length nn \<and> map2 (AND) nn m = map2 (AND) ip m)"

text \<open>\<^verbatim>\<open>IPNet.String\<close> of an IPv4 network.\<close>

definition mask_length :: "IP \<Rightarrow> nat" where
  "mask_length m = length (takeWhile id (concat (map (\<lambda>b. map (bit b) (rev [0..<8])) m)))"

definition IPNet_String :: "IPNet \<Rightarrow> string" where
  "IPNet_String n =
     (case networkNumberAndMask n of
        None \<Rightarrow> ''<nil>''
      | Some (nn, m) \<Rightarrow> IPv4_String nn @ ''/'' @ show_nat (mask_length m))"

subsection \<open>Hardware addresses\<close>

definition hex_groups :: "nat \<Rightarrow> char \<Rightarrow> string \<Rightarrow> nat list option" where
  "hex_groups k sep s =
     (let gs = Split_char sep s in
      if list_all (\<lambda>g. length g = k \<and> list_all is_hex g) gs then Some (map nat_of_hex gs) else None)"

definition ParseMAC :: "string \<Rightarrow> byte list option" where
  "ParseMAC s =
     (if length s < 14 then None
      else
        let hw = (if s ! 2 = CHR '':'' \<or> s ! 2 = CHR ''-'' then map_option (map word_of_nat) (hex_groups 2 (s ! 2) s)
                  else if s ! 4 = CHR ''.'' then
                    map_option (\<lambda>gs. concat (map (\<lambda>g. [word_of_nat (g div 256), word_of_nat (g mod 256)]) gs))
                      (hex_groups 4 (CHR ''.'') s)
                  else None)
        in case hw of None \<Rightarrow> None | Some b \<Rightarrow> if length b \<in> {6, 8, 20} then Some b else None)"

subsection \<open>Lemmas\<close>

lemma Split_char_no_sep: "sep \<notin> set s \<Longrightarrow> Split_char sep s = [s]"
  by (induction s) auto

lemma Split_char_append: "sep \<notin> set s \<Longrightarrow> Split_char sep (s @ sep # t) = s # Split_char sep t"
  by (induction s) auto

lemma Split_char_Join:
  assumes "parts \<noteq> []" "list_all (\<lambda>f. sep \<notin> set f) parts"
  shows "Split_char sep (Join parts [sep]) = parts"
  using assms
proof (induction parts rule: induct_list012)
  case (3 x y zs)
  then show ?case by (simp add: Split_char_append)
qed (simp_all add: Split_char_no_sep)

lemma show_nat_head: "n > 0 \<Longrightarrow> hd (show_nat n) \<noteq> CHR ''0''"
proof (induction n rule: show_nat.induct)
  case (1 n)
  show ?case
  proof (cases "n < 10")
    case True
    have "digit_char n \<noteq> CHR ''0''"
    proof
      assume "digit_char n = CHR ''0''"
      then have "(of_char (char_of (48 + n) :: char) :: nat) = of_char (CHR ''0'')" by (simp add: digit_char_def)
      with True have "48 + n = (48 :: nat)" by simp
      with 1(2) show False by simp
    qed
    with True show ?thesis by (subst show_nat.simps) simp
  next
    case False
    then have "hd (show_nat (n div 10)) \<noteq> CHR ''0''" using 1(1) by simp
    then show ?thesis using False by (subst show_nat.simps) (simp add: hd_append)
  qed
qed

lemma parse_octet_show: "parse_octet (show_nat (unat b)) = Some b" for b :: byte
proof -
  let ?n = "unat b"
  have "?n < 2 ^ 8" using unsigned_less [of b] by simp
  then have "?n < 256" by simp
  moreover have "\<not> (length (show_nat ?n) > 1 \<and> hd (show_nat ?n) = CHR ''0'')"
  proof (cases "?n = 0")
    case True
    have "length (show_nat 0) = 1" by (subst show_nat.simps) simp
    with True show ?thesis by simp
  next
    case False
    then show ?thesis using show_nat_head [of ?n] by simp
  qed
  ultimately show ?thesis
    using show_nat_digits [of ?n] show_nat_not_Nil [of ?n] by (auto simp: parse_octet_def nat_of_digits_show)
qed

lemma show_nat_no_dot: "CHR ''.'' \<notin> set (show_nat n)"
  using show_nat_digits [of n] by (auto simp: list_all_iff is_digit_def)

text \<open>Printing an IPv4 address and reading it again gives the same address.\<close>

lemma parseIPv4Fields_String:
  assumes "length ip = 4"
  shows "parseIPv4Fields (IPv4_String ip) = Some ip"
proof -
  have "ip \<noteq> []" using assms by auto
  then have "Split_char (CHR ''.'') (IPv4_String ip) = map (\<lambda>b. show_nat (unat b)) ip"
    unfolding IPv4_String_def by (intro Split_char_Join) (auto simp: list_all_iff show_nat_no_dot)
  moreover have "those (map parse_octet (map (\<lambda>b. show_nat (unat b)) ip)) = Some ip"
    by (induction ip) (simp_all add: parse_octet_show)
  ultimately show ?thesis using assms by (simp add: parseIPv4Fields_def Let_def)
qed

lemma IPv4_String_chars: "set (IPv4_String ip) \<subseteq> insert (CHR ''.'') {c. is_digit c}"
  unfolding IPv4_String_def
proof (induction ip rule: induct_list012)
  case (2 x)
  then show ?case using show_nat_digits [of "unat x"] by (auto simp: list_all_iff)
next
  case (3 x y zs)
  then show ?case using show_nat_digits [of "unat x"] by (auto simp: list_all_iff)
qed simp

lemma ParseAddr_IPv4_String:
  assumes "length ip = 4"
  shows "ParseAddr (IPv4_String ip) = Some (AddrV4 ip)"
proof -
  let ?P = "\<lambda>c. c = CHR ''.'' \<or> c = CHR '':'' \<or> c = CHR ''%''"
  obtain a b rest where ip: "ip = a # b # rest" using assms by (auto simp: numeral_eq_Suc length_Suc_conv)
  have "CHR ''.'' \<in> set (IPv4_String ip)" by (simp add: ip IPv4_String_def)
  then obtain c where c: "find ?P (IPv4_String ip) = Some c" by (cases "find ?P (IPv4_String ip)") (auto simp: find_None_iff)
  then have "c \<in> set (IPv4_String ip)" "?P c" using find_in [OF c] by simp_all
  then have "c = CHR ''.''" using IPv4_String_chars [of ip] by (auto simp: is_digit_def)
  with c show ?thesis by (simp add: ParseAddr_def parseIPv4Fields_String [OF assms])
qed

lemma length_CIDRMask [simp]: "length (CIDRMask n l) = l"
  by (induction n l rule: CIDRMask.induct) simp_all

lemma bit_ff [simp]: "bit (0xff :: int) n \<longleftrightarrow> n < 8"
proof -
  have "(0xff :: int) = mask 8" by (simp add: mask_eq_exp_minus_1)
  then show ?thesis by (simp only: bit_mask_iff) simp
qed

lemma ff_AND [simp]: "0xff AND x = x" for x :: byte
  by (rule bit_word_eqI) (auto simp: bit_simps)

lemma prefix_byte_chain: "a \<le> b \<Longrightarrow> NOT (drop_bit a 0xff) AND NOT (drop_bit b 0xff) = (NOT (drop_bit a 0xff) :: byte)"
  by (rule bit_word_eqI) (auto simp: bit_simps)

lemma NOT_drop_zero [simp]: "NOT (drop_bit 0 0xff) = (0 :: byte)"
  by simp

text \<open>The masks of two prefix lengths are comparable: a bit of the shorter one is a bit of the longer one.\<close>

lemma CIDRMask_chain: "a \<le> b \<Longrightarrow> map2 (AND) (CIDRMask a l) (CIDRMask b l) = CIDRMask a l"
proof (induction l arbitrary: a b)
  case (Suc l)
  show ?case
  proof (cases "a \<ge> 8")
    case True
    then show ?thesis using Suc by simp
  next
    case False
    then show ?thesis using Suc.prems Suc.IH [of 0 "b - 8"] Suc.IH [of 0 0] by (simp add: prefix_byte_chain and.commute)
  qed
qed simp

end
