(* ===== verification/Wake_On_Lan.thy ===== *)
theory Wake_On_Lan
  imports Server_Tables Go_Net
begin

text \<open>
  \<^verbatim>\<open>server/wolpacket.go\<close>: the network profiles an administrator configures, the subnet broadcast address of an
  agent, and the magic packet.  \<open>unmarshal\<close> is \<^verbatim>\<open>json.Unmarshal\<close> into the list of profiles.  Sending
  is the argument \<open>udp\<close>: the destination and the bytes give an error text or none.
\<close>

definition wolPort :: int where "wolPort = 9"

record WoLNetwork =
  wn_Name :: string
  wn_Subnet :: string

record WoLConfig =
  wc_Enabled :: bool
  wc_Port :: int
  wc_Networks :: "WoLNetwork list"

datatype wol_error =
    InvalidPort int
  | InvalidCIDR string
  | NotIPv4 string
  | Misaligned string
  | MissingName
  | DuplicateNetwork string
  | OverlappingNetworks string string
  | SettingsFault db_error
  | InvalidNetworksSetting

definition validateWoLPort :: "int \<Rightarrow> wol_error option" where
  "validateWoLPort port = (if port < 1 \<or> port > 65535 then Some (InvalidPort port) else None)"

definition parseWoLSubnet :: "string \<Rightarrow> wol_error + IPNet" where
  "parseWoLSubnet subnet =
     (case ParseCIDR subnet of
        None \<Rightarrow> Inl (InvalidCIDR subnet)
      | Some (ip, ipnet) \<Rightarrow>
          if To4 ip = None then Inl (NotIPv4 subnet)
          else if \<not> IP_Equal ip (ipn_IP ipnet) then Inl (Misaligned subnet)
          else Inr ipnet)"

text \<open>
  The loop indexes the mask with the positions of the four-byte address, also when the mask has sixteen
  bytes.
\<close>

definition cidrBroadcast :: "IPNet \<Rightarrow> IP" where
  "cidrBroadcast n =
     (let ip4 = (case To4 (ipn_IP n) of Some ip \<Rightarrow> ip | None \<Rightarrow> []) in
      map (\<lambda>i. ip4 ! i OR NOT (ipn_Mask n ! i)) [0..<length ip4])"

fun parse_networks :: "WoLNetwork list \<Rightarrow> wol_error + IPNet list" where
  "parse_networks [] = Inr []"
| "parse_networks (n # ns) =
     (if wn_Name n = '''' then Inl MissingName
      else case parseWoLSubnet (wn_Subnet n) of
        Inl e \<Rightarrow> Inl e
      | Inr ipnet \<Rightarrow> (case parse_networks ns of Inl e \<Rightarrow> Inl e | Inr nets \<Rightarrow> Inr (ipnet # nets)))"

definition clash :: "IPNet \<Rightarrow> IPNet \<Rightarrow> wol_error option" where
  "clash m n =
     (if IPNet_String m = IPNet_String n then Some (DuplicateNetwork (IPNet_String m))
      else if IPNet_Contains m (ipn_IP n) \<or> IPNet_Contains n (ipn_IP m)
      then Some (OverlappingNetworks (IPNet_String m) (IPNet_String n))
      else None)"

fun first_clash :: "IPNet list \<Rightarrow> wol_error option" where
  "first_clash [] = None"
| "first_clash (m # ns) =
     (case find (\<lambda>e. e \<noteq> None) (map (clash m) ns) of Some e \<Rightarrow> e | None \<Rightarrow> first_clash ns)"

definition validateWoLNetworks :: "WoLNetwork list \<Rightarrow> wol_error option" where
  "validateWoLNetworks networks =
     (case parse_networks networks of Inl e \<Rightarrow> Some e | Inr nets \<Rightarrow> first_clash nets)"

datatype wake_error = NoValidIP | NoMatchingNetwork string

definition wake_error_text :: "wake_error \<Rightarrow> string" where
  "wake_error_text e =
     (case e of
        NoValidIP \<Rightarrow> ''Cannot determine Wake-on-LAN network: PC has no valid IP address.''
      | NoMatchingNetwork ip \<Rightarrow> ''No Wake-on-LAN network configuration matches PC IP '' @ ip)"

fun match_network :: "IP \<Rightarrow> WoLNetwork list \<Rightarrow> IPNet option" where
  "match_network ip [] = None"
| "match_network ip (n # ns) =
     (case parseWoLSubnet (wn_Subnet n) of
        Inl e \<Rightarrow> match_network ip ns
      | Inr ipnet \<Rightarrow> if IPNet_Contains ipnet ip then Some ipnet else match_network ip ns)"

definition findWoLNetwork :: "string \<Rightarrow> WoLNetwork list \<Rightarrow> wake_error + IPNet" where
  "findWoLNetwork ipStr networks =
     (case ParseIP ipStr of
        None \<Rightarrow> Inl NoValidIP
      | Some ip \<Rightarrow> (case match_network ip networks of None \<Rightarrow> Inl (NoMatchingNetwork ipStr) | Some n \<Rightarrow> Inr n))"

definition resolveWoLBroadcast :: "WoLNetwork list \<Rightarrow> string \<Rightarrow> wake_error + string" where
  "resolveWoLBroadcast networks ip =
     (case findWoLNetwork ip networks of Inl e \<Rightarrow> Inl e | Inr ipnet \<Rightarrow> Inr (IPv4_String (cidrBroadcast ipnet)))"

definition getWoLConfig :: "(string \<Rightarrow> WoLNetwork list option) \<Rightarrow> db_env \<Rightarrow> DB \<Rightarrow> wol_error + WoLConfig" where
  "getWoLConfig unmarshal env db =
     (case GetAllSettings env db of
        Inl e \<Rightarrow> Inl (SettingsFault e)
      | Inr cfg \<Rightarrow>
          let port = (case Atoi (cfg ''wol_port'') of Some p \<Rightarrow> if p \<noteq> 0 then p else wolPort | None \<Rightarrow> wolPort);
              raw = cfg ''wol_networks''
          in (case (if raw = '''' then Some [] else unmarshal raw) of
                None \<Rightarrow> Inl InvalidNetworksSetting
              | Some networks \<Rightarrow>
                  (case validateWoLPort port of
                     Some e \<Rightarrow> Inl e
                   | None \<Rightarrow>
                       (case validateWoLNetworks networks of
                          Some e \<Rightarrow> Inl e
                        | None \<Rightarrow> Inr \<lparr>wc_Enabled = (cfg ''wol_enabled'' = ''true''), wc_Port = port, wc_Networks = networks\<rparr>))))"

definition buildMagicPacket :: "string \<Rightarrow> byte list option" where
  "buildMagicPacket macAddr =
     (case ParseMAC macAddr of
        None \<Rightarrow> None
      | Some mac \<Rightarrow> if length mac \<noteq> 6 then None else Some (replicate 6 0xff @ concat (replicate 16 mac)))"

text \<open>
  The error texts of a refused hardware address are not spelled out; the destination text is read back by
  \<^verbatim>\<open>net.ResolveUDPAddr\<close>.
\<close>

definition sendMagicPacket :: "(IP \<Rightarrow> int \<Rightarrow> byte list \<Rightarrow> string option) \<Rightarrow> string \<Rightarrow> string \<Rightarrow> int \<Rightarrow> string option" where
  "sendMagicPacket udp macAddr broadcastAddr port =
     (case buildMagicPacket macAddr of
        None \<Rightarrow> Some (''invalid mac address '' @ go_quote macAddr)
      | Some packet \<Rightarrow>
          (case ParseIP broadcastAddr of
             None \<Rightarrow> Some ''resolve''
           | Some ip \<Rightarrow> (case To4 ip of None \<Rightarrow> Some ''resolve'' | Some ip4 \<Rightarrow> udp ip4 port packet)))"

subsection \<open>Networks as sets of addresses\<close>

text \<open>A network that passed \<^verbatim>\<open>parseWoLSubnet\<close> has an IPv4 number and a prefix mask, and is aligned.\<close>

definition prefix_network :: "IPNet \<Rightarrow> IP \<Rightarrow> IP \<Rightarrow> bool" where
  "prefix_network n nn m \<longleftrightarrow>
     networkNumberAndMask n = Some (nn, m) \<and> length nn = 4 \<and> To4 (ipn_IP n) = Some nn
     \<and> (\<exists>k. m = CIDRMask k 4) \<and> map2 (AND) nn m = nn"

definition sample_networks :: "WoLNetwork list" where
  "sample_networks = [\<lparr>wn_Name = ''lab'', wn_Subnet = ''172.16.4.0/22''\<rparr>, \<lparr>wn_Name = ''reading'', wn_Subnet = ''10.0.0.0/24''\<rparr>]"

definition sample_net :: IPNet where
  "sample_net = \<lparr>ipn_IP = [172, 16, 4, 0], ipn_Mask = [255, 255, 252, 0]\<rparr>"

definition mapped_net :: IPNet where
  "mapped_net = \<lparr>ipn_IP = v4InV6Prefix @ [10, 0, 0, 0], ipn_Mask = CIDRMask 104 16\<rparr>"

lemma map2_AND_assoc:
  "length x = length y \<Longrightarrow> length y = length z \<Longrightarrow> map2 (AND) (map2 (AND) x y) z = map2 (AND) x (map2 (AND) y z)"
  for x y z :: IP
  by (induction x y z rule: list_induct3) (simp_all add: and.assoc)

lemma map2_AND_commute: "map2 (AND) x y = map2 (AND) y x" for x y :: IP
  by (induction x arbitrary: y) (auto simp: and.commute zip_Cons1 split: list.splits)

lemma length_parseIPv4Fields: "parseIPv4Fields s = Some ip \<Longrightarrow> length ip = 4"
proof -
  have "length ys = length xs" if "those xs = Some ys" for xs :: "byte option list" and ys
    using that by (induction xs arbitrary: ys) (auto split: option.splits)
  then show "parseIPv4Fields s = Some ip \<Longrightarrow> length ip = 4"
    by (fastforce simp: parseIPv4Fields_def Let_def split: if_splits)
qed

lemma length_parse6_loop:
  assumes "parse6_loop left s ip e = Some (rest, ip', e')" "length ip + 2 * left = 16" "case e of None \<Rightarrow> True | Some x \<Rightarrow> x \<le> length ip"
  shows "length ip' \<le> 16 \<and> (case e' of None \<Rightarrow> True | Some x \<Rightarrow> x \<le> length ip')"
  using assms
proof (induction left s ip e rule: parse6_loop.induct)
  case (2 left s ip e)
  show ?case
  proof (cases "dropWhile is_hex s")
    case Nil
    then have "ip' = ip @ [word_of_nat (nat_of_hex (takeWhile is_hex s) div 256), word_of_nat (nat_of_hex (takeWhile is_hex s) mod 256)]" "e' = e"
      using 2(3) unfolding parse6_loop.simps Let_def Nil by (simp_all split: if_splits)
    then show ?thesis using 2(4,5) by (simp split: option.splits)
  next
    case (Cons c cs)
    show ?thesis
    proof (cases "c = CHR ''.''")
      case True
      then obtain v4 where v4: "parseIPv4Fields s = Some v4" "ip' = ip @ v4" "e' = e" "length ip + 4 \<le> 16"
        using 2(3) Cons by (simp add: Let_def split: if_splits option.splits)
      then show ?thesis using 2(5) length_parseIPv4Fields [OF v4(1)] by (simp split: option.splits)
    next
      case False
      let ?ds = "takeWhile is_hex s"
      define ip2 where "ip2 = ip @ [word_of_nat (nat_of_hex ?ds div 256), word_of_nat (nat_of_hex ?ds mod 256)]"
      have ok: "?ds \<noteq> []" "length ?ds \<le> 4" "c = CHR '':''" "cs \<noteq> []"
        using 2(3) Cons False by (simp_all add: Let_def split: if_splits)
      have step: "parse6_loop (Suc left) s ip e =
          (if hd cs = CHR '':'' then
             (if e \<noteq> None then None else if tl cs = [] then Some ([], ip2, Some (length ip2))
              else parse6_loop left (tl cs) ip2 (Some (length ip2)))
           else parse6_loop left cs ip2 e)"
        using ok Cons by (simp add: Let_def ip2_def)
      have len: "length ip2 + 2 * left = 16" "case e of None \<Rightarrow> True | Some x \<Rightarrow> x \<le> length ip2"
        using 2(4,5) by (simp_all add: ip2_def split: option.splits)
      note IH = 2(1) [OF refl refl refl _ Cons False _ refl, folded ip2_def] 2(2) [OF refl refl refl _ Cons False _ refl, folded ip2_def]
      show ?thesis
      proof (cases "hd cs = CHR '':'' \<and> tl cs = []")
        case True
        then show ?thesis using 2(3) len(1) unfolding step by (auto split: if_splits)
      next
        case False
        then show ?thesis using IH 2(3) len ok unfolding step by (cases "hd cs = CHR '':''") (simp_all split: if_splits)
      qed
    qed
  qed
qed (auto split: option.splits)

lemma length_parseIPv6: "parseIPv6 s = Some ip \<Longrightarrow> length ip = 16"
  using length_parse6_loop [of 8 "drop 2 s" "[]" "Some 0"] length_parse6_loop [of 8 s "[]" None]
  by (fastforce simp: parseIPv6_def Let_def split: if_splits option.splits prod.splits)

lemma length_ParseAddr: "ParseAddr s = Some p \<Longrightarrow> case p of AddrV4 ip \<Rightarrow> length ip = 4 | AddrV6 ip \<Rightarrow> length ip = 16"
  by (auto simp: ParseAddr_def length_parseIPv4Fields length_parseIPv6 split: option.splits if_splits)

lemma ParseAddr_V6_colon:
  assumes "ParseAddr s = Some (AddrV6 a)"
  shows "CHR '':'' \<in> set s"
proof (cases "find (\<lambda>c. c = CHR ''.'' \<or> c = CHR '':'' \<or> c = CHR ''%'') s")
  case (Some c)
  then have "c = CHR '':''" using assms by (simp add: ParseAddr_def split: if_splits)
  with find_in [OF Some] show ?thesis by simp
qed (use assms in \<open>simp add: ParseAddr_def\<close>)

lemma drop_CIDRMask: "drop j (CIDRMask k (j + l)) = CIDRMask (k - 8 * j) l"
proof (induction j arbitrary: k)
  case (Suc j)
  then show ?case using Suc.IH [of "k - 8"] Suc.IH [of 0] by (cases "k \<ge> 8") simp_all
qed simp

lemma length_v4InV6Prefix [simp]: "length v4InV6Prefix = 12"
  by (simp add: v4InV6Prefix_def)

lemma parseWoLSubnet_prefix:
  assumes "parseWoLSubnet s = Inr n"
  shows "\<exists>nn m. prefix_network n nn m \<and> (CHR '':'' \<notin> set s \<longrightarrow> m = ipn_Mask n)"
proof -
  obtain ip where cidr: "ParseCIDR s = Some (ip, n)" and v4: "To4 ip \<noteq> None" and eq: "IP_Equal ip (ipn_IP n)"
    using assms by (auto simp: parseWoLSubnet_def split: option.splits prod.splits if_splits)
  let ?addr = "takeWhile (\<lambda>c. c \<noteq> CHR ''/'') s"
  obtain p k where p: "ParseAddr ?addr = Some p" and ip: "ip = As16 p"
    and n: "n = \<lparr>ipn_IP = IP_Mask (As16 p) (CIDRMask k (BitLen p div 8)), ipn_Mask = CIDRMask k (BitLen p div 8)\<rparr>"
    using cidr by (auto simp: ParseCIDR_def Let_def split: if_splits option.splits)
  show ?thesis
  proof (cases p)
    case (AddrV4 a)
    have len: "length a = 4" using length_ParseAddr [OF p] AddrV4 by simp
    then have masked: "ipn_IP n = map2 (AND) a (CIDRMask k 4)" and m: "ipn_Mask n = CIDRMask k 4"
      using AddrV4 by (simp_all add: n As16_def BitLen_def IP_Mask_def)
    then have "map2 (AND) a (CIDRMask k 4) = a" using eq AddrV4 len ip by (simp add: IP_Equal_def As16_def)
    then have "prefix_network n a (CIDRMask k 4)"
      using masked m len by (auto simp: prefix_network_def networkNumberAndMask_def To4_def)
    with m show ?thesis by auto
  next
    case (AddrV6 a)
    have len: "length a = 16" using length_ParseAddr [OF p] AddrV6 by simp
    then have masked: "ipn_IP n = map2 (AND) a (CIDRMask k 16)" and m: "ipn_Mask n = CIDRMask k 16"
      using AddrV6 by (simp_all add: n As16_def BitLen_def IP_Mask_def)
    then have same: "map2 (AND) a (CIDRMask k 16) = a" using eq AddrV6 len ip by (simp add: IP_Equal_def As16_def)
    have pre: "take 12 a = v4InV6Prefix" using v4 AddrV6 ip len by (auto simp: To4_def As16_def split: if_splits)
    have tail: "drop 12 (CIDRMask k 16) = CIDRMask (k - 96) 4" using drop_CIDRMask [of 12 k 4] by simp
    have "map2 (AND) (drop 12 a) (drop 12 (CIDRMask k 16)) = drop 12 (map2 (AND) a (CIDRMask k 16))"
      by (simp add: drop_map drop_zip)
    then have "prefix_network n (drop 12 a) (CIDRMask (k - 96) 4)"
      using masked m len same pre tail by (auto simp: prefix_network_def networkNumberAndMask_def To4_def)
    moreover have "CHR '':'' \<in> set s"
    proof -
      have "CHR '':'' \<in> set ?addr" using ParseAddr_V6_colon p AddrV6 by blast
      then show ?thesis by (rule set_takeWhileD [THEN conjunct1])
    qed
    ultimately show ?thesis by blast
  qed
qed

lemma prefix_contains:
  assumes "prefix_network n nn m"
  shows "IPNet_Contains n ip \<longleftrightarrow> (let x = (case To4 ip of Some x \<Rightarrow> x | None \<Rightarrow> ip) in length x = 4 \<and> map2 (AND) x m = nn)"
  using assms by (auto simp: prefix_network_def IPNet_Contains_def Let_def)

text \<open>Two aligned networks with a common address: the wider one contains the number of the other.\<close>

lemma prefix_overlap_le:
  assumes a: "prefix_network a na (CIDRMask i 4)" and b: "prefix_network b nb (CIDRMask j 4)" and "i \<le> j"
    and "IPNet_Contains a ip" "IPNet_Contains b ip"
  shows "IPNet_Contains a (ipn_IP b)"
proof -
  define x where "x = (case To4 ip of Some x \<Rightarrow> x | None \<Rightarrow> ip)"
  have x: "length x = 4" "map2 (AND) x (CIDRMask i 4) = na" "map2 (AND) x (CIDRMask j 4) = nb"
    using assms(4,5) unfolding prefix_contains [OF a] prefix_contains [OF b] x_def Let_def by simp_all
  have "map2 (AND) nb (CIDRMask i 4) = map2 (AND) x (map2 (AND) (CIDRMask j 4) (CIDRMask i 4))"
    using x by (simp flip: x(3) add: map2_AND_assoc)
  also have "\<dots> = na" using CIDRMask_chain [OF \<open>i \<le> j\<close>, of 4] x(2) by (simp add: map2_AND_commute)
  finally show ?thesis
    using b unfolding prefix_contains [OF a] by (simp add: prefix_network_def)
qed

lemma prefix_overlap:
  assumes "prefix_network a na ma" "prefix_network b nb mb" "IPNet_Contains a ip" "IPNet_Contains b ip"
  shows "IPNet_Contains a (ipn_IP b) \<or> IPNet_Contains b (ipn_IP a)"
proof -
  obtain i j where ij: "ma = CIDRMask i 4" "mb = CIDRMask j 4" using assms(1,2) by (auto simp: prefix_network_def)
  show ?thesis
    using assms prefix_overlap_le [of a na i b nb j ip] prefix_overlap_le [of b nb j a na i ip] unfolding ij
    by (cases "i \<le> j") auto
qed

lemma first_clash_pairs: "first_clash nets = None \<Longrightarrow> i < j \<Longrightarrow> j < length nets \<Longrightarrow> clash (nets ! i) (nets ! j) = None"
proof (induction nets arbitrary: i j)
  case (Cons m ns)
  have none: "\<forall>n\<in>set ns. clash m n = None" and rest: "first_clash ns = None"
    using Cons.prems(1) find_in [of "\<lambda>e. e \<noteq> None" "map (clash m) ns"]
    by (auto simp: find_None_iff split: option.splits)
  show ?case
  proof (cases i)
    case 0
    then show ?thesis using none Cons.prems(2,3) by (cases j) simp_all
  next
    case (Suc i')
    then show ?thesis using Cons.IH [OF rest, of i' "j - 1"] Cons.prems(2,3) by (cases j) simp_all
  qed
qed simp

lemma parse_networks_nth:
  "parse_networks ns = Inr nets \<Longrightarrow> length nets = length ns \<and> (\<forall>i < length ns. parseWoLSubnet (wn_Subnet (ns ! i)) = Inr (nets ! i))"
proof (induction ns arbitrary: nets)
  case (Cons n ns)
  then obtain net rest where *: "parseWoLSubnet (wn_Subnet n) = Inr net" "parse_networks ns = Inr rest" "nets = net # rest"
    by (auto split: if_splits sum.splits)
  have "parseWoLSubnet (wn_Subnet ((n # ns) ! i)) = Inr ((net # rest) ! i)" if "i < length (n # ns)" for i
    using that Cons.IH [OF *(2)] *(1) by (cases i) simp_all
  then show ?case using Cons.IH [OF *(2)] *(3) by simp
qed simp

text \<open>In an accepted configuration an address lies in at most one of the networks.\<close>

lemma validated_unique:
  assumes "validateWoLNetworks ns = None" and "parseWoLSubnet (wn_Subnet m) = Inr a" "parseWoLSubnet (wn_Subnet n) = Inr b"
    and "m \<in> set ns" "n \<in> set ns" and "IPNet_Contains a ip" "IPNet_Contains b ip"
  shows "a = b"
proof -
  obtain nets where nets: "parse_networks ns = Inr nets" "first_clash nets = None"
    using assms(1) by (auto simp: validateWoLNetworks_def split: sum.splits)
  note nth = parse_networks_nth [OF nets(1)]
  obtain i j where i: "i < length ns" "ns ! i = m" and j: "j < length ns" "ns ! j = n"
    using assms(4,5) by (auto simp: in_set_conv_nth)
  have ab: "nets ! i = a" "nets ! j = b" using nth i j assms(2,3) by auto
  obtain na ma nb mb where pre: "prefix_network a na ma" "prefix_network b nb mb"
    using parseWoLSubnet_prefix assms(2,3) by blast
  then have "clash a b \<noteq> None" "clash b a \<noteq> None"
    using prefix_overlap [OF pre assms(6,7)] by (auto simp: clash_def)
  then have "\<not> i < j" "\<not> j < i"
    using first_clash_pairs [OF nets(2), of i j] first_clash_pairs [OF nets(2), of j i] nth i j ab by auto
  then have "i = j" by simp
  with ab show ?thesis by simp
qed

lemma match_network_unique:
  assumes "\<And>m b. m \<in> set ns \<Longrightarrow> parseWoLSubnet (wn_Subnet m) = Inr b \<Longrightarrow> IPNet_Contains b ip \<Longrightarrow> b = a"
    and "n \<in> set ns" "parseWoLSubnet (wn_Subnet n) = Inr a" "IPNet_Contains a ip"
  shows "match_network ip ns = Some a"
  using assms
proof (induction ns)
  case (Cons m ns)
  show ?case
  proof (cases "\<exists>b. parseWoLSubnet (wn_Subnet m) = Inr b \<and> IPNet_Contains b ip")
    case True
    then show ?thesis using Cons.prems(1) [of m] by auto
  next
    case False
    then have "n \<in> set ns" using Cons.prems(2-) by auto
    then have "match_network ip ns = Some a" using Cons by (meson list.set_intros(2))
    with False show ?thesis by (auto split: sum.splits)
  qed
qed simp

lemma mask_absorbs: "map2 (AND) (map2 (\<lambda>x m. x OR NOT m) x m) m = map2 (AND) x m" for x m :: IP
  by (induction x arbitrary: m) (auto simp: zip_Cons1 bit_simps intro!: bit_word_eqI split: list.splits)

lemma broadcast_from_member:
  "length x = length m \<Longrightarrow> map2 (\<lambda>x m. x OR NOT m) (map2 (AND) x m) m = map2 (\<lambda>x m. x OR NOT m) x m" for x m :: IP
  by (induction x m rule: list_induct2) (auto simp: bit_simps intro!: bit_word_eqI)

lemma cidrBroadcast_map2:
  assumes "To4 (ipn_IP n) = Some nn" "length (ipn_Mask n) = length nn"
  shows "cidrBroadcast n = map2 (\<lambda>x m. x OR NOT m) nn (ipn_Mask n)"
  using assms by (intro nth_equalityI) (simp_all add: cidrBroadcast_def Let_def)


lemma sample_networks_ok: "validateWoLNetworks sample_networks = None"
  by code_simp

lemma sample_subnet: "parseWoLSubnet ''172.16.4.0/22'' = Inr sample_net"
  by code_simp


text \<open>
  The network of \<^verbatim>\<open>::ffff:10.0.0.0/104\<close>, the mapped notation of \<^verbatim>\<open>10.0.0.0/8\<close>: its broadcast address
  comes out as the network address itself.
\<close>

lemma mapped_subnet_broadcast: "cidrBroadcast mapped_net = [10, 0, 0, 0]"
  by code_simp

end
