(* ===== verification/Commands.thy ===== *)
theory Commands
  imports Server_Software Hub_Requests Wake_On_Lan
begin

text \<open>
  \<^verbatim>\<open>server/commands.go\<close>: the Command API.  A request names a target and an action; the action becomes a queued
  job, a network mode pushed to each agent, or a Wake-on-LAN packet, and the job can be polled by its id.

  The surroundings of a request are one record.  A wait for an agent's reply lets the other goroutines run:
  \<open>ce_await i\<close> is what they do to the shared state while the request for the \<open>i\<close>-th target waits, and
  \<open>ce_chan i\<close> the fresh channel of that wait.  \<open>ce_db_text\<close> is the text of a database error.
\<close>

record command_env =
  ce_db :: db_env
  ce_now :: time
  ce_cks :: checksums
  ce_jid :: string
  ce_ip :: string
  ce_parse_time :: "string \<Rightarrow> time option"
  ce_db_text :: "db_error \<Rightarrow> string"
  ce_unmarshal :: "string \<Rightarrow> WoLNetwork list option"
  ce_udp :: "IP \<Rightarrow> int \<Rightarrow> byte list \<Rightarrow> string option"
  ce_chan :: "nat \<Rightarrow> nat"
  ce_await :: "nat \<Rightarrow> World \<Rightarrow> World"

subsection \<open>Requests and replies\<close>

record CommandRequest =
  cq_Target :: string
  cq_Action :: string
  cq_Parameters :: json_object
  cq_RequestedBy :: string
  cq_CorrelationID :: string

record CommandResponse =
  cr_JobID :: string
  cr_Status :: string
  cr_CreatedAt :: time
  cr_EstimatedQueuePosition :: nat

record CommandProgress =
  cp_Total :: nat
  cp_Dispatched :: nat
  cp_Succeeded :: nat
  cp_Failed :: nat
  cp_Pending :: nat

record CommandStatus =
  cs_JobID :: string
  cs_Target :: string
  cs_Action :: string
  cs_Status :: string
  cs_CorrelationID :: string
  cs_CreatedAt :: time
  cs_Progress :: CommandProgress
  cs_Results :: "DeployResult list"
  cs_Error :: "string option"

record CommandSummary =
  cy_JobID :: string
  cy_Target :: string
  cy_Action :: string
  cy_Status :: string
  cy_CreatedAt :: time

text \<open>
  The errors of the handlers: a \<^verbatim>\<open>commandClientError\<close> with its status, a payload refused by
  \<^verbatim>\<open>validateDeployRequest\<close> (also wrapped as a client error), and the plain errors.
\<close>

datatype command_error =
    ClientError nat string
  | InvalidPayload validate_error
  | BadParameters string
  | DatabaseError db_error
  | JobError create_error
  | NoCommandTarget

definition error_status :: "command_error \<Rightarrow> nat" where
  "error_status e = (case e of ClientError s _ \<Rightarrow> s | InvalidPayload _ \<Rightarrow> 400 | _ \<Rightarrow> 500)"

subsection \<open>Tables\<close>

definition InsertCommandRequest :: "db_env \<Rightarrow> time \<Rightarrow> DB \<Rightarrow> string \<Rightarrow> string \<Rightarrow> string \<Rightarrow> string \<Rightarrow> db_error + DB" where
  "InsertCommandRequest env now db jobID action target correlationID =
     (if env [''InsertCommandRequest'', jobID] then Inl DBFault
      else if jobID \<in> set (map cm_JobID (command_requests db)) then Inl UniqueViolation
      else if \<not> job_known db jobID then Inl ForeignKey
      else Inr (db\<lparr>command_requests := command_requests db @
             [\<lparr>cm_JobID = jobID, cm_Action = action, cm_Target = target, cm_CorrelationID = correlationID,
               cm_CreatedAt = db_trunc now\<rparr>]\<rparr>))"

definition GetCommandRequestByJobID :: "db_env \<Rightarrow> DB \<Rightarrow> string \<Rightarrow> db_error + CommandRequestMeta option" where
  "GetCommandRequestByJobID env db jobID =
     (if env [''GetCommandRequestByJobID'', jobID] then Inl DBFault
      else Inr (find (\<lambda>m. cm_JobID m = jobID) (command_requests db)))"

text \<open>The join with \<^verbatim>\<open>deploy_jobs\<close>, newest first (SQL leaves the order of equal times open).\<close>

definition GetRecentCommandsWithStatus :: "db_env \<Rightarrow> DB \<Rightarrow> db_error + CommandSummary list" where
  "GetRecentCommandsWithStatus env db =
     (if env [''GetRecentCommandsWithStatus''] then Inl DBFault
      else Inr (take 100 (sort_key (\<lambda>s. - cy_CreatedAt s)
        (concat (map (\<lambda>m. map (\<lambda>j. \<lparr>cy_JobID = cm_JobID m, cy_Target = cm_Target m, cy_Action = cm_Action m,
             cy_Status = dj_Status j, cy_CreatedAt = dj_CreatedAt j\<rparr>)
           (filter (\<lambda>j. dj_ID j = cm_JobID m) (deploy_jobs db))) (command_requests db))))))"

subsection \<open>Actions\<close>

definition psRestart :: string where "psRestart = ''Restart-Computer -Force''"
definition psShutdown :: string where "psShutdown = ''Stop-Computer -Force''"
definition psLock :: string where "psLock = ''rundll32.exe user32.dll,LockWorkStation''"
definition psLogout :: string where "psLogout = ''shutdown.exe /l''"
definition psSleep :: string where "psSleep = ''rundll32.exe powrprof.dll,SetSuspendState 0,1,0''"

definition validCommandActions :: "string list" where
  "validCommandActions =
     [''restart'', ''shutdown'', ''lock'', ''unlock'', ''logout'', ''sleep'', ''wake'', ''kill_process'', ''broadcast'', ''popup'',
      ''deploy'', ''run_command'', ''enable_wifi'', ''disable_wifi'', ''enable_lan'', ''disable_lan'', ''refresh_policy'',
      ''collect_inventory'', ''take_screenshot'']"

definition notImplementedActions :: "string list" where
  "notImplementedActions = [''refresh_policy'', ''collect_inventory'', ''take_screenshot'']"

definition commandProcessNameRe :: "string \<Rightarrow> bool" where
  "commandProcessNameRe s \<longleftrightarrow>
     length s > 4 \<and> drop (length s - 4) s = ''.exe''
     \<and> list_all (\<lambda>c. is_alnum c \<or> c = CHR ''_'' \<or> c = CHR ''.'' \<or> c = CHR ''-'') (take (length s - 4) s)"

definition is_control :: "char \<Rightarrow> bool" where
  "is_control c \<longleftrightarrow> (of_char c :: nat) < 0x20 \<or> (of_char c :: nat) = 0x7F"

definition resolveCommandTargets :: "db_env \<Rightarrow> DB \<Rightarrow> string \<Rightarrow> command_error + string list" where
  "resolveCommandTargets env db target =
     (if target = ''all'' \<or> target = ''*'' then
        (case GetAllAgentIDs env db of
           Inl e \<Rightarrow> Inl (DatabaseError e)
         | Inr ids \<Rightarrow> if ids = [] then Inl NoCommandTarget else Inr ids)
      else
        (case GetAllAgents env db of
           Inl e \<Rightarrow> Inl (DatabaseError e)
         | Inr ags \<Rightarrow>
             (case find (\<lambda>a. ag_ID a = target) ags of
                Some a \<Rightarrow> Inr [ag_ID a]
              | None \<Rightarrow>
                  (case find (\<lambda>a. EqualFold (ag_Hostname a) target) ags of
                     Some a \<Rightarrow> Inr [ag_ID a]
                   | None \<Rightarrow>
                       let byGroup = map ag_ID (filter (\<lambda>a. ag_DeviceGroup a \<noteq> '''' \<and> ag_DeviceGroup a = target) ags);
                           byFloor = map ag_ID (filter (\<lambda>a. ag_Floor a \<noteq> '''' \<and> ag_Floor a = target) ags)
                       in if byGroup \<noteq> [] then Inr byGroup
                          else if byFloor \<noteq> [] then Inr byFloor
                          else Inl NoCommandTarget))))"

definition paramString :: "json_object \<Rightarrow> string \<Rightarrow> string option" where
  "paramString params key = (case params key of Some (JStr s) \<Rightarrow> Some s | _ \<Rightarrow> None)"

definition paramInt :: "json_object \<Rightarrow> string \<Rightarrow> int option" where
  "paramInt params key = (case params key of Some (JNum n) \<Rightarrow> Some n | _ \<Rightarrow> None)"

text \<open>\<^verbatim>\<open>s, _ := paramString(...)\<close>: the empty string for a missing or differently typed parameter.\<close>

definition string_or_empty :: "json_object \<Rightarrow> string \<Rightarrow> string" where
  "string_or_empty params key = (case paramString params key of Some s \<Rightarrow> s | None \<Rightarrow> '''')"

definition quote_mark :: char where "quote_mark = CHR 0x27"

definition sanitizeExecMessage :: "string \<Rightarrow> string + string" where
  "sanitizeExecMessage msg =
     (let msg = TrimSpace msg in
      if msg = '''' then Inl ''parameters.message is required''
      else if length msg > 500 then Inl ''parameters.message exceeds maximum length of 500 characters''
      else if list_ex is_control msg then Inl ''parameters.message contains invalid control characters''
      else Inr (ReplaceAll msg [quote_mark] [quote_mark, quote_mark]))"

definition actionToJob :: "string \<Rightarrow> json_object \<Rightarrow> command_error + string \<times> string \<times> string" where
  "actionToJob action params =
     (if action = ''restart'' then Inr (''exec'', psRestart, '''')
      else if action = ''shutdown'' then Inr (''exec'', psShutdown, '''')
      else if action = ''lock'' then Inr (''exec'', psLock, '''')
      else if action = ''logout'' then Inr (''exec'', psLogout, '''')
      else if action = ''sleep'' then Inr (''exec'', psSleep, '''')
      else if action = ''kill_process'' then
        (let process = string_or_empty params ''process'' in
         if \<not> commandProcessNameRe process then Inl (BadParameters ''parameters.process must be a valid .exe process name'')
         else Inr (''exec'', ''taskkill /F /IM '' @ process, ''''))
      else if action = ''broadcast'' \<or> action = ''popup'' then
        (case sanitizeExecMessage (string_or_empty params ''message'') of
           Inl e \<Rightarrow> Inl (BadParameters e)
         | Inr escaped \<Rightarrow> Inr (''exec'', ''msg * /TIME:30 '' @ [quote_mark] @ escaped @ [quote_mark], ''''))
      else if action = ''run_command'' then
        (let command = string_or_empty params ''command'' in
         if command = '''' then Inl (BadParameters ''parameters.command is required'')
         else Inr (''exec'', command, ''''))
      else Inl (BadParameters (''action '' @ go_quote action @ '' is not handled by actionToJob'')))"

definition create_job ::
  "command_env \<Rightarrow> string \<Rightarrow> string \<Rightarrow> string \<Rightarrow> string list \<Rightarrow> int \<Rightarrow> time option \<Rightarrow> int \<Rightarrow> string \<Rightarrow> World
    \<Rightarrow> (command_error + DeployJob) \<times> World" where
  "create_job ce jobType payload args agentIDs priority expireAt maxRetry requestedBy w =
     (case CreateJob (ce_db ce) (ce_now ce) (ce_cks ce) (ce_jid ce) w jobType payload args agentIDs priority expireAt maxRetry requestedBy of
        (Inl e, w) \<Rightarrow> (Inl (JobError e), w)
      | (Inr job, w) \<Rightarrow> (Inr job, w))"

definition deploy_expiry :: "command_env \<Rightarrow> json_object \<Rightarrow> command_error + time option" where
  "deploy_expiry ce params =
     (case paramString params ''expire_at'' of
        None \<Rightarrow> Inr None
      | Some s \<Rightarrow>
          if s = '''' then Inr None
          else (case ce_parse_time ce s of
                  None \<Rightarrow> Inl (ClientError 400 ''parameters.expire_at must be RFC3339'')
                | Some t \<Rightarrow>
                    if t < ce_now ce then Inl (ClientError 400 ''parameters.expire_at must be in the future'')
                    else Inr (Some t)))"

definition createDeployPassthroughCommand ::
  "command_env \<Rightarrow> json_object \<Rightarrow> string list \<Rightarrow> string \<Rightarrow> World \<Rightarrow> (command_error + DeployJob) \<times> World" where
  "createDeployPassthroughCommand ce params agentIDs requestedBy w =
     (let jobType = string_or_empty params ''type'';
          payload = string_or_empty params ''payload'';
          args = string_or_empty params ''args''
      in if jobType = '''' then (Inl (ClientError 400 ''parameters.type is required for action=deploy''), w)
         else if jobType \<noteq> ''install_ssh'' \<and> payload = ''''
         then (Inl (ClientError 400 (''parameters.payload is required for type '' @ jobType)), w)
         else
           (case validateDeployRequest jobType payload args of
              Some e \<Rightarrow> (Inl (InvalidPayload e), w)
            | None \<Rightarrow>
                let priority = (case paramInt params ''priority'' of None \<Rightarrow> 0 | Some n \<Rightarrow> n);
                    maxRetry = (case paramInt params ''max_retry'' of None \<Rightarrow> DefaultMaxRetry (ce_db ce) (w_db w) | Some n \<Rightarrow> n)
                in (case deploy_expiry ce params of
                      Inl e \<Rightarrow> (Inl e, w)
                    | Inr expireAt \<Rightarrow> create_job ce jobType payload args agentIDs priority expireAt maxRetry requestedBy w)))"

subsection \<open>Network toggles\<close>

definition computeNetworkModeTransition :: "string \<Rightarrow> string \<Rightarrow> string option" where
  "computeNetworkModeTransition action current =
     (if action = ''enable_wifi'' then Some (if current = ''ethernet'' then ''both'' else current)
      else if action = ''disable_wifi'' then
        (if current = ''both'' then Some ''ethernet'' else if current = ''wifi'' then None else Some current)
      else if action = ''enable_lan'' then Some (if current = ''wifi'' then ''both'' else current)
      else if action = ''disable_lan'' then
        (if current = ''both'' then Some ''wifi'' else if current = ''ethernet'' then None else Some current)
      else None)"

definition insertDeployResultRow :: "db_env \<Rightarrow> string \<Rightarrow> string \<Rightarrow> string \<Rightarrow> string \<Rightarrow> World \<Rightarrow> World" where
  "insertDeployResultRow env jobID a status output w =
     (case InsertDeployResult env (w_db w) jobID a status output 0 of Inl e \<Rightarrow> w | Inr db \<Rightarrow> w\<lparr>w_db := db\<rparr>)"

definition SetNetworkMode :: "command_env \<Rightarrow> nat \<Rightarrow> string \<Rightarrow> string \<Rightarrow> World \<Rightarrow> (request_error + networkModeResult) \<times> World" where
  "SetNetworkMode ce i a mode w =
     (case SetNetworkMode_begin (ce_chan ce i) a mode w of
        (False, w) \<Rightarrow> (Inl AgentNotOnline, w)
      | (True, w) \<Rightarrow> SetNetworkMode_end (ce_chan ce i) a (ce_await ce i w))"

definition toggle_one :: "command_env \<Rightarrow> string \<Rightarrow> nat \<times> string \<Rightarrow> World \<Rightarrow> World" where
  "toggle_one ce action ia w =
     (let (i, a) = ia; env = ce_db ce; row = insertDeployResultRow env (ce_jid ce) a in
      case GetAgentDesiredNetworkMode env (w_db w) a of
        Inl e \<Rightarrow> row ''failed'' (ce_db_text ce e) w
      | Inr current \<Rightarrow>
          (case computeNetworkModeTransition action current of
             None \<Rightarrow> row ''failed'' ''would leave agent with no network connectivity'' w
           | Some newMode \<Rightarrow>
               (case SetAgentDesiredNetworkMode env (w_db w) a newMode of
                  Inl e \<Rightarrow> row ''failed'' (ce_db_text ce e) w
                | Inr db \<Rightarrow>
                    (case SetNetworkMode ce i a newMode (w\<lparr>w_db := db\<rparr>) of
                       (Inl AgentNotOnline, w) \<Rightarrow> row ''deferred'' ''agent offline; will reconcile automatically on next connect'' w
                     | (Inl RequestTimedOut, w) \<Rightarrow> row ''failed'' ''network mode request timed out'' w
                     | (Inr result, w) \<Rightarrow> row ''success'' (nm_Output result) w))))"

definition command_job :: "command_env \<Rightarrow> string \<Rightarrow> string \<Rightarrow> string list \<Rightarrow> string \<Rightarrow> DeployJob" where
  "command_job ce jobType payload agentIDs requestedBy =
     \<lparr>dj_ID = ce_jid ce, dj_Type = jobType, dj_Payload = payload, dj_Args = '''', dj_Targets = agentIDs, dj_Status = ''pending'',
      dj_Priority = 0, dj_ExpireAt = None, dj_CreatedBy = requestedBy, dj_CreatedAt = ce_now ce\<rparr>"

text \<open>The last statement of both direct commands: the job is done.\<close>

definition finish_job :: "command_env \<Rightarrow> DeployJob \<Rightarrow> World \<Rightarrow> DeployJob \<times> World" where
  "finish_job ce job w =
     (case UpdateDeployJobStatus (ce_db ce) (w_db w) (dj_ID job) ''done'' of
        Inl e \<Rightarrow> (job, w)
      | Inr db \<Rightarrow> (job\<lparr>dj_Status := ''done''\<rparr>, w\<lparr>w_db := db\<rparr>))"

definition toggle_refused :: "command_env \<Rightarrow> string \<Rightarrow> string list \<Rightarrow> World \<Rightarrow> command_error option" where
  "toggle_refused ce action agentIDs w =
     (case agentIDs of
        [a] \<Rightarrow>
          (case GetAgentDesiredNetworkMode (ce_db ce) (w_db w) a of
             Inl e \<Rightarrow> Some (DatabaseError e)
           | Inr current \<Rightarrow>
               if computeNetworkModeTransition action current = None
               then Some (ClientError 400 ''this would leave the agent with no network connectivity'') else None)
      | _ \<Rightarrow> None)"

definition createNetworkToggleCommand ::
  "command_env \<Rightarrow> string \<Rightarrow> string list \<Rightarrow> string \<Rightarrow> World \<Rightarrow> (command_error + DeployJob) \<times> World" where
  "createNetworkToggleCommand ce action agentIDs requestedBy w =
     (case toggle_refused ce action agentIDs w of
        Some e \<Rightarrow> (Inl e, w)
      | None \<Rightarrow>
          let job = command_job ce ''network_mode'' action agentIDs requestedBy in
          (case InsertDeployJob (ce_db ce) (w_db w) job of
             Inl e \<Rightarrow> (Inl (DatabaseError e), w)
           | Inr db \<Rightarrow>
               let (job, w) = finish_job ce job (fold (toggle_one ce action) (enumerate 0 agentIDs) (w\<lparr>w_db := db\<rparr>))
               in (Inr job, w)))"

subsection \<open>Wake-on-LAN\<close>

text \<open>The packets handed to the network, each with its destination, are collected beside the state.\<close>

type_synonym packets = "(string \<times> string) list"

definition wake_success :: "string \<Rightarrow> string \<Rightarrow> int \<Rightarrow> string" where
  "wake_success mac broadcast port =
     ''magic packet sent to '' @ mac @ '' via '' @ broadcast @ '':'' @ show_int port @
     '' (fire-and-forget '' @ em_dash @ '' no delivery/wake confirmation is possible)''"

definition wake_one :: "command_env \<Rightarrow> WoLConfig \<Rightarrow> string \<Rightarrow> packets \<times> World \<Rightarrow> packets \<times> World" where
  "wake_one ce cfg a st =
     (let (sent, w) = st; env = ce_db ce; row = (\<lambda>status output. (sent, insertDeployResultRow env (ce_jid ce) a status output w)) in
      case GetAgentMacAddress env (w_db w) a of
        Inl e \<Rightarrow> row ''failed'' (ce_db_text ce e)
      | Inr mac \<Rightarrow>
          if mac = '''' then row ''failed'' ''agent has no known MAC address''
          else
            (case GetAgentIP env (w_db w) a of
               Inl e \<Rightarrow> row ''failed'' (ce_db_text ce e)
             | Inr ip \<Rightarrow>
                 (case resolveWoLBroadcast (wc_Networks cfg) ip of
                    Inl e \<Rightarrow> row ''failed'' (wake_error_text e)
                  | Inr broadcast \<Rightarrow>
                      (case sendMagicPacket (ce_udp ce) mac broadcast (wc_Port cfg) of
                         Some e \<Rightarrow> row ''failed'' e
                       | None \<Rightarrow>
                           (sent @ [(mac, broadcast)],
                            insertDeployResultRow env (ce_jid ce) a ''success'' (wake_success mac broadcast (wc_Port cfg)) w)))))"

definition wake_refused :: "command_env \<Rightarrow> WoLConfig \<Rightarrow> string list \<Rightarrow> World \<Rightarrow> command_error option" where
  "wake_refused ce cfg agentIDs w =
     (case agentIDs of
        [a] \<Rightarrow>
          (case GetAgentMacAddress (ce_db ce) (w_db w) a of
             Inl e \<Rightarrow> Some (DatabaseError e)
           | Inr mac \<Rightarrow>
               if mac = '''' then Some (ClientError 400 ''agent has no known MAC address; cannot send Wake-on-LAN'')
               else
                 (case GetAgentIP (ce_db ce) (w_db w) a of
                    Inl e \<Rightarrow> Some (DatabaseError e)
                  | Inr ip \<Rightarrow>
                      (case resolveWoLBroadcast (wc_Networks cfg) ip of
                         Inl e \<Rightarrow> Some (ClientError 400 (wake_error_text e))
                       | Inr _ \<Rightarrow> None)))
      | _ \<Rightarrow> None)"

definition createWakeCommand :: "command_env \<Rightarrow> string list \<Rightarrow> string \<Rightarrow> World \<Rightarrow> (command_error + DeployJob) \<times> packets \<times> World" where
  "createWakeCommand ce agentIDs requestedBy w =
     (case getWoLConfig (ce_unmarshal ce) (ce_db ce) (w_db w) of
        Inl e \<Rightarrow> (Inl (ClientError 400 ''Invalid Wake-on-LAN configuration''), [], w)
      | Inr cfg \<Rightarrow>
          if \<not> wc_Enabled cfg then (Inl (ClientError 400 ''Wake-on-LAN is disabled''), [], w)
          else
            (case wake_refused ce cfg agentIDs w of
               Some e \<Rightarrow> (Inl e, [], w)
             | None \<Rightarrow>
                 let job = command_job ce ''wake'' ''wake'' agentIDs requestedBy in
                 (case InsertDeployJob (ce_db ce) (w_db w) job of
                    Inl e \<Rightarrow> (Inl (DatabaseError e), [], w)
                  | Inr db \<Rightarrow>
                      let (sent, w) = fold (wake_one ce cfg) agentIDs ([], w\<lparr>w_db := db\<rparr>);
                          (job, w) = finish_job ce job w
                      in (Inr job, sent, w))))"

subsection \<open>Handlers\<close>

definition network_toggles :: "string list" where
  "network_toggles = [''enable_wifi'', ''disable_wifi'', ''enable_lan'', ''disable_lan'']"

definition queue_position :: "db_env \<Rightarrow> DB \<Rightarrow> string list \<Rightarrow> nat" where
  "queue_position env db agentIDs =
     fold (\<lambda>a pos. case CountPendingResultsForAgent env db a of Inl e \<Rightarrow> pos | Inr n \<Rightarrow> max pos n) agentIDs 0"

definition run_action :: "command_env \<Rightarrow> CommandRequest \<Rightarrow> string list \<Rightarrow> string \<Rightarrow> World \<Rightarrow> (command_error + DeployJob) \<times> packets \<times> World" where
  "run_action ce req agentIDs requestedBy w =
     (if ListMem (cq_Action req) network_toggles then
        (let (r, w) = createNetworkToggleCommand ce (cq_Action req) agentIDs requestedBy w in (r, [], w))
      else if cq_Action req = ''deploy'' then
        (let (r, w) = createDeployPassthroughCommand ce (cq_Parameters req) agentIDs requestedBy w in (r, [], w))
      else if cq_Action req = ''wake'' then createWakeCommand ce agentIDs requestedBy w
      else
        (case actionToJob (cq_Action req) (cq_Parameters req) of
           Inl e \<Rightarrow> (Inl e, [], w)
         | Inr (jobType, payload, args) \<Rightarrow>
             (case validateDeployRequest jobType payload args of
                Some e \<Rightarrow> (Inl (InvalidPayload e), [], w)
              | None \<Rightarrow>
                  let (r, w) = create_job ce jobType payload args agentIDs 0 None (DefaultMaxRetry (ce_db ce) (w_db w)) requestedBy w
                  in (r, [], w))))"

text \<open>
  The reply is the HTTP status with the error, or the response.  The request is the decoded body (\<open>None\<close>:
  the body was refused).
\<close>

datatype command_refusal = BadBody | MissingField | UnknownAction string | UnlockUnsupported | NotImplemented string | Failed command_error

definition handlePostCommand ::
  "command_env \<Rightarrow> CommandRequest option \<Rightarrow> World \<Rightarrow> (nat \<times> command_refusal + CommandResponse) \<times> packets \<times> World" where
  "handlePostCommand ce body w =
     (case body of
        None \<Rightarrow> (Inl (400, BadBody), [], w)
      | Some req \<Rightarrow>
          if cq_Target req = '''' \<or> cq_Action req = '''' then (Inl (400, MissingField), [], w)
          else if \<not> ListMem (cq_Action req) validCommandActions then (Inl (400, UnknownAction (cq_Action req)), [], w)
          else if cq_Action req = ''unlock'' then (Inl (400, UnlockUnsupported), [], w)
          else if ListMem (cq_Action req) notImplementedActions then (Inl (501, NotImplemented (cq_Action req)), [], w)
          else
            (case resolveCommandTargets (ce_db ce) (w_db w) (cq_Target req) of
               Inl e \<Rightarrow> (Inl (if e = NoCommandTarget then 404 else 500, Failed e), [], w)
             | Inr agentIDs \<Rightarrow>
                 let requestedBy = (if cq_RequestedBy req = '''' then ''api'' else cq_RequestedBy req);
                     queuePos = queue_position (ce_db ce) (w_db w) agentIDs
                 in (case run_action ce req agentIDs requestedBy w of
                       (Inl e, sent, w) \<Rightarrow> (Inl (error_status e, Failed e), sent, w)
                     | (Inr job, sent, w) \<Rightarrow>
                         let w = (case InsertCommandRequest (ce_db ce) (ce_now ce) (w_db w) (dj_ID job) (cq_Action req) (cq_Target req)
                                         (cq_CorrelationID req) of Inl e \<Rightarrow> w | Inr db \<Rightarrow> w\<lparr>w_db := db\<rparr>);
                             w = w\<lparr>w_db := InsertAuditLog (ce_db ce) (ce_now ce) (w_db w) ''command'' (cq_Target req)
                                    (''action='' @ cq_Action req @ '' job_id='' @ dj_ID job @ '' targets='' @ show_nat (length agentIDs))
                                    (ce_ip ce)\<rparr>
                         in (Inr \<lparr>cr_JobID = dj_ID job, cr_Status = dj_Status job, cr_CreatedAt = dj_CreatedAt job,
                                  cr_EstimatedQueuePosition = queuePos\<rparr>, sent, w))))"

definition count_row :: "DeployResult \<Rightarrow> CommandProgress \<times> string option \<Rightarrow> CommandProgress \<times> string option" where
  "count_row r st =
     (let (p, err) = st; s = dr_Status r in
      if s = ''pending'' \<or> s = ''deferred'' then (p\<lparr>cp_Pending := cp_Pending p + 1\<rparr>, err)
      else if s = ''running'' then (p\<lparr>cp_Dispatched := cp_Dispatched p + 1\<rparr>, err)
      else if s = ''success'' \<or> s = ''ok'' then (p\<lparr>cp_Succeeded := cp_Succeeded p + 1\<rparr>, err)
      else (p\<lparr>cp_Failed := cp_Failed p + 1\<rparr>, if err = None then Some (dr_Output r) else err))"

definition handleGetCommand :: "db_env \<Rightarrow> DB \<Rightarrow> string \<Rightarrow> nat + CommandStatus" where
  "handleGetCommand env db jobID =
     (case GetDeployJobByID env db jobID of
        Inl e \<Rightarrow> Inl 500
      | Inr None \<Rightarrow> Inl 404
      | Inr (Some job) \<Rightarrow>
          (case GetCommandRequestByJobID env db jobID of
             Inl e \<Rightarrow> Inl 500
           | Inr None \<Rightarrow> Inl 404
           | Inr (Some meta) \<Rightarrow>
               (case GetDeployResultsByJobID env db jobID of
                  Inl e \<Rightarrow> Inl 500
                | Inr results \<Rightarrow>
                    let (progress, firstError) = fold count_row results
                          (\<lparr>cp_Total = length results, cp_Dispatched = 0, cp_Succeeded = 0, cp_Failed = 0, cp_Pending = 0\<rparr>, None)
                    in Inr \<lparr>cs_JobID = dj_ID job, cs_Target = cm_Target meta, cs_Action = cm_Action meta, cs_Status = dj_Status job,
                            cs_CorrelationID = cm_CorrelationID meta, cs_CreatedAt = dj_CreatedAt job, cs_Progress = progress,
                            cs_Results = results, cs_Error = firstError\<rparr>)))"

definition handleListCommands :: "db_env \<Rightarrow> DB \<Rightarrow> nat + CommandSummary list" where
  "handleListCommands env db = (case GetRecentCommandsWithStatus env db of Inl e \<Rightarrow> Inl 500 | Inr rows \<Rightarrow> Inr rows)"

end
