(* ===== verification/Command_Properties.thy ===== *)
theory Command_Properties
  imports Commands Queue_Admission
begin

text \<open>
  What the Command API promises: a refused request changes nothing, an accepted one can be polled under its
  job id and shows one result per target, and a message can not leave its quotes.
\<close>

definition sample_ce :: command_env where
  "sample_ce = \<lparr>ce_db = no_faults, ce_now = 0, ce_cks = Map.empty, ce_jid = ''j9'', ce_ip = ''10.0.0.1'', ce_parse_time = Map.empty,
     ce_db_text = (\<lambda>_. ''database error''), ce_unmarshal = Map.empty, ce_udp = (\<lambda>_ _ _. None), ce_chan = id, ce_await = (\<lambda>_ w. w)\<rparr>"

definition sample_request :: "string \<Rightarrow> CommandRequest" where
  "sample_request action = \<lparr>cq_Target = ''pc1'', cq_Action = action, cq_Parameters = Map.empty, cq_RequestedBy = '''', cq_CorrelationID = ''c1''\<rparr>"

text \<open>What the Command API reads back of a job, and that every request belongs to a job.\<close>

definition command_view :: "string \<Rightarrow> DB \<Rightarrow> string list \<times> DeployResult list \<times> CommandRequestMeta list \<times> string list" where
  "command_view j db = (map dj_ID (deploy_jobs db), job_rows j db, command_requests db, map ag_ID (agents db))"

definition commands_inv :: "DB \<Rightarrow> bool" where
  "commands_inv db \<longleftrightarrow> list_all (\<lambda>m. job_known db (cm_JobID m)) (command_requests db)"

definition progress_sum :: "CommandProgress \<Rightarrow> nat" where
  "progress_sum p = cp_Pending p + cp_Dispatched p + cp_Succeeded p + cp_Failed p"

definition adds_row :: "string \<Rightarrow> string \<Rightarrow> DB \<Rightarrow> DB \<Rightarrow> bool" where
  "adds_row j a db db' \<longleftrightarrow> (\<exists>r. dr_AgentID r = a \<and> command_view j db' =
     (map dj_ID (deploy_jobs db), job_rows j db @ [r], command_requests db, map ag_ID (agents db)))"

definition one_row_each :: "string \<Rightarrow> string list \<Rightarrow> DB \<Rightarrow> DB \<Rightarrow> bool" where
  "one_row_each j ids db db' \<longleftrightarrow> map dr_AgentID (job_rows j db') = ids \<and> command_requests db' = command_requests db
     \<and> map dj_ID (deploy_jobs db') = map dj_ID (deploy_jobs db) @ [j] \<and> \<not> job_known db j"

fun read_quoted :: "string \<Rightarrow> (string \<times> string) option" where
  "read_quoted [] = None"
| "read_quoted (c # cs) =
     (if c \<noteq> quote_mark then map_option (\<lambda>(s, rest). (c # s, rest)) (read_quoted cs)
      else case cs of
        d # ds \<Rightarrow> if d = quote_mark then map_option (\<lambda>(s, rest). (quote_mark # s, rest)) (read_quoted ds) else Some ([], cs)
      | [] \<Rightarrow> Some ([], []))"

subsection \<open>Refused requests\<close>

lemma create_job_error: "create_job ce ty pl ar ids pr ex mr by w = (Inl e, w') \<Longrightarrow> w' = w \<and> error_status e = 500"
  by (auto simp: create_job_def error_status_def dest: CreateJob_error split: prod.splits sum.splits)

lemma deploy_expiry_error: "deploy_expiry ce params = Inl e \<Longrightarrow> error_status e = 400"
  by (auto simp: deploy_expiry_def error_status_def split: option.splits if_splits)

lemma createDeploy_error:
  assumes "createDeployPassthroughCommand ce params ids by w = (Inl e, w')"
  shows "w' = w \<and> error_status e \<in> {400, 500}"
proof (cases "validateDeployRequest (string_or_empty params ''type'') (string_or_empty params ''payload'') (string_or_empty params ''args'')")
  case None
  with assms show ?thesis
    using create_job_error deploy_expiry_error
    by (fastforce simp: createDeployPassthroughCommand_def Let_def error_status_def split: if_splits sum.splits)
next
  case (Some x)
  with assms show ?thesis by (auto simp: createDeployPassthroughCommand_def Let_def error_status_def split: if_splits)
qed

lemma createToggle_error: "createNetworkToggleCommand ce action ids by w = (Inl e, w') \<Longrightarrow> w' = w \<and> error_status e \<in> {400, 500}"
  by (auto simp: createNetworkToggleCommand_def toggle_refused_def Let_def error_status_def
      split: option.splits sum.splits list.splits if_splits prod.splits)

lemma wake_refused_status: "wake_refused ce cfg ids w = Some e \<Longrightarrow> error_status e \<in> {400, 500}"
  by (auto simp: wake_refused_def error_status_def split: list.splits sum.splits if_splits)

lemma createWake_error:
  "createWakeCommand ce ids by w = (Inl e, sent, w') \<Longrightarrow> w' = w \<and> sent = [] \<and> error_status e \<in> {400, 500}"
  using wake_refused_status
  by (fastforce simp: createWakeCommand_def Let_def error_status_def split: option.splits sum.splits if_splits prod.splits)

lemma actionToJob_plain: "case actionToJob action params of Inl e \<Rightarrow> error_status e = 500 | Inr _ \<Rightarrow> True"
  unfolding actionToJob_def Let_def if_distrib [of "case_sum _ _"] sum.case sum.case_distrib [of "case_sum _ _"]
  by (simp add: error_status_def split: sum.split)

lemma actionToJob_error: "actionToJob action params = Inl e \<Longrightarrow> error_status e = 500"
  using actionToJob_plain [of action params] by simp

lemma run_action_error:
  assumes "run_action ce req ids by w = (Inl e, sent, w')"
  shows "w' = w \<and> sent = [] \<and> error_status e \<in> {400, 500}"
proof (cases "ListMem (cq_Action req) network_toggles \<or> cq_Action req = ''deploy'' \<or> cq_Action req = ''wake''")
  case True
  with assms show ?thesis
    using createToggle_error createDeploy_error createWake_error by (auto simp: run_action_def Let_def split: if_splits prod.splits)
next
  case False
  with assms show ?thesis
    using create_job_error actionToJob_error
    by (fastforce simp: run_action_def Let_def error_status_def split: sum.splits prod.splits option.splits)
qed

text \<open>
  C29.  A refused request changes nothing: whatever the request and whichever statements fail, if the answer
  is an error then its status is 400, 404, 500 or 501, no row of any table was written, no message was
  queued for an agent and no Wake-on-LAN packet was sent.
\<close>

theorem refused_command_changes_nothing:
  assumes "handlePostCommand ce body w = (Inl (status, reason), sent, w')"
  shows "w' = w \<and> sent = [] \<and> status \<in> {400, 404, 500, 501}"
proof (cases body)
  case None
  with assms show ?thesis by (simp add: handlePostCommand_def)
next
  case (Some req)
  show ?thesis
  proof (cases "resolveCommandTargets (ce_db ce) (w_db w) (cq_Target req)")
    case (Inl e)
    with assms Some show ?thesis by (auto simp: handlePostCommand_def split: if_splits)
  next
    case (Inr ids)
    let ?by = "if cq_RequestedBy req = '''' then ''api'' else cq_RequestedBy req"
    obtain res snt v where run: "run_action ce req ids ?by w = (res, snt, v)" by (metis prod_cases3)
    show ?thesis
    proof (cases res)
      case err: (Inl e)
      with run_action_error run have "v = w \<and> snt = [] \<and> error_status e \<in> {400, 500}" by blast
      with assms Some Inr run err show ?thesis
        by (auto simp: handlePostCommand_def Let_def split: if_splits)
    next
      case (Inr job)
      with assms Some \<open>resolveCommandTargets _ _ _ = Inr ids\<close> run show ?thesis
        by (auto simp: handlePostCommand_def Let_def split: if_splits)
    qed
  qed
qed

theorem refused_command_changes_nothing_witness:
  "handlePostCommand sample_ce (Some (sample_request ''restart'')) NewWorld = (Inl (404, Failed NoCommandTarget), [], NewWorld)"
proof -
  let ?res = "handlePostCommand sample_ce (Some (sample_request ''restart'')) NewWorld"
  have f: "fst ?res = Inl (404, Failed NoCommandTarget)"
    by (simp add: handlePostCommand_def sample_request_def sample_ce_def validCommandActions_def notImplementedActions_def ListMem_iff
        resolveCommandTargets_def GetAllAgents_def no_faults_def NewWorld_def empty_db_def)
  obtain sent w where res: "?res = (Inl (404, Failed NoCommandTarget), sent, w)" using f by (metis prod.collapse)
  from refused_command_changes_nothing [OF res] res show ?thesis by simp
qed

subsection \<open>Polling a command\<close>

lemma resolveCommandTargets_known:
  assumes "resolveCommandTargets env db target = Inr ids"
  shows "ids \<noteq> [] \<and> set ids \<subseteq> set (map ag_ID (agents db))"
proof -
  have ags: "ag_ID ` set ags = set (map ag_ID (agents db))" if "GetAllAgents env db = Inr ags" for ags
    using that by (auto simp: GetAllAgents_def with_metrics_agent image_image split: if_splits)
  show ?thesis
  proof (cases "target = ''all'' \<or> target = ''*''")
    case True
    with assms show ?thesis by (auto simp: resolveCommandTargets_def GetAllAgentIDs_def split: if_splits)
  next
    case False
    then obtain all where all: "GetAllAgents env db = Inr all"
      using assms by (cases "GetAllAgents env db") (auto simp: resolveCommandTargets_def)
    have "ids \<noteq> [] \<and> set ids \<subseteq> ag_ID ` set all"
      using assms all False
      by (auto simp: resolveCommandTargets_def Let_def split: option.splits if_splits dest!: find_in)
    with ags [OF all] show ?thesis by simp
  qed
qed

lemma insertRow_adds:
  assumes "jid \<in> set (map dj_ID (deploy_jobs (w_db w)))" "a \<in> set (map ag_ID (agents (w_db w)))"
  shows "adds_row jid a (w_db w) (w_db (insertDeployResultRow no_faults jid a st out w))"
  using assms
  by (auto simp: adds_row_def insertDeployResultRow_def InsertDeployResult_def no_faults_def job_known_def agent_known_def
      command_view_def job_rows_def new_result_row_def)

lemma adds_row_view: "command_view j db1 = command_view j db \<Longrightarrow> adds_row j a db1 db2 \<Longrightarrow> adds_row j a db db2"
  by (simp add: adds_row_def command_view_def)

lemma fold_adds_rows:
  assumes "\<And>x v. ag x \<in> set (map ag_ID (agents (db v))) \<Longrightarrow> j \<in> set (map dj_ID (deploy_jobs (db v))) \<Longrightarrow> adds_row j (ag x) (db v) (db (f x v))"
    and "j \<in> set (map dj_ID (deploy_jobs (db w)))" "list_all (\<lambda>x. ag x \<in> set (map ag_ID (agents (db w)))) xs"
  shows "\<exists>rs. map dr_AgentID rs = map ag xs \<and> command_view j (db (fold f xs w)) =
     (map dj_ID (deploy_jobs (db w)), job_rows j (db w) @ rs, command_requests (db w), map ag_ID (agents (db w)))"
  using assms(2,3)
proof (induction xs arbitrary: w)
  case Nil
  then show ?case by (simp add: command_view_def)
next
  case (Cons x xs)
  obtain r where r: "dr_AgentID r = ag x" "command_view j (db (f x w)) =
     (map dj_ID (deploy_jobs (db w)), job_rows j (db w) @ [r], command_requests (db w), map ag_ID (agents (db w)))"
    using assms(1) [of x w] Cons.prems by (auto simp: adds_row_def)
  then have v: "map dj_ID (deploy_jobs (db (f x w))) = map dj_ID (deploy_jobs (db w))" "job_rows j (db (f x w)) = job_rows j (db w) @ [r]"
    "command_requests (db (f x w)) = command_requests (db w)" "map ag_ID (agents (db (f x w))) = map ag_ID (agents (db w))"
    by (simp_all add: command_view_def)
  have "j \<in> set (map dj_ID (deploy_jobs (db (f x w))))" "list_all (\<lambda>y. ag y \<in> set (map ag_ID (agents (db (f x w))))) xs"
    using Cons.prems unfolding v by simp_all
  from Cons.IH [OF this] obtain rs where rs: "map dr_AgentID rs = map ag xs" "command_view j (db (fold f xs (f x w))) =
     (map dj_ID (deploy_jobs (db w)), (job_rows j (db w) @ [r]) @ rs, command_requests (db w), map ag_ID (agents (db w)))"
    unfolding v by blast
  then show ?case by (intro exI [of _ "r # rs"]) (simp add: r)
qed

lemma wake_one_adds:
  assumes "ce_db ce = no_faults" "a \<in> set (map ag_ID (agents (w_db (snd st))))" "ce_jid ce \<in> set (map dj_ID (deploy_jobs (w_db (snd st))))"
  shows "adds_row (ce_jid ce) a (w_db (snd st)) (w_db (snd (wake_one ce cfg a st)))"
proof -
  have row: "adds_row (ce_jid ce) a (w_db (snd st)) (w_db (insertDeployResultRow no_faults (ce_jid ce) a s out (snd st)))" for s out
    by (rule insertRow_adds [OF assms(3,2)])
  obtain sent w where st: "st = (sent, w)" by (cases st)
  show ?thesis
    using row unfolding st by (simp add: wake_one_def assms(1) Let_def split: sum.split option.split)
qed

lemma SetNetworkMode_view:
  assumes "\<And>i w. command_view (ce_jid ce) (w_db (ce_await ce i w)) = command_view (ce_jid ce) (w_db w)"
  shows "command_view (ce_jid ce) (w_db (snd (SetNetworkMode ce i a mode w))) = command_view (ce_jid ce) (w_db w)"
  using assms
  by (auto simp: SetNetworkMode_def SetNetworkMode_begin_def SetNetworkMode_end_def Let_def send_to_def split: prod.splits bool.splits if_splits)

lemma desired_mode_view: "SetAgentDesiredNetworkMode env db a mode = Inr db' \<Longrightarrow> command_view j db' = command_view j db"
  by (auto simp: SetAgentDesiredNetworkMode_def update_agent_def command_view_def job_rows_def split: if_splits)

lemma toggle_one_adds:
  assumes "ce_db ce = no_faults" "\<And>i w. command_view (ce_jid ce) (w_db (ce_await ce i w)) = command_view (ce_jid ce) (w_db w)"
    and "a \<in> set (map ag_ID (agents (w_db w)))" "ce_jid ce \<in> set (map dj_ID (deploy_jobs (w_db w)))"
  shows "adds_row (ce_jid ce) a (w_db w) (w_db (toggle_one ce action (i, a) w))"
proof -
  have row: "adds_row (ce_jid ce) a (w_db w) (w_db (insertDeployResultRow no_faults (ce_jid ce) a s out v))"
    if "command_view (ce_jid ce) (w_db v) = command_view (ce_jid ce) (w_db w)" for s out v
  proof (rule adds_row_view [OF that insertRow_adds])
    have v: "map dj_ID (deploy_jobs (w_db v)) = map dj_ID (deploy_jobs (w_db w))" "map ag_ID (agents (w_db v)) = map ag_ID (agents (w_db w))"
      using that by (simp_all add: command_view_def)
    show "ce_jid ce \<in> set (map dj_ID (deploy_jobs (w_db v)))" "a \<in> set (map ag_ID (agents (w_db v)))"
      unfolding v using assms(3,4) by simp_all
  qed
  have plain: "adds_row (ce_jid ce) a (w_db w) (w_db (insertDeployResultRow no_faults (ce_jid ce) a s out w))" for s out
    by (rule row) simp
  show ?thesis
  proof (cases "computeNetworkModeTransition action (case GetAgentByID (w_db w) a of Some r \<Rightarrow> ag_DesiredNetworkMode r | None \<Rightarrow> ''both'')")
    case None
    then show ?thesis
      using plain by (simp add: toggle_one_def assms(1) GetAgentDesiredNetworkMode_def no_faults_def)
  next
    case (Some mode)
    obtain db where db: "SetAgentDesiredNetworkMode no_faults (w_db w) a mode = Inr db"
      by (simp add: SetAgentDesiredNetworkMode_def no_faults_def)
    obtain res v where v: "SetNetworkMode ce i a mode (w\<lparr>w_db := db\<rparr>) = (res, v)" by fastforce
    have view: "command_view (ce_jid ce) (w_db v) = command_view (ce_jid ce) (w_db w)"
      using SetNetworkMode_view [OF assms(2), of i a mode "w\<lparr>w_db := db\<rparr>"] v desired_mode_view [OF db] by simp
    have one: "toggle_one ce action (i, a) w = (let row = insertDeployResultRow no_faults (ce_jid ce) a in
        case res of Inl AgentNotOnline \<Rightarrow> row ''deferred'' ''agent offline; will reconcile automatically on next connect'' v
        | Inl RequestTimedOut \<Rightarrow> row ''failed'' ''network mode request timed out'' v
        | Inr result \<Rightarrow> row ''success'' (nm_Output result) v)"
      using Some db v by (simp add: toggle_one_def assms(1) GetAgentDesiredNetworkMode_def no_faults_def Let_def)
    show ?thesis using row [OF view] unfolding one Let_def by (simp split: sum.split request_error.split)
  qed
qed

lemma finish_job_view:
  "ce_db ce = no_faults \<Longrightarrow> command_view j (w_db (snd (finish_job ce job w))) = command_view j (w_db w)"
  by (simp add: finish_job_def UpdateDeployJobStatus_def no_faults_def command_view_def job_rows_def)

lemma finish_job_ID [simp]: "dj_ID (fst (finish_job ce job w)) = dj_ID job"
  by (simp add: finish_job_def split: sum.split)

lemma new_job_rows: "queue_inv db \<Longrightarrow> \<not> job_known db j \<Longrightarrow> job_rows j db = []"
  using queue_invD(5) [of db] by (auto simp: job_rows_def filter_empty_conv)

text \<open>Every accepted action leaves the new job with one row per target.\<close>

lemma direct_rows:
  assumes inv: "queue_inv (w_db w)" and ins: "InsertDeployJob (ce_db ce) (w_db w) (command_job ce ty pl ids by) = Inr db"
    and view: "\<exists>rs. map dr_AgentID rs = ids \<and> command_view (ce_jid ce) (w_db v) =
      (map dj_ID (deploy_jobs db), job_rows (ce_jid ce) db @ rs, command_requests db, map ag_ID (agents db))"
  shows "one_row_each (ce_jid ce) ids (w_db w) (w_db v)"
proof -
  have new: "\<not> job_known (w_db w) (ce_jid ce)" "deploy_results db = deploy_results (w_db w)" "command_requests db = command_requests (w_db w)"
    "map dj_ID (deploy_jobs db) = map dj_ID (deploy_jobs (w_db w)) @ [ce_jid ce]"
    using ins by (auto simp: InsertDeployJob_def command_job_def split: if_splits)
  have "job_rows (ce_jid ce) db = []" using new_job_rows [OF inv new(1)] new(2) by (simp add: job_rows_def)
  then show ?thesis using view new by (auto simp: one_row_each_def command_view_def)
qed

lemma toggle_rows:
  assumes "createNetworkToggleCommand ce action ids by w = (Inr job, w')" "ce_db ce = no_faults" "queue_inv (w_db w)"
    and "\<And>i w. command_view (ce_jid ce) (w_db (ce_await ce i w)) = command_view (ce_jid ce) (w_db w)"
    and "set ids \<subseteq> set (map ag_ID (agents (w_db w)))"
  shows "dj_ID job = ce_jid ce \<and> one_row_each (ce_jid ce) ids (w_db w) (w_db w')"
proof -
  let ?job = "command_job ce ''network_mode'' action ids by"
  obtain db where db: "InsertDeployJob (ce_db ce) (w_db w) ?job = Inr db"
    using assms(1) by (auto simp: createNetworkToggleCommand_def Let_def split: option.splits sum.splits)
  let ?v = "fold (toggle_one ce action) (enumerate 0 ids) (w\<lparr>w_db := db\<rparr>)"
  have res: "job = fst (finish_job ce ?job ?v)" "w' = snd (finish_job ce ?job ?v)"
    using assms(1) db by (auto simp: createNetworkToggleCommand_def Let_def split: option.splits prod.splits)
  have k: "agents db = agents (w_db w)" "ce_jid ce \<in> set (map dj_ID (deploy_jobs db))"
    using db by (auto simp: InsertDeployJob_def command_job_def split: if_splits)
  have "adds_row (ce_jid ce) (snd x) (w_db v) (w_db (toggle_one ce action x v))"
    if "snd x \<in> set (map ag_ID (agents (w_db v)))" "ce_jid ce \<in> set (map dj_ID (deploy_jobs (w_db v)))" for x v
    using toggle_one_adds [OF assms(2,4) that] by (cases x) simp
  note step = this
  have "snd x \<in> set ids" if "x \<in> set (enumerate 0 ids)" for x
    using that set_zip_rightD [of "fst x" "snd x"] by (simp add: enumerate_eq_zip)
  then have all: "list_all (\<lambda>x. snd x \<in> set (map ag_ID (agents (w_db (w\<lparr>w_db := db\<rparr>))))) (enumerate 0 ids)"
    using assms(5) k(1) by (auto simp: list_all_iff)
  have "ce_jid ce \<in> set (map dj_ID (deploy_jobs (w_db (w\<lparr>w_db := db\<rparr>))))" using k(2) by simp
  from fold_adds_rows [where db = w_db and ag = snd, OF step this all]
  have "\<exists>rs. map dr_AgentID rs = ids \<and> command_view (ce_jid ce) (w_db w') =
      (map dj_ID (deploy_jobs db), job_rows (ce_jid ce) db @ rs, command_requests db, map ag_ID (agents db))"
    unfolding res(2) finish_job_view [OF assms(2)] by simp
  from direct_rows [OF assms(3) db this] show ?thesis using res(1) by (simp add: command_job_def)
qed

lemma wake_rows:
  assumes "createWakeCommand ce ids by w = (Inr job, sent, w')" "ce_db ce = no_faults" "queue_inv (w_db w)"
    and "set ids \<subseteq> set (map ag_ID (agents (w_db w)))"
  shows "dj_ID job = ce_jid ce \<and> one_row_each (ce_jid ce) ids (w_db w) (w_db w')"
proof -
  let ?job = "command_job ce ''wake'' ''wake'' ids by"
  obtain cfg where cfg: "getWoLConfig (ce_unmarshal ce) (ce_db ce) (w_db w) = Inr cfg" "wc_Enabled cfg" "wake_refused ce cfg ids w = None"
    using assms(1) by (auto simp: createWakeCommand_def split: sum.splits if_splits option.splits)
  obtain db where db: "InsertDeployJob (ce_db ce) (w_db w) ?job = Inr db"
    using assms(1) cfg by (auto simp: createWakeCommand_def Let_def split: sum.splits)
  let ?v = "snd (fold (wake_one ce cfg) ids ([], w\<lparr>w_db := db\<rparr>))"
  have res: "job = fst (finish_job ce ?job ?v)" "w' = snd (finish_job ce ?job ?v)"
    using assms(1) db cfg by (auto simp: createWakeCommand_def Let_def split: prod.splits)
  have k: "agents db = agents (w_db w)" "ce_jid ce \<in> set (map dj_ID (deploy_jobs db))"
    using db by (auto simp: InsertDeployJob_def command_job_def split: if_splits)
  have step: "adds_row (ce_jid ce) (id x) (w_db (snd v)) (w_db (snd (wake_one ce cfg x v)))"
    if "id x \<in> set (map ag_ID (agents (w_db (snd v))))" "ce_jid ce \<in> set (map dj_ID (deploy_jobs (w_db (snd v))))" for x v
    using wake_one_adds [OF assms(2), of x v cfg] that by simp
  have all: "list_all (\<lambda>x. id x \<in> set (map ag_ID (agents (w_db (snd ([] :: packets, w\<lparr>w_db := db\<rparr>)))))) ids"
    using assms(4) k(1) by (auto simp: list_all_iff)
  have "ce_jid ce \<in> set (map dj_ID (deploy_jobs (w_db (snd ([] :: packets, w\<lparr>w_db := db\<rparr>)))))" using k(2) by simp
  from fold_adds_rows [where db = "\<lambda>v. w_db (snd v)" and ag = id, OF step this all]
  have "\<exists>rs. map dr_AgentID rs = ids \<and> command_view (ce_jid ce) (w_db w') =
      (map dj_ID (deploy_jobs db), job_rows (ce_jid ce) db @ rs, command_requests db, map ag_ID (agents db))"
    unfolding res(2) finish_job_view [OF assms(2)] by simp
  from direct_rows [OF assms(3) db this] show ?thesis using res(1) by (simp add: command_job_def)
qed

lemma queued_rows:
  assumes "create_job ce ty pl ar ids pr ex mr by w = (Inr job, w')" "ce_db ce = no_faults" "queue_inv (w_db w)"
    and "set ids \<subseteq> set (map ag_ID (agents (w_db w)))" "ids \<noteq> []" "''*'' \<notin> set (map ag_ID (agents (w_db w)))"
  shows "dj_ID job = ce_jid ce \<and> one_row_each (ce_jid ce) ids (w_db w) (w_db w')"
proof -
  have job: "CreateJob no_faults (ce_now ce) (ce_cks ce) (ce_jid ce) w ty pl ar ids pr ex mr by = (Inr job, w')"
    using assms(1,2) by (auto simp: create_job_def split: prod.splits sum.splits)
  note frame = CreateJob_frame [OF job]
  have "resolveTargets no_faults (w_db w) ids = Inr ids"
    using assms(4,6) by (auto simp: resolveTargets_def list_ex_iff)
  moreover have "list_all (agent_known (w_db w)) ids" using assms(4) by (auto simp: list_all_iff agent_known_def)
  ultimately show ?thesis
    using CreateJob_effect [OF assms(3) frame(4) _ assms(5), of ids "ce_now ce" "ce_cks ce" ty pl ar pr ex mr "by"] job frame
    by (auto simp: one_row_each_def)
qed

lemma run_action_rows:
  assumes run: "run_action ce req ids by w = (Inr job, sent, w')" and "ce_db ce = no_faults" "queue_inv (w_db w)"
    and "\<And>i w. command_view (ce_jid ce) (w_db (ce_await ce i w)) = command_view (ce_jid ce) (w_db w)"
    and "set ids \<subseteq> set (map ag_ID (agents (w_db w)))" "ids \<noteq> []" "''*'' \<notin> set (map ag_ID (agents (w_db w)))"
  shows "dj_ID job = ce_jid ce \<and> one_row_each (ce_jid ce) ids (w_db w) (w_db w')"
proof -
  note queued = queued_rows [OF _ assms(2,3,5-7)]
  consider (toggle) "ListMem (cq_Action req) network_toggles"
    | (deploy) "\<not> ListMem (cq_Action req) network_toggles" "cq_Action req = ''deploy''"
    | (wake) "\<not> ListMem (cq_Action req) network_toggles" "cq_Action req \<noteq> ''deploy''" "cq_Action req = ''wake''"
    | (plain) "\<not> ListMem (cq_Action req) network_toggles" "cq_Action req \<noteq> ''deploy''" "cq_Action req \<noteq> ''wake''" by blast
  then show ?thesis
  proof cases
    case toggle
    then have "createNetworkToggleCommand ce (cq_Action req) ids by w = (Inr job, w')"
      using run by (auto simp: run_action_def split: prod.splits)
    from toggle_rows [OF this assms(2-5)] show ?thesis .
  next
    case deploy
    then have "createDeployPassthroughCommand ce (cq_Parameters req) ids by w = (Inr job, w')"
      using run by (auto simp: run_action_def split: prod.splits)
    then obtain ty pl ar pr ex mr where "create_job ce ty pl ar ids pr ex mr by w = (Inr job, w')"
      by (auto simp: createDeployPassthroughCommand_def Let_def split: if_splits option.splits sum.splits)
    from queued [OF this] show ?thesis .
  next
    case wake
    then have "createWakeCommand ce ids by w = (Inr job, sent, w')" using run by (simp add: run_action_def)
    from wake_rows [OF this assms(2,3,5)] show ?thesis .
  next
    case plain
    then obtain ty pl ar pr ex mr where "create_job ce ty pl ar ids pr ex mr by w = (Inr job, w')"
      using run by (auto simp: run_action_def Let_def split: sum.splits option.splits prod.splits)
    from queued [OF this] show ?thesis .
  qed
qed

lemma count_rows:
  "fold count_row rows (p, err) = (p', err') \<Longrightarrow> cp_Total p' = cp_Total p \<and> progress_sum p' = progress_sum p + length rows"
proof (induction rows arbitrary: p err)
  case (Cons r rows)
  obtain q e where q: "count_row r (p, err) = (q, e)" by fastforce
  then have "cp_Total q = cp_Total p \<and> progress_sum q = progress_sum p + 1"
    by (auto simp: count_row_def Let_def progress_sum_def split: if_splits)
  with Cons q show ?case by fastforce
qed simp

lemma poll_rows:
  fixes now :: time and action target corr detail ip :: string
  assumes "one_row_each j ids db db'" "commands_inv db" "ids \<noteq> []"
  defines "db2 \<equiv> InsertAuditLog no_faults now (case InsertCommandRequest no_faults now db' j action target corr of Inl e \<Rightarrow> db' | Inr d \<Rightarrow> d)
      ''command'' target detail ip"
  shows "commands_inv db2 \<and> (\<exists>st. handleGetCommand no_faults db2 j = Inr st \<and> cs_JobID st = j \<and> cs_Action st = action \<and> cs_Target st = target
    \<and> cs_CorrelationID st = corr \<and> map dr_AgentID (cs_Results st) = ids
    \<and> cp_Total (cs_Progress st) = length ids \<and> progress_sum (cs_Progress st) = length ids)"
proof -
  let ?meta = "\<lparr>cm_JobID = j, cm_Action = action, cm_Target = target, cm_CorrelationID = corr, cm_CreatedAt = db_trunc now\<rparr>"
  have one: "map dr_AgentID (job_rows j db') = ids" "command_requests db' = command_requests db"
    "map dj_ID (deploy_jobs db') = map dj_ID (deploy_jobs db) @ [j]" "\<not> job_known db j"
    using assms(1) by (simp_all add: one_row_each_def)
  have known: "job_known db' k \<longleftrightarrow> job_known db k \<or> k = j" for k unfolding job_known_def one(3) by auto
  have old: "m \<in> set (command_requests db) \<Longrightarrow> job_known db (cm_JobID m)" for m
    using assms(2) by (auto simp: commands_inv_def list_all_iff)
  then have fresh: "j \<notin> set (map cm_JobID (command_requests db'))" using one(4) unfolding one(2) by auto
  have ins: "InsertCommandRequest no_faults now db' j action target corr = Inr (db'\<lparr>command_requests := command_requests db @ [?meta]\<rparr>)"
    using fresh known by (simp add: InsertCommandRequest_def no_faults_def one(2))
  have view: "deploy_jobs db2 = deploy_jobs db'" "command_requests db2 = command_requests db @ [?meta]" "deploy_results db2 = deploy_results db'"
    by (simp_all add: db2_def ins InsertAuditLog_def)
  have inv: "commands_inv db2"
    using old known unfolding commands_inv_def view by (auto simp: list_all_iff job_known_def view)
  obtain job where job: "find (\<lambda>x. dj_ID x = j) (deploy_jobs db') = Some job"
    using known [of j] by (cases "find (\<lambda>x. dj_ID x = j) (deploy_jobs db')") (auto simp: find_None_iff job_known_def)
  then have jid: "dj_ID job = j" using find_in by fastforce
  have "find (\<lambda>m. cm_JobID m = j) (command_requests db) = None"
    using fresh one(2) by (auto simp: find_None_iff)
  then have meta: "find (\<lambda>m. cm_JobID m = j) (command_requests db2) = Some ?meta"
    by (simp add: view find_append)
  let ?p0 = "\<lparr>cp_Total = length (job_rows j db'), cp_Dispatched = 0, cp_Succeeded = 0, cp_Failed = 0, cp_Pending = 0\<rparr>"
  obtain p err where p: "fold count_row (job_rows j db') (?p0, None) = (p, err)" by fastforce
  have len: "length (job_rows j db') = length ids" using one(1) length_map [of dr_AgentID "job_rows j db'"] by simp
  have "progress_sum p = length ids" "cp_Total p = length ids" using count_rows [OF p] len by (simp_all add: progress_sum_def)
  moreover have "handleGetCommand no_faults db2 j = Inr \<lparr>cs_JobID = j, cs_Target = target, cs_Action = action, cs_Status = dj_Status job,
      cs_CorrelationID = corr, cs_CreatedAt = dj_CreatedAt job, cs_Progress = p, cs_Results = job_rows j db', cs_Error = err\<rparr>"
    using job jid meta p view
    by (simp add: handleGetCommand_def GetDeployJobByID_def GetCommandRequestByJobID_def GetDeployResultsByJobID_def no_faults_def job_rows_def Let_def)
  ultimately show ?thesis using inv one(1) by simp
qed

text \<open>
  C30.  An accepted command can be polled.  With a healthy database, whatever the action, the job id of the
  answer finds the command: the same action, target and correlation id, one result per resolved target in
  order, and a progress count whose four classes add up to the number of targets.  The other goroutines may
  do anything while the request waits for an agent's network mode, except change this job's own rows, the
  job and request ids or the set of agents.
\<close>

theorem posted_command_polled:
  assumes "handlePostCommand ce (Some req) w = (Inr resp, sent, w')" and "ce_db ce = no_faults"
    and "queue_inv (w_db w)" "commands_inv (w_db w)" "\<not> agent_known (w_db w) ''*''"
    and "\<And>i w. command_view (ce_jid ce) (w_db (ce_await ce i w)) = command_view (ce_jid ce) (w_db w)"
  shows "\<exists>ids st. resolveCommandTargets no_faults (w_db w) (cq_Target req) = Inr ids \<and> ids \<noteq> []
    \<and> handleGetCommand no_faults (w_db w') (cr_JobID resp) = Inr st
    \<and> cs_JobID st = ce_jid ce \<and> cs_Action st = cq_Action req \<and> cs_Target st = cq_Target req \<and> cs_CorrelationID st = cq_CorrelationID req
    \<and> map dr_AgentID (cs_Results st) = ids
    \<and> cp_Total (cs_Progress st) = length ids \<and> progress_sum (cs_Progress st) = length ids
    \<and> commands_inv (w_db w')"
proof -
  let ?by = "if cq_RequestedBy req = '''' then ''api'' else cq_RequestedBy req"
  obtain ids where ids: "resolveCommandTargets no_faults (w_db w) (cq_Target req) = Inr ids"
    using assms(1,2) by (auto simp: handlePostCommand_def split: if_splits sum.splits)
  obtain job v where run: "run_action ce req ids ?by w = (Inr job, sent, v)" and resp: "cr_JobID resp = dj_ID job"
    and w': "w_db w' = InsertAuditLog no_faults (ce_now ce)
       (case InsertCommandRequest no_faults (ce_now ce) (w_db v) (dj_ID job) (cq_Action req) (cq_Target req) (cq_CorrelationID req) of
          Inl e \<Rightarrow> w_db v | Inr d \<Rightarrow> d) ''command'' (cq_Target req)
       (''action='' @ cq_Action req @ '' job_id='' @ dj_ID job @ '' targets='' @ show_nat (length ids)) (ce_ip ce)"
    using assms(1,2) ids by (auto simp: handlePostCommand_def Let_def split: if_splits sum.splits prod.splits)
  note known = resolveCommandTargets_known [OF ids]
  have rows: "dj_ID job = ce_jid ce \<and> one_row_each (ce_jid ce) ids (w_db w) (w_db v)"
    using run_action_rows [OF run assms(2,3,6)] known assms(5) by (simp add: agent_known_def)
  then show ?thesis
    using poll_rows [of "ce_jid ce" ids "w_db w" "w_db v"] known assms(4) ids resp unfolding w' by auto
qed

lemma sample_targets:
  "resolveCommandTargets no_faults (w_db (sample_world (sample_job ''j1'' ''exec'' ''whoami'') (sample_row ''j1''))) ''pc1'' = Inr [''pc1'']"
proof -
  have "GetAllAgents no_faults db = Inr [with_metrics db a]" if "agents db = [a]" for db a
    using that by (simp add: GetAllAgents_def no_faults_def)
  then show ?thesis by (simp add: resolveCommandTargets_def with_metrics_agent sample_agent_def sample_world_def)
qed

lemma sample_posts:
  "\<exists>resp sent w'. handlePostCommand sample_ce (Some (sample_request ''restart''))
     (sample_world (sample_job ''j1'' ''exec'' ''whoami'') (sample_row ''j1'')) = (Inr resp, sent, w')"
proof -
  let ?w = "sample_world (sample_job ''j1'' ''exec'' ''whoami'') (sample_row ''j1'')"
  note ids = sample_targets
  have "\<not> job_known (w_db ?w) ''j9''" by (simp add: job_known_def sample_defs)
  moreover have "resolveTargets no_faults (w_db ?w) [''pc1''] = Inr [''pc1'']" by (simp add: resolveTargets_def)
  moreover have "list_all (agent_known (w_db ?w)) [''pc1'']" by (simp add: agent_known_def sample_defs)
  ultimately obtain job w' where "CreateJob no_faults 0 Map.empty ''j9'' ?w ''exec'' psRestart '''' [''pc1''] 0 None (DefaultMaxRetry no_faults (w_db ?w)) ''api'' = (Inr job, w')"
    using CreateJob_effect [OF sample_inv, where jid = "''j9''" and targets = "[''pc1'']" and ids = "[''pc1'']"] by blast
  then have "run_action sample_ce (sample_request ''restart'') [''pc1''] ''api'' ?w = (Inr job, [], w')"
    by (simp add: run_action_def sample_request_def network_toggles_def ListMem_iff actionToJob_def validateDeployRequest_def psRestart_def
        create_job_def sample_ce_def)
  moreover have "ce_db sample_ce = no_faults" by (simp add: sample_ce_def)
  ultimately show ?thesis
    using ids by (simp add: handlePostCommand_def sample_request_def validCommandActions_def notImplementedActions_def ListMem_iff Let_def)
qed

theorem posted_command_polled_witness:
  "\<exists>resp sent w' st. handlePostCommand sample_ce (Some (sample_request ''restart''))
     (sample_world (sample_job ''j1'' ''exec'' ''whoami'') (sample_row ''j1'')) = (Inr resp, sent, w')
   \<and> handleGetCommand no_faults (w_db w') (cr_JobID resp) = Inr st \<and> cs_Action st = ''restart'' \<and> cp_Total (cs_Progress st) = 1"
proof -
  let ?w = "sample_world (sample_job ''j1'' ''exec'' ''whoami'') (sample_row ''j1'')"
  obtain resp sent w' where post: "handlePostCommand sample_ce (Some (sample_request ''restart'')) ?w = (Inr resp, sent, w')"
    using sample_posts by blast
  have h: "ce_db sample_ce = no_faults" "commands_inv (w_db ?w)" "\<not> agent_known (w_db ?w) ''*''"
    "\<And>i w. command_view (ce_jid sample_ce) (w_db (ce_await sample_ce i w)) = command_view (ce_jid sample_ce) (w_db w)"
    by (simp_all add: sample_ce_def commands_inv_def agent_known_def sample_defs empty_db_def)
  with posted_command_polled [OF post h(1) sample_inv h(2-4)] post sample_targets show ?thesis
    by (auto simp: sample_request_def)
qed

subsection \<open>Messages\<close>

text \<open>
  How PowerShell reads a single-quoted literal, from behind its opening mark: a doubled mark is one mark, a
  single one ends the literal.  The mark is the ASCII apostrophe.
\<close>

lemma read_quoted_doubled:
  "read_quoted (ReplaceAll s [quote_mark] [quote_mark, quote_mark] @ [quote_mark]) = Some (s, [])"
  by (induction s) simp_all



end
