(* ===== verification/Auth.thy ===== *)
theory Auth
  imports Deployer Transition_System
begin

text \<open>
  \<^verbatim>\<open>server/auth.go\<close>: administrator sessions and the limit on failed logins.  \<open>cmp\<close> is
  \<^verbatim>\<open>bcrypt.CompareHashAndPassword\<close> (hash, password) and \<open>gen\<close> \<^verbatim>\<open>bcrypt.GenerateFromPassword\<close>.
  The request handlers run concurrently: the limit is checked when a login arrives and charged when its
  password has been compared, so a login is two steps with any number of others in between.
\<close>

definition sessionDuration :: int where "sessionDuration = 8 * hour"
definition rateLimitMaxAttempts :: nat where "rateLimitMaxAttempts = 5"
definition rateLimitWindow :: int where "rateLimitWindow = 15 * minute"

record AuthManager =
  am_username :: string
  am_passwordHash :: string
  am_sessions :: "string \<rightharpoonup> time"

definition newAuthManagerWithCost :: "(string \<Rightarrow> int \<Rightarrow> string option) \<Rightarrow> string \<Rightarrow> string \<Rightarrow> int \<Rightarrow> AuthManager" where
  "newAuthManagerWithCost gen username password cost =
     \<lparr>am_username = username,
      am_passwordHash =
        (if password = '''' then ''''
         else if HasPrefix password ''$2'' then password
         else case gen password cost of Some h \<Rightarrow> h | None \<Rightarrow> ''''),
      am_sessions = Map.empty\<rparr>"

definition newToken :: "8 word list \<Rightarrow> string" where
  "newToken random = concat (map hex_byte random)"

definition Login :: "(string \<Rightarrow> string \<Rightarrow> bool) \<Rightarrow> time \<Rightarrow> 8 word list \<Rightarrow> string \<Rightarrow> string \<Rightarrow> AuthManager \<Rightarrow> string option \<times> AuthManager" where
  "Login cmp now random username password am =
     (if am_username am = '''' then (None, am)
      else if username \<noteq> am_username am \<or> \<not> cmp (am_passwordHash am) password then (None, am)
      else let token = newToken random in
        (Some token, am\<lparr>am_sessions := (am_sessions am)(token \<mapsto> now + sessionDuration)\<rparr>))"

definition Logout :: "string \<Rightarrow> AuthManager \<Rightarrow> AuthManager" where
  "Logout token am = am\<lparr>am_sessions := (am_sessions am)(token := None)\<rparr>"

definition Valid :: "time \<Rightarrow> AuthManager \<Rightarrow> string \<Rightarrow> bool" where
  "Valid now am token \<longleftrightarrow> token \<noteq> '''' \<and> (case am_sessions am token of None \<Rightarrow> False | Some e \<Rightarrow> now < e)"

definition bearer_token :: "string \<Rightarrow> string" where
  "bearer_token raw = (if length raw > 7 \<and> take 7 raw = ''Bearer '' then drop 7 raw else raw)"

text \<open>Whether a request with this \<^verbatim>\<open>Authorization\<close> header reaches its handler.\<close>

definition Middleware :: "time \<Rightarrow> AuthManager \<Rightarrow> string \<Rightarrow> bool" where
  "Middleware now am raw \<longleftrightarrow> am_username am = '''' \<or> Valid now am (bearer_token raw)"

definition session_cleanup :: "time \<Rightarrow> AuthManager \<Rightarrow> AuthManager" where
  "session_cleanup now am =
     am\<lparr>am_sessions := (\<lambda>tok. case am_sessions am tok of None \<Rightarrow> None | Some e \<Rightarrow> if now > e then None else Some e)\<rparr>"

subsection \<open>The login limit\<close>

type_synonym failures = "string \<rightharpoonup> time list"

definition failures_of :: "failures \<Rightarrow> string \<Rightarrow> time list" where
  "failures_of m ip = (case m ip of None \<Rightarrow> [] | Some ts \<Rightarrow> ts)"

definition evict :: "time \<Rightarrow> string \<Rightarrow> failures \<Rightarrow> failures" where
  "evict now ip m =
     (let ts = dropWhile (\<lambda>t. t < now - rateLimitWindow) (failures_of m ip) in
      if ts = [] then m(ip := None) else m(ip \<mapsto> ts))"

definition Allow :: "time \<Rightarrow> string \<Rightarrow> failures \<Rightarrow> bool \<times> failures" where
  "Allow now ip m = (let m = evict now ip m in (length (failures_of m ip) < rateLimitMaxAttempts, m))"

definition RecordFailure :: "time \<Rightarrow> string \<Rightarrow> failures \<Rightarrow> failures" where
  "RecordFailure now ip m = m(ip \<mapsto> failures_of m ip @ [now])"

definition Reset :: "string \<Rightarrow> failures \<Rightarrow> failures" where
  "Reset ip m = m(ip := None)"

text \<open>A cleanup tick evicts every address (their entries are independent).\<close>

definition limiter_cleanup :: "time \<Rightarrow> failures \<Rightarrow> failures" where
  "limiter_cleanup now m = (\<lambda>ip. if m ip = None then None else evict now ip m ip)"

subsection \<open>Handlers\<close>

datatype auth_event = LoginFailed string time | LoginOK string string string string time | LoggedOut string

record AuthState =
  ax_auth :: AuthManager
  ax_failures :: failures
  ax_db :: DB
  ax_now :: time
  ax_inflight :: "(string \<times> string \<times> string) list"
  ax_log :: "auth_event list"

text \<open>
  \<^verbatim>\<open>handleLogin\<close> up to the comparison: the status of an immediate answer, or the attempt is in flight.  A
  body that is not JSON is answered without charging the address.
\<close>

definition login_begin :: "string \<Rightarrow> (string \<times> string) option \<Rightarrow> AuthState \<Rightarrow> nat option \<times> AuthState" where
  "login_begin ip body s =
     (let (ok, m) = Allow (ax_now s) ip (ax_failures s); s = s\<lparr>ax_failures := m\<rparr> in
      if \<not> ok then (Some 429, s)
      else case body of
        None \<Rightarrow> (Some 400, s)
      | Some (username, password) \<Rightarrow> (None, s\<lparr>ax_inflight := ax_inflight s @ [(ip, username, password)]\<rparr>))"

text \<open>The rest of the handler; the log notes the outcome.\<close>

definition login_end ::
  "(string \<Rightarrow> string \<Rightarrow> bool) \<Rightarrow> db_env \<Rightarrow> 8 word list \<Rightarrow> string \<times> string \<times> string \<Rightarrow> AuthState \<Rightarrow> (nat \<times> string) \<times> AuthState" where
  "login_end cmp env random attempt s =
     (let (ip, username, password) = attempt; now = ax_now s; s = s\<lparr>ax_inflight := remove1 attempt (ax_inflight s)\<rparr> in
      case Login cmp now random username password (ax_auth s) of
        (None, am) \<Rightarrow>
          ((401, ''''),
           s\<lparr>ax_auth := am, ax_failures := RecordFailure now ip (ax_failures s),
             ax_db := InsertAuditLog env now (ax_db s) ''login_failed'' username ''invalid credentials'' ip,
             ax_log := ax_log s @ [LoginFailed ip now]\<rparr>)
      | (Some token, am) \<Rightarrow>
          ((200, token),
           s\<lparr>ax_auth := am, ax_failures := Reset ip (ax_failures s),
             ax_db := InsertAuditLog env now (ax_db s) ''login'' username '''' ip,
             ax_log := ax_log s @ [LoginOK ip username password token now]\<rparr>))"

text \<open>A login that nothing interrupts.\<close>

definition handleLogin ::
  "(string \<Rightarrow> string \<Rightarrow> bool) \<Rightarrow> db_env \<Rightarrow> 8 word list \<Rightarrow> string \<Rightarrow> (string \<times> string) option \<Rightarrow> AuthState \<Rightarrow> (nat \<times> string) \<times> AuthState" where
  "handleLogin cmp env random ip body s =
     (case login_begin ip body s of
        (Some status, s) \<Rightarrow> ((status, ''''), s)
      | (None, s) \<Rightarrow> login_end cmp env random (last (ax_inflight s)) s)"

definition handleLogout :: "db_env \<Rightarrow> string \<Rightarrow> string \<Rightarrow> AuthState \<Rightarrow> AuthState" where
  "handleLogout env raw ip s =
     s\<lparr>ax_auth := Logout (bearer_token raw) (ax_auth s),
       ax_db := InsertAuditLog env (ax_now s) (ax_db s) ''logout'' '''' '''' ip,
       ax_log := ax_log s @ [LoggedOut (bearer_token raw)]\<rparr>"

text \<open>
  The steps of the server.  At most \<open>c\<close> logins of one address are compared at the same time.
\<close>

definition in_flight :: "string \<Rightarrow> AuthState \<Rightarrow> nat" where
  "in_flight ip s = length (filter (\<lambda>x. fst x = ip) (ax_inflight s))"

inductive auth_step :: "(string \<Rightarrow> string \<Rightarrow> bool) \<Rightarrow> nat \<Rightarrow> AuthState \<Rightarrow> AuthState \<Rightarrow> bool"
  for cmp :: "string \<Rightarrow> string \<Rightarrow> bool" and c :: nat where
  s_begin: "in_flight ip s < c \<Longrightarrow> auth_step cmp c s (snd (login_begin ip body s))"
| s_end: "x \<in> set (ax_inflight s) \<Longrightarrow> auth_step cmp c s (snd (login_end cmp env random x s))"
| s_logout: "auth_step cmp c s (handleLogout env raw ip s)"
| s_sessions: "auth_step cmp c s (s\<lparr>ax_auth := session_cleanup (ax_now s) (ax_auth s)\<rparr>)"
| s_limiter: "auth_step cmp c s (s\<lparr>ax_failures := limiter_cleanup (ax_now s) (ax_failures s)\<rparr>)"
| s_tick: "ax_now s \<le> t \<Longrightarrow> auth_step cmp c s (s\<lparr>ax_now := t\<rparr>)"

definition auth_start :: "string \<Rightarrow> string \<Rightarrow> AuthState \<Rightarrow> bool" where
  "auth_start username hash s \<longleftrightarrow>
     ax_auth s = \<lparr>am_username = username, am_passwordHash = hash, am_sessions = Map.empty\<rparr>
     \<and> ax_failures s = Map.empty \<and> ax_inflight s = [] \<and> ax_log s = []"

subsection \<open>Specification\<close>

text \<open>The failed logins of an address since its last successful one.\<close>

fun failed_since :: "string \<Rightarrow> auth_event list \<Rightarrow> time list \<Rightarrow> time list" where
  "failed_since ip [] acc = acc"
| "failed_since ip (e # es) acc =
     failed_since ip es (case e of
        LoginFailed a t \<Rightarrow> if a = ip then acc @ [t] else acc
      | LoginOK a _ _ _ _ \<Rightarrow> if a = ip then [] else acc
      | LoggedOut _ \<Rightarrow> acc)"

definition recent :: "time \<Rightarrow> time list \<Rightarrow> time list" where
  "recent now ts = filter (\<lambda>t. now - rateLimitWindow \<le> t) ts"

definition limit_inv :: "nat \<Rightarrow> AuthState \<Rightarrow> bool" where
  "limit_inv c s \<longleftrightarrow> (\<forall>ip. sorted (failures_of (ax_failures s) ip) \<and> list_all (\<lambda>t. t \<le> ax_now s) (failures_of (ax_failures s) ip)
     \<and> recent (ax_now s) (failures_of (ax_failures s) ip) = recent (ax_now s) (failed_since ip (ax_log s) [])
     \<and> length (recent (ax_now s) (failures_of (ax_failures s) ip)) + in_flight ip s \<le> 4 + c)"

definition session_inv :: "(string \<Rightarrow> string \<Rightarrow> bool) \<Rightarrow> string \<Rightarrow> string \<Rightarrow> AuthState \<Rightarrow> bool" where
  "session_inv cmp username hash s \<longleftrightarrow>
     am_username (ax_auth s) = username \<and> am_passwordHash (ax_auth s) = hash
     \<and> (\<forall>tok e. am_sessions (ax_auth s) tok = Some e \<longrightarrow>
          (\<exists>pre ip p post. ax_log s = pre @ LoginOK ip username p tok (e - sessionDuration) # post \<and> cmp hash p
             \<and> LoggedOut tok \<notin> set post))"

text \<open>A login table before any request, with one accepted password.\<close>

definition sample_auth :: AuthState where
  "sample_auth = \<lparr>ax_auth = \<lparr>am_username = ''admin'', am_passwordHash = ''h'', am_sessions = Map.empty\<rparr>, ax_failures = Map.empty,
     ax_db = empty_db, ax_now = 0, ax_inflight = [], ax_log = []\<rparr>"

definition sample_cmp :: "string \<Rightarrow> string \<Rightarrow> bool" where
  "sample_cmp h p \<longleftrightarrow> p = ''secret''"

text \<open>One more failed login of \<^verbatim>\<open>10.0.0.7\<close>.\<close>

definition fail_once :: "AuthState \<Rightarrow> AuthState" where
  "fail_once s = snd (handleLogin sample_cmp no_faults [] ''10.0.0.7'' (Some (''admin'', ''guess'')) s)"

definition sample_login :: AuthState where
  "sample_login = snd (handleLogin sample_cmp no_faults [1] ''10.0.0.7'' (Some (''admin'', ''secret'')) sample_auth)"

subsection \<open>The limit\<close>

lemma failed_since_snoc:
  "failed_since ip (es @ [e]) acc = (case e of
      LoginFailed a t \<Rightarrow> if a = ip then failed_since ip es acc @ [t] else failed_since ip es acc
    | LoginOK a _ _ _ _ \<Rightarrow> if a = ip then [] else failed_since ip es acc
    | LoggedOut _ \<Rightarrow> failed_since ip es acc)"
  by (induction es arbitrary: acc) (simp_all split: auth_event.splits)

lemma dropWhile_sorted: "sorted ts \<Longrightarrow> dropWhile (\<lambda>t. t < a) ts = filter (\<lambda>t. a \<le> t) ts" for a :: time
proof (induction ts)
  case (Cons t ts)
  show ?case
  proof (cases "t < a")
    case False
    with Cons.prems have "\<forall>x\<in>set ts. a \<le> x" by auto
    with False show ?thesis by simp
  qed (use Cons in simp)
qed simp

lemma failures_of_evict:
  assumes "sorted (failures_of m ip)"
  shows "failures_of (evict now ip m) a = (if a = ip then recent now (failures_of m ip) else failures_of m a)"
  using dropWhile_sorted [OF assms, of "now - rateLimitWindow"]
  by (auto simp: evict_def failures_of_def recent_def Let_def)

lemma recent_recent [simp]: "recent now (recent now ts) = recent now ts"
  by (simp add: recent_def)

lemma recent_later: "now \<le> t \<Longrightarrow> recent t (recent now ts) = recent t ts"
  by (auto simp: recent_def intro!: filter_cong)

lemma recent_mono: "now \<le> t \<Longrightarrow> length (recent t ts) \<le> length (recent now ts)"
  by (induction ts) (auto simp: recent_def)

lemma recent_sorted [simp]: "sorted ts \<Longrightarrow> sorted (recent now ts)"
  by (simp add: recent_def sorted_wrt_filter)

lemma recent_snoc [simp]: "recent now (ts @ [now]) = recent now ts @ [now]"
  by (simp add: recent_def rateLimitWindow_def go_defs)

lemma limit_invD:
  assumes "limit_inv c s"
  shows "sorted (failures_of (ax_failures s) ip)" "t \<in> set (failures_of (ax_failures s) ip) \<Longrightarrow> t \<le> ax_now s"
    "recent (ax_now s) (failures_of (ax_failures s) ip) = recent (ax_now s) (failed_since ip (ax_log s) [])"
    "length (recent (ax_now s) (failures_of (ax_failures s) ip)) + in_flight ip s \<le> 4 + c"
  using assms unfolding limit_inv_def list_all_iff by blast+

lemma limit_invI:
  assumes "\<And>ip. sorted (failures_of (ax_failures s) ip)" "\<And>ip t. t \<in> set (failures_of (ax_failures s) ip) \<Longrightarrow> t \<le> ax_now s"
    "\<And>ip. recent (ax_now s) (failures_of (ax_failures s) ip) = recent (ax_now s) (failed_since ip (ax_log s) [])"
    "\<And>ip. length (recent (ax_now s) (failures_of (ax_failures s) ip)) + in_flight ip s \<le> 4 + c"
  shows "limit_inv c s"
  using assms by (auto simp: limit_inv_def list_all_iff)

lemma recent_subset: "t \<in> set (recent now ts) \<Longrightarrow> t \<in> set ts"
  by (simp add: recent_def)

lemma limit_inv_evict:
  assumes "limit_inv c s" "\<And>ip. failures_of m ip = failures_of (ax_failures s) ip \<or> failures_of m ip = recent (ax_now s) (failures_of (ax_failures s) ip)"
  shows "limit_inv c (s\<lparr>ax_failures := m\<rparr>)"
proof (rule limit_invI)
  fix ip
  note inv = limit_invD [OF assms(1), where ip = ip]
  show "sorted (failures_of (ax_failures (s\<lparr>ax_failures := m\<rparr>)) ip)" using assms(2) [of ip] inv(1) by auto
  show "recent (ax_now (s\<lparr>ax_failures := m\<rparr>)) (failures_of (ax_failures (s\<lparr>ax_failures := m\<rparr>)) ip) =
      recent (ax_now (s\<lparr>ax_failures := m\<rparr>)) (failed_since ip (ax_log (s\<lparr>ax_failures := m\<rparr>)) [])"
    using assms(2) [of ip] inv(3) by auto
  show "length (recent (ax_now (s\<lparr>ax_failures := m\<rparr>)) (failures_of (ax_failures (s\<lparr>ax_failures := m\<rparr>)) ip)) + in_flight ip (s\<lparr>ax_failures := m\<rparr>) \<le> 4 + c"
    using assms(2) [of ip] inv(4) by (auto simp: in_flight_def)
  show "t \<le> ax_now (s\<lparr>ax_failures := m\<rparr>)" if "t \<in> set (failures_of (ax_failures (s\<lparr>ax_failures := m\<rparr>)) ip)" for t
    using that assms(2) [of ip] inv(2) recent_subset by auto
qed

lemma limit_inv_begin:
  assumes "limit_inv c s" "in_flight ip s < c"
  shows "limit_inv c (snd (login_begin ip body s))"
proof -
  define m where "m = evict (ax_now s) ip (ax_failures s)"
  note ev = failures_of_evict [OF limit_invD(1) [OF assms(1)], of "ax_now s" ip]
  have inv: "limit_inv c (s\<lparr>ax_failures := m\<rparr>)"
    unfolding m_def by (rule limit_inv_evict [OF assms(1)]) (simp add: ev)
  show ?thesis
  proof (cases "length (failures_of m ip) < rateLimitMaxAttempts")
    case False
    then show ?thesis using inv by (simp add: login_begin_def Allow_def Let_def m_def)
  next
    case allowed: True
    show ?thesis
    proof (cases body)
      case None
      with allowed show ?thesis using inv by (simp add: login_begin_def Allow_def Let_def m_def)
    next
      case (Some up)
      then obtain u p where up: "body = Some (u, p)" by (cases up) simp
      let ?s = "s\<lparr>ax_failures := m, ax_inflight := ax_inflight s @ [(ip, u, p)]\<rparr>"
      have res: "snd (login_begin ip body s) = ?s"
        using allowed up by (simp add: login_begin_def Allow_def Let_def m_def)
      have "length (recent (ax_now s) (failures_of m a)) + in_flight a ?s \<le> 4 + c" for a
      proof (cases "a = ip")
        case True
        then show ?thesis using allowed assms(2) by (simp add: m_def ev in_flight_def rateLimitMaxAttempts_def)
      next
        case False
        then show ?thesis using limit_invD(4) [OF inv, where ip = a] by (simp add: in_flight_def)
      qed
      then show ?thesis using limit_invD(1-3) [OF inv] unfolding res by (intro limit_invI) simp_all
    qed
  qed
qed

lemma in_flight_remove: "x \<in> set (ax_inflight s) \<Longrightarrow>
    in_flight ip (s\<lparr>ax_inflight := remove1 x (ax_inflight s)\<rparr>) = in_flight ip s - (if fst x = ip then 1 else 0)"
  by (simp add: in_flight_def filter_remove1 length_remove1)

lemma in_flight_pos: "x \<in> set (ax_inflight s) \<Longrightarrow> in_flight (fst x) s > 0"
  by (auto simp: in_flight_def filter_empty_conv)

lemma limit_inv_end:
  assumes "limit_inv c s" "x \<in> set (ax_inflight s)"
  shows "limit_inv c (snd (login_end cmp env random x s))"
proof -
  obtain ip u p where x: "x = (ip, u, p)" by (cases x)
  obtain res am where login: "Login cmp (ax_now s) random u p (ax_auth s) = (res, am)" by fastforce
  note inv = limit_invD [OF assms(1)]
  let ?s = "snd (login_end cmp env random x s)"
  have now: "ax_now ?s = ax_now s" using login by (simp add: login_end_def x Let_def split: option.splits)
  have fl: "in_flight a ?s = in_flight a s - (if a = ip then 1 else 0)" for a
    using in_flight_remove [OF assms(2), of a] login by (auto simp: in_flight_def login_end_def x Let_def split: option.splits)
  have pos: "in_flight ip s > 0" using in_flight_pos [OF assms(2)] x by simp
  show ?thesis
  proof (cases res)
    case None
    then have f: "failures_of (ax_failures ?s) a = (if a = ip then failures_of (ax_failures s) ip @ [ax_now s] else failures_of (ax_failures s) a)"
      and l: "failed_since a (ax_log ?s) [] = (if a = ip then failed_since ip (ax_log s) [] @ [ax_now s] else failed_since a (ax_log s) [])" for a
      using login by (simp_all add: login_end_def x Let_def RecordFailure_def failures_of_def failed_since_snoc)
    show ?thesis
      using inv pos by (intro limit_invI) (auto simp: now fl f l sorted_append split: if_splits)
  next
    case (Some tok)
    then have f: "failures_of (ax_failures ?s) a = (if a = ip then [] else failures_of (ax_failures s) a)"
      and l: "failed_since a (ax_log ?s) [] = (if a = ip then [] else failed_since a (ax_log s) [])" for a
      using login by (simp_all add: login_end_def x Let_def Reset_def failures_of_def failed_since_snoc)
    have "in_flight ip s - 1 \<le> 4 + c" using inv(4) [of ip] by simp
    then show ?thesis
      using inv by (intro limit_invI) (auto simp: now fl f l recent_def split: if_splits)
  qed
qed

lemma limit_inv_tick:
  assumes "limit_inv c s" "ax_now s \<le> t"
  shows "limit_inv c (s\<lparr>ax_now := t\<rparr>)"
proof (rule limit_invI)
  fix ip
  note inv = limit_invD [OF assms(1), where ip = ip]
  show "sorted (failures_of (ax_failures (s\<lparr>ax_now := t\<rparr>)) ip)" using inv(1) by simp
  show "u \<le> ax_now (s\<lparr>ax_now := t\<rparr>)" if "u \<in> set (failures_of (ax_failures (s\<lparr>ax_now := t\<rparr>)) ip)" for u
    using that inv(2) [of u] assms(2) by simp
  show "recent (ax_now (s\<lparr>ax_now := t\<rparr>)) (failures_of (ax_failures (s\<lparr>ax_now := t\<rparr>)) ip) =
      recent (ax_now (s\<lparr>ax_now := t\<rparr>)) (failed_since ip (ax_log (s\<lparr>ax_now := t\<rparr>)) [])"
    using arg_cong [OF inv(3), of "recent t"] by (simp add: recent_later [OF assms(2)])
  have "length (recent t (failures_of (ax_failures s) ip)) \<le> length (recent (ax_now s) (failures_of (ax_failures s) ip))"
    by (rule recent_mono [OF assms(2)])
  then show "length (recent (ax_now (s\<lparr>ax_now := t\<rparr>)) (failures_of (ax_failures (s\<lparr>ax_now := t\<rparr>)) ip)) + in_flight ip (s\<lparr>ax_now := t\<rparr>) \<le> 4 + c"
    using inv(4) by (simp add: in_flight_def)
qed

lemma limit_inv_limiter:
  assumes "limit_inv c s"
  shows "limit_inv c (s\<lparr>ax_failures := limiter_cleanup (ax_now s) (ax_failures s)\<rparr>)"
proof (rule limit_inv_evict [OF assms])
  fix ip
  show "failures_of (limiter_cleanup (ax_now s) (ax_failures s)) ip = failures_of (ax_failures s) ip
      \<or> failures_of (limiter_cleanup (ax_now s) (ax_failures s)) ip = recent (ax_now s) (failures_of (ax_failures s) ip)"
  proof (cases "ax_failures s ip")
    case (Some ts)
    then have "failures_of (limiter_cleanup (ax_now s) (ax_failures s)) ip = failures_of (evict (ax_now s) ip (ax_failures s)) ip"
      by (simp add: limiter_cleanup_def failures_of_def)
    then show ?thesis using failures_of_evict [OF limit_invD(1) [OF assms]] by simp
  qed (simp add: limiter_cleanup_def failures_of_def)
qed

lemma limit_inv_step:
  assumes "limit_inv c s" "auth_step cmp c s t"
  shows "limit_inv c t"
  using assms(2)
proof cases
  case (s_logout env raw ip)
  then show ?thesis
    using limit_invD [OF assms(1)] by (intro limit_invI) (simp_all add: handleLogout_def in_flight_def failed_since_snoc)
next
  case s_sessions
  then show ?thesis
    using limit_invD [OF assms(1)] by (intro limit_invI) (simp_all add: in_flight_def)
qed (use assms(1) in \<open>simp_all add: limit_inv_begin limit_inv_end limit_inv_tick limit_inv_limiter\<close>)

interpretation login_limit: safe_system "auth_start username hash" "auth_step cmp c" "limit_inv c"
proof
  show "limit_inv c s" if "auth_start username hash s" for s
    using that by (simp add: auth_start_def limit_inv_def failures_of_def in_flight_def recent_def)
qed (rule limit_inv_step)

text \<open>
  C37.  The login limit.  In every interleaving of logins, logouts, clean-ups and clock ticks in which at most
  \<open>c\<close> logins of an address are being compared at a time, an address never has more than \<open>4 + c\<close> failed
  logins since its last success within any 15 minutes: five when its logins come one after the other.  And
  with five of them on record a further login is answered 429 without a comparison.
\<close>

theorem login_failures_bounded:
  assumes "reachable (auth_start username hash) (auth_step cmp c) s"
  shows "length (recent (ax_now s) (failed_since ip (ax_log s) [])) \<le> 4 + c
    \<and> (fst (login_begin ip body s) = Some 429 \<longleftrightarrow> length (recent (ax_now s) (failed_since ip (ax_log s) [])) \<ge> 5)"
proof -
  note inv = login_limit.reachable_inv [OF assms]
  have "fst (login_begin ip body s) = Some 429 \<longleftrightarrow> \<not> length (recent (ax_now s) (failures_of (ax_failures s) ip)) < 5"
    using failures_of_evict [OF limit_invD(1) [OF inv], of "ax_now s" ip]
    by (auto simp: login_begin_def Allow_def Let_def rateLimitMaxAttempts_def split: option.splits)
  with limit_invD(3,4) [OF inv, where ip = ip] show ?thesis by auto
qed

text \<open>A login that nothing interrupts is two steps.\<close>

lemma handleLogin_reachable:
  assumes "reachable (auth_start username hash) (auth_step cmp c) s" "ax_inflight s = []" "c > 0"
  shows "reachable (auth_start username hash) (auth_step cmp c) (snd (handleLogin cmp env random ip body s))"
proof -
  obtain res u where b: "login_begin ip body s = (res, u)" by fastforce
  have "auth_step cmp c s (snd (login_begin ip body s))" by (rule s_begin) (simp add: in_flight_def assms(2,3))
  then have u: "reachable (auth_start username hash) (auth_step cmp c) u" using reachable_step [OF assms(1)] b by simp
  show ?thesis
  proof (cases res)
    case None
    then have "ax_inflight u \<noteq> []" using b by (auto simp: login_begin_def Let_def split: prod.splits if_splits option.splits)
    then have "last (ax_inflight u) \<in> set (ax_inflight u)" by simp
    from reachable_step [OF u s_end [OF this]] show ?thesis using b None by (simp add: handleLogin_def)
  qed (use b u in \<open>simp add: handleLogin_def\<close>)
qed

lemma fail_once_effect:
  assumes "ax_auth s = ax_auth sample_auth" "ax_inflight s = []" "ax_now s = 0" "ax_failures s = m" "failures_of m ''10.0.0.7'' = replicate n 0" "n < 5"
  shows "ax_auth (fail_once s) = ax_auth sample_auth \<and> ax_inflight (fail_once s) = [] \<and> ax_now (fail_once s) = 0
    \<and> failures_of (ax_failures (fail_once s)) ''10.0.0.7'' = replicate (Suc n) 0 \<and> ax_log (fail_once s) = ax_log s @ [LoginFailed ''10.0.0.7'' 0]"
proof -
  have "failures_of (evict 0 ''10.0.0.7'' m) ''10.0.0.7'' = replicate n 0"
    using assms(5) failures_of_evict [of m "''10.0.0.7''" 0 "''10.0.0.7''"]
    by (simp add: recent_def rateLimitWindow_def go_defs sorted_replicate)
  then show ?thesis
    using assms
    by (simp add: fail_once_def handleLogin_def login_begin_def Allow_def rateLimitMaxAttempts_def login_end_def Login_def sample_auth_def
        sample_cmp_def RecordFailure_def failures_of_def Let_def replicate_append_same)
qed

theorem login_failures_bounded_witness:
  "fst (login_begin ''10.0.0.7'' (Some (''admin'', ''secret'')) ((fail_once ^^ 5) sample_auth)) = Some 429"
proof -
  let ?s = "\<lambda>n. (fail_once ^^ n) sample_auth"
  have "ax_auth (?s n) = ax_auth sample_auth \<and> ax_inflight (?s n) = [] \<and> ax_now (?s n) = 0
      \<and> failures_of (ax_failures (?s n)) ''10.0.0.7'' = replicate n 0 \<and> ax_log (?s n) = replicate n (LoginFailed ''10.0.0.7'' 0)
      \<and> reachable (auth_start ''admin'' ''h'') (auth_step sample_cmp 1) (?s n)" if "n \<le> 5" for n
    using that
  proof (induction n)
    case 0
    then show ?case by (auto simp: sample_auth_def failures_of_def auth_start_def intro: reachable_init)
  next
    case (Suc n)
    then have IH: "ax_auth (?s n) = ax_auth sample_auth" "ax_inflight (?s n) = []" "ax_now (?s n) = 0"
      "failures_of (ax_failures (?s n)) ''10.0.0.7'' = replicate n 0" "ax_log (?s n) = replicate n (LoginFailed ''10.0.0.7'' 0)"
      "reachable (auth_start ''admin'' ''h'') (auth_step sample_cmp 1) (?s n)" by simp_all
    show ?case
      using fail_once_effect [OF IH(1-3) refl IH(4)] IH(5) Suc.prems
        handleLogin_reachable [OF IH(6,2), of no_faults "[]" "''10.0.0.7''" "Some (''admin'', ''guess'')", folded fail_once_def]
      by (simp add: replicate_append_same)
  qed
  note five = this [of 5]
  have "failed_since ''10.0.0.7'' (replicate 5 (LoginFailed ''10.0.0.7'' 0)) [] = replicate 5 0" by (simp add: numeral_eq_Suc)
  moreover have "recent 0 (replicate 5 0) = replicate 5 0" by (simp add: recent_def rateLimitWindow_def go_defs)
  ultimately show ?thesis
    using five login_failures_bounded [of "''admin''" "''h''" sample_cmp 1 "?s 5" "''10.0.0.7''" "Some (''admin'', ''secret'')"] by simp
qed

subsection \<open>Sessions\<close>

lemma session_inv_end:
  assumes "session_inv cmp username hash s"
  shows "session_inv cmp username hash (snd (login_end cmp env random x s))"
proof -
  obtain ip u p where x: "x = (ip, u, p)" by (cases x)
  have old: "\<exists>pre ip p post. ax_log s @ [e] = pre @ LoginOK ip username p tok (ex - sessionDuration) # post \<and> cmp hash p \<and> LoggedOut tok \<notin> set post"
    if ses: "am_sessions (ax_auth s) tok = Some ex" and ne: "\<And>t. e \<noteq> LoggedOut t" for tok ex e
  proof -
    obtain pre ip p post where *: "ax_log s = pre @ LoginOK ip username p tok (ex - sessionDuration) # post" "cmp hash p" "LoggedOut tok \<notin> set post"
      using assms ses unfolding session_inv_def by blast
    show ?thesis by (intro exI [of _ pre] exI [of _ ip] exI [of _ p] exI [of _ "post @ [e]"]) (use * ne in auto)
  qed
  show ?thesis
  proof (cases "am_username (ax_auth s) = '''' \<or> u \<noteq> am_username (ax_auth s) \<or> \<not> cmp (am_passwordHash (ax_auth s)) p")
    case True
    then have "Login cmp (ax_now s) random u p (ax_auth s) = (None, ax_auth s)" by (auto simp: Login_def)
    then show ?thesis using assms old [of _ _ "LoginFailed ip (ax_now s)"] by (simp add: session_inv_def login_end_def x Let_def)
  next
    case False
    let ?tok = "newToken random" and ?e = "LoginOK ip u p (newToken random) (ax_now s)"
    have login: "Login cmp (ax_now s) random u p (ax_auth s) =
        (Some ?tok, (ax_auth s)\<lparr>am_sessions := (am_sessions (ax_auth s))(?tok \<mapsto> ax_now s + sessionDuration)\<rparr>)"
      using False by (simp add: Login_def Let_def)
    have fresh: "\<exists>pre ip' p' post. ax_log s @ [?e] = pre @ LoginOK ip' username p' ?tok (ax_now s + sessionDuration - sessionDuration) # post
        \<and> cmp hash p' \<and> LoggedOut ?tok \<notin> set post"
      using False assms by (intro exI [of _ "ax_log s"] exI [of _ ip] exI [of _ p] exI [of _ "[]"]) (simp add: session_inv_def)
    show ?thesis
      using assms old [of _ _ ?e] fresh by (auto simp: session_inv_def login_end_def x login Let_def)
  qed
qed

lemma session_inv_logout:
  assumes "session_inv cmp username hash s"
  shows "session_inv cmp username hash (handleLogout env raw ip s)"
proof -
  let ?out = "bearer_token raw"
  have "\<exists>pre ip p post. ax_log s @ [LoggedOut ?out] = pre @ LoginOK ip username p tok (ex - sessionDuration) # post \<and> cmp hash p \<and> LoggedOut tok \<notin> set post"
    if ses: "am_sessions (ax_auth s) tok = Some ex" and ne: "tok \<noteq> ?out" for tok ex
  proof -
    obtain pre ip p post where *: "ax_log s = pre @ LoginOK ip username p tok (ex - sessionDuration) # post" "cmp hash p" "LoggedOut tok \<notin> set post"
      using assms ses unfolding session_inv_def by blast
    show ?thesis by (intro exI [of _ pre] exI [of _ ip] exI [of _ p] exI [of _ "post @ [LoggedOut ?out]"]) (use * ne in auto)
  qed
  then show ?thesis using assms by (simp add: session_inv_def handleLogout_def Logout_def)
qed

lemma session_inv_step:
  assumes "session_inv cmp username hash s" "auth_step cmp c s t"
  shows "session_inv cmp username hash t"
  using assms(2)
proof cases
  case (s_begin ip body)
  with assms(1) show ?thesis by (auto simp: session_inv_def login_begin_def Let_def split: prod.splits option.splits)
next
  case s_sessions
  with assms(1) show ?thesis by (auto simp: session_inv_def session_cleanup_def split: option.splits if_splits)
qed (use assms(1) in \<open>simp_all add: session_inv_end session_inv_logout\<close>, simp_all add: session_inv_def)

interpretation sessions: safe_system "auth_start username hash" "auth_step cmp c" "session_inv cmp username hash"
proof
  show "session_inv cmp username hash s" if "auth_start username hash s" for s
    using that by (simp add: auth_start_def session_inv_def)
qed (rule session_inv_step)

text \<open>
  C38.  A protected request needs a login: with a user name configured, in every reachable state a request
  passes only if its token was issued, less than eight hours ago, to a login with that user name and a
  password that the stored hash accepts, and has not been logged out since.
\<close>

theorem request_needs_login:
  assumes "reachable (auth_start username hash) (auth_step cmp c) s" "username \<noteq> ''''"
    and "Middleware (ax_now s) (ax_auth s) header"
  shows "\<exists>pre ip p t post. ax_log s = pre @ LoginOK ip username p (bearer_token header) t # post \<and> cmp hash p
    \<and> ax_now s < t + 8 * hour \<and> LoggedOut (bearer_token header) \<notin> set post"
proof -
  note inv = sessions.reachable_inv [OF assms(1)]
  obtain e where e: "am_sessions (ax_auth s) (bearer_token header) = Some e" "ax_now s < e"
    using assms(2,3) inv by (auto simp: Middleware_def Valid_def session_inv_def split: option.splits)
  then show ?thesis using inv by (fastforce simp: session_inv_def sessionDuration_def)
qed

theorem request_needs_login_witness:
  "\<exists>pre ip p t post. ax_log sample_login = pre @ LoginOK ip ''admin'' p ''01'' t # post \<and> sample_cmp ''h'' p"
proof -
  have "reachable (auth_start ''admin'' ''h'') (auth_step sample_cmp 1) sample_auth"
    by (rule reachable_init) (simp add: auth_start_def sample_auth_def)
  then have r: "reachable (auth_start ''admin'' ''h'') (auth_step sample_cmp 1) sample_login"
    unfolding sample_login_def by (rule handleLogin_reachable) (simp_all add: sample_auth_def)
  have tok: "newToken [1] = ''01''" by code_simp
  have "am_sessions (ax_auth sample_login) ''01'' = Some (8 * hour)" "ax_now sample_login = 0"
    using tok by (simp_all add: sample_login_def handleLogin_def login_begin_def Allow_def evict_def failures_of_def rateLimitMaxAttempts_def
        login_end_def Login_def sample_auth_def sample_cmp_def sessionDuration_def Let_def)
  then have "Middleware (ax_now sample_login) (ax_auth sample_login) ''Bearer 01''"
    by (simp add: Middleware_def Valid_def bearer_token_def go_defs)
  moreover have "bearer_token ''Bearer 01'' = ''01''" by (simp add: bearer_token_def)
  ultimately show ?thesis using request_needs_login [OF r, of "''Bearer 01''"] by (simp only: list.distinct not_False_eq_True) blast
qed

end
