(* ===== verification/Agent_Results.thy ===== *)
theory Agent_Results
  imports Shared_Software
begin

text \<open>
  The agent's two result stores and how a result leaves the agent: \<^verbatim>\<open>agent/ack.go\<close> (results the
  server has not acknowledged), \<^verbatim>\<open>agent/cmddedup.go\<close> (finished jobs, so a repeated delivery is
  answered instead of run again) and \<^verbatim>\<open>wsSend\<close> of \<^verbatim>\<open>agent/main.go\<close>.

  A store file is missing or corrupt (\<open>None\<close>) or holds a list; it is replaced by a rename, so a failing
  save leaves the old one.  Which saves fail is part of the operating system \<open>os_env\<close>, a parameter: what a
  command prints and returns, which files exist, what a download gives.
\<close>

subsection \<open>The operating system\<close>

datatype run_error = ExitError int string | StartError string

record run_outcome =
  ro_timeout :: bool
  ro_output :: string
  ro_error :: "run_error option"
  ro_durationMS :: int

record os_env =
  os_powershell :: "string \<Rightarrow> run_outcome"
  os_exec :: "string \<Rightarrow> string list \<Rightarrow> run_outcome"
  os_is_file :: "string \<Rightarrow> bool"
  os_download :: "string \<Rightarrow> string \<Rightarrow> string + string"
  os_exe_mtime :: "time option"
  os_save_pending_fails :: bool
  os_save_completed_fails :: bool
  os_save_checkpoint_fails :: bool

subsection \<open>Messages to the server\<close>

record exec_result =
  er_Type :: string
  er_AgentID :: string
  er_JobID :: string
  er_Attempt :: json
  er_Status :: string
  er_Output :: string
  er_ExitCode :: "int option"
  er_DurationMS :: "int option"

text \<open>An entry of the installed software, as read from the registry.\<close>

record softwareEntry =
  se_DisplayName :: string
  se_Publisher :: string
  se_DisplayVersion :: string
  se_InstallDate :: string
  se_WindowsInstaller :: bool
  se_ProductCode :: string
  se_UninstallString :: string
  se_QuietUninstallString :: string
  se_Hive :: string
  se_Arch :: string
  se_Scope :: string
  se_WingetID :: string
  se_WingetAvailableVersion :: string

datatype AgentMessage =
    MsgResult exec_result
  | MsgLine string string
  | MsgKill string
  | MsgNetwork string string string
  | MsgEnforcement string "(string \<times> json) list"
  | MsgLog string
  | MsgDeleted string
  | MsgSnapshot string "softwareEntry list"

subsection \<open>State\<close>

record pendingResult =
  pe_JobID :: string
  pe_Message :: exec_result
  pe_QueuedAt :: time

record completedJob =
  co_JobID :: string
  co_Result :: exec_result
  co_At :: time

record selfUpdateCheckpoint =
  cp_JobID :: string
  cp_AgentID :: string
  cp_Attempt :: json
  cp_Filename :: string
  cp_ExeModTime :: time
  cp_StartedAt :: time

text \<open>
  \<open>a_send\<close> is the send channel of the current session, \<open>None\<close> without one; \<open>a_snapshots\<close> counts the
  inventory snapshots asked for; \<open>a_inventory\<close> is the snapshot last taken, by identity key.
\<close>

record AgentState =
  a_pending :: "pendingResult list option"
  a_completed :: "completedJob list option"
  a_send :: "AgentMessage list option"
  a_checkpoint :: "selfUpdateCheckpoint option"
  a_inventory :: "string \<rightharpoonup> softwareEntry"
  a_snapshots :: nat

definition agent_send_capacity :: nat where "agent_send_capacity = 256"

definition wsSend :: "AgentMessage \<Rightarrow> AgentState \<Rightarrow> AgentState" where
  "wsSend m s =
     (case a_send s of
        None \<Rightarrow> s
      | Some ch \<Rightarrow> if length ch < agent_send_capacity then s\<lparr>a_send := Some (ch @ [m])\<rparr> else s)"

subsection \<open>Unacknowledged results\<close>

definition loadPendingResults :: "AgentState \<Rightarrow> pendingResult list" where
  "loadPendingResults s = (case a_pending s of None \<Rightarrow> [] | Some l \<Rightarrow> l)"

definition savePendingResults :: "os_env \<Rightarrow> pendingResult list \<Rightarrow> AgentState \<Rightarrow> AgentState" where
  "savePendingResults os l s = (if os_save_pending_fails os then s else s\<lparr>a_pending := Some l\<rparr>)"

definition pending_put :: "time \<Rightarrow> string \<Rightarrow> exec_result \<Rightarrow> pendingResult list \<Rightarrow> pendingResult list" where
  "pending_put now jobID data l =
     filter (\<lambda>e. pe_JobID e \<noteq> jobID) l @ [\<lparr>pe_JobID = jobID, pe_Message = data, pe_QueuedAt = now\<rparr>]"

definition persistPendingResult :: "os_env \<Rightarrow> time \<Rightarrow> string \<Rightarrow> exec_result \<Rightarrow> AgentState \<Rightarrow> AgentState" where
  "persistPendingResult os now jobID data s =
     savePendingResults os (pending_put now jobID data (loadPendingResults s)) s"

definition clearPendingResult :: "os_env \<Rightarrow> string \<Rightarrow> AgentState \<Rightarrow> AgentState" where
  "clearPendingResult os jobID s =
     (let l = loadPendingResults s in
      if list_ex (\<lambda>e. pe_JobID e = jobID) l
      then savePendingResults os (filter (\<lambda>e. pe_JobID e \<noteq> jobID) l) s
      else s)"

definition replayPendingResults :: "AgentState \<Rightarrow> AgentState" where
  "replayPendingResults s = fold (\<lambda>e. wsSend (MsgResult (pe_Message e))) (loadPendingResults s) s"

subsection \<open>Completed jobs\<close>

definition completedJobsMax :: nat where "completedJobsMax = 256"
definition completedJobsTTL :: int where "completedJobsTTL = 24 * hour"

definition loadCompletedJobs :: "AgentState \<Rightarrow> completedJob list" where
  "loadCompletedJobs s = (case a_completed s of None \<Rightarrow> [] | Some l \<Rightarrow> l)"

definition saveCompletedJobs :: "os_env \<Rightarrow> completedJob list \<Rightarrow> AgentState \<Rightarrow> AgentState" where
  "saveCompletedJobs os l s = (if os_save_completed_fails os then s else s\<lparr>a_completed := Some l\<rparr>)"

definition pruneCompletedJobs :: "completedJob list \<Rightarrow> time \<Rightarrow> completedJob list" where
  "pruneCompletedJobs l now =
     (let kept = filter (\<lambda>e. now - co_At e < completedJobsTTL) l in
      if length kept > completedJobsMax
      then drop (length kept - completedJobsMax) (sort_key co_At kept)
      else kept)"

definition completed_put :: "time \<Rightarrow> string \<Rightarrow> exec_result \<Rightarrow> completedJob list \<Rightarrow> completedJob list" where
  "completed_put now jobID result l =
     pruneCompletedJobs
       (filter (\<lambda>e. co_JobID e \<noteq> jobID) (pruneCompletedJobs l now)
        @ [\<lparr>co_JobID = jobID, co_Result = result, co_At = now\<rparr>]) now"

definition recordCompletedResult :: "os_env \<Rightarrow> time \<Rightarrow> string \<Rightarrow> exec_result \<Rightarrow> AgentState \<Rightarrow> AgentState" where
  "recordCompletedResult os now jobID result s =
     (if jobID = '''' then s
      else saveCompletedJobs os (completed_put now jobID result (loadCompletedJobs s)) s)"

definition completed_get :: "time \<Rightarrow> completedJob list \<Rightarrow> string \<Rightarrow> exec_result option" where
  "completed_get now l jobID =
     map_option co_Result (find (\<lambda>e. co_JobID e = jobID) (pruneCompletedJobs l now))"

definition completedJobResult :: "os_env \<Rightarrow> time \<Rightarrow> string \<Rightarrow> AgentState \<Rightarrow> exec_result option \<times> AgentState" where
  "completedJobResult os now jobID s =
     (if jobID = '''' then (None, s)
      else
        let loaded = loadCompletedJobs s;
            l = pruneCompletedJobs loaded now;
            s' = (if length l \<noteq> length loaded then saveCompletedJobs os l s else s)
        in (map_option co_Result (find (\<lambda>e. co_JobID e = jobID) l), s'))"

subsection \<open>Sending a result\<close>

definition sendDurableResult :: "os_env \<Rightarrow> time \<Rightarrow> string \<Rightarrow> exec_result \<Rightarrow> AgentState \<Rightarrow> AgentState" where
  "sendDurableResult os now jobID msg s =
     wsSend (MsgResult msg) (recordCompletedResult os now jobID msg (persistPendingResult os now jobID msg s))"

record psResult =
  pr_status :: string
  pr_output :: string
  pr_exitCode :: int
  pr_durationMS :: int

definition sendExecResult :: "os_env \<Rightarrow> time \<Rightarrow> string \<Rightarrow> string \<Rightarrow> json \<Rightarrow> psResult \<Rightarrow> AgentState \<Rightarrow> AgentState" where
  "sendExecResult os now agentID jobID attempt r s =
     sendDurableResult os now jobID
       \<lparr>er_Type = ''exec_result'', er_AgentID = agentID, er_JobID = jobID, er_Attempt = attempt,
        er_Status = pr_status r, er_Output = truncate_output 4096 (pr_output r),
        er_ExitCode = Some (pr_exitCode r), er_DurationMS = Some (pr_durationMS r)\<rparr> s"

definition pending_get :: "time \<Rightarrow> pendingResult list \<Rightarrow> string \<Rightarrow> exec_result option" where
  "pending_get now l jobID = map_option pe_Message (find (\<lambda>e. pe_JobID e = jobID) l)"

definition completed_inv :: "time \<Rightarrow> completedJob list \<Rightarrow> bool" where
  "completed_inv now l \<longleftrightarrow> distinct (map co_JobID l) \<and> list_all (\<lambda>e. co_At e \<le> now) l"

subsection \<open>A store of results by job\<close>

text \<open>
  The contract both stores meet: what was put last is found, and putting a result never makes another
  job's lookup return something new.
\<close>

locale result_store =
  fixes put :: "time \<Rightarrow> string \<Rightarrow> exec_result \<Rightarrow> 's \<Rightarrow> 's"
    and get :: "time \<Rightarrow> 's \<Rightarrow> string \<Rightarrow> exec_result option"
    and inv :: "time \<Rightarrow> 's \<Rightarrow> bool"
  assumes get_put: "inv now s \<Longrightarrow> get now (put now j v s) j = Some v"
    and get_put_other: "inv now s \<Longrightarrow> k \<noteq> j \<Longrightarrow> get now (put now j v s) k \<in> {None, get now s k}"
    and put_inv: "inv now s \<Longrightarrow> inv now (put now j v s)"
    and inv_later: "inv now s \<Longrightarrow> now \<le> now' \<Longrightarrow> inv now' s"
begin

lemma put_twice: "inv now s \<Longrightarrow> now \<le> now' \<Longrightarrow> get now' (put now' j v' (put now j v s)) j = Some v'"
  by (meson get_put inv_later put_inv)

text \<open>A lookup never returns anything but a value that was put for that job, or one that was there.\<close>

lemma get_after_puts:
  "inv now s \<Longrightarrow> get now (fold (\<lambda>(j, v). put now j v) xs s) k = Some v \<Longrightarrow> get now s k = Some v \<or> (k, v) \<in> set xs"
proof (induction xs arbitrary: s)
  case (Cons x xs)
  obtain j u where x: "x = (j, u)" by (cases x)
  have i: "inv now (put now j u s)" using Cons.prems(1) by (rule put_inv)
  from Cons.IH [OF i] Cons.prems(2) x consider "get now (put now j u s) k = Some v" | "(k, v) \<in> set xs" by auto
  then show ?case
  proof cases
    case 1
    then show ?thesis
      using get_put [OF Cons.prems(1)] get_put_other [OF Cons.prems(1), of k j u] x by (cases "k = j") auto
  qed simp
qed simp

end

subsection \<open>The two stores meet the contract\<close>

lemma find_append_other: "find P xs = None \<Longrightarrow> find P (xs @ ys) = find P ys"
  by (induction xs) (auto split: if_splits)

lemma find_filter_other: "(\<And>x. P x \<Longrightarrow> Q x) \<Longrightarrow> find P (filter Q xs) = find P xs"
  by (induction xs) auto

interpretation pending: result_store pending_put pending_get "\<lambda>now s. True"
proof unfold_locales
  fix now l j k v
  show "pending_get now (pending_put now j v l) j = Some v"
    by (simp add: pending_get_def pending_put_def find_append_other find_None_iff)
  show "pending_get now (pending_put now j v l) k \<in> {None, pending_get now l k}" if "k \<noteq> j"
  proof -
    have "find (\<lambda>e. pe_JobID e = k) (filter (\<lambda>e. pe_JobID e \<noteq> j) l @ [\<lparr>pe_JobID = j, pe_Message = v, pe_QueuedAt = now\<rparr>]) =
        find (\<lambda>e. pe_JobID e = k) (filter (\<lambda>e. pe_JobID e \<noteq> j) l)"
      using that by (induction l) auto
    also have "\<dots> = find (\<lambda>e. pe_JobID e = k) l" using that by (intro find_filter_other) simp
    finally show ?thesis by (simp add: pending_get_def pending_put_def)
  qed
qed simp_all

lemma prune_subset: "set (pruneCompletedJobs l now) \<subseteq> set l"
  by (auto simp: pruneCompletedJobs_def Let_def dest: in_set_dropD)

lemma prune_fresh: "e \<in> set (pruneCompletedJobs l now) \<Longrightarrow> now - co_At e < completedJobsTTL"
  by (auto simp: pruneCompletedJobs_def Let_def dest!: in_set_dropD split: if_splits)

lemma prune_bound: "length (pruneCompletedJobs l now) \<le> completedJobsMax"
  by (auto simp: pruneCompletedJobs_def Let_def)

lemma prune_id:
  "list_all (\<lambda>e. now - co_At e < completedJobsTTL) l \<Longrightarrow> length l \<le> completedJobsMax \<Longrightarrow> pruneCompletedJobs l now = l"
  by (simp add: pruneCompletedJobs_def list_all_iff)

lemma prune_idem [simp]: "pruneCompletedJobs (pruneCompletedJobs l now) now = pruneCompletedJobs l now"
  by (rule prune_id) (auto simp: list_all_iff prune_fresh prune_bound)

lemma distinct_map_sort_key: "distinct (map f (sort_key k xs)) = distinct (map f xs)"
  by (simp add: distinct_map)

lemma prune_distinct: "distinct (map co_JobID l) \<Longrightarrow> distinct (map co_JobID (pruneCompletedJobs l now))"
  by (simp add: pruneCompletedJobs_def Let_def distinct_map_filter drop_map [symmetric] distinct_map_sort_key)

lemma prune_snoc:
  assumes "list_all (\<lambda>y. co_At y \<le> co_At e) l" "now - co_At e < completedJobsTTL"
  shows "e \<in> set (pruneCompletedJobs (l @ [e]) now)"
proof -
  let ?k = "filter (\<lambda>e. now - co_At e < completedJobsTTL) l"
  have "list_all (\<lambda>y. co_At y \<le> co_At e) ?k" using assms(1) by (auto simp: list_all_iff)
  then have s: "sort_key co_At (?k @ [e]) = sort_key co_At ?k @ [e]" by (rule sort_key_snoc)
  have "length (?k @ [e]) - completedJobsMax \<le> length ?k" by (simp add: completedJobsMax_def)
  then have "e \<in> set (drop (length (?k @ [e]) - completedJobsMax) (sort_key co_At ?k @ [e]))" by simp
  with s assms(2) show ?thesis by (auto simp: pruneCompletedJobs_def Let_def)
qed

lemma completed_put_inv:
  assumes "completed_inv now l"
  shows "completed_inv now (completed_put now j v l)"
proof -
  let ?base = "filter (\<lambda>e. co_JobID e \<noteq> j) (pruneCompletedJobs l now) @ [\<lparr>co_JobID = j, co_Result = v, co_At = now\<rparr>]"
  have "distinct (map co_JobID ?base)"
    using assms prune_distinct [of l now] by (auto simp: completed_inv_def distinct_map_filter)
  moreover have "list_all (\<lambda>e. co_At e \<le> now) ?base"
    using assms prune_subset [of l now] by (auto simp: completed_inv_def list_all_iff)
  ultimately show ?thesis
    using prune_distinct [of ?base now] prune_subset [of ?base now]
    unfolding completed_inv_def completed_put_def list_all_iff by blast
qed

interpretation completed: result_store completed_put completed_get completed_inv
proof unfold_locales
  fix now l j k v assume inv: "completed_inv now l"
  let ?e = "\<lparr>co_JobID = j, co_Result = v, co_At = now\<rparr>"
  let ?base = "filter (\<lambda>e. co_JobID e \<noteq> j) (pruneCompletedJobs l now)"
  have at: "list_all (\<lambda>y. co_At y \<le> co_At ?e) ?base"
    using inv prune_subset [of l now] by (auto simp: completed_inv_def list_all_iff)
  have d: "distinct (map co_JobID (completed_put now j v l))"
    using completed_put_inv [OF inv] by (simp add: completed_inv_def)
  have "?e \<in> set (completed_put now j v l)"
    unfolding completed_put_def by (rule prune_snoc [OF at]) (simp add: completedJobsTTL_def time_units)
  from find_unique [OF d this] show "completed_get now (completed_put now j v l) j = Some v"
    by (simp add: completed_get_def completed_put_def)
  show "completed_get now (completed_put now j v l) k \<in> {None, completed_get now l k}" if "k \<noteq> j"
  proof (cases "find (\<lambda>e. co_JobID e = k) (completed_put now j v l)")
    case None
    then show ?thesis by (simp add: completed_get_def completed_put_def)
  next
    case (Some e)
    then have e: "e \<in> set (completed_put now j v l)" "co_JobID e = k" using find_in by fastforce+
    then have "e \<in> set (?base @ [?e])" using prune_subset unfolding completed_put_def by blast
    with e that have "e \<in> set (pruneCompletedJobs l now)" by auto
    from find_unique_key [OF prune_distinct this e(2)] inv
    have "find (\<lambda>e. co_JobID e = k) (pruneCompletedJobs l now) = Some e" by (simp add: completed_inv_def)
    with Some show ?thesis by (simp add: completed_get_def completed_put_def)
  qed
  show "completed_inv now (completed_put now j v l)" by (rule completed_put_inv [OF inv])
next
  fix now now' :: time and l assume "completed_inv now l" "now \<le> now'"
  then show "completed_inv now' l" by (auto simp: completed_inv_def list_all_iff)
qed

end
