(* ===== verification/Agent_Handlers.thy ===== *)
theory Agent_Handlers
  imports Agent_Results
begin

text \<open>
  The agent's command handlers: \<^verbatim>\<open>agent/executor.go\<close>, the uninstall tiers of
  \<^verbatim>\<open>agent/softwareinventory.go\<close>, \<^verbatim>\<open>agent/deepfreeze.go\<close>, \<^verbatim>\<open>agent/ssh.go\<close> and the self-update
  checkpoint of \<^verbatim>\<open>agent/selfupdate.go\<close>.  Log lines are left out.
\<close>

subsection \<open>Running a command\<close>

definition newline :: string where "newline = [CHR 0x0A]"

definition run_error_text :: "run_error \<Rightarrow> string" where
  "run_error_text e = (case e of ExitError n t \<Rightarrow> t | StartError t \<Rightarrow> t)"

text \<open>The common tail of \<^verbatim>\<open>runPSCommand\<close> and \<^verbatim>\<open>runStructuredCommand\<close>.\<close>

definition command_result :: "run_outcome \<Rightarrow> psResult" where
  "command_result r =
     (let output = TrimSpace (ro_output r) in
      if ro_timeout r then
        \<lparr>pr_status = ''error'',
         pr_output = (if output \<noteq> '''' then output @ newline else output) @ ''[timeout: command exceeded execution time limit]'',
         pr_exitCode = -1, pr_durationMS = ro_durationMS r\<rparr>
      else (case ro_error r of
        Some e \<Rightarrow>
          \<lparr>pr_status = ''error'',
           pr_output = (if output \<noteq> '''' then output @ newline @ run_error_text e else run_error_text e),
           pr_exitCode = (case e of ExitError n t \<Rightarrow> n | StartError t \<Rightarrow> -1), pr_durationMS = ro_durationMS r\<rparr>
      | None \<Rightarrow>
          \<lparr>pr_status = ''success'', pr_output = output, pr_exitCode = 0, pr_durationMS = ro_durationMS r\<rparr>))"

definition runPSCommand :: "os_env \<Rightarrow> string \<Rightarrow> psResult" where
  "runPSCommand os psCmd = command_result (os_powershell os psCmd)"

definition runStructuredCommand :: "os_env \<Rightarrow> string \<Rightarrow> string list \<Rightarrow> psResult" where
  "runStructuredCommand os exe args = command_result (os_exec os exe args)"

definition refused :: "string \<Rightarrow> psResult" where
  "refused text = \<lparr>pr_status = ''error'', pr_output = text, pr_exitCode = -1, pr_durationMS = 0\<rparr>"

definition triggerImmediateSnapshot :: "AgentState \<Rightarrow> AgentState" where
  "triggerImmediateSnapshot s = s\<lparr>a_snapshots := a_snapshots s + 1\<rparr>"

definition executeCommand :: "os_env \<Rightarrow> time \<Rightarrow> string \<Rightarrow> json_object \<Rightarrow> AgentState \<Rightarrow> AgentState" where
  "executeCommand os now agentID msg s =
     (let jobID = str_field msg ''job_id''; payload = str_field msg ''payload'';
          s = sendExecResult os now agentID jobID (field_or_null msg ''attempt'') (runPSCommand os payload) s
      in if str_field msg ''type'' = ''winget'' \<and> Contains payload ''uninstall'' then triggerImmediateSnapshot s else s)"

subsection \<open>Uninstalling\<close>

definition executeMsiexecUninstall :: "os_env \<Rightarrow> time \<Rightarrow> string \<Rightarrow> json_object \<Rightarrow> AgentState \<Rightarrow> AgentState" where
  "executeMsiexecUninstall os now agentID msg s =
     (let jobID = str_field msg ''job_id''; attempt = field_or_null msg ''attempt'' in
      case NormalizeProductCode (str_field msg ''payload'') of
        None \<Rightarrow> sendExecResult os now agentID jobID attempt (refused ''uninstall unsupported: invalid product code'') s
      | Some guid \<Rightarrow>
          triggerImmediateSnapshot (sendExecResult os now agentID jobID attempt
            (runStructuredCommand os ''msiexec.exe'' [''/x'', guid, ''/quiet'', ''/norestart'']) s))"

text \<open>The three gates of \<^verbatim>\<open>executeQuietUninstall\<close>; the value is the argument vector to run.\<close>

definition quiet_uninstall_gate :: "os_env \<Rightarrow> AgentState \<Rightarrow> string \<Rightarrow> string \<Rightarrow> string + string \<times> string list" where
  "quiet_uninstall_gate os s payload identityKey =
     (if (case a_inventory s identityKey of
          None \<Rightarrow> True
        | Some entry \<Rightarrow> se_QuietUninstallString entry = '''' \<or> se_QuietUninstallString entry \<noteq> payload)
      then Inl ''uninstall unsupported: stale or mismatched inventory state''
      else (case ParseQuietUninstallCommand payload of
              None \<Rightarrow> Inl ''uninstall unsupported: command could not be safely validated''
            | Some (exe, args) \<Rightarrow>
                if \<not> os_is_file os exe then Inl ''uninstall unsupported: target executable not found''
                else Inr (exe, args)))"

definition executeQuietUninstall :: "os_env \<Rightarrow> time \<Rightarrow> string \<Rightarrow> json_object \<Rightarrow> AgentState \<Rightarrow> AgentState" where
  "executeQuietUninstall os now agentID msg s =
     (let jobID = str_field msg ''job_id''; attempt = field_or_null msg ''attempt'' in
      case quiet_uninstall_gate os s (str_field msg ''payload'') (str_field msg ''args'') of
        Inl text \<Rightarrow> sendExecResult os now agentID jobID attempt (refused text) s
      | Inr (exe, args) \<Rightarrow>
          triggerImmediateSnapshot (sendExecResult os now agentID jobID attempt (runStructuredCommand os exe args) s))"

subsection \<open>Deploying a file\<close>

definition writeSelfUpdateCheckpoint :: "os_env \<Rightarrow> time \<Rightarrow> string \<Rightarrow> string \<Rightarrow> string \<Rightarrow> json \<Rightarrow> AgentState \<Rightarrow> AgentState" where
  "writeSelfUpdateCheckpoint os now agentID jobID filename attempt s =
     (case os_exe_mtime os of
        None \<Rightarrow> s
      | Some mtime \<Rightarrow>
          if os_save_checkpoint_fails os then s
          else s\<lparr>a_checkpoint := Some \<lparr>cp_JobID = jobID, cp_AgentID = agentID, cp_Attempt = attempt,
                 cp_Filename = filename, cp_ExeModTime = mtime, cp_StartedAt = now\<rparr>\<rparr>)"

definition clearSelfUpdateCheckpoint :: "AgentState \<Rightarrow> AgentState" where
  "clearSelfUpdateCheckpoint s = s\<lparr>a_checkpoint := None\<rparr>"

definition deploy_failed_text :: string where
  "deploy_failed_text = ''agent restarted after this file deploy, but agent.exe was not modified '' @ em_dash @
     '' deploy likely failed before replacing the binary; check the deploy script's own log on this PC''"

definition deploy_inferred_text :: string where
  "deploy_inferred_text = ''agent restarted with a modified agent.exe after this file deploy '' @ em_dash @
     '' inferred success (the process running it was killed before it could report, most likely by a self-update '' @
     ''script stopping its own service)''"

definition checkSelfUpdateCheckpoint :: "os_env \<Rightarrow> time \<Rightarrow> AgentState \<Rightarrow> AgentState" where
  "checkSelfUpdateCheckpoint os now s =
     (case a_checkpoint s of
        None \<Rightarrow> s
      | Some cp \<Rightarrow>
          let result = (case os_exe_mtime os of
                None \<Rightarrow> refused deploy_failed_text
              | Some mtime \<Rightarrow>
                  if mtime > cp_ExeModTime cp
                  then \<lparr>pr_status = ''success'', pr_output = deploy_inferred_text, pr_exitCode = 0, pr_durationMS = 0\<rparr>
                  else refused deploy_failed_text)
          in clearSelfUpdateCheckpoint (sendExecResult os now (cp_AgentID cp) (cp_JobID cp) (cp_Attempt cp) result s))"

text \<open>Single quotes are doubled, so that the path stays one PowerShell string literal.\<close>

definition escape_quotes :: "string \<Rightarrow> string" where
  "escape_quotes t = ReplaceAll t [CHR 0x27] [CHR 0x27, CHR 0x27]"

definition deploy_command :: "string \<Rightarrow> string \<Rightarrow> string" where
  "deploy_command localPath args =
     ''& '' @ [CHR 0x27] @ escape_quotes localPath @ [CHR 0x27] @
     (if args \<noteq> '''' then '' '' @ escape_quotes args else '''') @ ''; exit $LASTEXITCODE''"

definition deployFile :: "os_env \<Rightarrow> time \<Rightarrow> string \<Rightarrow> json_object \<Rightarrow> AgentState \<Rightarrow> AgentState" where
  "deployFile os now agentID msg s =
     (let jobID = str_field msg ''job_id''; filename = str_field msg ''filename'';
          attempt = field_or_null msg ''attempt''
      in case os_download os filename (str_field msg ''checksum'') of
           Inl err \<Rightarrow> sendExecResult os now agentID jobID attempt (refused (''download failed: '' @ err)) s
         | Inr localPath \<Rightarrow>
             let s = writeSelfUpdateCheckpoint os now agentID jobID filename attempt s;
                 r = runPSCommand os (deploy_command localPath (str_field msg ''args''));
                 s = clearSelfUpdateCheckpoint s
             in sendExecResult os now agentID jobID attempt r s)"

subsection \<open>Deep Freeze\<close>

definition dfcPath :: string where
  "dfcPath = ''C:'' @ [CHR 0x5C] @ ''Windows'' @ [CHR 0x5C] @ ''SysWOW64'' @ [CHR 0x5C] @ ''DFC.exe''"

definition queryIsFrozen :: "os_env \<Rightarrow> bool \<times> string \<times> bool" where
  "queryIsFrozen os =
     (let r = os_exec os dfcPath [''get'', ''/ISFROZEN'']; output = TrimSpace (ro_output r) in
      case ro_error r of
        Some (ExitError code t) \<Rightarrow>
          if code = 1 then (True, output, False)
          else (False, (if output = '''' then ''DFC.exe exited with unexpected code '' @ show_int code
                        else output @ '' (exit: '' @ show_int code @ '')''), True)
      | Some (StartError t) \<Rightarrow> (False, t, True)
      | None \<Rightarrow> (False, output, False))"

definition frozen_label :: "bool \<Rightarrow> string" where
  "frozen_label frozen = (if frozen then ''FROZEN'' else ''THAWED'')"

definition runDFCmd_output :: "os_env \<Rightarrow> string \<Rightarrow> string \<Rightarrow> string" where
  "runDFCmd_output os password flag =
     (let cmdOutput = TrimSpace (ro_output (os_exec os dfcPath [password, flag]));
          (verifyFrozen, verifyOut, verifyErr) = queryIsFrozen os
      in (if cmdOutput \<noteq> '''' then cmdOutput @ newline else '''') @
         (if verifyErr then ''Verifikasi ISFROZEN gagal: '' @ verifyOut
          else ''Verifikasi status: '' @ frozen_label verifyFrozen) @
         newline @ ''(PC akan restart segera untuk menerapkan perubahan)'')"

definition send_deepfreeze :: "os_env \<Rightarrow> time \<Rightarrow> string \<Rightarrow> string \<Rightarrow> json \<Rightarrow> string \<Rightarrow> string \<Rightarrow> AgentState \<Rightarrow> AgentState" where
  "send_deepfreeze os now agentID jobID attempt status output =
     sendDurableResult os now jobID
       \<lparr>er_Type = ''deepfreeze_result'', er_AgentID = agentID, er_JobID = jobID, er_Attempt = attempt,
        er_Status = status, er_Output = output, er_ExitCode = None, er_DurationMS = None\<rparr>"

definition handleDeepFreeze :: "os_env \<Rightarrow> time \<Rightarrow> string \<Rightarrow> json_object \<Rightarrow> AgentState \<Rightarrow> AgentState" where
  "handleDeepFreeze os now agentID msg s =
     (let action = str_field msg ''action''; password = str_field msg ''password'';
          send = send_deepfreeze os now agentID (str_field msg ''job_id'') (field_or_null msg ''attempt'')
      in if \<not> os_is_file os dfcPath then send ''error'' (''DFC.exe tidak ditemukan di '' @ dfcPath) s
         else if action = ''thaw'' then
           (if password = '''' then send ''error'' ''Password Deep Freeze harus diisi untuk thaw'' s
            else send ''ok'' (runDFCmd_output os password ''/BOOTTHAWED'') s)
         else if action = ''freeze'' then
           (if password = '''' then send ''error'' ''Password Deep Freeze harus diisi untuk freeze'' s
            else send ''ok'' (runDFCmd_output os password ''/BOOTFROZEN'') s)
         else if action = ''query_df'' then
           (let (frozen, output, err) = queryIsFrozen os in
            if err then send ''error'' output s else send ''ok'' (frozen_label frozen) s)
         else send ''error'' (''action tidak dikenal: '' @ action) s)"

subsection \<open>Installing SSH\<close>

definition quoted :: "string \<Rightarrow> string" where "quoted t = [CHR 0x22] @ t @ [CHR 0x22]"

definition ssh_fixed_steps :: "(string \<times> string) list" where
  "ssh_fixed_steps =
     [(''Memeriksa status OpenSSH...'',
       ''Get-WindowsCapability -Online -Name OpenSSH.Server* | Select-Object Name, State''),
      (''Menginstall OpenSSH Server (bisa 1-2 menit)...'',
       ''$cap = Get-WindowsCapability -Online -Name OpenSSH.Server~~~~0.0.1.0; if ($cap.State -ne '' @
        [CHR 0x27] @ ''Installed'' @ [CHR 0x27] @
        '') { Add-WindowsCapability -Online -Name OpenSSH.Server~~~~0.0.1.0 | Out-Null; '' @
        [CHR 0x22] @ ''Installed'' @ [CHR 0x22] @ '' } else { '' @ [CHR 0x22] @
        ''Already installed'' @ [CHR 0x22] @ '' }''),
      (''Mengaktifkan service sshd (Automatic)...'',
       ''Set-Service -Name sshd -StartupType Automatic; Start-Service sshd; '' @ [CHR 0x22] @
        ''sshd started'' @ [CHR 0x22]),
      (''Membuka port 22 di firewall...'',
       ''if (-not (Get-NetFirewallRule -Name '' @ [CHR 0x22] @ ''OpenSSH-Server-In-TCP'' @
        [CHR 0x22] @ '' -ErrorAction SilentlyContinue)) { New-NetFirewallRule -Name '' @ [CHR 0x22] @
        ''OpenSSH-Server-In-TCP'' @ [CHR 0x22] @ '' -DisplayName '' @ [CHR 0x22] @
        ''OpenSSH Server (sshd)'' @ [CHR 0x22] @
        '' -Enabled True -Direction Inbound -Protocol TCP -Action Allow -LocalPort 22 | Out-Null }; '' @
        [CHR 0x22] @ ''Firewall rule OK'' @ [CHR 0x22])]"

definition ssh_verify_step :: "string \<times> string" where
  "ssh_verify_step =
     (''Verifikasi service sshd...'',
      ''$s = Get-Service sshd; '' @ [CHR 0x22] @
       ''Status: $($s.Status) | StartType: $($s.StartType)'' @ [CHR 0x22])"

definition ssh_steps :: "string \<Rightarrow> (string \<times> string) list" where
  "ssh_steps adminIP =
     ssh_fixed_steps @
     (if adminIP \<noteq> '''' then
        [(''Membatasi SSH hanya dari '' @ adminIP @ ''...'',
          ''$rule = Get-NetFirewallRule -Name '' @ quoted ''OpenSSH-Server-In-TCP'' @
          '' -ErrorAction SilentlyContinue; if ($rule) { Set-NetFirewallRule -Name '' @ quoted ''OpenSSH-Server-In-TCP'' @
          '' -RemoteAddress '' @ quoted adminIP @ '' }; '' @ quoted (''IP restricted to '' @ adminIP))]
      else []) @ [ssh_verify_step]"

fun run_ssh_steps :: "os_env \<Rightarrow> string \<Rightarrow> (string \<times> string) list \<Rightarrow> string \<Rightarrow> AgentState \<Rightarrow> string \<times> string \<times> AgentState" where
  "run_ssh_steps os jobID [] allOutput s =
     (''success'', ''OpenSSH Server berhasil diinstall dan dikonfigurasi.'' @ newline @ allOutput, s)"
| "run_ssh_steps os jobID ((desc, ps) # steps) allOutput s =
     (let s = wsSend (MsgLine jobID ([CHR 0xE2, CHR 0x86, CHR 0x92] @ '' '' @ desc)) s;
          r = os_powershell os ps; output = TrimSpace (ro_output r)
      in case ro_error r of
           Some e \<Rightarrow>
             let errMsg = ''GAGAL: '' @ output @ newline @ ''(exit: '' @ run_error_text e @ '')''
             in (''error'', allOutput @ errMsg @ newline, wsSend (MsgLine jobID errMsg) s)
         | None \<Rightarrow>
             run_ssh_steps os jobID steps (allOutput @ output @ newline)
               (wsSend (MsgLine jobID ([CHR 0xE2, CHR 0x9C, CHR 0x93] @ '' '' @ output)) s))"

definition handleInstallSSH ::
  "os_env \<Rightarrow> time \<Rightarrow> string \<Rightarrow> json_object \<Rightarrow> AgentState \<Rightarrow> AgentState" where
  "handleInstallSSH os now agentID msg s =
     (let jobID = str_field msg ''job_id'';
          (status, output, s) = run_ssh_steps os jobID (ssh_steps (str_field msg ''args'')) '''' s
      in sendDurableResult os now jobID
           \<lparr>er_Type = ''exec_result'', er_AgentID = agentID, er_JobID = jobID, er_Attempt = field_or_null msg ''attempt'',
            er_Status = status, er_Output = output, er_ExitCode = None, er_DurationMS = None\<rparr> s)"

end
