(* ===== verification/Agent_Network.thy ===== *)
theory Agent_Network
  imports Go_Prelude
begin

text \<open>
  \<^verbatim>\<open>agent/network.go\<close>: converging the adapters to the desired network mode.  The operating system is
  a parameter: what \<^verbatim>\<open>Get-NetAdapter\<close> prints for an adapter in a state of the machine, what enabling,
  disabling and waiting do to that state, and which of them fail.  The actions taken are recorded in
  order.
\<close>

type_synonym NetState = "string \<Rightarrow> string"

record net_env =
  ne_query :: "string \<Rightarrow> NetState \<Rightarrow> string + string"
  ne_enable :: "string \<Rightarrow> NetState \<Rightarrow> string option \<times> NetState"
  ne_disable :: "string \<Rightarrow> NetState \<Rightarrow> string option \<times> NetState"
  ne_wait :: "NetState \<Rightarrow> NetState"
  ne_wifi :: string
  ne_eth :: string

datatype net_action = EnableAdapter string | DisableAdapter string

record adapter_status =
  at_status :: string
  at_found :: bool
  at_enabled :: bool
  at_error :: "string option"

definition getAdapterStatus :: "net_env \<Rightarrow> string \<Rightarrow> NetState \<Rightarrow> adapter_status" where
  "getAdapterStatus ne name n =
     (case ne_query ne name n of
        Inl e \<Rightarrow> \<lparr>at_status = '''', at_found = False, at_enabled = False, at_error = Some e\<rparr>
      | Inr out \<Rightarrow>
          if out = ''NotFound'' \<or> out = ''''
          then \<lparr>at_status = ''NotFound'', at_found = False, at_enabled = False, at_error = None\<rparr>
          else \<lparr>at_status = out, at_found = True, at_enabled = (out \<noteq> ''Disabled''), at_error = None\<rparr>)"

fun poll_loop :: "net_env \<Rightarrow> nat \<Rightarrow> string \<Rightarrow> NetState \<Rightarrow> bool \<times> NetState" where
  "poll_loop ne 0 name n = (False, n)"
| "poll_loop ne (Suc k) name n =
     (let st = getAdapterStatus ne name n in
      if at_error st = None \<and> at_enabled st then (True, n)
      else poll_loop ne k name (ne_wait ne n))"

definition adapterVerifyPoll :: nat where "adapterVerifyPoll = 3"

definition pollUntilEnabled :: "net_env \<Rightarrow> string \<Rightarrow> NetState \<Rightarrow> bool \<times> NetState" where
  "pollUntilEnabled ne = poll_loop ne adapterVerifyPoll"

definition currentCombinedMode :: "bool \<Rightarrow> bool \<Rightarrow> string" where
  "currentCombinedMode wifiEnabled ethEnabled =
     (if wifiEnabled \<and> ethEnabled then ''both''
      else if wifiEnabled then ''wifi''
      else if ethEnabled then ''ethernet''
      else ''none'')"

record net_run =
  nr_state :: NetState
  nr_actions :: "net_action list"
  nr_errs :: "string list"

definition enable_step :: "net_env \<Rightarrow> bool \<Rightarrow> string \<Rightarrow> string \<Rightarrow> net_run \<Rightarrow> net_run" where
  "enable_step ne needed label name r =
     (if \<not> needed then r
      else let (err, n) = ne_enable ne name (nr_state r) in
        r\<lparr>nr_state := n, nr_actions := nr_actions r @ [EnableAdapter name],
          nr_errs := nr_errs r @ (case err of None \<Rightarrow> [] | Some e \<Rightarrow> [''enable '' @ label @ '' failed: '' @ e])\<rparr>)"

definition confirm_step :: "net_env \<Rightarrow> bool \<Rightarrow> string \<Rightarrow> string \<Rightarrow> net_run \<Rightarrow> bool \<times> net_run" where
  "confirm_step ne needed label name r =
     (if \<not> needed then (True, r)
      else let (ok, n) = pollUntilEnabled ne name (nr_state r) in
        (ok, r\<lparr>nr_state := n, nr_errs := nr_errs r @ (if ok then [] else [label @ '' did not come up after enable''])\<rparr>))"

definition disable_step ::
  "net_env \<Rightarrow> bool \<Rightarrow> bool \<Rightarrow> string \<Rightarrow> string \<Rightarrow> string \<Rightarrow> net_run \<Rightarrow> net_run" where
  "disable_step ne needed safe label name other r =
     (if \<not> needed then r
      else if safe then
        let (err, n) = ne_disable ne name (nr_state r) in
        r\<lparr>nr_state := n, nr_actions := nr_actions r @ [DisableAdapter name],
          nr_errs := nr_errs r @ (case err of None \<Rightarrow> [] | Some e \<Rightarrow> [''disable '' @ label @ '' failed: '' @ e])\<rparr>
      else r\<lparr>nr_errs := nr_errs r @ [''kept '' @ label @ '' enabled: replacement '' @ other @ '' path not confirmed up'']\<rparr>)"

text \<open>The result reported to the server: mode, status and text.\<close>

definition status_errs :: "adapter_status \<Rightarrow> string \<Rightarrow> string list" where
  "status_errs st label = (case at_error st of None \<Rightarrow> [] | Some e \<Rightarrow> [label @ '' status check failed: '' @ e])"

text \<open>What has to change, and the two phases that change it.\<close>

record net_plan =
  np_enableWifi :: bool
  np_enableEth :: bool
  np_disableWifi :: bool
  np_disableEth :: bool

definition want_wifi :: "string \<Rightarrow> bool" where "want_wifi mode \<longleftrightarrow> mode = ''wifi'' \<or> mode = ''both''"
definition want_eth :: "string \<Rightarrow> bool" where "want_eth mode \<longleftrightarrow> mode = ''ethernet'' \<or> mode = ''both''"

definition plan_for :: "string \<Rightarrow> adapter_status \<Rightarrow> adapter_status \<Rightarrow> net_plan" where
  "plan_for mode wifi eth =
     \<lparr>np_enableWifi = (want_wifi mode \<and> at_found wifi \<and> \<not> at_enabled wifi),
      np_enableEth = (want_eth mode \<and> at_found eth \<and> \<not> at_enabled eth),
      np_disableWifi = (\<not> want_wifi mode \<and> at_found wifi \<and> at_enabled wifi),
      np_disableEth = (\<not> want_eth mode \<and> at_found eth \<and> at_enabled eth)\<rparr>"

definition phase_one :: "net_env \<Rightarrow> net_plan \<Rightarrow> net_run \<Rightarrow> bool \<times> bool \<times> net_run" where
  "phase_one ne p r0 =
     (let r1 = enable_step ne (np_enableWifi p) ''wifi'' (ne_wifi ne) r0;
          r2 = enable_step ne (np_enableEth p) ''ethernet'' (ne_eth ne) r1;
          cw = confirm_step ne (np_enableWifi p) ''wifi'' (ne_wifi ne) r2;
          ce = confirm_step ne (np_enableEth p) ''ethernet'' (ne_eth ne) (snd cw)
      in (fst cw, fst ce, snd ce))"

definition run_plan :: "net_env \<Rightarrow> net_plan \<Rightarrow> net_run \<Rightarrow> net_run" where
  "run_plan ne p r0 =
     (let (wifiConfirmed, ethConfirmed, r) = phase_one ne p r0;
          r = disable_step ne (np_disableWifi p) (\<not> np_enableEth p \<or> ethConfirmed) ''wifi'' (ne_wifi ne) ''ethernet'' r
      in disable_step ne (np_disableEth p) (\<not> np_enableWifi p \<or> wifiConfirmed) ''ethernet'' (ne_eth ne) ''wifi'' r)"

definition nothing_to_do :: "net_plan \<Rightarrow> bool" where
  "nothing_to_do p \<longleftrightarrow> \<not> np_enableWifi p \<and> \<not> np_enableEth p \<and> \<not> np_disableWifi p \<and> \<not> np_disableEth p"

definition reconcileNetworkMode ::
  "net_env \<Rightarrow> string \<Rightarrow> NetState \<Rightarrow> (string \<times> string \<times> string) \<times> net_run" where
  "reconcileNetworkMode ne desiredMode n =
     (if desiredMode \<noteq> ''ethernet'' \<and> desiredMode \<noteq> ''wifi'' \<and> desiredMode \<noteq> ''both'' then
        ((''unknown'', ''error'', ''unrecognized desired mode: '' @ go_quote desiredMode),
         \<lparr>nr_state = n, nr_actions = [], nr_errs = []\<rparr>)
      else
        let wifi = getAdapterStatus ne (ne_wifi ne) n; eth = getAdapterStatus ne (ne_eth ne) n;
            errs = status_errs wifi ''wifi'' @ status_errs eth ''ethernet'';
            plan = plan_for desiredMode wifi eth;
            r0 = \<lparr>nr_state = n, nr_actions = [], nr_errs = errs\<rparr>
        in if nothing_to_do plan then
             ((currentCombinedMode (at_enabled wifi) (at_enabled eth), (if errs \<noteq> [] then ''error'' else ''ok''),
               Join (errs @ [''already converged, no action taken'']) ''; ''), r0)
           else
             let r = run_plan ne plan r0;
                 finalWifi = at_enabled (getAdapterStatus ne (ne_wifi ne) (nr_state r));
                 finalEth = at_enabled (getAdapterStatus ne (ne_eth ne) (nr_state r));
                 mode = currentCombinedMode finalWifi finalEth;
                 status = (if (want_wifi desiredMode \<and> at_found wifi \<and> \<not> finalWifi)
                              \<or> (want_eth desiredMode \<and> at_found eth \<and> \<not> finalEth) \<or> mode = ''none''
                           then ''error'' else if nr_errs r \<noteq> [] then ''partial'' else ''ok'')
             in ((mode, status, (if nr_errs r \<noteq> [] then Join (nr_errs r) ''; '' else ''converged to '' @ mode)), r))"

subsection \<open>A reliable machine\<close>

text \<open>Adapters whose state the commands set at once, for any two adapter names.\<close>

definition reliable_net :: "string \<Rightarrow> string \<Rightarrow> net_env" where
  "reliable_net wifi eth = \<lparr>ne_query = (\<lambda>a n. Inr (n a)), ne_enable = (\<lambda>a n. (None, n(a := ''Up''))),
     ne_disable = (\<lambda>a n. (None, n(a := ''Disabled''))), ne_wait = (\<lambda>n. n), ne_wifi = wifi, ne_eth = eth\<rparr>"

definition present :: "string \<Rightarrow> bool" where
  "present st \<longleftrightarrow> st \<noteq> ''NotFound'' \<and> st \<noteq> ''''"

definition converged :: "string \<Rightarrow> (string \<times> string \<times> string) \<times> net_run \<Rightarrow> net_env \<Rightarrow> bool" where
  "converged mode out ne \<longleftrightarrow> fst (fst out) = mode \<and> fst (snd (fst out)) = ''ok''
     \<and> nr_actions (snd (reconcileNetworkMode ne mode (nr_state (snd out)))) = []"

text \<open>The final state: what is wanted is up, what is not wanted is down.\<close>

definition target_state :: "string \<Rightarrow> string \<Rightarrow> string \<Rightarrow> NetState \<Rightarrow> NetState" where
  "target_state mode wifi eth n =
     n(wifi := (if want_wifi mode then (if n wifi = ''Disabled'' then ''Up'' else n wifi) else ''Disabled''),
       eth := (if want_eth mode then (if n eth = ''Disabled'' then ''Up'' else n eth) else ''Disabled''))"

subsection \<open>Lemmas\<close>

lemma enable_step_disables:
  "DisableAdapter a \<in> set (nr_actions (enable_step ne need l name r)) \<longleftrightarrow> DisableAdapter a \<in> set (nr_actions r)"
  by (simp add: enable_step_def split: prod.splits)

lemma confirm_step_actions [simp]: "nr_actions (snd (confirm_step ne need l name r)) = nr_actions r"
  by (simp add: confirm_step_def split: prod.splits)

lemma disable_step_disables:
  "DisableAdapter a \<in> set (nr_actions (disable_step ne need safe l name other r)) \<longleftrightarrow>
     DisableAdapter a \<in> set (nr_actions r) \<or> (need \<and> safe \<and> a = name)"
  by (auto simp: disable_step_def split: prod.splits)

lemma poll_loop_True: "fst (poll_loop ne k name n) \<Longrightarrow> at_enabled (getAdapterStatus ne name (snd (poll_loop ne k name n)))"
  by (induction ne k name n rule: poll_loop.induct) (auto simp: Let_def split: if_splits)

lemma confirm_polled:
  "fst (confirm_step ne True l name r) \<Longrightarrow> at_enabled (getAdapterStatus ne name (nr_state (snd (confirm_step ne True l name r))))"
  using poll_loop_True [of ne adapterVerifyPoll name "nr_state r"]
  by (auto simp: confirm_step_def pollUntilEnabled_def split: prod.splits)

text \<open>Which adapters a plan turns off: a needed one, and only if its replacement is up just before.\<close>

lemma run_plan_disables_wifi:
  assumes "DisableAdapter (ne_wifi ne) \<in> set (nr_actions (run_plan ne p r0))" "nr_actions r0 = []" "ne_wifi ne \<noteq> ne_eth ne"
  shows "np_disableWifi p \<and>
    (np_enableEth p \<longrightarrow> at_enabled (getAdapterStatus ne (ne_eth ne) (nr_state (snd (snd (phase_one ne p r0))))))"
proof -
  let ?r2 = "enable_step ne (np_enableEth p) ''ethernet'' (ne_eth ne) (enable_step ne (np_enableWifi p) ''wifi'' (ne_wifi ne) r0)"
  let ?cw = "confirm_step ne (np_enableWifi p) ''wifi'' (ne_wifi ne) ?r2"
  let ?ce = "confirm_step ne (np_enableEth p) ''ethernet'' (ne_eth ne) (snd ?cw)"
  have p1: "phase_one ne p r0 = (fst ?cw, fst ?ce, snd ?ce)" by (simp add: phase_one_def Let_def)
  have "np_disableWifi p \<and> (\<not> np_enableEth p \<or> fst ?ce)"
    using assms by (simp add: run_plan_def p1 Let_def case_prod_beta disable_step_disables enable_step_disables)
  then show ?thesis unfolding p1 using confirm_polled [of ne "''ethernet''" "ne_eth ne" "snd ?cw"]
    by (cases "np_enableEth p") auto
qed

lemma reconcile_actions:
  "nr_actions (snd (reconcileNetworkMode ne mode n)) = [] \<or>
   (\<exists>errs. snd (reconcileNetworkMode ne mode n) =
      run_plan ne (plan_for mode (getAdapterStatus ne (ne_wifi ne) n) (getAdapterStatus ne (ne_eth ne) n))
        \<lparr>nr_state = n, nr_actions = [], nr_errs = errs\<rparr> \<and> mode \<in> {''ethernet'', ''wifi'', ''both''})"
  by (auto simp: reconcileNetworkMode_def Let_def)



lemmas reconcile_defs = reconcileNetworkMode_def reliable_net_def getAdapterStatus_def plan_for_def want_wifi_def want_eth_def
  nothing_to_do_def run_plan_def phase_one_def enable_step_def confirm_step_def disable_step_def pollUntilEnabled_def
  adapterVerifyPoll_def numeral_3_eq_3 currentCombinedMode_def status_errs_def Let_def

lemma reliable_status [simp]:
  "at_found (getAdapterStatus (reliable_net w e) a n) = present (n a)"
  "at_enabled (getAdapterStatus (reliable_net w e) a n) = (present (n a) \<and> n a \<noteq> ''Disabled'')"
  "at_error (getAdapterStatus (reliable_net w e) a n) = None"
  by (simp_all add: getAdapterStatus_def reliable_net_def present_def)

lemma reliable_simps [simp]:
  "ne_wifi (reliable_net w e) = w" "ne_eth (reliable_net w e) = e"
  "ne_enable (reliable_net w e) a n = (None, n(a := ''Up''))"
  "ne_disable (reliable_net w e) a n = (None, n(a := ''Disabled''))"
  by (simp_all add: reliable_net_def)

lemma present_simps [simp]: "present ''Up''" "present ''Disabled''"
  by (simp_all add: present_def)

lemma reliable_poll: "present (n a) \<Longrightarrow> n a \<noteq> ''Disabled'' \<Longrightarrow> pollUntilEnabled (reliable_net w e) a n = (True, n)"
  by (simp add: pollUntilEnabled_def adapterVerifyPoll_def numeral_3_eq_3)

lemmas reliable_run = run_plan_def phase_one_def enable_step_def confirm_step_def disable_step_def reliable_poll

lemma reconcile_idle:
  "nothing_to_do (plan_for mode (getAdapterStatus ne (ne_wifi ne) n) (getAdapterStatus ne (ne_eth ne) n)) \<Longrightarrow>
   nr_actions (snd (reconcileNetworkMode ne mode n)) = []"
  by (simp add: reconcileNetworkMode_def Let_def)

lemma target_idle:
  "wifi \<noteq> eth \<Longrightarrow> nothing_to_do (plan_for mode (getAdapterStatus (reliable_net wifi eth) wifi (target_state mode wifi eth n))
     (getAdapterStatus (reliable_net wifi eth) eth (target_state mode wifi eth n)))"
  by (simp add: nothing_to_do_def plan_for_def target_state_def)

lemma run_plan_target:
  assumes "wifi \<noteq> eth" "present (n wifi)" "present (n eth)" "want_wifi mode \<or> want_eth mode"
  shows "run_plan (reliable_net wifi eth) (plan_for mode (getAdapterStatus (reliable_net wifi eth) wifi n)
      (getAdapterStatus (reliable_net wifi eth) eth n)) \<lparr>nr_state = n, nr_actions = [], nr_errs = []\<rparr>
    \<in> {r. nr_state r = target_state mode wifi eth n \<and> nr_errs r = []}"
  using assms
  by (cases "n wifi = ''Disabled''"; cases "n eth = ''Disabled''"; cases "want_wifi mode"; cases "want_eth mode")
     (simp_all add: reliable_run plan_for_def target_state_def fun_eq_iff)

lemma plan_idle_target:
  assumes "present (n wifi)" "present (n eth)"
    and "nothing_to_do (plan_for mode (getAdapterStatus (reliable_net wifi eth) wifi n) (getAdapterStatus (reliable_net wifi eth) eth n))"
  shows "target_state mode wifi eth n = n"
  using assms by (auto simp: nothing_to_do_def plan_for_def target_state_def)

lemma target_mode:
  assumes "wifi \<noteq> eth" "present (n wifi)" "present (n eth)" "mode = ''ethernet'' \<or> mode = ''wifi'' \<or> mode = ''both''"
  shows "currentCombinedMode (at_enabled (getAdapterStatus (reliable_net wifi eth) wifi (target_state mode wifi eth n)))
      (at_enabled (getAdapterStatus (reliable_net wifi eth) eth (target_state mode wifi eth n))) = mode"
    "want_wifi mode \<longrightarrow> at_enabled (getAdapterStatus (reliable_net wifi eth) wifi (target_state mode wifi eth n))"
    "want_eth mode \<longrightarrow> at_enabled (getAdapterStatus (reliable_net wifi eth) eth (target_state mode wifi eth n))"
  using assms by (auto simp: currentCombinedMode_def target_state_def want_wifi_def want_eth_def)

text \<open>
  C17.  On a machine that obeys, reconciling converges: with both adapters present the reported mode is
  the desired one with status ok, and a second run with the same mode takes no action.
\<close>

theorem reconcile_converges:
  assumes "wifi \<noteq> eth" "present (n wifi)" "present (n eth)" "mode = ''ethernet'' \<or> mode = ''wifi'' \<or> mode = ''both''"
  shows "converged mode (reconcileNetworkMode (reliable_net wifi eth) mode n) (reliable_net wifi eth)"
proof -
  let ?ne = "reliable_net wifi eth"
  let ?plan = "plan_for mode (getAdapterStatus ?ne wifi n) (getAdapterStatus ?ne eth n)"
  let ?out = "reconcileNetworkMode ?ne mode n"
  have errs: "status_errs (getAdapterStatus ?ne a n) l = []" for a l by (simp add: status_errs_def)
  have want: "want_wifi mode \<or> want_eth mode" using assms(4) by (auto simp: want_wifi_def want_eth_def)
  have m: "\<not> (mode \<noteq> ''ethernet'' \<and> mode \<noteq> ''wifi'' \<and> mode \<noteq> ''both'')" using assms(4) by blast
  note tm = target_mode [where n = n and wifi = wifi and eth = eth and mode = mode, OF assms]
  have "nr_state (snd ?out) = target_state mode wifi eth n \<and> fst (fst ?out) = mode \<and> fst (snd (fst ?out)) = ''ok''"
  proof (cases "nothing_to_do ?plan")
    case True
    then have "target_state mode wifi eth n = n" using plan_idle_target [of n wifi eth mode] assms(2,3) by blast
    with True m errs tm show ?thesis by (simp add: reconcileNetworkMode_def Let_def del: reliable_status)
  next
    case False
    let ?r = "run_plan ?ne ?plan \<lparr>nr_state = n, nr_actions = [], nr_errs = []\<rparr>"
    have "nr_state ?r = target_state mode wifi eth n" "nr_errs ?r = []"
      using run_plan_target [of wifi eth n mode] assms(1-3) want by blast+
    moreover have "mode \<noteq> ''none''" using assms(4) by auto
    ultimately show ?thesis using False m errs tm
      by (auto simp: reconcileNetworkMode_def Let_def simp del: reliable_status)
  qed
  with reconcile_idle [of mode ?ne "target_state mode wifi eth n"] target_idle [OF assms(1)] show ?thesis
    by (simp add: converged_def)
qed

theorem reconcile_converges_witness:
  "fst (fst (reconcileNetworkMode (reliable_net ''Wi-Fi'' ''Ethernet'') ''ethernet'' ((\<lambda>_. ''Disabled'')(''Wi-Fi'' := ''Up'')))) = ''ethernet''"
  using reconcile_converges [of "''Wi-Fi''" "''Ethernet''" "(\<lambda>_. ''Disabled'')(''Wi-Fi'' := ''Up'')" "''ethernet''"]
  by (simp add: present_def converged_def)

text \<open>
  A switch to an absent adapter cuts the machine off: when Ethernet is not found and Wi-Fi is up,
  the mode \<^verbatim>\<open>ethernet\<close> turns Wi-Fi off and the machine reports mode \<^verbatim>\<open>none\<close>.
\<close>

theorem absent_replacement_cuts_link:
  assumes "wifi \<noteq> eth" "\<not> present (n eth)" "present (n wifi)" "n wifi \<noteq> ''Disabled''"
  shows "let (result, r) = reconcileNetworkMode (reliable_net wifi eth) ''ethernet'' n in
    nr_actions r = [DisableAdapter wifi] \<and> fst result = ''none'' \<and> fst (snd result) = ''error''"
  using assms by (auto simp: reconcile_defs present_def)

theorem absent_replacement_cuts_link_witness:
  "fst (fst (reconcileNetworkMode (reliable_net ''Wi-Fi'' ''Ethernet'') ''ethernet'' ((\<lambda>_. ''NotFound'')(''Wi-Fi'' := ''Up'')))) = ''none''"
  using absent_replacement_cuts_link [of "''Wi-Fi''" "''Ethernet''" "(\<lambda>_. ''NotFound'')(''Wi-Fi'' := ''Up'')"]
  by (simp add: present_def split: prod.splits)

end
