(* ===== verification/Agent_Queue.thy ===== *)
theory Agent_Queue
  imports Agent_Handlers Agent_Network Transition_System
begin

text \<open>
  The agent's serial command worker, \<^verbatim>\<open>agent/cmdqueue.go\<close>, and the dispatch of server messages to it in
  \<^verbatim>\<open>agent/main.go\<close>.  The reader's \<^verbatim>\<open>submitCommand\<close> and the worker's \<^verbatim>\<open>processCommand\<close> run at the
  same time, so each is also given as two halves that may interleave: the check of the completed store and
  the claim of a queue slot; the start of a handler and its end.  \<open>agent_step\<close> is every interleaving, with
  reconnects, acknowledgements and restarts of the agent.

  A time stamp of a message is parsed by the \<^verbatim>\<open>time\<close> package, a parameter of the model.
\<close>

subsection \<open>Commands\<close>

record agent_env =
  ae_os :: os_env
  ae_net :: net_env
  ae_parse_time :: "string \<Rightarrow> time option"

record incomingCommand =
  ic_Type :: string
  ic_JobID :: string
  ic_ExpireAt :: "time option"
  ic_Raw :: json_object

definition serialCommandTypes :: "string list" where
  "serialCommandTypes = [''exec'', ''winget'', ''file_deploy'', ''deepfreeze'', ''network_mode'', ''msiexec_uninstall'',
     ''quiet_uninstall'', ''install_ssh'']"

definition parseExpireAt :: "agent_env \<Rightarrow> json_object \<Rightarrow> time option" where
  "parseExpireAt env msg = (let s = str_field msg ''expire_at'' in if s = '''' then None else ae_parse_time env s)"

subsection \<open>State\<close>

text \<open>
  \<open>wk_checked\<close> holds the messages whose reader has passed the completed check and not yet claimed;
  \<open>wk_log\<close> records which handlers were started, which results were recorded, and which handlers a restart
  of the agent cut off.
\<close>

datatype agent_event =
    Started (ev_job: string) (ev_time: time)
  | Recorded (ev_job: string) (ev_time: time)
  | Interrupted (ev_job: string)

record Worker =
  wk_agent :: AgentState
  wk_net :: NetState
  wk_started :: bool
  wk_queue :: "incomingCommand list"
  wk_active :: "string set"
  wk_running :: "incomingCommand option"
  wk_checked :: "(string \<times> json_object) list"
  wk_now :: time
  wk_log :: "agent_event list"

definition queue_capacity :: nat where "queue_capacity = 16"

definition startCommandWorker :: "Worker \<Rightarrow> Worker" where
  "startCommandWorker w = (if wk_started w then w else w\<lparr>wk_started := True, wk_queue := []\<rparr>)"

definition trackCommandDone :: "string \<Rightarrow> Worker \<Rightarrow> Worker" where
  "trackCommandDone jobID w = (if jobID = '''' then w else w\<lparr>wk_active := wk_active w - {jobID}\<rparr>)"

text \<open>The events a command leaves in the log; a command without a job id leaves none.\<close>

definition noted :: "string \<Rightarrow> agent_event \<Rightarrow> agent_event list \<Rightarrow> agent_event list" where
  "noted jobID e log = (if jobID = '''' then log else log @ [e])"

definition note_event :: "string \<Rightarrow> agent_event \<Rightarrow> Worker \<Rightarrow> Worker" where
  "note_event jobID e w = w\<lparr>wk_log := noted jobID e (wk_log w)\<rparr>"

subsection \<open>Submitting\<close>

text \<open>
  The first half of \<^verbatim>\<open>submitCommand\<close>: \<open>None\<close> when the message is settled (dropped, or answered from the
  store), \<open>Some\<close> when it goes on to the claim.
\<close>

definition submit_check :: "agent_env \<Rightarrow> json_object \<Rightarrow> Worker \<Rightarrow> bool \<times> Worker" where
  "submit_check env msg w =
     (let jobID = str_field msg ''job_id'' in
      if \<not> wk_started w then (False, w)
      else if jobID = '''' then (True, w)
      else case completedJobResult (ae_os env) (wk_now w) jobID (wk_agent w) of
             (Some data, s) \<Rightarrow> (False, w\<lparr>wk_agent := wsSend (MsgResult data) s\<rparr>)
           | (None, s) \<Rightarrow> (True, w\<lparr>wk_agent := s\<rparr>))"

definition submit_claim :: "agent_env \<Rightarrow> string \<Rightarrow> json_object \<Rightarrow> Worker \<Rightarrow> Worker" where
  "submit_claim env msgType msg w =
     (let jobID = str_field msg ''job_id'' in
      if jobID \<noteq> '''' \<and> jobID \<in> wk_active w then w
      else
        let w = (if jobID = '''' then w else w\<lparr>wk_active := insert jobID (wk_active w)\<rparr>);
            cmd = \<lparr>ic_Type = msgType, ic_JobID = jobID, ic_ExpireAt = parseExpireAt env msg, ic_Raw = msg\<rparr>
        in if length (wk_queue w) < queue_capacity then w\<lparr>wk_queue := wk_queue w @ [cmd]\<rparr>
           else trackCommandDone jobID w)"

definition submitCommand :: "agent_env \<Rightarrow> string \<Rightarrow> json_object \<Rightarrow> Worker \<Rightarrow> bool \<times> Worker" where
  "submitCommand env msgType msg w =
     (if \<not> ListMem msgType serialCommandTypes then (False, w)
      else let (go, w) = submit_check env msg w in (True, if go then submit_claim env msgType msg w else w))"

subsection \<open>Running\<close>

definition sendNetworkModeResult :: "string \<Rightarrow> string \<Rightarrow> string \<Rightarrow> AgentState \<Rightarrow> AgentState" where
  "sendNetworkModeResult mode status output = wsSend (MsgNetwork mode status output)"

definition runCommandHandler ::
  "agent_env \<Rightarrow> time \<Rightarrow> string \<Rightarrow> incomingCommand \<Rightarrow> AgentState \<times> NetState \<Rightarrow> AgentState \<times> NetState" where
  "runCommandHandler env now agentID cmd st =
     (let os = ae_os env; msg = ic_Raw cmd; (s, n) = st in
      if ic_Type cmd = ''exec'' \<or> ic_Type cmd = ''winget'' then (executeCommand os now agentID msg s, n)
      else if ic_Type cmd = ''msiexec_uninstall'' then (executeMsiexecUninstall os now agentID msg s, n)
      else if ic_Type cmd = ''quiet_uninstall'' then (executeQuietUninstall os now agentID msg s, n)
      else if ic_Type cmd = ''file_deploy'' then (deployFile os now agentID msg s, n)
      else if ic_Type cmd = ''deepfreeze'' then (handleDeepFreeze os now agentID msg s, n)
      else if ic_Type cmd = ''install_ssh'' then (handleInstallSSH os now agentID msg s, n)
      else if ic_Type cmd = ''network_mode'' then
        (let ((mode, status, output), r) = reconcileNetworkMode (ae_net env) (str_field msg ''network_mode'') n
         in (sendNetworkModeResult mode status output s, nr_state r))
      else st)"

definition sendExpiredResult :: "os_env \<Rightarrow> time \<Rightarrow> string \<Rightarrow> incomingCommand \<Rightarrow> AgentState \<Rightarrow> AgentState" where
  "sendExpiredResult os now agentID cmd =
     sendDurableResult os now (ic_JobID cmd)
       \<lparr>er_Type = ''exec_result'', er_AgentID = agentID, er_JobID = ic_JobID cmd,
        er_Attempt = field_or_null (ic_Raw cmd) ''attempt'', er_Status = ''expired'',
        er_Output = ''command expired before execution on agent'', er_ExitCode = Some (-1), er_DurationMS = Some 0\<rparr>"

definition reports :: "incomingCommand \<Rightarrow> bool" where
  "reports cmd \<longleftrightarrow> ic_Type cmd \<noteq> ''network_mode''"

definition expired_command :: "time \<Rightarrow> incomingCommand \<Rightarrow> bool" where
  "expired_command now cmd = (case ic_ExpireAt cmd of None \<Rightarrow> False | Some e \<Rightarrow> now > e)"

text \<open>
  The first half of \<^verbatim>\<open>processCommand\<close>, up to the call of the handler: the completed store is checked again
  and the expiry is checked; \<open>wk_running\<close> is set when the handler starts.
\<close>

definition process_begin :: "agent_env \<Rightarrow> string \<Rightarrow> incomingCommand \<Rightarrow> Worker \<Rightarrow> Worker" where
  "process_begin env agentID cmd w =
     (let jobID = ic_JobID cmd; now = wk_now w;
          (stored, s) = (if jobID = '''' then (None, wk_agent w) else completedJobResult (ae_os env) now jobID (wk_agent w))
      in case stored of
           Some data \<Rightarrow> trackCommandDone jobID (w\<lparr>wk_agent := wsSend (MsgResult data) s\<rparr>)
         | None \<Rightarrow>
             if expired_command now cmd
             then trackCommandDone jobID (note_event jobID (Recorded jobID now)
                    (w\<lparr>wk_agent := sendExpiredResult (ae_os env) now agentID cmd s\<rparr>))
             else (let w = w\<lparr>wk_agent := s, wk_running := Some cmd\<rparr> in
                   if reports cmd then note_event jobID (Started jobID now) w else w))"

text \<open>The end of the handler, at a later time.\<close>

definition process_end :: "agent_env \<Rightarrow> string \<Rightarrow> incomingCommand \<Rightarrow> Worker \<Rightarrow> Worker" where
  "process_end env agentID cmd w =
     (let jobID = ic_JobID cmd; now = wk_now w;
          (s, n) = runCommandHandler env now agentID cmd (wk_agent w, wk_net w);
          w = w\<lparr>wk_agent := s, wk_net := n, wk_running := None\<rparr>
      in trackCommandDone jobID (if reports cmd then note_event jobID (Recorded jobID now) w else w))"

definition processCommand :: "agent_env \<Rightarrow> string \<Rightarrow> incomingCommand \<Rightarrow> Worker \<Rightarrow> Worker" where
  "processCommand env agentID cmd w =
     (let w = process_begin env agentID cmd w in
      if wk_running w = None then w else process_end env agentID cmd w)"

subsection \<open>Sessions and restarts\<close>

definition begin_session :: "Worker \<Rightarrow> Worker" where
  "begin_session w = w\<lparr>wk_agent := replayPendingResults ((wk_agent w)\<lparr>a_send := Some []\<rparr>)\<rparr>"

definition end_session :: "Worker \<Rightarrow> Worker" where
  "end_session w = w\<lparr>wk_agent := (wk_agent w)\<lparr>a_send := None\<rparr>\<rparr>"

text \<open>
  A restart loses the queue, the claims and a running handler; the files stay.  A checkpoint of a file
  deployment is resolved before anything else runs.
\<close>

definition restart_agent :: "os_env \<Rightarrow> Worker \<Rightarrow> Worker" where
  "restart_agent os w =
     (let cut = (case wk_running w of None \<Rightarrow> '''' | Some cmd \<Rightarrow> if reports cmd then ic_JobID cmd else '''');
          w1 = note_event cut (Interrupted cut) w;
          fresh = w1\<lparr>wk_started := False, wk_queue := [], wk_active := {}, wk_running := None, wk_checked := [],
            wk_agent := (wk_agent w1)\<lparr>a_send := None\<rparr>\<rparr>;
          w2 = (case a_checkpoint (wk_agent w) of None \<Rightarrow> fresh
                | Some cp \<Rightarrow> note_event (cp_JobID cp) (Recorded (cp_JobID cp) (wk_now w)) fresh)
      in w2\<lparr>wk_agent := checkSelfUpdateCheckpoint os (wk_now w) (wk_agent w2)\<rparr>)"

subsection \<open>Every interleaving\<close>

text \<open>The saves of the completed store succeed in every step; everything else of the system may fail.\<close>

definition saves_ok :: "agent_env \<Rightarrow> bool" where
  "saves_ok env \<longleftrightarrow> \<not> os_save_completed_fails (ae_os env)"

inductive agent_step :: "Worker \<Rightarrow> Worker \<Rightarrow> bool" where
  step_start: "agent_step w (startCommandWorker w)"
| step_check: "saves_ok env \<Longrightarrow> ListMem ty serialCommandTypes \<Longrightarrow> submit_check env msg w = (go, w') \<Longrightarrow>
    agent_step w (if go then w'\<lparr>wk_checked := wk_checked w' @ [(ty, msg)]\<rparr> else w')"
| step_claim: "wk_checked w = xs @ (ty, msg) # ys \<Longrightarrow> agent_step w (submit_claim env ty msg (w\<lparr>wk_checked := xs @ ys\<rparr>))"
| step_begin: "saves_ok env \<Longrightarrow> wk_running w = None \<Longrightarrow> wk_queue w = cmd # q \<Longrightarrow>
    agent_step w (process_begin env agentID cmd (w\<lparr>wk_queue := q\<rparr>))"
| step_checkpoint: "wk_running w = Some cmd \<Longrightarrow> ic_Type cmd = ''file_deploy'' \<Longrightarrow>
    agent_step w (w\<lparr>wk_agent := writeSelfUpdateCheckpoint os (wk_now w) agentID (ic_JobID cmd)
      (str_field (ic_Raw cmd) ''filename'') (field_or_null (ic_Raw cmd) ''attempt'') (wk_agent w)\<rparr>)"
| step_end: "saves_ok env \<Longrightarrow> wk_running w = Some cmd \<Longrightarrow> agent_step w (process_end env agentID cmd w)"
| step_ack: "agent_step w (w\<lparr>wk_agent := clearPendingResult os jobID (wk_agent w)\<rparr>)"
| step_session: "agent_step w (begin_session w)"
| step_close: "agent_step w (end_session w)"
| step_write: "a_send (wk_agent w) = Some (m # ms) \<Longrightarrow> agent_step w (w\<lparr>wk_agent := (wk_agent w)\<lparr>a_send := Some ms\<rparr>\<rparr>)"
| step_restart: "\<not> os_save_completed_fails os \<Longrightarrow> agent_step w (restart_agent os w)"
| step_tick: "wk_now w \<le> now \<Longrightarrow> agent_step w (w\<lparr>wk_now := now\<rparr>)"

definition agent_start :: "Worker \<Rightarrow> bool" where
  "agent_start w \<longleftrightarrow> \<not> wk_started w \<and> wk_queue w = [] \<and> wk_active w = {} \<and> wk_running w = None \<and> wk_checked w = []
     \<and> loadCompletedJobs (wk_agent w) = [] \<and> a_checkpoint (wk_agent w) = None \<and> wk_log w = []"

subsection \<open>What the log says of a job\<close>

definition last_event :: "string \<Rightarrow> agent_event list \<Rightarrow> agent_event option" where
  "last_event j log = find (\<lambda>e. ev_job e = j) (rev log)"

definition newer :: "string \<Rightarrow> agent_event list \<Rightarrow> nat" where
  "newer j log = length (filter is_Recorded (takeWhile (\<lambda>e. ev_job e \<noteq> j) (rev log)))"

text \<open>
  When a handler may start: the job is new, or a restart cut its last run off, or its last result is a day
  old, or 256 results of other jobs have been recorded since.
\<close>

definition may_start :: "agent_event list \<Rightarrow> agent_event \<Rightarrow> bool" where
  "may_start pre e =
     (case e of
        Started j now \<Rightarrow>
          (case last_event j pre of
             None \<Rightarrow> True
           | Some (Interrupted _) \<Rightarrow> True
           | Some (Started _ _) \<Rightarrow> False
           | Some (Recorded _ t) \<Rightarrow> now - t \<ge> completedJobsTTL \<or> newer j pre \<ge> completedJobsMax)
      | _ \<Rightarrow> True)"

definition placed :: "string \<Rightarrow> time \<Rightarrow> nat \<Rightarrow> completedJob list \<Rightarrow> bool" where
  "placed j t k l \<longleftrightarrow> (\<exists>xs e ys. l = xs @ e # ys \<and> co_JobID e = j \<and> co_At e = t \<and> length ys \<le> k)"

definition ordered_store :: "time \<Rightarrow> completedJob list \<Rightarrow> bool" where
  "ordered_store now l \<longleftrightarrow> sorted (map co_At l) \<and> list_all (\<lambda>e. co_At e \<le> now) l"

definition store_inv :: "time \<Rightarrow> agent_event list \<Rightarrow> completedJob list \<Rightarrow> bool" where
  "store_inv now log l \<longleftrightarrow> ordered_store now l
     \<and> (\<forall>j t. last_event j log = Some (Recorded j t) \<and> now - t < completedJobsTTL \<and> newer j log < completedJobsMax
          \<longrightarrow> placed j t (newer j log) l)"

definition run_inv :: "incomingCommand option \<Rightarrow> agent_event list \<Rightarrow> bool" where
  "run_inv running log \<longleftrightarrow>
     (\<forall>j t. last_event j log = Some (Started j t) \<longrightarrow> j \<noteq> '''' \<and> (\<exists>cmd. running = Some cmd \<and> reports cmd \<and> ic_JobID cmd = j))"

definition command_ok :: "incomingCommand \<Rightarrow> bool" where
  "command_ok cmd \<longleftrightarrow> ListMem (ic_Type cmd) serialCommandTypes \<and> ic_JobID cmd = str_field (ic_Raw cmd) ''job_id''"

definition claims :: "incomingCommand list \<Rightarrow> incomingCommand option \<Rightarrow> string list" where
  "claims q running = filter (\<lambda>j. j \<noteq> '''') (map ic_JobID (case running of None \<Rightarrow> q | Some cmd \<Rightarrow> cmd # q))"

definition claim_inv :: "Worker \<Rightarrow> bool" where
  "claim_inv w \<longleftrightarrow> length (wk_queue w) \<le> queue_capacity \<and> list_all command_ok (wk_queue w)
     \<and> (case wk_running w of None \<Rightarrow> True | Some cmd \<Rightarrow> command_ok cmd)
     \<and> list_all (\<lambda>c. ListMem (fst c) serialCommandTypes) (wk_checked w)
     \<and> distinct (claims (wk_queue w) (wk_running w)) \<and> wk_active w = set (claims (wk_queue w) (wk_running w))
     \<and> (\<not> wk_started w \<longrightarrow> wk_queue w = [] \<and> wk_checked w = [])"

definition log_inv :: "time \<Rightarrow> agent_event list \<Rightarrow> completedJob list \<Rightarrow> incomingCommand option \<Rightarrow> bool" where
  "log_inv now log l running \<longleftrightarrow> store_inv now log l \<and> run_inv running log \<and> licensed may_start [] log"

definition once_inv :: "Worker \<Rightarrow> bool" where
  "once_inv w \<longleftrightarrow> claim_inv w \<and> log_inv (wk_now w) (wk_log w) (loadCompletedJobs (wk_agent w)) (wk_running w)"

subsection \<open>A sample run\<close>

definition sample_os :: os_env where
  "sample_os = \<lparr>os_powershell = (\<lambda>_. \<lparr>ro_timeout = False, ro_output = ''done'', ro_error = None, ro_durationMS = 5\<rparr>),
     os_exec = (\<lambda>_ _. \<lparr>ro_timeout = False, ro_output = '''', ro_error = None, ro_durationMS = 5\<rparr>),
     os_is_file = (\<lambda>_. False), os_download = (\<lambda>_ _. Inl ''offline''), os_exe_mtime = None,
     os_save_pending_fails = False, os_save_completed_fails = False, os_save_checkpoint_fails = False\<rparr>"

definition sample_env :: agent_env where
  "sample_env = \<lparr>ae_os = sample_os, ae_net = reliable_net ''Wi-Fi'' ''Ethernet'', ae_parse_time = (\<lambda>_. None)\<rparr>"

definition sample_message :: json_object where
  "sample_message = [''job_id'' \<mapsto> JStr ''j1'', ''payload'' \<mapsto> JStr ''hostname'']"

definition idle_worker :: Worker where
  "idle_worker = \<lparr>wk_agent = \<lparr>a_pending = None, a_completed = None, a_send = None, a_checkpoint = None,
       a_inventory = (\<lambda>_. None), a_snapshots = 0\<rparr>,
     wk_net = (\<lambda>_. ''Up''), wk_started = False, wk_queue = [], wk_active = {}, wk_running = None, wk_checked = [],
     wk_now = 0, wk_log = []\<rparr>"

definition sample_command :: incomingCommand where
  "sample_command = \<lparr>ic_Type = ''exec'', ic_JobID = ''j1'', ic_ExpireAt = None, ic_Raw = sample_message\<rparr>"

definition queued_worker :: Worker where
  "queued_worker = snd (submitCommand sample_env ''exec'' sample_message (startCommandWorker idle_worker))"

definition done_worker :: Worker where
  "done_worker = processCommand sample_env ''pc1'' sample_command (queued_worker\<lparr>wk_queue := []\<rparr>)"

definition recorded :: "time \<Rightarrow> string \<Rightarrow> AgentState \<Rightarrow> AgentState \<Rightarrow> bool" where
  "recorded now j s s' \<longleftrightarrow>
     (if j = '''' then loadCompletedJobs s' = loadCompletedJobs s
      else \<exists>r. loadCompletedJobs s' = completed_put now j r (loadCompletedJobs s))"

definition stored_result :: exec_result where
  "stored_result = \<lparr>er_Type = ''exec_result'', er_AgentID = ''pc1'', er_JobID = ''j1'', er_Attempt = JNum 0, er_Status = ''success'',
     er_Output = ''done'', er_ExitCode = Some 0, er_DurationMS = Some 5\<rparr>"

definition answered_worker :: Worker where
  "answered_worker = idle_worker\<lparr>wk_started := True, wk_agent := (wk_agent idle_worker)\<lparr>a_send := Some [],
     a_completed := Some [\<lparr>co_JobID = ''j1'', co_Result = stored_result, co_At = 0\<rparr>]\<rparr>\<rparr>"

subsection \<open>The store\<close>

lemma prune_sorted:
  "sorted (map co_At l) \<Longrightarrow> pruneCompletedJobs l now =
     (let kept = filter (\<lambda>e. now - co_At e < completedJobsTTL) l in drop (length kept - completedJobsMax) kept)"
  by (simp add: pruneCompletedJobs_def Let_def sort_key_id_if_sorted sorted_filter)

lemma sorted_map_drop: "sorted (map f l) \<Longrightarrow> sorted (map f (drop n l))"
  by (simp add: drop_map [symmetric] sorted_wrt_drop)

lemma prune_ordered: "ordered_store now l \<Longrightarrow> now \<le> now' \<Longrightarrow> ordered_store now' (pruneCompletedJobs l now')"
  by (auto simp: ordered_store_def prune_sorted Let_def list_all_iff sorted_map_drop sorted_filter dest!: in_set_dropD)
    (meson order_trans)

lemma placed_filter: "placed j t k l \<Longrightarrow> (\<And>e. co_JobID e = j \<Longrightarrow> co_At e = t \<Longrightarrow> P e) \<Longrightarrow> placed j t k (filter P l)"
  unfolding placed_def by (metis (no_types, lifting) filter.simps(2) filter_append length_filter_le order_trans)

lemma placed_drop: "placed j t k l \<Longrightarrow> k < m \<Longrightarrow> placed j t k (drop (length l - m) l)"
proof -
  assume "placed j t k l" "k < m"
  then obtain xs e ys where l: "l = xs @ e # ys" "co_JobID e = j" "co_At e = t" "length ys \<le> k"
    unfolding placed_def by blast
  then have "drop (length l - m) l = drop (length l - m) xs @ e # ys" using \<open>k < m\<close> by simp
  with l show ?thesis unfolding placed_def by blast
qed

lemma placed_snoc: "placed j t k l \<Longrightarrow> placed j t (Suc k) (l @ [x])"
proof -
  assume "placed j t k l"
  then obtain xs e ys where l: "l = xs @ e # ys" "co_JobID e = j" "co_At e = t" "length ys \<le> k"
    unfolding placed_def by blast
  then have "l @ [x] = xs @ e # (ys @ [x])" "length (ys @ [x]) \<le> Suc k" by simp_all
  with l(2,3) show ?thesis unfolding placed_def by blast
qed

lemma placed_prune:
  assumes "sorted (map co_At l)" "placed j t k l" "now - t < completedJobsTTL" "k < completedJobsMax"
  shows "placed j t k (pruneCompletedJobs l now)"
  unfolding prune_sorted [OF assms(1)] Let_def
  by (rule placed_drop [OF placed_filter [OF assms(2)] assms(4)]) (simp add: assms(3))

lemma put_base_sorted:
  assumes "ordered_store now l"
  shows "sorted (map co_At (filter P (pruneCompletedJobs l now) @ [\<lparr>co_JobID = j, co_Result = r, co_At = now\<rparr>]))"
  using prune_ordered [OF assms order_refl]
  by (auto simp: ordered_store_def sorted_append sorted_filter list_all_iff)

lemma put_ordered: "ordered_store now l \<Longrightarrow> ordered_store now (completed_put now j r l)"
proof -
  assume o: "ordered_store now l"
  have "ordered_store now (filter (\<lambda>e. co_JobID e \<noteq> j) (pruneCompletedJobs l now) @ [\<lparr>co_JobID = j, co_Result = r, co_At = now\<rparr>])"
    using put_base_sorted [OF o] prune_ordered [OF o order_refl] by (auto simp: ordered_store_def list_all_iff)
  then show ?thesis unfolding completed_put_def by (rule prune_ordered) simp
qed

lemma put_same: "ordered_store now l \<Longrightarrow> placed j now 0 (completed_put now j r l)"
  unfolding completed_put_def
  by (rule placed_prune [OF put_base_sorted])
     (auto simp: placed_def completedJobsTTL_def completedJobsMax_def time_units)

lemma put_other:
  assumes "ordered_store now l" "placed j t k l" "now - t < completedJobsTTL" "Suc k < completedJobsMax" "j \<noteq> i"
  shows "placed j t (Suc k) (completed_put now i r l)"
  unfolding completed_put_def
proof (rule placed_prune [OF put_base_sorted [OF assms(1)] placed_snoc assms(3,4)], rule placed_filter)
  show "placed j t k (pruneCompletedJobs l now)"
    using assms by (intro placed_prune) (auto simp: ordered_store_def)
qed (use assms(5) in simp)

lemma placed_found: "placed j t k l \<Longrightarrow> find (\<lambda>e. co_JobID e = j) l \<noteq> None"
  by (auto simp: placed_def find_None_iff)

subsection \<open>The log and the store together\<close>

lemma last_event_snoc [simp]: "last_event j (log @ [e]) = (if ev_job e = j then Some e else last_event j log)"
  by (simp add: last_event_def)

lemma newer_snoc [simp]:
  "newer j (log @ [e]) = (if ev_job e = j then 0 else newer j log + (if is_Recorded e then 1 else 0))"
  by (simp add: newer_def)

lemma last_event_job: "last_event j log = Some e \<Longrightarrow> ev_job e = j"
  by (auto simp: last_event_def dest: find_in)

lemma store_inv_later: "store_inv now log l \<Longrightarrow> now \<le> now' \<Longrightarrow> store_inv now' log l"
  unfolding store_inv_def ordered_store_def list_all_iff by (meson diff_right_mono le_less_trans order_trans)

lemma store_inv_prune: "store_inv now log l \<Longrightarrow> store_inv now log (pruneCompletedJobs l now)"
  unfolding store_inv_def using prune_ordered [of now l now] placed_prune by (simp add: ordered_store_def)

lemma store_inv_put: "store_inv now log l \<Longrightarrow> store_inv now (log @ [Recorded i now]) (completed_put now i r l)"
  unfolding store_inv_def using put_ordered put_same put_other by (auto dest: last_event_job)

lemma store_inv_event: "store_inv now log l \<Longrightarrow> \<not> is_Recorded e \<Longrightarrow> store_inv now (log @ [e]) l"
  unfolding store_inv_def by (cases e) (auto dest: last_event_job)

lemma lookup_refuses:
  assumes inv: "store_inv now log l" "run_inv None log"
    and none: "find (\<lambda>e. co_JobID e = j) (pruneCompletedJobs l now) = None"
  shows "may_start log (Started j now)"
proof (cases "last_event j log")
  case (Some e)
  show ?thesis
  proof (cases e)
    case (Recorded k t)
    with Some have r: "last_event j log = Some (Recorded j t)" using last_event_job by fastforce
    have "\<not> (now - t < completedJobsTTL \<and> newer j log < completedJobsMax)"
    proof
      assume a: "now - t < completedJobsTTL \<and> newer j log < completedJobsMax"
      then have "placed j t (newer j log) l" using inv(1) r by (simp add: store_inv_def)
      then have "placed j t (newer j log) (pruneCompletedJobs l now)"
        using a inv(1) by (intro placed_prune) (simp_all add: store_inv_def ordered_store_def)
      then show False using placed_found none by blast
    qed
    then show ?thesis using r by (auto simp: may_start_def)
  next
    case (Started k t)
    with Some have "last_event j log = Some (Started j t)" using last_event_job by fastforce
    with inv(2) show ?thesis by (simp add: run_inv_def)
  qed (use Some in \<open>simp add: may_start_def\<close>)
qed (simp add: may_start_def)

subsection \<open>What the operations do to the store\<close>

lemma wsSend_completed [simp]: "a_completed (wsSend m s) = a_completed s" "a_checkpoint (wsSend m s) = a_checkpoint s"
  by (simp_all add: wsSend_def split: option.splits)

lemma fold_wsSend_completed:
  "a_completed (fold (\<lambda>e. wsSend (g e)) l s) = a_completed s" "a_checkpoint (fold (\<lambda>e. wsSend (g e)) l s) = a_checkpoint s"
  by (induction l arbitrary: s) simp_all

lemma replay_completed: "a_completed (replayPendingResults s) = a_completed s" "a_checkpoint (replayPendingResults s) = a_checkpoint s"
  unfolding replayPendingResults_def by (rule fold_wsSend_completed)+

lemma sendDurable_load:
  "\<not> os_save_completed_fails os \<Longrightarrow> loadCompletedJobs (sendDurableResult os now j msg s) =
     (if j = '''' then loadCompletedJobs s else completed_put now j msg (loadCompletedJobs s))"
  by (simp add: sendDurableResult_def recordCompletedResult_def saveCompletedJobs_def loadCompletedJobs_def
      persistPendingResult_def savePendingResults_def)

lemma sendDurable_checkpoint [simp]: "a_checkpoint (sendDurableResult os now j msg s) = a_checkpoint s"
  by (simp add: sendDurableResult_def recordCompletedResult_def saveCompletedJobs_def
      persistPendingResult_def savePendingResults_def)

text \<open>A handler that reports leaves exactly one new result in the completed store, under its job.\<close>

lemma sendDurable_recorded: "\<not> os_save_completed_fails os \<Longrightarrow> recorded now j s (sendDurableResult os now j msg s)"
  by (auto simp: recorded_def sendDurable_load)

lemma sendExec_recorded: "\<not> os_save_completed_fails os \<Longrightarrow> recorded now j s (sendExecResult os now a j att r s)"
  by (simp add: sendExecResult_def sendDurable_recorded)

lemma recorded_frame:
  "loadCompletedJobs s1 = loadCompletedJobs s \<Longrightarrow> loadCompletedJobs s3 = loadCompletedJobs s2 \<Longrightarrow>
   recorded now j s1 s2 \<Longrightarrow> recorded now j s s3"
  unfolding recorded_def by (cases "j = ''''") simp_all

lemma snapshot_load [simp]: "loadCompletedJobs (triggerImmediateSnapshot s) = loadCompletedJobs s"
  by (simp add: triggerImmediateSnapshot_def loadCompletedJobs_def)

lemma checkpoint_load [simp]:
  "loadCompletedJobs (writeSelfUpdateCheckpoint os now a j f att s) = loadCompletedJobs s"
  "loadCompletedJobs (clearSelfUpdateCheckpoint s) = loadCompletedJobs s"
  by (simp_all add: writeSelfUpdateCheckpoint_def clearSelfUpdateCheckpoint_def loadCompletedJobs_def split: option.splits)

lemma wsSend_load [simp]: "loadCompletedJobs (wsSend m s) = loadCompletedJobs s"
  by (simp add: loadCompletedJobs_def)

lemma ssh_load [simp]: "loadCompletedJobs (snd (snd (run_ssh_steps os j steps out s))) = loadCompletedJobs s"
  by (induction os j steps out s rule: run_ssh_steps.induct) (simp_all add: Let_def split: option.splits)

lemma handler_recorded:
  assumes "saves_ok env" "command_ok cmd" "reports cmd"
  shows "recorded now (ic_JobID cmd) s (fst (runCommandHandler env now agentID cmd (s, n)))"
proof -
  have os: "\<not> os_save_completed_fails (ae_os env)" using assms(1) by (simp add: saves_ok_def)
  have j: "ic_JobID cmd = str_field (ic_Raw cmd) ''job_id''" using assms(2) by (simp add: command_ok_def)
  let ?os = "ae_os env" and ?m = "ic_Raw cmd" and ?j = "ic_JobID cmd"
  have "recorded now ?j s (executeCommand ?os now agentID ?m s)"
    unfolding executeCommand_def Let_def j [symmetric]
    by (auto intro: sendExec_recorded [OF os] recorded_frame [OF refl _ sendExec_recorded [OF os]])
  moreover have "recorded now ?j s (executeMsiexecUninstall ?os now agentID ?m s)"
    unfolding executeMsiexecUninstall_def Let_def j [symmetric]
    by (auto intro: sendExec_recorded [OF os] recorded_frame [OF refl _ sendExec_recorded [OF os]] split: option.splits)
  moreover have "recorded now ?j s (executeQuietUninstall ?os now agentID ?m s)"
    unfolding executeQuietUninstall_def Let_def j [symmetric]
    by (auto intro: sendExec_recorded [OF os] recorded_frame [OF refl _ sendExec_recorded [OF os]] split: sum.splits)
  moreover have "recorded now ?j s (deployFile ?os now agentID ?m s)"
    unfolding deployFile_def Let_def j [symmetric]
    by (auto intro: sendExec_recorded [OF os] recorded_frame [OF _ refl sendExec_recorded [OF os]] split: sum.splits)
  moreover have "recorded now ?j s (handleDeepFreeze ?os now agentID ?m s)"
    unfolding handleDeepFreeze_def Let_def j [symmetric] send_deepfreeze_def
    by (simp add: sendDurable_recorded [OF os] case_prod_beta)
  moreover have "recorded now ?j s (handleInstallSSH ?os now agentID ?m s)"
    unfolding handleInstallSSH_def Let_def j [symmetric] case_prod_beta
    by (rule recorded_frame [OF _ refl sendDurable_recorded [OF os]]) simp
  ultimately show ?thesis
    using assms(2,3) unfolding runCommandHandler_def Let_def prod.case command_ok_def reports_def
    by (auto simp: serialCommandTypes_def ListMem_iff)
qed

lemma network_load:
  "command_ok cmd \<Longrightarrow> \<not> reports cmd \<Longrightarrow>
   loadCompletedJobs (fst (runCommandHandler env now agentID cmd (s, n))) = loadCompletedJobs s"
  by (simp add: runCommandHandler_def reports_def sendNetworkModeResult_def case_prod_beta Let_def)

lemma lookup_effect:
  assumes "\<not> os_save_completed_fails os" "j \<noteq> ''''" "completedJobResult os now j s = (res, s')"
  shows "loadCompletedJobs s' \<in> {loadCompletedJobs s, pruneCompletedJobs (loadCompletedJobs s) now}"
    "res = map_option co_Result (find (\<lambda>e. co_JobID e = j) (pruneCompletedJobs (loadCompletedJobs s) now))"
  using assms by (auto simp: completedJobResult_def Let_def saveCompletedJobs_def loadCompletedJobs_def split: if_splits option.splits)

lemma lookup_store_inv:
  assumes "store_inv now log (loadCompletedJobs s)" "\<not> os_save_completed_fails os" "j \<noteq> ''''" "completedJobResult os now j s = (res, s')"
  shows "store_inv now log (loadCompletedJobs s')"
  using lookup_effect(1) [OF assms(2-4)] assms(1) store_inv_prune by auto

subsection \<open>Claims\<close>

lemma claims_simps [simp]:
  "claims [] None = []"
  "claims (c # q) None = (if ic_JobID c = '''' then claims q None else ic_JobID c # claims q None)"
  "claims q (Some c) = (if ic_JobID c = '''' then claims q None else ic_JobID c # claims q None)"
  by (simp_all add: claims_def)

lemma claims_snoc: "claims (q @ [c]) r = claims q r @ (if ic_JobID c = '''' then [] else [ic_JobID c])"
  by (cases r) (simp_all add: claims_def)

lemma claim_inv_check:
  "claim_inv w \<Longrightarrow> ListMem ty serialCommandTypes \<Longrightarrow> submit_check env msg w = (True, w') \<Longrightarrow>
   claim_inv (w'\<lparr>wk_checked := wk_checked w' @ [(ty, msg)]\<rparr>)"
  "claim_inv w \<Longrightarrow> submit_check env msg w = (False, w') \<Longrightarrow> claim_inv w'"
  by (auto simp: claim_inv_def submit_check_def Let_def split: if_splits prod.splits option.splits)

lemma claim_inv_claim:
  assumes "claim_inv w" "wk_checked w = xs @ (ty, msg) # ys"
  shows "claim_inv (submit_claim env ty msg (w\<lparr>wk_checked := xs @ ys\<rparr>))"
proof -
  have "list_all (\<lambda>c. ListMem (fst c) serialCommandTypes) (xs @ ys)" "ListMem ty serialCommandTypes" "wk_started w"
    using assms by (auto simp: claim_inv_def)
  with assms show ?thesis
    by (auto simp: claim_inv_def submit_claim_def Let_def trackCommandDone_def command_ok_def claims_snoc)
qed

lemma claim_inv_begin:
  assumes "claim_inv w" "wk_running w = None" "wk_queue w = cmd # q"
  shows "claim_inv (process_begin env agentID cmd (w\<lparr>wk_queue := q\<rparr>))"
proof -
  have "\<not> wk_started w \<Longrightarrow> False" using assms by (auto simp: claim_inv_def)
  with assms show ?thesis
    by (auto simp: claim_inv_def process_begin_def Let_def trackCommandDone_def note_event_def split: option.splits prod.splits if_splits)
qed

lemma claim_inv_end:
  "claim_inv w \<Longrightarrow> wk_running w = Some cmd \<Longrightarrow> claim_inv (process_end env agentID cmd w)"
  by (auto simp: claim_inv_def process_end_def Let_def trackCommandDone_def note_event_def case_prod_beta split: if_splits)

lemma claim_inv_restart: "claim_inv (restart_agent os w)"
  by (simp add: claim_inv_def restart_agent_def Let_def note_event_def split: option.splits)

lemma claim_inv_agent [simp]: "claim_inv (w\<lparr>wk_agent := s\<rparr>) = claim_inv w" "claim_inv (w\<lparr>wk_now := t\<rparr>) = claim_inv w"
  by (simp_all add: claim_inv_def)

lemma claim_inv_start: "claim_inv w \<Longrightarrow> claim_inv (startCommandWorker w)"
  by (auto simp: claim_inv_def startCommandWorker_def)

lemma claim_inv_step: "claim_inv w \<Longrightarrow> agent_step w w' \<Longrightarrow> claim_inv w'"
  by (erule agent_step.cases)
     (auto simp: begin_session_def end_session_def claim_inv_restart
       intro: claim_inv_check claim_inv_claim claim_inv_begin claim_inv_end claim_inv_start)

interpretation agent_claims: safe_system agent_start agent_step claim_inv
proof
  show "claim_inv w" if "agent_start w" for w using that by (simp add: agent_start_def claim_inv_def)
qed (rule claim_inv_step)

subsection \<open>At most once\<close>

lemma log_inv_recorded:
  assumes "log_inv now log l running" "recorded now j s s'" "l = loadCompletedJobs s"
    and "\<And>cmd. running = Some cmd \<Longrightarrow> reports cmd \<Longrightarrow> ic_JobID cmd = j"
  shows "log_inv now (noted j (Recorded j now) log) (loadCompletedJobs s') None"
proof (cases "j = ''''")
  case True
  then have "loadCompletedJobs s' = l" "run_inv None log"
    using assms by (auto simp: recorded_def log_inv_def run_inv_def)
  with assms(1) True show ?thesis by (simp add: log_inv_def noted_def)
next
  case False
  then obtain r where "loadCompletedJobs s' = completed_put now j r l" using assms(2,3) by (auto simp: recorded_def)
  with assms(1,4) False show ?thesis
    by (auto simp: log_inv_def store_inv_put licensed_append may_start_def run_inv_def noted_def)
qed

lemma log_inv_started:
  assumes "log_inv now log l None" "j \<noteq> '''' \<Longrightarrow> find (\<lambda>e. co_JobID e = j) (pruneCompletedJobs l now) = None"
    and "reports cmd" "ic_JobID cmd = j"
  shows "log_inv now (noted j (Started j now) log) l (Some cmd)"
  using assms lookup_refuses [of now log l j]
  by (auto simp: log_inv_def licensed_append store_inv_event run_inv_def noted_def dest: last_event_job)

lemma log_inv_running: "log_inv now log l None \<Longrightarrow> log_inv now log l running"
  by (auto simp: log_inv_def run_inv_def)

lemma log_inv_lookup:
  assumes "log_inv now log (loadCompletedJobs s) running" "\<not> os_save_completed_fails os" "completedJobResult os now j s = (res, s')"
  shows "log_inv now log (loadCompletedJobs s') running"
proof (cases "j = ''''")
  case True
  with assms show ?thesis by (simp add: completedJobResult_def)
next
  case False
  with assms lookup_store_inv show ?thesis by (auto simp: log_inv_def)
qed

lemma track_frame [simp]:
  "wk_agent (trackCommandDone j w) = wk_agent w" "wk_log (trackCommandDone j w) = wk_log w"
  "wk_now (trackCommandDone j w) = wk_now w" "wk_running (trackCommandDone j w) = wk_running w"
  "wk_net (trackCommandDone j w) = wk_net w"
  by (simp_all add: trackCommandDone_def)

lemma log_inv_begin:
  assumes "log_inv (wk_now w) (wk_log w) (loadCompletedJobs (wk_agent w)) None" "saves_ok env" "wk_running w = None" "command_ok cmd"
  shows "log_inv (wk_now (process_begin env agentID cmd w)) (wk_log (process_begin env agentID cmd w))
    (loadCompletedJobs (wk_agent (process_begin env agentID cmd w))) (wk_running (process_begin env agentID cmd w))"
proof -
  let ?j = "ic_JobID cmd" and ?now = "wk_now w" and ?os = "ae_os env"
  have os: "\<not> os_save_completed_fails ?os" using assms(2) by (simp add: saves_ok_def)
  obtain res s where look: "completedJobResult ?os ?now ?j (wk_agent w) = (res, s)" by (cases "completedJobResult ?os ?now ?j (wk_agent w)")
  then have pair: "(if ?j = '''' then (None, wk_agent w) else completedJobResult ?os ?now ?j (wk_agent w)) = (res, s)"
    by (auto simp: completedJobResult_def)
  have inv: "log_inv ?now (wk_log w) (loadCompletedJobs s) None" by (rule log_inv_lookup [OF assms(1) os look])
  show ?thesis
  proof (cases res)
    case (Some data)
    then show ?thesis using inv pair assms(3)
      by (simp add: process_begin_def Let_def)
  next
    case None
    have rec: "recorded ?now ?j s (sendExpiredResult ?os ?now agentID cmd s)"
      unfolding sendExpiredResult_def by (rule sendDurable_recorded [OF os])
    have none: "?j \<noteq> '''' \<Longrightarrow> find (\<lambda>e. co_JobID e = ?j) (pruneCompletedJobs (loadCompletedJobs s) ?now) = None"
      using lookup_effect [OF os _ look] None by auto
    show ?thesis
      using pair None assms(3) log_inv_recorded [OF inv rec refl] log_inv_started [OF inv none] log_inv_running [OF inv]
      by (simp add: process_begin_def Let_def note_event_def)
  qed
qed

lemma log_inv_end:
  assumes "log_inv (wk_now w) (wk_log w) (loadCompletedJobs (wk_agent w)) (wk_running w)" "saves_ok env"
    "wk_running w = Some cmd" "command_ok cmd"
  shows "log_inv (wk_now (process_end env agentID cmd w)) (wk_log (process_end env agentID cmd w))
    (loadCompletedJobs (wk_agent (process_end env agentID cmd w))) (wk_running (process_end env agentID cmd w))"
proof (cases "reports cmd")
  case True
  from log_inv_recorded [OF assms(1) handler_recorded [OF assms(2,4) True] refl] assms(3) True
  show ?thesis by (simp add: process_end_def Let_def note_event_def case_prod_beta)
next
  case False
  have "run_inv None (wk_log w)" using assms(1,3) False by (auto simp: log_inv_def run_inv_def)
  with assms(1) False network_load [OF assms(4) False] show ?thesis
    by (simp add: process_end_def Let_def case_prod_beta log_inv_def)
qed

lemma log_inv_cut:
  assumes "log_inv now log l running"
  shows "let cut = (case running of None \<Rightarrow> '''' | Some cmd \<Rightarrow> if reports cmd then ic_JobID cmd else '''') in
    log_inv now (noted cut (Interrupted cut) log) l None"
  using assms
  by (cases running) (auto simp: log_inv_def store_inv_event licensed_append may_start_def run_inv_def noted_def Let_def)

lemma check_load:
  "\<not> os_save_completed_fails os \<Longrightarrow>
   (case a_checkpoint s of None \<Rightarrow> loadCompletedJobs (checkSelfUpdateCheckpoint os now s) = loadCompletedJobs s
    | Some cp \<Rightarrow> recorded now (cp_JobID cp) s (checkSelfUpdateCheckpoint os now s))"
  by (auto simp: checkSelfUpdateCheckpoint_def Let_def intro: recorded_frame [OF refl _ sendExec_recorded] split: option.splits)

lemma log_inv_restart:
  assumes "log_inv (wk_now w) (wk_log w) (loadCompletedJobs (wk_agent w)) (wk_running w)" "\<not> os_save_completed_fails os"
  shows "log_inv (wk_now (restart_agent os w)) (wk_log (restart_agent os w))
    (loadCompletedJobs (wk_agent (restart_agent os w))) (wk_running (restart_agent os w))"
proof -
  let ?cut = "case wk_running w of None \<Rightarrow> '''' | Some cmd \<Rightarrow> if reports cmd then ic_JobID cmd else ''''"
  let ?log = "noted ?cut (Interrupted ?cut) (wk_log w)"
  let ?s = "(wk_agent w)\<lparr>a_send := None\<rparr>"
  have l: "loadCompletedJobs ?s = loadCompletedJobs (wk_agent w)" by (simp add: loadCompletedJobs_def)
  have cut: "log_inv (wk_now w) ?log (loadCompletedJobs ?s) None"
    using log_inv_cut [OF assms(1)] unfolding Let_def l .
  show ?thesis
  proof (cases "a_checkpoint (wk_agent w)")
    case None
    then have "loadCompletedJobs (checkSelfUpdateCheckpoint os (wk_now w) ?s) = loadCompletedJobs ?s"
      by (simp add: checkSelfUpdateCheckpoint_def)
    with None cut show ?thesis by (simp add: restart_agent_def Let_def note_event_def)
  next
    case (Some cp)
    then have "recorded (wk_now w) (cp_JobID cp) ?s (checkSelfUpdateCheckpoint os (wk_now w) ?s)"
      using check_load [OF assms(2), where s = ?s and now = "wk_now w"] by simp
    from log_inv_recorded [OF cut this refl] Some show ?thesis
      by (simp add: restart_agent_def Let_def note_event_def)
  qed
qed

lemma log_inv_tick: "log_inv now log l running \<Longrightarrow> now \<le> now' \<Longrightarrow> log_inv now' log l running"
  using store_inv_later by (auto simp: log_inv_def)

lemma submit_check_frame:
  assumes "submit_check env msg w = (go, w')" "saves_ok env"
    and "log_inv (wk_now w) (wk_log w) (loadCompletedJobs (wk_agent w)) (wk_running w)"
  shows "log_inv (wk_now w') (wk_log w') (loadCompletedJobs (wk_agent w')) (wk_running w')"
  using assms log_inv_lookup [OF assms(3)]
  by (auto simp: submit_check_def Let_def saves_ok_def split: if_splits prod.splits option.splits)

lemma submit_claim_frame [simp]:
  "wk_agent (submit_claim env ty msg w) = wk_agent w" "wk_log (submit_claim env ty msg w) = wk_log w"
  "wk_now (submit_claim env ty msg w) = wk_now w" "wk_running (submit_claim env ty msg w) = wk_running w"
  by (simp_all add: submit_claim_def Let_def)

lemma once_inv_step:
  assumes "once_inv w" "agent_step w w'"
  shows "once_inv w'"
proof -
  have c: "claim_inv w'" using assms claim_inv_step by (auto simp: once_inv_def)
  have li: "log_inv (wk_now w) (wk_log w) (loadCompletedJobs (wk_agent w)) (wk_running w)" and cw: "claim_inv w"
    using assms(1) by (simp_all add: once_inv_def)
  from assms(2) have "log_inv (wk_now w') (wk_log w') (loadCompletedJobs (wk_agent w')) (wk_running w')"
  proof cases
    case step_start
    with li show ?thesis by (simp add: startCommandWorker_def)
  next
    case (step_check env ty msg go v)
    from submit_check_frame [OF step_check(4,2) li] step_check(1) show ?thesis by simp
  next
    case (step_claim xs ty msg ys env)
    with li show ?thesis by simp
  next
    case (step_begin env cmd q agentID)
    have "command_ok cmd" using cw step_begin(4) by (simp add: claim_inv_def)
    with log_inv_begin [of "w\<lparr>wk_queue := q\<rparr>" env cmd agentID] step_begin li show ?thesis by simp
  next
    case (step_checkpoint cmd os agentID)
    with li show ?thesis by simp
  next
    case (step_end env cmd agentID)
    have "command_ok cmd" using cw step_end(3) by (simp add: claim_inv_def)
    with log_inv_end [OF li step_end(2,3)] step_end(1) show ?thesis by simp
  next
    case (step_ack os jobID)
    with li show ?thesis
      by (simp add: clearPendingResult_def savePendingResults_def loadCompletedJobs_def Let_def)
  next
    case step_session
    with li show ?thesis by (simp add: begin_session_def loadCompletedJobs_def replay_completed)
  next
    case step_close
    with li show ?thesis by (simp add: end_session_def loadCompletedJobs_def)
  next
    case (step_write m ms)
    with li show ?thesis by (simp add: loadCompletedJobs_def)
  next
    case (step_restart os)
    with log_inv_restart [OF li] show ?thesis by simp
  next
    case (step_tick now)
    with log_inv_tick [OF li] show ?thesis by simp
  qed
  with c show ?thesis by (simp add: once_inv_def)
qed

interpretation agent_once: safe_system agent_start agent_step once_inv
proof
  show "once_inv w" if "agent_start w" for w
    using that agent_claims.inv_init [OF that]
    by (auto simp: agent_start_def once_inv_def log_inv_def store_inv_def run_inv_def last_event_def ordered_store_def)
qed (rule once_inv_step)

text \<open>
  C18.  At most once: in every interleaving of readers, worker, reconnects, acknowledgements, restarts and
  clock ticks, a handler is started for a job only if the job was never handled before, or a restart cut
  its last run off, or its last result is at least 24 hours old, or 256 results of other jobs have been
  recorded since (the retention of the completed store).  In particular a second start never overlaps the
  first, and a duplicate delivery inside the retention never runs a command again.
\<close>

theorem command_at_most_once:
  assumes "reachable agent_start agent_step w" "wk_log w = pre @ Started j now # post"
  shows "case last_event j pre of None \<Rightarrow> True | Some (Interrupted _) \<Rightarrow> True | Some (Started _ _) \<Rightarrow> False
    | Some (Recorded _ t) \<Rightarrow> now - t \<ge> 24 * hour \<or> newer j pre \<ge> 256"
proof -
  have "licensed may_start [] (wk_log w)"
    using agent_once.reachable_inv [OF assms(1)] by (simp add: once_inv_def log_inv_def)
  then have "may_start pre (Started j now)" using assms(2) by (auto simp: licensed_split)
  then show ?thesis
    by (auto simp: may_start_def completedJobsTTL_def completedJobsMax_def split: option.splits agent_event.splits)
qed

text \<open>
  The claims are exact in every reachable state: the queue holds at most 16 commands, no job is
  queued or running twice, and the set of active jobs is exactly the jobs queued or running.
\<close>

theorem worker_claims_exact:
  assumes "reachable agent_start agent_step w"
  shows "length (wk_queue w) \<le> 16 \<and> distinct (claims (wk_queue w) (wk_running w))
    \<and> wk_active w = set (claims (wk_queue w) (wk_running w))"
  using agent_claims.reachable_inv [OF assms] by (simp add: claim_inv_def queue_capacity_def)

subsection \<open>One command\<close>

lemma completed_get_lookup:
  "j \<noteq> '''' \<Longrightarrow> fst (completedJobResult os now j s) = completed_get now (loadCompletedJobs s) j"
  by (simp add: completedJobResult_def completed_get_def Let_def)

lemma lookup_frame:
  "a_pending (snd (completedJobResult os now j s)) = a_pending s" "a_send (snd (completedJobResult os now j s)) = a_send s"
  by (simp_all add: completedJobResult_def Let_def saveCompletedJobs_def)

text \<open>
  C19.  What the worker does with one command.  A stored result is sent again and nothing else happens; an
  expired command is not started, and its job is answered \<^verbatim>\<open>expired\<close>; any other command is started once
  and its result is in the completed store when it ends.
\<close>

theorem processCommand_outcome:
  assumes "command_ok cmd" "reports cmd" "saves_ok env" "wk_running w = None" "ic_JobID cmd \<noteq> ''''"
    and "completed_inv (wk_now w) (loadCompletedJobs (wk_agent w))"
  shows "let j = ic_JobID cmd; now = wk_now w; w' = processCommand env agentID cmd w;
      stored = (\<lambda>w. completed_get now (loadCompletedJobs (wk_agent w)) j) in
    wk_running w' = None \<and> j \<notin> wk_active w' \<and>
    (case stored w of
       Some data \<Rightarrow> wk_log w' = wk_log w \<and> a_send (wk_agent w') = a_send (wsSend (MsgResult data) (wk_agent w))
         \<and> a_pending (wk_agent w') = a_pending (wk_agent w)
     | None \<Rightarrow>
         if expired_command now cmd
         then wk_log w' = wk_log w @ [Recorded j now] \<and> map_option er_Status (stored w') = Some ''expired''
         else wk_log w' = wk_log w @ [Started j now, Recorded j now] \<and> stored w' \<noteq> None)"
proof -
  let ?j = "ic_JobID cmd" and ?now = "wk_now w" and ?os = "ae_os env"
  have os: "\<not> os_save_completed_fails ?os" using assms(3) by (simp add: saves_ok_def)
  obtain res s where look: "completedJobResult ?os ?now ?j (wk_agent w) = (res, s)"
    by (cases "completedJobResult ?os ?now ?j (wk_agent w)")
  have res: "res = completed_get ?now (loadCompletedJobs (wk_agent w)) ?j"
    using completed_get_lookup [OF assms(5), of ?os ?now "wk_agent w"] look by simp
  have frame: "a_pending s = a_pending (wk_agent w)" "a_send s = a_send (wk_agent w)"
    using lookup_frame [of ?os ?now ?j "wk_agent w"] look by simp_all
  have "completed_inv ?now (pruneCompletedJobs (loadCompletedJobs (wk_agent w)) ?now)"
    using assms(6) prune_distinct prune_subset unfolding completed_inv_def list_all_iff by blast
  then have inv: "completed_inv ?now (loadCompletedJobs s)"
    using lookup_effect(1) [OF os assms(5) look] assms(6) by auto
  have stored: "recorded ?now ?j s s' \<Longrightarrow> completed_get ?now (loadCompletedJobs s') ?j \<noteq> None" for s'
    using completed.get_put [OF inv] assms(5) by (auto simp: recorded_def)
  note handled = stored [OF handler_recorded [OF assms(3,1,2), of ?now s agentID "wk_net w"]]
  show ?thesis
  proof (cases res)
    case (Some data)
    then have g: "completed_get ?now (loadCompletedJobs (wk_agent w)) ?j = Some data"
      and l: "completedJobResult ?os ?now ?j (wk_agent w) = (Some data, s)" using res look by simp_all
    from g l frame assms(4,5) show ?thesis
      by (simp add: processCommand_def process_begin_def Let_def wsSend_def trackCommandDone_def split: option.splits)
  next
    case None
    have e: "map_option er_Status (completed_get ?now (loadCompletedJobs (sendExpiredResult ?os ?now agentID cmd s)) ?j) = Some ''expired''"
      using completed.get_put [OF inv] assms(5) unfolding sendExpiredResult_def sendDurable_load [OF os] by simp
    have g: "completed_get ?now (loadCompletedJobs (wk_agent w)) ?j = None"
      and l: "completedJobResult ?os ?now ?j (wk_agent w) = (None, s)" using res look None by simp_all
    from g l assms(2,4,5) e handled show ?thesis
      by (simp add: processCommand_def process_begin_def process_end_def Let_def note_event_def noted_def
          trackCommandDone_def case_prod_beta)
  qed
qed

text \<open>
  A repeated delivery is answered from the store: while the result of a job is retained, submitting
  the job again queues nothing, claims nothing and starts nothing, and sends the stored result.
\<close>

theorem duplicate_answered_from_store:
  assumes "completed_get (wk_now w) (loadCompletedJobs (wk_agent w)) (str_field msg ''job_id'') = Some data"
    and "str_field msg ''job_id'' \<noteq> ''''" "wk_started w" "ListMem ty serialCommandTypes"
  shows "let (serial, w') = submitCommand env ty msg w in
    serial \<and> wk_queue w' = wk_queue w \<and> wk_active w' = wk_active w \<and> wk_log w' = wk_log w
    \<and> a_send (wk_agent w') = a_send (wsSend (MsgResult data) (wk_agent w))"
proof -
  obtain s where look: "completedJobResult (ae_os env) (wk_now w) (str_field msg ''job_id'') (wk_agent w) = (Some data, s)"
    using completed_get_lookup [OF assms(2), of "ae_os env" "wk_now w" "wk_agent w"] assms(1) by (metis prod.collapse)
  have "a_send s = a_send (wk_agent w)" using lookup_frame(2) look by (metis snd_conv)
  with look assms(2-4) show ?thesis
    by (simp add: submitCommand_def submit_check_def Let_def wsSend_def split: option.splits)
qed

subsection \<open>The sample run\<close>

lemma queued_worker_simps:
  "queued_worker = idle_worker\<lparr>wk_started := True, wk_queue := [sample_command], wk_active := {''j1''}\<rparr>"
  by (simp add: queued_worker_def submitCommand_def submit_check_def submit_claim_def startCommandWorker_def idle_worker_def
      sample_message_def sample_command_def serialCommandTypes_def ListMem_iff str_field_def completedJobResult_def
      loadCompletedJobs_def pruneCompletedJobs_def queue_capacity_def parseExpireAt_def Let_def)

lemma sample_ok: "saves_ok sample_env" "command_ok sample_command" "reports sample_command"
  by (simp_all add: saves_ok_def sample_env_def sample_os_def command_ok_def sample_command_def serialCommandTypes_def
      ListMem_iff sample_message_def str_field_def reports_def)

lemma sample_worker_reachable: "reachable agent_start agent_step (process_begin sample_env ''pc1'' sample_command (queued_worker\<lparr>wk_queue := []\<rparr>))"
proof -
  let ?s = "startCommandWorker idle_worker"
  have "agent_start idle_worker" by (simp add: agent_start_def idle_worker_def loadCompletedJobs_def)
  then have 1: "reachable agent_start agent_step ?s" by (blast intro: reachable.intros step_start)
  have mem: "ListMem ''exec'' serialCommandTypes" by (simp add: serialCommandTypes_def ListMem_iff)
  have "submit_check sample_env sample_message ?s = (True, ?s)"
    by (simp add: submit_check_def startCommandWorker_def idle_worker_def sample_message_def str_field_def completedJobResult_def
        loadCompletedJobs_def pruneCompletedJobs_def Let_def)
  from step_check [OF sample_ok(1) mem this]
  have 2: "agent_step ?s (?s\<lparr>wk_checked := [(''exec'', sample_message)]\<rparr>)"
    by (simp add: startCommandWorker_def idle_worker_def)
  have "agent_step (?s\<lparr>wk_checked := [(''exec'', sample_message)]\<rparr>) (submit_claim sample_env ''exec'' sample_message ?s)"
    using step_claim [of "?s\<lparr>wk_checked := [(''exec'', sample_message)]\<rparr>" "[]" "''exec''" sample_message "[]" sample_env]
    by (simp add: startCommandWorker_def idle_worker_def)
  moreover have "submit_claim sample_env ''exec'' sample_message ?s = queued_worker"
    using \<open>submit_check sample_env sample_message ?s = (True, ?s)\<close> mem by (simp add: queued_worker_def submitCommand_def)
  ultimately have 3: "agent_step (?s\<lparr>wk_checked := [(''exec'', sample_message)]\<rparr>) queued_worker" by simp
  have "agent_step queued_worker (process_begin sample_env ''pc1'' sample_command (queued_worker\<lparr>wk_queue := []\<rparr>))"
    by (rule step_begin [OF sample_ok(1)]) (simp_all add: queued_worker_simps idle_worker_def)
  then show ?thesis using 1 2 3 by (blast intro: reachable.intros)
qed

lemma sample_running_log:
  "wk_log (process_begin sample_env ''pc1'' sample_command (queued_worker\<lparr>wk_queue := []\<rparr>)) = [] @ Started ''j1'' 0 # []"
  by (simp add: process_begin_def queued_worker_simps idle_worker_def sample_command_def completedJobResult_def loadCompletedJobs_def
      pruneCompletedJobs_def expired_command_def reports_def note_event_def noted_def Let_def)

theorem command_at_most_once_witness: "last_event ''j1'' [] \<noteq> Some (Started ''j1'' 0)"
  using command_at_most_once [OF sample_worker_reachable sample_running_log] by (auto split: option.splits)

theorem worker_claims_exact_witness:
  "distinct (claims (wk_queue (process_begin sample_env ''pc1'' sample_command (queued_worker\<lparr>wk_queue := []\<rparr>)))
    (wk_running (process_begin sample_env ''pc1'' sample_command (queued_worker\<lparr>wk_queue := []\<rparr>))))"
  using worker_claims_exact [OF sample_worker_reachable] by blast

lemma sample_inputs [simp]:
  "wk_running queued_worker = None" "ic_JobID sample_command = ''j1''" "wk_now queued_worker = 0" "wk_log queued_worker = []"
  "completed_inv 0 (loadCompletedJobs (wk_agent queued_worker))" "\<not> expired_command t sample_command"
  "completed_get 0 (loadCompletedJobs (wk_agent queued_worker)) ''j1'' = None"
  by (simp_all add: queued_worker_simps idle_worker_def sample_command_def completed_inv_def loadCompletedJobs_def completed_get_def
      pruneCompletedJobs_def expired_command_def)

theorem processCommand_outcome_witness: "wk_log done_worker = [Started ''j1'' 0, Recorded ''j1'' 0]"
  using processCommand_outcome [OF sample_ok(2,3,1), of "queued_worker\<lparr>wk_queue := []\<rparr>" "''pc1''"]
  by (simp add: done_worker_def Let_def)

theorem duplicate_answered_from_store_witness:
  "a_send (wk_agent (snd (submitCommand sample_env ''exec'' sample_message answered_worker))) = Some [MsgResult stored_result]"
proof -
  have "completed_get (wk_now answered_worker) (loadCompletedJobs (wk_agent answered_worker)) (str_field sample_message ''job_id'') = Some stored_result"
    "str_field sample_message ''job_id'' \<noteq> ''''" "wk_started answered_worker" "ListMem ''exec'' serialCommandTypes"
    by (simp_all add: answered_worker_def idle_worker_def completed_get_def loadCompletedJobs_def pruneCompletedJobs_def sample_message_def
        str_field_def completedJobsTTL_def completedJobsMax_def time_units serialCommandTypes_def ListMem_iff)
  from duplicate_answered_from_store [OF this, of sample_env] show ?thesis
    by (simp add: case_prod_beta answered_worker_def idle_worker_def wsSend_def agent_send_capacity_def)
qed

end
