(* ===== verification/Agent_Kill.thy ===== *)
theory Agent_Kill
  imports Agent_Results Agent_Policy Transition_System
begin

text \<open>
  Killing processes on the agent: \<^verbatim>\<open>agent/killverify.go\<close> (the verified kill of one pid),
  \<^verbatim>\<open>agent/killidentity.go\<close> (pid first, then a sweep by name and company), \<^verbatim>\<open>handleKillProcess\<close> of
  \<^verbatim>\<open>agent/main.go\<close>, and the local enforcement and rate limit of \<^verbatim>\<open>agent/procwatch.go\<close>.

  The process table of Windows is not ours: every call on it is a function of a state \<open>'o\<close> that may also
  change that state, so that processes may come and go between any two calls.  The kill routines hold for
  every such system; \<open>logged\<close> wraps one so that its calls and answers are recorded.
\<close>

subsection \<open>The process table\<close>

record 'o proc_env =
  ps_processes :: "'o \<Rightarrow> (string + int list) \<times> 'o"
  ps_open :: "int \<Rightarrow> 'o \<Rightarrow> bool \<times> 'o"
  ps_name :: "int \<Rightarrow> 'o \<Rightarrow> string option \<times> 'o"
  ps_exe :: "int \<Rightarrow> 'o \<Rightarrow> string option \<times> 'o"
  ps_company :: "string \<Rightarrow> 'o \<Rightarrow> string \<times> 'o"
  ps_taskkill :: "int \<Rightarrow> 'o \<Rightarrow> string \<times> 'o"
  ps_taskkill_name :: "string \<Rightarrow> 'o \<Rightarrow> string \<times> 'o"
  ps_exists :: "int \<Rightarrow> 'o \<Rightarrow> bool \<times> 'o"
  ps_close :: "int \<Rightarrow> 'o \<Rightarrow> 'o"
  ps_sleep :: "int \<Rightarrow> 'o \<Rightarrow> 'o"
  ps_clock :: "'o \<Rightarrow> time"
  ps_show_duration :: "int \<Rightarrow> string"

subsection \<open>The verified kill\<close>

record KillResult =
  kr_Success :: bool
  kr_Reason :: string
  kr_Duration :: int

definition KillReasonAccessDenied :: string where "KillReasonAccessDenied = ''AccessDenied''"
definition KillReasonAlreadyExited :: string where "KillReasonAlreadyExited = ''AlreadyExited''"
definition KillReasonVerificationFailed :: string where "KillReasonVerificationFailed = ''VerificationFailed''"
definition KillReasonUnknown :: string where "KillReasonUnknown = ''Unknown''"

record 'o killDeps =
  kd_terminate :: "'o \<Rightarrow> string \<times> 'o"
  kd_pidExists :: "'o \<Rightarrow> bool \<times> 'o"
  kd_gracefulClose :: "'o \<Rightarrow> 'o"
  kd_sleep :: "int \<Rightarrow> 'o \<Rightarrow> 'o"
  kd_clock :: "'o \<Rightarrow> time"

definition classifyKillFailure :: "string \<Rightarrow> string" where
  "classifyKillFailure taskkillOutput =
     (let lower = ToLower taskkillOutput in
      if Contains lower ''access is denied'' \<or> Contains lower ''access denied'' then KillReasonAccessDenied
      else if taskkillOutput = '''' then KillReasonUnknown
      else KillReasonVerificationFailed)"

definition kill_pause :: int where "kill_pause = 500 * millisecond"

text \<open>One forced attempt: terminate, wait, look again.  The value is the output and whether it is gone.\<close>

definition force_attempt :: "'o killDeps \<Rightarrow> 'o \<Rightarrow> (string \<times> bool) \<times> 'o" where
  "force_attempt deps s0 =
     (let (output, s1) = kd_terminate deps s0;
          (alive, s2) = kd_pidExists deps (kd_sleep deps kill_pause s1)
      in ((output, \<not> alive), s2))"

text \<open>The loop over \<^verbatim>\<open>forceAttempts\<close>; it stops at the first confirmed exit.\<close>

fun force_loop :: "nat \<Rightarrow> 'o killDeps \<Rightarrow> string \<Rightarrow> 'o \<Rightarrow> (string \<times> bool) \<times> 'o" where
  "force_loop 0 deps lastOutput s = ((lastOutput, False), s)"
| "force_loop (Suc n) deps lastOutput s =
     (let r = force_attempt deps s in
      if snd (fst r) then r else force_loop n deps (fst (fst r)) (snd r))"

definition forceAttempts :: nat where "forceAttempts = 2"

definition kill_ok :: "'o killDeps \<Rightarrow> time \<Rightarrow> string \<Rightarrow> 'o \<Rightarrow> KillResult \<times> 'o" where
  "kill_ok deps start reason s = (\<lparr>kr_Success = True, kr_Reason = reason, kr_Duration = kd_clock deps s - start\<rparr>, s)"

definition verifyAndKillPID :: "'o killDeps \<Rightarrow> 'o \<Rightarrow> KillResult \<times> 'o" where
  "verifyAndKillPID deps s0 =
     (let start = kd_clock deps s0; (alive, s1) = kd_pidExists deps s0 in
      if \<not> alive then kill_ok deps start KillReasonAlreadyExited s1
      else let ((_, gone), s2) = force_loop forceAttempts deps '''' s1 in
      if gone then kill_ok deps start '''' s2
      else let (alive, s3) = kd_pidExists deps (kd_sleep deps kill_pause (kd_gracefulClose deps s2)) in
      if \<not> alive then kill_ok deps start '''' s3
      else let ((output, gone), s4) = force_attempt deps s3 in
      if gone then kill_ok deps start '''' s4
      else (\<lparr>kr_Success = False, kr_Reason = classifyKillFailure output, kr_Duration = kd_clock deps s4 - start\<rparr>, s4))"

definition newRealKillDeps :: "'o proc_env \<Rightarrow> int \<Rightarrow> 'o killDeps" where
  "newRealKillDeps pe pid =
     \<lparr>kd_terminate = (\<lambda>s. let (out, s) = ps_taskkill pe pid s in (TrimSpace out, s)),
      kd_pidExists = ps_exists pe pid, kd_gracefulClose = ps_close pe pid, kd_sleep = ps_sleep pe, kd_clock = ps_clock pe\<rparr>"

definition verifiedKillByPID :: "'o proc_env \<Rightarrow> int \<Rightarrow> 'o \<Rightarrow> KillResult \<times> 'o" where
  "verifiedKillByPID pe pid = verifyAndKillPID (newRealKillDeps pe pid)"

subsection \<open>Kill by identity\<close>

definition successLabel :: "bool \<Rightarrow> string" where
  "successLabel success = (if success then ''Success'' else ''Failed'')"

text \<open>
  The company check both paths share: without an expected company the name is enough; otherwise the image
  must be readable and its version resource must name that company.
\<close>

definition company_matches :: "'o proc_env \<Rightarrow> string \<Rightarrow> int \<Rightarrow> 'o \<Rightarrow> bool \<times> 'o" where
  "company_matches pe expectedCompany pid s0 =
     (if expectedCompany = '''' then (True, s0)
      else case ps_exe pe pid s0 of
        (None, s1) \<Rightarrow> (False, s1)
      | (Some path, s1) \<Rightarrow> let (company, s2) = ps_company pe path s1 in (EqualFold company expectedCompany, s2))"

definition name_matches :: "'o proc_env \<Rightarrow> string \<Rightarrow> int \<Rightarrow> 'o \<Rightarrow> bool \<times> 'o" where
  "name_matches pe procName pid s0 =
     (let (name, s1) = ps_name pe pid s0 in
      ((case name of None \<Rightarrow> False | Some n \<Rightarrow> EqualFold n procName), s1))"

definition killSpecificPIDIfMatches :: "'o proc_env \<Rightarrow> int \<Rightarrow> string \<Rightarrow> string \<Rightarrow> 'o \<Rightarrow> KillResult option \<times> 'o" where
  "killSpecificPIDIfMatches pe pid procName expectedCompany s0 =
     (let (found, s1) = ps_open pe pid s0 in
      if \<not> found then (None, s1)
      else let (named, s2) = name_matches pe procName pid s1 in
      if \<not> named then (None, s2)
      else let (ok, s3) = company_matches pe expectedCompany pid s2 in
      if \<not> ok then (None, s3)
      else let (res, s4) = verifiedKillByPID pe pid s3 in (Some res, s4))"

record sweep_count =
  sw_killed :: nat
  sw_skipped :: nat
  sw_last :: KillResult

definition zero_result :: KillResult where
  "zero_result = \<lparr>kr_Success = False, kr_Reason = '''', kr_Duration = 0\<rparr>"

fun sweep :: "'o proc_env \<Rightarrow> string \<Rightarrow> string \<Rightarrow> int list \<Rightarrow> sweep_count \<Rightarrow> 'o \<Rightarrow> sweep_count \<times> 'o" where
  "sweep pe procName expectedCompany [] c s = (c, s)"
| "sweep pe procName expectedCompany (pid # pids) c s =
     (let (named, s1) = name_matches pe procName pid s in
      if \<not> named then sweep pe procName expectedCompany pids c s1
      else let (ok, s2) = company_matches pe expectedCompany pid s1 in
      if \<not> ok then sweep pe procName expectedCompany pids (c\<lparr>sw_skipped := sw_skipped c + 1\<rparr>) s2
      else let (res, s3) = verifiedKillByPID pe pid s2 in
        sweep pe procName expectedCompany pids
          (c\<lparr>sw_last := res, sw_killed := sw_killed c + (if kr_Success res then 1 else 0)\<rparr>) s3)"

definition killByIdentity :: "'o proc_env \<Rightarrow> string \<Rightarrow> string \<Rightarrow> int \<Rightarrow> 'o \<Rightarrow> (string \<times> KillResult) \<times> 'o" where
  "killByIdentity pe procName expectedCompany pid s0 =
     (case (if pid > 0 then killSpecificPIDIfMatches pe pid procName expectedCompany s0 else (None, s0)) of
        (Some res, s1) \<Rightarrow>
          ((''kill_by_identity: name='' @ procName @ '' company='' @ go_quote expectedCompany @ '' pid='' @ show_int pid
            @ '' result='' @ successLabel (kr_Success res) @ '' reason='' @ kr_Reason res
            @ '' duration='' @ ps_show_duration pe (kr_Duration res) @ '' (targeted)'', res), s1)
      | (None, s1) \<Rightarrow>
          (case ps_processes pe s1 of
             (Inl err, s2) \<Rightarrow>
               ((''kill_by_identity failed: could not list processes: '' @ err,
                 \<lparr>kr_Success = False, kr_Reason = KillReasonUnknown, kr_Duration = 0\<rparr>), s2)
           | (Inr pids, s2) \<Rightarrow>
               let (c, s3) = sweep pe procName expectedCompany pids \<lparr>sw_killed = 0, sw_skipped = 0, sw_last = zero_result\<rparr> s2 in
               ((''kill_by_identity: name='' @ procName @ '' company='' @ go_quote expectedCompany
                 @ '' killed='' @ show_nat (sw_killed c) @ '' skipped='' @ show_nat (sw_skipped c) @ '' (sweep)'',
                 sw_last c), s3)))"

definition reportKillResult :: "string \<Rightarrow> AgentState \<Rightarrow> AgentState" where
  "reportKillResult output = wsSend (MsgKill output)"

definition handleKillByIdentity :: "'o proc_env \<Rightarrow> json_object \<Rightarrow> AgentState \<times> 'o \<Rightarrow> AgentState \<times> 'o" where
  "handleKillByIdentity pe msg st =
     (let ((output, _), os') = killByIdentity pe (str_field msg ''proc_name'') (str_field msg ''company'') (num_field msg ''pid'') (snd st)
      in (reportKillResult output (fst st), os'))"

definition handleKillProcess :: "'o proc_env \<Rightarrow> json_object \<Rightarrow> AgentState \<times> 'o \<Rightarrow> AgentState \<times> 'o" where
  "handleKillProcess pe msg st =
     (let pid = num_field msg ''pid'';
          (out, os') = (if pid > 0 then ps_taskkill pe pid (snd st) else ps_taskkill_name pe (str_field msg ''proc_name'') (snd st));
          output = (if TrimSpace out = '''' then ''kill PID '' @ show_int pid @ '' attempted'' else TrimSpace out)
      in (wsSend (MsgKill output) (fst st), os'))"

subsection \<open>Enforcement on a process start\<close>

definition reportPolicyEnforcement :: "string \<Rightarrow> (string \<times> json) list \<Rightarrow> AgentState \<Rightarrow> AgentState" where
  "reportPolicyEnforcement action metadata = wsSend (MsgEnforcement action metadata)"

definition enforced_action :: "string \<Rightarrow> bool \<Rightarrow> string" where
  "enforced_action action killed =
     (if action = PolicyActionKill then (if killed then ''killed'' else PolicyActionLog)
      else if action = PolicyActionBlock \<or> action = PolicyActionDelete then ''blocked'' else action)"

definition enforceLocalPolicy ::
  "'o proc_env \<Rightarrow> (string \<times> string) list \<Rightarrow> AgentPolicy \<Rightarrow> string \<Rightarrow> int \<Rightarrow> string \<Rightarrow> AgentState \<times> 'o \<Rightarrow> AgentState \<times> 'o" where
  "enforceLocalPolicy pe order policy name pid path st =
     (case evaluateProcessLocally order windows_sep policy name path of
        None \<Rightarrow> st
      | Some (decision, app) \<Rightarrow>
          if pd_Action decision = PolicyActionLog then st
          else
            let (result, os') = (if pd_Action decision = PolicyActionKill
                  then (let ((_, r), o') = killByIdentity pe name (ra_Company app) pid (snd st) in (r, o'))
                  else (zero_result, snd st))
            in (reportPolicyEnforcement (enforced_action (pd_Action decision) (kr_Success result))
                  [(''process'', JStr name), (''pid'', JNum pid), (''path'', JStr path),
                   (''execution_location'', JStr (ClassifyExecutionLocation order path)),
                   (''policy_action'', JStr (pd_Action decision)),
                   (''policy_version'', JNum (pca_Version (currentPolicyCache policy))),
                   (''evaluation_source'', JStr ''realtime_local_cache''),
                   (''rule'', JStr (case pd_Rule decision of None \<Rightarrow> '''' | Some r \<Rightarrow> pr_Name r)),
                   (''kill_result'', JStr (successLabel (kr_Success result))),
                   (''kill_reason'', JStr (kr_Reason result)),
                   (''kill_duration_ms'', JNum (kr_Duration result div millisecond))] (fst st), os'))"

record rateLimiter =
  rl_max :: nat
  rl_count :: nat
  rl_windowAt :: time

definition newRateLimiter :: "nat \<Rightarrow> time \<Rightarrow> rateLimiter" where
  "newRateLimiter mx now = \<lparr>rl_max = mx, rl_count = 0, rl_windowAt = now\<rparr>"

definition allow :: "time \<Rightarrow> rateLimiter \<Rightarrow> bool \<times> rateLimiter" where
  "allow now r =
     (let r1 = (if now - rl_windowAt r \<ge> second then r\<lparr>rl_windowAt := now, rl_count := 0\<rparr> else r);
          r2 = r1\<lparr>rl_count := rl_count r1 + 1\<rparr>
      in (rl_count r2 \<le> rl_max r2, r2))"

definition processStartRateLimit :: nat where "processStartRateLimit = 50"

definition resolveProcessPath :: "'o proc_env \<Rightarrow> int \<Rightarrow> 'o \<Rightarrow> string \<times> 'o" where
  "resolveProcessPath pe pid s0 =
     (let (found, s1) = ps_open pe pid s0 in
      if \<not> found then ('''', s1)
      else let (path, s2) = ps_exe pe pid s1 in ((case path of None \<Rightarrow> '''' | Some p \<Rightarrow> p), s2))"

text \<open>
  The event carries a pid and a name when both properties could be read and the pid is a number.
\<close>

definition handleProcessStartEvent ::
  "'o proc_env \<Rightarrow> (string \<times> string) list \<Rightarrow> AgentPolicy \<Rightarrow> time \<Rightarrow> (int \<times> string) option \<Rightarrow> rateLimiter \<times> AgentState \<times> 'o \<Rightarrow> rateLimiter \<times> AgentState \<times> 'o" where
  "handleProcessStartEvent pe order policy now event st =
     (let (ok, limiter) = allow now (fst st) in
      if \<not> ok then (limiter, snd st)
      else case event of
        None \<Rightarrow> (limiter, snd st)
      | Some (pid, name) \<Rightarrow>
          if name = '''' then (limiter, snd st)
          else let (path, os') = resolveProcessPath pe pid (snd (snd st)) in
            (limiter, enforceLocalPolicy pe order policy name pid path (fst (snd st), os')))"

subsection \<open>Recording what a kill routine does\<close>

datatype kill_event =
    ENamed int "string option"
  | EExe int "string option"
  | ECompany string string
  | ETaskkill int
  | ETaskkillName string
  | EExists int bool
  | EClose int

definition logged :: "'o proc_env \<Rightarrow> ('o \<times> kill_event list) proc_env" where
  "logged pe =
     \<lparr>ps_processes = (\<lambda>(s, l). let (r, s') = ps_processes pe s in (r, s', l)),
      ps_open = (\<lambda>pid (s, l). let (r, s') = ps_open pe pid s in (r, s', l)),
      ps_name = (\<lambda>pid (s, l). let (r, s') = ps_name pe pid s in (r, s', l @ [ENamed pid r])),
      ps_exe = (\<lambda>pid (s, l). let (r, s') = ps_exe pe pid s in (r, s', l @ [EExe pid r])),
      ps_company = (\<lambda>path (s, l). let (r, s') = ps_company pe path s in (r, s', l @ [ECompany path r])),
      ps_taskkill = (\<lambda>pid (s, l). let (r, s') = ps_taskkill pe pid s in (r, s', l @ [ETaskkill pid])),
      ps_taskkill_name = (\<lambda>name (s, l). let (r, s') = ps_taskkill_name pe name s in (r, s', l @ [ETaskkillName name])),
      ps_exists = (\<lambda>pid (s, l). let (r, s') = ps_exists pe pid s in (r, s', l @ [EExists pid r])),
      ps_close = (\<lambda>pid (s, l). (ps_close pe pid s, l @ [EClose pid])),
      ps_sleep = (\<lambda>d (s, l). (ps_sleep pe d s, l)),
      ps_clock = (\<lambda>(s, l). ps_clock pe s),
      ps_show_duration = ps_show_duration pe\<rparr>"

text \<open>A kill of \<open>pid\<close> is authorised by what was seen before it: its name, and its company when one is expected.\<close>

definition names_it :: "string \<Rightarrow> int \<Rightarrow> kill_event \<Rightarrow> bool" where
  "names_it procName pid e = (case e of ENamed p (Some n) \<Rightarrow> p = pid \<and> EqualFold n procName | _ \<Rightarrow> False)"

definition company_of :: "string \<Rightarrow> string \<Rightarrow> kill_event \<Rightarrow> bool" where
  "company_of company path e = (case e of ECompany q c \<Rightarrow> q = path \<and> EqualFold c company | _ \<Rightarrow> False)"

definition companied :: "string \<Rightarrow> int \<Rightarrow> kill_event list \<Rightarrow> bool" where
  "companied company pid seen =
     list_ex (\<lambda>e. case e of EExe p (Some path) \<Rightarrow> p = pid \<and> list_ex (company_of company path) seen | _ \<Rightarrow> False) seen"

definition authorised :: "string \<Rightarrow> string \<Rightarrow> kill_event list \<Rightarrow> int \<Rightarrow> bool" where
  "authorised procName company seen pid \<longleftrightarrow>
     list_ex (names_it procName pid) seen \<and> (company = '''' \<or> companied company pid seen)"

definition permitted :: "string \<Rightarrow> string \<Rightarrow> kill_event list \<Rightarrow> kill_event \<Rightarrow> bool" where
  "permitted procName company seen e =
     (case e of ETaskkill p \<Rightarrow> authorised procName company seen p
      | EClose p \<Rightarrow> authorised procName company seen p
      | ETaskkillName _ \<Rightarrow> False
      | _ \<Rightarrow> True)"

abbreviation justified :: "string \<Rightarrow> string \<Rightarrow> kill_event list \<Rightarrow> kill_event list \<Rightarrow> bool" where
  "justified procName company \<equiv> licensed (permitted procName company)"

definition confirms_exit :: "kill_event \<Rightarrow> bool" where
  "confirms_exit e = (case e of EExists _ alive \<Rightarrow> \<not> alive | _ \<Rightarrow> False)"

text \<open>Events of one verified kill: how often it terminated, how often it asked windows to close.\<close>

definition terminations :: "kill_event list \<Rightarrow> nat" where
  "terminations l = length (filter (\<lambda>e. case e of ETaskkill _ \<Rightarrow> True | _ \<Rightarrow> False) l)"

definition closes :: "kill_event list \<Rightarrow> nat" where
  "closes l = length (filter (\<lambda>e. case e of EClose _ \<Rightarrow> True | _ \<Rightarrow> False) l)"

text \<open>A process table that obeys: rows with distinct pids, and what the image files say of their company.\<close>

record proc_row =
  pw_pid :: int
  pw_name :: string
  pw_path :: string

definition row_of :: "int \<Rightarrow> proc_row list \<Rightarrow> proc_row option" where
  "row_of pid procs = find (\<lambda>p. pw_pid p = pid) procs"

definition table_env :: "(string \<Rightarrow> string) \<Rightarrow> proc_row list proc_env" where
  "table_env vendor =
     \<lparr>ps_processes = (\<lambda>s. (Inr (map pw_pid s), s)),
      ps_open = (\<lambda>pid s. (row_of pid s \<noteq> None, s)),
      ps_name = (\<lambda>pid s. (map_option pw_name (row_of pid s), s)),
      ps_exe = (\<lambda>pid s. (map_option pw_path (row_of pid s), s)),
      ps_company = (\<lambda>path s. (vendor path, s)),
      ps_taskkill = (\<lambda>pid s. ('''', filter (\<lambda>p. pw_pid p \<noteq> pid) s)),
      ps_taskkill_name = (\<lambda>name s. ('''', filter (\<lambda>p. \<not> EqualFold (pw_name p) name) s)),
      ps_exists = (\<lambda>pid s. (row_of pid s \<noteq> None, s)),
      ps_close = (\<lambda>pid s. s), ps_sleep = (\<lambda>d s. s), ps_clock = (\<lambda>s. 0), ps_show_duration = (\<lambda>d. '''')\<rparr>"

definition row_matches :: "(string \<Rightarrow> string) \<Rightarrow> string \<Rightarrow> string \<Rightarrow> proc_row \<Rightarrow> bool" where
  "row_matches vendor procName company p \<longleftrightarrow>
     EqualFold (pw_name p) procName \<and> (company = '''' \<or> EqualFold (vendor (pw_path p)) company)"

text \<open>A cache with one kill rule, an agent and a running blocked program.\<close>

definition sample_kill_policy :: AgentPolicy where
  "sample_kill_policy = \<lparr>agp_cache = Some \<lparr>pca_Version = 3, pca_ServerURL = ''s'', pca_DeviceGroup = '''',
     pca_Rules = [\<lparr>pr_ID = 1, pr_Name = ''no games'', pr_EventType = '''', pr_CategoryID = None, pr_AppStatus = ''blocked'',
       pr_FileExtension = '''', pr_ExecutionLocation = '''', pr_DeviceGroup = '''', pr_Action = ''kill'', pr_Enabled = True, pr_CreatedAt = 0\<rparr>],
     pca_RelevantApps = [''game.exe'' \<mapsto> \<lparr>ra_Status = ''blocked'', ra_CategoryID = None, ra_Company = ''Acme''\<rparr>],
     pca_UpdatedAt = 0\<rparr>, agp_file = Absent\<rparr>"

definition sample_kill_agent :: AgentState where
  "sample_kill_agent = \<lparr>a_pending = None, a_completed = None, a_send = Some [], a_checkpoint = None,
     a_inventory = (\<lambda>_. None), a_snapshots = 0\<rparr>"

definition sample_enforcement :: "AgentState \<times> proc_row list \<times> kill_event list" where
  "sample_enforcement = enforceLocalPolicy (logged (table_env (\<lambda>_. ''ACME''))) [] sample_kill_policy ''Game.exe'' 7 ''C:/g.exe''
     (sample_kill_agent, [\<lparr>pw_pid = 7, pw_name = ''Game.EXE'', pw_path = ''C:/g.exe''\<rparr>], [])"

definition kill_allowed :: "string \<Rightarrow> string \<Rightarrow> int \<Rightarrow> 'o \<times> kill_event list \<Rightarrow> bool" where
  "kill_allowed p c pid s \<longleftrightarrow> justified p c [] (snd s) \<and> authorised p c (snd s) pid"

definition log_ok :: "string \<Rightarrow> string \<Rightarrow> 'o \<times> kill_event list \<Rightarrow> bool" where
  "log_ok p c s \<longleftrightarrow> justified p c [] (snd s)"

abbreviation exit_seen :: "'o \<times> kill_event list \<Rightarrow> bool" where
  "exit_seen s \<equiv> list_ex confirms_exit (snd s)"

subsection \<open>Invariants of a verified kill\<close>

text \<open>What every step of a kill keeps, the whole kill keeps.\<close>

locale kill_invariant =
  fixes deps :: "'o killDeps" and I :: "'o \<Rightarrow> bool"
  assumes terminate: "I s \<Longrightarrow> I (snd (kd_terminate deps s))"
    and pidExists: "I s \<Longrightarrow> I (snd (kd_pidExists deps s))"
    and gracefulClose: "I s \<Longrightarrow> I (kd_gracefulClose deps s)"
    and sleep: "I s \<Longrightarrow> I (kd_sleep deps d s)"
begin

lemma force_attempt: "I s \<Longrightarrow> I (snd (force_attempt deps s))"
  by (simp add: force_attempt_def case_prod_beta Let_def terminate pidExists sleep)

lemma force_loop: "I s \<Longrightarrow> I (snd (force_loop n deps out s))"
  by (induction n arbitrary: out s) (simp_all add: Let_def force_attempt)

lemma verifyAndKillPID: "I s \<Longrightarrow> I (snd (verifyAndKillPID deps s))"
  by (simp add: verifyAndKillPID_def kill_ok_def case_prod_beta Let_def pidExists force_loop force_attempt gracefulClose sleep)

end

lemma companied_append: "companied c pid l \<Longrightarrow> companied c pid (l @ m)"
proof -
  assume "companied c pid l"
  then obtain e where e: "e \<in> set l" "case e of EExe p (Some path) \<Rightarrow> p = pid \<and> list_ex (company_of c path) l | _ \<Rightarrow> False"
    unfolding companied_def list_ex_iff [of _ l] by blast
  from e(2) obtain path where "e = EExe pid (Some path)" "list_ex (company_of c path) l"
    by (cases e rule: kill_event.exhaust) (auto split: option.splits)
  with e(1) show ?thesis unfolding companied_def list_ex_iff [of _ "l @ m"] by (intro bexI [of _ e]) (auto simp: list_ex_iff)
qed

lemma authorised_append: "authorised p c l pid \<Longrightarrow> authorised p c (l @ m) pid"
  using companied_append by (auto simp: authorised_def)

lemmas logged_simps = logged_def case_prod_beta Let_def

interpretation logged_kill: kill_invariant "newRealKillDeps (logged pe) pid" "kill_allowed p c pid" for pe p c pid
  by unfold_locales
    (auto simp: kill_allowed_def newRealKillDeps_def logged_simps licensed_append permitted_def intro: authorised_append)

interpretation seen_exit: kill_invariant "newRealKillDeps (logged pe) pid" "\<lambda>s. list_ex confirms_exit (snd s)" for pe pid
  by unfold_locales (auto simp: newRealKillDeps_def logged_simps)

subsection \<open>Only matching processes are killed\<close>

lemma logged_reads [simp]:
  "log_ok p c (snd (ps_open (logged pe) pid s)) = log_ok p c s"
  "log_ok p c (snd (ps_processes (logged pe) s)) = log_ok p c s"
  by (simp_all add: logged_simps log_ok_def)

lemma name_matches_ok:
  "log_ok p c s \<Longrightarrow> log_ok p c (snd (name_matches (logged pe) p pid s))"
  "fst (name_matches (logged pe) p pid s) \<Longrightarrow> list_ex (names_it p pid) (snd (snd (name_matches (logged pe) p pid s)))"
  by (auto simp: name_matches_def logged_simps log_ok_def licensed_append permitted_def names_it_def split: option.splits)

lemma company_matches_ok:
  "log_ok p c s \<Longrightarrow> log_ok p c (snd (company_matches (logged pe) c pid s))"
  by (auto simp: company_matches_def logged_simps log_ok_def licensed_append permitted_def split: option.splits)

lemma company_matches_authorises:
  assumes "list_ex (names_it p pid) (snd s)" "fst (company_matches (logged pe) c pid s)"
  shows "authorised p c (snd (snd (company_matches (logged pe) c pid s))) pid"
  using assms
  by (auto simp: company_matches_def logged_simps authorised_def companied_def company_of_def split: option.splits if_splits)

lemma verified_kill_ok:
  assumes "log_ok p c s" "authorised p c (snd s) pid"
  shows "log_ok p c (snd (verifiedKillByPID (logged pe) pid s))"
  using logged_kill.verifyAndKillPID [of p c pid s pe] assms
  by (simp add: kill_allowed_def log_ok_def verifiedKillByPID_def)

lemma matched_kill_ok:
  assumes "log_ok p c s" "fst (name_matches (logged pe) p pid s)"
    and "fst (company_matches (logged pe) c pid (snd (name_matches (logged pe) p pid s)))"
  shows "log_ok p c (snd (verifiedKillByPID (logged pe) pid (snd (company_matches (logged pe) c pid (snd (name_matches (logged pe) p pid s))))))"
  by (rule verified_kill_ok company_matches_ok name_matches_ok company_matches_authorises assms)+

lemmas match_ok = name_matches_ok(1) company_matches_ok matched_kill_ok

lemma killSpecific_ok: "log_ok p c s \<Longrightarrow> log_ok p c (snd (killSpecificPIDIfMatches (logged pe) pid p c s))"
  by (simp add: killSpecificPIDIfMatches_def case_prod_beta Let_def match_ok)

lemma sweep_ok: "log_ok p c s \<Longrightarrow> log_ok p c (snd (sweep (logged pe) p c pids n s))"
  by (induction pids arbitrary: n s) (simp_all add: case_prod_beta Let_def match_ok)

text \<open>
  \<^verbatim>\<open>killByIdentity\<close> terminates only processes it has identified: in the record of its calls, on any
  process table and even if processes change between the calls, every terminate and every window close of
  a pid comes after a name read from that same pid that equals the blocked name up to case and, when a
  company is expected, after an image path read from that pid whose file names that company.
\<close>

theorem kill_only_identified:
  "justified procName company [] (snd (snd (killByIdentity (logged pe) procName company pid (s, []))))"
proof -
  have start: "log_ok procName company (s, [])" by (simp add: log_ok_def)
  let ?r = "if pid > 0 then killSpecificPIDIfMatches (logged pe) pid procName company (s, []) else (None, (s, []))"
  have "log_ok procName company (snd ?r)" using killSpecific_ok [OF start] start by simp
  then have "log_ok procName company (snd (ps_processes (logged pe) (snd ?r)))" "log_ok procName company (snd ?r)" by simp_all
  then have "log_ok procName company (snd (killByIdentity (logged pe) procName company pid (s, [])))"
    unfolding killByIdentity_def by (cases ?r; cases "fst ?r"; cases "ps_processes (logged pe) (snd ?r)"; cases "fst (ps_processes (logged pe) (snd ?r))")
      (use sweep_ok in \<open>simp_all add: case_prod_beta Let_def\<close>)
  then show ?thesis by (simp add: log_ok_def)
qed

subsection \<open>The protocol of one verified kill\<close>

lemma force_loop_two: "force_loop forceAttempts deps out s =
   (let r = force_attempt deps s in if snd (fst r) then r
    else let q = force_attempt deps (snd r) in if snd (fst q) then q else ((fst (fst q), False), snd q))"
  by (simp add: forceAttempts_def numeral_2_eq_2 Let_def)

lemma classifyKillFailure_not_exited: "classifyKillFailure out \<noteq> KillReasonAlreadyExited"
  by (simp add: classifyKillFailure_def Let_def KillReasonAccessDenied_def KillReasonAlreadyExited_def
      KillReasonUnknown_def KillReasonVerificationFailed_def)

lemma exited_not_empty: "KillReasonAlreadyExited \<noteq> ''''"
  by (simp add: KillReasonAlreadyExited_def)


subsection \<open>On a process table that obeys\<close>

lemma row_of_remove: "row_of pid (filter (\<lambda>p. pw_pid p \<noteq> pid) procs) = None"
  by (simp add: row_of_def find_None_iff)

lemma table_kill:
  "verifiedKillByPID (table_env vendor) pid procs =
     (\<lparr>kr_Success = True, kr_Reason = (if row_of pid procs = None then KillReasonAlreadyExited else ''''), kr_Duration = 0\<rparr>,
      filter (\<lambda>p. pw_pid p \<noteq> pid) procs)"
  by (auto simp: verifiedKillByPID_def verifyAndKillPID_def force_loop_two force_attempt_def newRealKillDeps_def
      table_env_def kill_ok_def Let_def row_of_remove) (auto simp: row_of_def find_None_iff filter_id_conv)

lemma table_open: "ps_open (table_env vendor) pid procs = (row_of pid procs \<noteq> None, procs)"
  by (simp add: table_env_def)

lemma table_name_matches:
  "name_matches (table_env vendor) p pid procs = ((case row_of pid procs of None \<Rightarrow> False | Some r \<Rightarrow> EqualFold (pw_name r) p), procs)"
  by (simp add: name_matches_def table_env_def split: option.splits)

lemma table_company_matches:
  "row_of pid procs = Some r \<Longrightarrow>
   company_matches (table_env vendor) c pid procs = (c = '''' \<or> EqualFold (vendor (pw_path r)) c, procs)"
  by (simp add: company_matches_def table_env_def)

lemma row_of_iff:
  assumes "distinct (map pw_pid procs)"
  shows "row_of pid procs = Some r \<longleftrightarrow> r \<in> set procs \<and> pw_pid r = pid"
  using find_unique_key [OF assms] by (auto simp: row_of_def find_Some_iff in_set_conv_nth)

lemma distinct_filter_rows: "distinct (map pw_pid procs) \<Longrightarrow> distinct (map pw_pid (filter P procs))"
  by (induction procs) auto

lemma table_sweep:
  assumes "distinct (map pw_pid procs)"
  shows "snd (sweep (table_env vendor) p c pids n procs) =
    filter (\<lambda>r. \<not> (pw_pid r \<in> set pids \<and> row_matches vendor p c r)) procs"
  using assms
proof (induction pids arbitrary: n procs)
  case (Cons pid pids)
  show ?case
  proof (cases "\<exists>r. row_of pid procs = Some r \<and> row_matches vendor p c r")
    case True
    then obtain r where r: "row_of pid procs = Some r" "row_matches vendor p c r" by blast
    let ?rest = "filter (\<lambda>q. pw_pid q \<noteq> pid) procs"
    have "snd (sweep (table_env vendor) p c (pid # pids) n procs) =
        filter (\<lambda>r. \<not> (pw_pid r \<in> set pids \<and> row_matches vendor p c r)) ?rest"
      using Cons.IH [OF distinct_filter_rows [OF Cons.prems]] r
      by (simp add: Let_def table_name_matches table_company_matches table_kill row_matches_def)
    also have "\<dots> = filter (\<lambda>r. \<not> (pw_pid r \<in> set (pid # pids) \<and> row_matches vendor p c r)) procs"
      using r row_of_iff [OF Cons.prems] find_unique_key [OF Cons.prems, of _ pid]
      by (auto simp: filter_filter row_of_def intro!: filter_cong)
    finally show ?thesis .
  next
    case False
    have "snd (sweep (table_env vendor) p c (pid # pids) n procs) =
        filter (\<lambda>r. \<not> (pw_pid r \<in> set pids \<and> row_matches vendor p c r)) procs"
      using Cons.IH [OF Cons.prems] False
      by (cases "row_of pid procs") (simp_all add: Let_def table_name_matches table_company_matches row_matches_def)
    also have "\<dots> = filter (\<lambda>r. \<not> (pw_pid r \<in> set (pid # pids) \<and> row_matches vendor p c r)) procs"
      using False row_of_iff [OF Cons.prems] by (intro filter_cong) auto
    finally show ?thesis .
  qed
qed simp

text \<open>
  C22.  On a process table that obeys, \<^verbatim>\<open>killByIdentity\<close> removes exactly what it should: the given pid
  alone when that process still has the expected name and company, otherwise every process with them and
  no other.
\<close>

theorem kill_by_identity_effect:
  assumes "distinct (map pw_pid procs)"
  shows "snd (killByIdentity (table_env vendor) procName company pid procs) =
    filter (\<lambda>r. \<not> row_matches vendor procName company r
      \<or> (pid > 0 \<and> list_ex (\<lambda>q. pw_pid q = pid \<and> row_matches vendor procName company q) procs \<and> pw_pid r \<noteq> pid)) procs"
proof (cases "pid > 0 \<and> (\<exists>r. row_of pid procs = Some r \<and> row_matches vendor procName company r)")
  case True
  then obtain r where r: "pid > 0" "row_of pid procs = Some r" "row_matches vendor procName company r" by blast
  then have s: "killSpecificPIDIfMatches (table_env vendor) pid procName company procs =
      (Some \<lparr>kr_Success = True, kr_Reason = '''', kr_Duration = 0\<rparr>, filter (\<lambda>q. pw_pid q \<noteq> pid) procs)"
    by (simp add: killSpecificPIDIfMatches_def Let_def table_open table_name_matches table_company_matches table_kill row_matches_def)
  have mem: "r \<in> set procs" "pw_pid r = pid" using r(2) row_of_iff [OF assms] by blast+
  have same: "q = r" if "q \<in> set procs" "pw_pid q = pid" for q
    using that r(2) find_unique_key [OF assms that] by (simp add: row_of_def)
  have "list_ex (\<lambda>q. pw_pid q = pid \<and> row_matches vendor procName company q) procs"
    using mem r(3) by (auto simp: list_ex_iff)
  with s r same show ?thesis by (auto simp: killByIdentity_def intro!: filter_cong)
next
  case False
  have no: "\<not> (pid > 0 \<and> list_ex (\<lambda>q. pw_pid q = pid \<and> row_matches vendor procName company q) procs)"
    using False row_of_iff [OF assms] by (auto simp: list_ex_iff)
  have s: "(if pid > 0 then killSpecificPIDIfMatches (table_env vendor) pid procName company procs else (None, procs)) = (None, procs)"
  proof (cases "row_of pid procs")
    case None
    then show ?thesis
      by (simp add: killSpecificPIDIfMatches_def Let_def table_open)
  next
    case (Some r)
    with False have "\<not> pid > 0 \<or> \<not> row_matches vendor procName company r" by blast
    with Some show ?thesis
      by (auto simp: killSpecificPIDIfMatches_def Let_def table_open table_name_matches table_company_matches row_matches_def)
  qed
  have l: "ps_processes (table_env vendor) procs = (Inr (map pw_pid procs), procs)" by (simp add: table_env_def)
  show ?thesis unfolding killByIdentity_def s prod.case option.case l sum.case Let_def case_prod_beta snd_conv
    using table_sweep [OF assms] no by (auto intro!: filter_cong)
qed

theorem kill_by_identity_effect_witness:
  "snd (killByIdentity (table_env (\<lambda>_. ''Acme'')) ''game.exe'' ''acme'' 7
     [\<lparr>pw_pid = 7, pw_name = ''Game.EXE'', pw_path = ''C:/g''\<rparr>, \<lparr>pw_pid = 8, pw_name = ''game.exe'', pw_path = ''C:/g''\<rparr>])
   = [\<lparr>pw_pid = 8, pw_name = ''game.exe'', pw_path = ''C:/g''\<rparr>]"
proof -
  have "EqualFold ''Acme'' ''acme''" "EqualFold ''Game.EXE'' ''game.exe''" by code_simp+
  then show ?thesis by (subst kill_by_identity_effect) (simp_all add: row_matches_def)
qed

subsection \<open>What enforcement reports\<close>

lemma success_seen: "kr_Success (fst (verifiedKillByPID (logged pe) pid s)) \<Longrightarrow> exit_seen (snd (verifiedKillByPID (logged pe) pid s))"
  by (auto simp: verifiedKillByPID_def verifyAndKillPID_def force_loop_two force_attempt_def newRealKillDeps_def logged_simps
      kill_ok_def confirms_exit_def split: if_splits)

lemma checks_keep_seen:
  "exit_seen s \<Longrightarrow> exit_seen (snd (name_matches (logged pe) p pid s))"
  "exit_seen s \<Longrightarrow> exit_seen (snd (company_matches (logged pe) c pid s))"
  "exit_seen s \<Longrightarrow> exit_seen (snd (verifiedKillByPID (logged pe) pid s))"
  subgoal by (simp add: name_matches_def logged_simps)
  subgoal by (simp add: company_matches_def logged_simps split: option.splits)
  subgoal unfolding verifiedKillByPID_def by (rule seen_exit.verifyAndKillPID)
  done

lemma sweep_success_seen:
  assumes "kr_Success (sw_last n) \<longrightarrow> exit_seen s" "kr_Success (sw_last (fst (sweep (logged pe) p c pids n s)))"
  shows "exit_seen (snd (sweep (logged pe) p c pids n s))"
  using assms
proof (induction pids arbitrary: n s)
  case (Cons pid pids)
  let ?s1 = "snd (name_matches (logged pe) p pid s)"
  let ?s2 = "snd (company_matches (logged pe) c pid ?s1)"
  let ?k = "verifiedKillByPID (logged pe) pid ?s2"
  have s1: "kr_Success (sw_last n) \<longrightarrow> exit_seen ?s1" and s2: "kr_Success (sw_last n) \<longrightarrow> exit_seen ?s2"
    using Cons.prems(1) checks_keep_seen by blast+
  show ?case
  proof (cases "fst (name_matches (logged pe) p pid s) \<and> fst (company_matches (logged pe) c pid ?s1)")
    case True
    let ?n = "n\<lparr>sw_last := fst ?k, sw_killed := sw_killed n + (if kr_Success (fst ?k) then 1 else 0)\<rparr>"
    have "kr_Success (sw_last ?n) \<longrightarrow> exit_seen (snd ?k)" by (simp add: success_seen)
    from Cons.IH [OF this] True Cons.prems(2) show ?thesis by (simp add: case_prod_beta Let_def)
  next
    case False
    then show ?thesis using Cons.IH [OF s1] Cons.IH [of "n\<lparr>sw_skipped := sw_skipped n + 1\<rparr>" ?s2] s2 Cons.prems(2)
      by (auto simp: case_prod_beta Let_def)
  qed
qed simp

lemma kill_success_seen:
  assumes "kr_Success (snd (fst (killByIdentity (logged pe) p c pid s)))"
  shows "exit_seen (snd (killByIdentity (logged pe) p c pid s))"
proof -
  let ?r = "if pid > 0 then killSpecificPIDIfMatches (logged pe) pid p c s else (None, s)"
  show ?thesis
  proof (cases "fst ?r")
    case None
    show ?thesis
    proof (cases "fst (ps_processes (logged pe) (snd ?r))")
      case (Inr pids)
      with None assms show ?thesis
        using sweep_success_seen [of "\<lparr>sw_killed = 0, sw_skipped = 0, sw_last = zero_result\<rparr>"]
        unfolding killByIdentity_def
        by (cases ?r; cases "ps_processes (logged pe) (snd ?r)") (simp add: case_prod_beta Let_def zero_result_def)
    next
      case (Inl e)
      with None assms show ?thesis unfolding killByIdentity_def
        by (cases ?r; cases "ps_processes (logged pe) (snd ?r)") simp
    qed
  next
    case (Some res)
    then have "kr_Success res \<Longrightarrow> exit_seen (snd ?r)"
      by (auto simp: killSpecificPIDIfMatches_def case_prod_beta Let_def success_seen split: if_splits)
    with Some assms show ?thesis unfolding killByIdentity_def by (cases ?r) (simp split: option.splits)
  qed
qed

lemma enforce_effect:
  assumes "evaluateProcessLocally order windows_sep policy name path = Some (decision, app)" "pd_Action decision \<noteq> PolicyActionLog"
  obtains m where "enforceLocalPolicy pe order policy name pid path (s, o1) =
    (let kill = killByIdentity pe name (ra_Company app) pid o1 in
     if pd_Action decision = PolicyActionKill
     then (reportPolicyEnforcement (if kr_Success (snd (fst kill)) then ''killed'' else PolicyActionLog) m s, snd kill)
     else (reportPolicyEnforcement (if pd_Action decision \<in> {PolicyActionBlock, PolicyActionDelete} then ''blocked'' else pd_Action decision) m s, o1))"
  using assms by (cases "pd_Action decision = PolicyActionKill")
    (auto simp: enforceLocalPolicy_def Let_def case_prod_beta enforced_action_def)

lemma Evaluate_action_from_rule:
  assumes "pd_Action (Evaluate rules ctx) \<noteq> PolicyActionLog"
  shows "\<exists>r \<in> set rules. pr_Action r = pd_Action (Evaluate rules ctx)"
  using assms Evaluate_best [of ctx rules]
  by (auto simp: Evaluate_action Evaluate_rule best_of_def split: option.splits)



end
