(* ===== verification/Agent_Session.thy ===== *)
theory Agent_Session
  imports Agent_Queue Agent_Kill
begin

text \<open>
  The agent's connection (\<^verbatim>\<open>agent/main.go\<close>): reconnecting with a growing delay, and the dispatch of a message
  from the server.  Messages that start a goroutine of their own give a task.
\<close>

definition initialBackoff :: int where "initialBackoff = 5 * second"
definition maxBackoff :: int where "maxBackoff = 60 * second"

text \<open>
  The loop of \<^verbatim>\<open>connectLoop\<close> over the outcomes of its dials: a failed dial draws a jitter (below half the
  current delay, \<^verbatim>\<open>rand.Int63n\<close>, here \<open>draw mod bound\<close>) and doubles the delay up to the maximum; a session that
  ran resets it.  The value is the list of waits, and the delay the loop is left with.
\<close>

datatype dial = DialFailed nat | SessionEnded

fun connectLoop :: "dial list \<Rightarrow> int \<Rightarrow> int list \<times> int" where
  "connectLoop [] backoff = ([], backoff)"
| "connectLoop (DialFailed draw # ds) backoff =
     (let wait = backoff + int draw mod (backoff div 2);
          (waits, b) = connectLoop ds (if backoff * 2 > maxBackoff then maxBackoff else backoff * 2)
      in (wait # waits, b))"
| "connectLoop (SessionEnded # ds) backoff =
     (let (waits, b) = connectLoop ds initialBackoff in (initialBackoff # waits, b))"

datatype agent_task =
    GoKillProcess json_object
  | GoKillByIdentity json_object
  | GoSendLogLines json_object
  | GoDeleteFile json_object
  | GoClearPending string
  | GoPolicyUpdate json_object

definition handleServerMessage :: "agent_env \<Rightarrow> json_object option \<Rightarrow> Worker \<Rightarrow> agent_task list \<times> Worker" where
  "handleServerMessage env data w =
     (case data of
        None \<Rightarrow> ([], w)
      | Some msg \<Rightarrow>
          let msgType = str_field msg ''type'' in
          if ListMem msgType [''exec'', ''winget'', ''msiexec_uninstall'', ''quiet_uninstall'', ''file_deploy'', ''deepfreeze'', ''install_ssh'', ''network_mode'']
          then ([], snd (submitCommand env msgType msg w))
          else if msgType = ''kill_process'' then ([GoKillProcess msg], w)
          else if msgType = ''kill_by_identity'' then ([GoKillByIdentity msg], w)
          else if msgType = ''get_logs'' then ([GoSendLogLines msg], w)
          else if msgType = ''delete_file'' then ([GoDeleteFile msg], w)
          else if msgType = ''exec_result_ack'' then ([GoClearPending (str_field msg ''job_id'')], w)
          else if msgType = ''policy_update'' then ([GoPolicyUpdate msg], w)
          else ([], w))"

text \<open>\<open>content\<close> is the log file, or the text of the error of reading it.\<close>

definition last_lines :: "int \<Rightarrow> string \<Rightarrow> string" where
  "last_lines n content =
     (let parts = Split_char (CHR 0x0A) content in
      Join (if int (length parts) > n then drop (length parts - nat n) parts else parts) [CHR 0x0A])"

definition sendLogLines :: "string + string \<Rightarrow> json_object \<Rightarrow> AgentState \<Rightarrow> AgentState" where
  "sendLogLines content msg s =
     (let n = (case msg ''lines'' of Some (JNum v) \<Rightarrow> if v > 0 then v else 50 | _ \<Rightarrow> 50) in
      wsSend (MsgLog (case content of Inl err \<Rightarrow> ''error reading log: '' @ err | Inr text \<Rightarrow> last_lines n text)) s)"

text \<open>\<open>remove\<close> is \<^verbatim>\<open>os.Remove\<close>: an error text or none.\<close>

definition handleDeleteFile :: "(string \<Rightarrow> string option) \<Rightarrow> json_object \<Rightarrow> AgentState \<Rightarrow> AgentState" where
  "handleDeleteFile remove msg s =
     (let path = str_field msg ''path'' in
      wsSend (MsgDeleted
        (if path = '''' then ''delete_file: path kosong''
         else case remove path of Some err \<Rightarrow> ''gagal hapus '' @ path @ '': '' @ err | None \<Rightarrow> ''berhasil hapus '' @ path)) s)"

subsection \<open>The delays\<close>

lemma units_pos: "initialBackoff = 5 * second" "maxBackoff = 60 * second" "second > 0"
  by (simp_all add: initialBackoff_def maxBackoff_def go_defs)

lemma connectLoop_bounds:
  assumes "initialBackoff \<le> backoff" "backoff \<le> maxBackoff"
  shows "list_all (\<lambda>w. initialBackoff \<le> w \<and> 2 * w < 3 * maxBackoff) (fst (connectLoop ds backoff))
    \<and> initialBackoff \<le> snd (connectLoop ds backoff) \<and> snd (connectLoop ds backoff) \<le> maxBackoff"
  using assms
proof (induction ds backoff rule: connectLoop.induct)
  case (2 draw ds backoff)
  let ?next = "if backoff * 2 > maxBackoff then maxBackoff else backoff * 2"
  have half: "0 < backoff div 2" using 2(2) by (simp add: initialBackoff_def go_defs)
  have jitter: "0 \<le> int draw mod (backoff div 2)" "int draw mod (backoff div 2) < backoff div 2" using half by simp_all
  have nx: "initialBackoff \<le> ?next" "?next \<le> maxBackoff" using 2(2,3) by (simp_all add: initialBackoff_def maxBackoff_def go_defs)
  have dbl: "2 * (backoff div 2) \<le> backoff" by presburger
  have w: "initialBackoff \<le> backoff + int draw mod (backoff div 2)" "2 * (backoff + int draw mod (backoff div 2)) < 3 * maxBackoff"
  proof -
    have "2 * (b + j) < 3 * m" if "j < h" "2 * h \<le> b" "b \<le> m" for b j h m :: int using that by presburger
    from this [OF jitter(2) dbl 2(3)] show "2 * (backoff + int draw mod (backoff div 2)) < 3 * maxBackoff" .
  qed (use jitter(1) 2(2) in linarith)
  then show ?case using 2(1) [OF refl nx] by (simp add: Let_def case_prod_beta)
next
  case (3 ds backoff)
  then show ?case by (simp add: Let_def case_prod_beta initialBackoff_def maxBackoff_def go_defs)
qed simp

end
