(* ===== verification/Hub_Handlers.thy ===== *)
theory Hub_Handlers
  imports Server_Software
begin

text \<open>
  The message handlers of \<^verbatim>\<open>server/hub.go\<close> and the event recorder of \<^verbatim>\<open>server/events.go\<close>: what the
  server does with each message of an agent, and with the end of a connection.  The parts the server wires
  together at start-up (alerter, deployer, batcher, catalog, policy engine, event recorder) are present.
  \<open>marshal\<close> is \<^verbatim>\<open>json.Marshal\<close>; the throttled log lines are left out.
\<close>

subsection \<open>Results\<close>

text \<open>The host name an alert shows: the agent's, or its id when the lookup fails or finds nothing.\<close>

definition hostname_of :: "db_env \<Rightarrow> DB \<Rightarrow> string \<Rightarrow> string" where
  "hostname_of env db a =
     (if env [''GetAgentByID'', a] then a else case GetAgentByID db a of None \<Rightarrow> a | Some r \<Rightarrow> ag_Hostname r)"

definition notifyDeployFailure :: "db_env \<Rightarrow> time \<Rightarrow> IncomingMessage \<Rightarrow> string \<Rightarrow> World \<Rightarrow> World" where
  "notifyDeployFailure env now msg output w =
     (let a = im_AgentID msg;
          what = (case GetDeployJobByID env (w_db w) (im_JobID msg) of
                    Inr (Some job) \<Rightarrow> dj_Type job @ '': '' @ dj_Payload job | _ \<Rightarrow> im_Type msg);
          errText = truncate_output 300 output
      in case GetAllSettings env (w_db w) of
           Inl e \<Rightarrow> w
         | Inr cfg \<Rightarrow> fire env now a ''deploy_failed''
             (warning_sign @ '' Deploy gagal di '' @ hostname_of env (w_db w) a @ '': '' @ what @ [CHR 0x0A] @ errText) w)"

definition ack_message :: "string \<Rightarrow> OutgoingMessage" where
  "ack_message jobID = (blank_message ''exec_result_ack'')\<lparr>om_JobID := jobID\<rparr>"

definition handleExecResult :: "db_env \<Rightarrow> time \<Rightarrow> IncomingMessage \<Rightarrow> World \<Rightarrow> World" where
  "handleExecResult env now msg w =
     (if im_JobID msg = '''' then w
      else
        let output = truncate_output 4096 (im_Output msg) in
        (case UpdateDeployResult env now (w_db w) (im_JobID msg) (im_AgentID msg) (im_Status msg) output
                (im_ExitCode msg) (im_DurationMS msg) None (im_Attempt msg) of
           Inl e \<Rightarrow> w
         | Inr (affected, db) \<Rightarrow>
             let w = snd (send_to (im_AgentID msg) (ack_message (im_JobID msg)) (w\<lparr>w_db := db\<rparr>)) in
             if affected = 0 then w
             else
               let w = (if im_Status msg = ''error'' then notifyDeployFailure env now msg output w else w);
                   w = (case UpdateJobStatus env (w_db w) (im_JobID msg) of Inl e \<Rightarrow> w | Inr db \<Rightarrow> w\<lparr>w_db := db\<rparr>)
               in go_task (TaskPump (im_AgentID msg)) w))"

subsection \<open>Events\<close>

definition meta_string :: "(string \<times> json) list \<Rightarrow> string \<Rightarrow> string" where
  "meta_string meta k = (case map_of meta k of Some (JStr s) \<Rightarrow> s | _ \<Rightarrow> '''')"

definition event_labels :: "(string \<times> string) list" where
  "event_labels =
     [(''usb_inserted'', [CHR 0xF0, CHR 0x9F, CHR 0x94, CHR 0x8C] @ '' USB terpasang''),
      (''usb_removed'', [CHR 0xF0, CHR 0x9F, CHR 0x94, CHR 0x8C] @ '' USB dilepas''),
      (''peripheral_connected'', [CHR 0xF0, CHR 0x9F, CHR 0x96, CHR 0xB1, CHR 0xEF, CHR 0xB8, CHR 0x8F] @ '' Perangkat terpasang''),
      (''peripheral_removed'', [CHR 0xF0, CHR 0x9F, CHR 0x96, CHR 0xB1, CHR 0xEF, CHR 0xB8, CHR 0x8F] @ '' Perangkat terlepas''),
      (''download_created'', [CHR 0xE2, CHR 0xAC, CHR 0x87, CHR 0xEF, CHR 0xB8, CHR 0x8F] @ '' File baru di folder terpantau''),
      (''wallpaper_changed'', [CHR 0xF0, CHR 0x9F, CHR 0x96, CHR 0xBC, CHR 0xEF, CHR 0xB8, CHR 0x8F] @ '' Wallpaper diubah''),
      (''theme_changed'', [CHR 0xF0, CHR 0x9F, CHR 0x8E, CHR 0xA8] @ '' Tema diubah''),
      (''config_changed'', [CHR 0xE2, CHR 0x9A, CHR 0x99, CHR 0xEF, CHR 0xB8, CHR 0x8F] @ '' Konfigurasi Windows berubah''),
      (''software_installed'', [CHR 0xF0, CHR 0x9F, CHR 0x93, CHR 0xA6] @ '' Software terinstall''),
      (''software_removed'', [CHR 0xF0, CHR 0x9F, CHR 0x93, CHR 0xA6] @ '' Software dihapus''),
      (''software_updated'', [CHR 0xF0, CHR 0x9F, CHR 0x93, CHR 0xA6] @ '' Software diperbarui'')]"

definition formatEventMessage :: "(json \<Rightarrow> string) \<Rightarrow> string \<Rightarrow> string \<Rightarrow> (string \<times> json) list \<Rightarrow> string" where
  "formatEventMessage marshal hostname eventType meta =
     (case map_of event_labels eventType of None \<Rightarrow> eventType | Some label \<Rightarrow> label) @
     '' '' @ em_dash @ '' '' @ hostname @ [CHR 0x0A] @ marshal (JObj meta)"

definition wastebasket :: string where
  "wastebasket = [CHR 0xF0, CHR 0x9F, CHR 0x97, CHR 0x91, CHR 0xEF, CHR 0xB8, CHR 0x8F]"

definition act :: "(json \<Rightarrow> string) \<Rightarrow> db_env \<Rightarrow> string \<Rightarrow> string \<Rightarrow> string \<Rightarrow> (string \<times> json) list \<Rightarrow> PolicyDecision \<Rightarrow> World \<Rightarrow> string \<times> World" where
  "act marshal env a hostname eventType meta decision w =
     (if pd_Action decision = PolicyActionNotify then
        (''notify'', NotifyEvent env (formatEventMessage marshal hostname eventType meta) w)
      else if pd_Action decision = PolicyActionDelete then
        (if eventType \<noteq> ''download_created'' then (''log'', w)
         else
           let path = meta_string meta ''path'' in
           if path = '''' then (''log'', w)
           else
             let (sent, w) = send_to a ((blank_message ''delete_file'')\<lparr>om_Path := path\<rparr>) w in
             if \<not> sent then (''log'', w)
             else (''deleted'', NotifyEvent env (wastebasket @ '' File dihapus otomatis di '' @ hostname @ '': '' @ path) w))
      else if pd_Action decision = PolicyActionBlock then
        (''blocked'', NotifyEvent env (formatEventMessage marshal hostname eventType meta) w)
      else (''log'', w))"

definition integrateCatalog :: "db_env \<Rightarrow> time \<Rightarrow> (string \<times> json) list \<Rightarrow> World \<Rightarrow> World" where
  "integrateCatalog env now meta w =
     (let product = meta_string meta ''display_name'' in
      if product = '''' then w
      else w\<lparr>w_db := snd (UpsertApplicationByProduct env now (w_db w) product (meta_string meta ''publisher'')
             (Some \<lparr>am_ProductName = '''', am_Company = '''', am_Description = '''', am_ProductVersion = meta_string meta ''version'',
                    am_SHA256 = ''''\<rparr>))\<rparr>)"

definition event_context :: "db_env \<Rightarrow> DB \<Rightarrow> string \<Rightarrow> string \<Rightarrow> (string \<times> json) list \<Rightarrow> PolicyContext" where
  "event_context env db a eventType meta =
     \<lparr>pc_AgentID = a, pc_DeviceGroup = (case GetAgentDeviceGroup env db a of Inl e \<Rightarrow> '''' | Inr g \<Rightarrow> g),
      pc_EventType = eventType, pc_CategoryID = None, pc_AppStatus = '''', pc_FileExtension = meta_string meta ''extension'',
      pc_ExecutionLocation =
        (case map_of meta ''location'' of
           Some (JStr loc) \<Rightarrow> loc
         | _ \<Rightarrow> if eventType = ''usb_inserted'' \<or> eventType = ''usb_removed'' then ''usb'' else '''')\<rparr>"

definition Record :: "(json \<Rightarrow> string) \<Rightarrow> db_env \<Rightarrow> time \<Rightarrow> string \<Rightarrow> string \<Rightarrow> string \<Rightarrow> (string \<times> json) list \<Rightarrow> World \<Rightarrow> World" where
  "Record marshal env now a hostname eventType meta w =
     (let decision = PolicyEngine_Evaluate env (w_db w) (event_context env (w_db w) a eventType meta);
          (finalAction, w) = act marshal env a hostname eventType meta decision w;
          w = (case InsertEvent env now (w_db w) a eventType (JObj meta) finalAction of Inl e \<Rightarrow> w | Inr db \<Rightarrow> w\<lparr>w_db := db\<rparr>);
          w = (if eventType = ''software_installed'' \<or> eventType = ''software_updated'' then integrateCatalog env now meta w else w)
      in if eventType = ''peripheral_removed''
         then FireTamperAlert env now a hostname (meta_string meta ''device_name'') (meta_string meta ''device_class'') w else w)"

definition handleEvent :: "(json \<Rightarrow> string) \<Rightarrow> db_env \<Rightarrow> time \<Rightarrow> nat \<Rightarrow> IncomingMessage \<Rightarrow> World \<Rightarrow> World" where
  "handleEvent marshal env now c msg w =
     (let a = sender w c msg in
      if a = '''' \<or> im_EventType msg = '''' then w
      else Record marshal env now a (hostname_of env (w_db w) a) (im_EventType msg) (im_Metadata msg) w)"

definition handleProcessStart ::
  "db_env \<Rightarrow> time \<Rightarrow> (string \<times> string) list \<Rightarrow> (char \<Rightarrow> bool) \<Rightarrow> nat \<Rightarrow> IncomingMessage \<Rightarrow> World \<Rightarrow> World" where
  "handleProcessStart env now order sep c msg w =
     (let a = sender w c msg in
      if a = '''' \<or> im_Processes msg = [] then w
      else EvaluateProcesses env now order sep a (hostname_of env (w_db w) a) (im_Processes msg) w)"

definition handleSoftwareInventory :: "db_env \<Rightarrow> time \<Rightarrow> nat \<Rightarrow> IncomingMessage \<Rightarrow> World \<Rightarrow> World" where
  "handleSoftwareInventory env now c msg w =
     (let a = sender w c msg in
      if a = '''' then w
      else case ReconcileSoftwareInventory env now (w_db w) a (im_SoftwareItems msg) of
        Inl e \<Rightarrow> w | Inr db \<Rightarrow> w\<lparr>w_db := db\<rparr>)"

subsection \<open>Metrics\<close>

text \<open>The first metrics message of a connection registers it.\<close>

definition register_connection :: "db_env \<Rightarrow> nat \<Rightarrow> IncomingMessage \<Rightarrow> World \<Rightarrow> World" where
  "register_connection env c msg w =
     (let a = im_AgentID msg;
          wasOffline = (\<not> env [''GetAgentByID'', a] \<and> (case GetAgentByID (w_db w) a of None \<Rightarrow> False | Some r \<Rightarrow> ag_Status r = ''offline''));
          w = w\<lparr>w_hub := addClient c (set_conn_agent c a (w_hub w))\<rparr>;
          w = (if wasOffline then go_task (TaskRecovery a (im_Hostname msg)) w else w);
          w = go_task (TaskPump a) w
      in case GetAgentDesiredNetworkMode env (w_db w) a of
           Inl e \<Rightarrow> w
         | Inr mode \<Rightarrow> snd (send_to a ((blank_message ''network_mode'')\<lparr>om_NetworkMode := mode\<rparr>) w))"

definition metrics_agent :: "time \<Rightarrow> IncomingMessage \<Rightarrow> Agent" where
  "metrics_agent now msg =
     \<lparr>ag_ID = im_AgentID msg, ag_Hostname = im_Hostname msg, ag_IP = im_IP msg, ag_OS = im_OS msg, ag_LastSeen = now, ag_MeshID = '''',
      ag_Status = ''online'', ag_CreatedAt = now, ag_AgentVersion = im_AgentVersion msg, ag_WindowsVersion = im_WindowsVersion msg,
      ag_DiskCapacityGB = im_DiskCapacityGB msg, ag_DeviceGroup = '''', ag_MacAddress = im_MacAddress msg, ag_Floor = '''',
      ag_DesiredNetworkMode = '''', ag_CurrentNetworkMode = '''', ag_NetworkModeStatus = '''', ag_NetworkModeDetail = '''',
      ag_NetworkModeUpdatedAt = 0\<rparr>"

definition handleMetrics ::
  "(string \<Rightarrow> string list option) \<Rightarrow> db_env \<Rightarrow> time \<Rightarrow> (string \<times> string) list \<Rightarrow> (char \<Rightarrow> bool) \<Rightarrow> nat \<Rightarrow> IncomingMessage \<Rightarrow> World \<Rightarrow> World" where
  "handleMetrics unmarshal env now order sep c msg w =
     (let a = im_AgentID msg in
      if a = '''' then w
      else
        let w = (if conn_agent (w_hub w) c = '''' then register_connection env c msg w else w) in
        (case UpsertAgent env (w_db w) (metrics_agent now msg) of
           Inl e \<Rightarrow> w
         | Inr db \<Rightarrow>
             let w = batcher_Add now a (im_CPU msg) (im_RAM msg) (w\<lparr>w_db := db\<rparr>);
                 w = (if im_Processes msg = [] then w
                      else
                        let w = (case UpsertProcesses env (w_db w) a (im_Processes msg) of Inl e \<Rightarrow> w | Inr db \<Rightarrow> w\<lparr>w_db := db\<rparr>);
                            w = w\<lparr>w_db := Observe env now a (im_Processes msg) (w_db w)\<rparr>
                        in EvaluateProcesses env now order sep a (im_Hostname msg) (im_Processes msg) w)
             in CheckMetrics unmarshal env now a (im_Hostname msg) (im_CPU msg) (im_RAM msg) (im_Processes msg) w))"

subsection \<open>The dispatcher\<close>

record server_env =
  sv_env :: db_env
  sv_order :: "(string \<times> string) list"
  sv_sep :: "char \<Rightarrow> bool"
  sv_marshal :: "json \<Rightarrow> string"
  sv_unmarshal :: "string \<Rightarrow> string list option"

definition handleMessage :: "server_env \<Rightarrow> time \<Rightarrow> nat \<Rightarrow> IncomingMessage option \<Rightarrow> World \<Rightarrow> World" where
  "handleMessage sv now c data w =
     (case data of
        None \<Rightarrow> w
      | Some msg \<Rightarrow>
          let env = sv_env sv in
          if im_Type msg = ''metrics'' then handleMetrics (sv_unmarshal sv) env now (sv_order sv) (sv_sep sv) c msg w
          else if im_Type msg = ''exec_result'' \<or> im_Type msg = ''deepfreeze_result'' then handleExecResult env now msg w
          else if im_Type msg = ''log_result'' then handleLogResult c msg w
          else if im_Type msg = ''kill_result'' then handleKillResult c msg w
          else if im_Type msg = ''event'' then handleEvent (sv_marshal sv) env now c msg w
          else if im_Type msg = ''proc_start'' then handleProcessStart env now (sv_order sv) (sv_sep sv) c msg w
          else if im_Type msg = ''network_mode_result'' then handleNetworkModeResult env now msg w
          else if im_Type msg = ''policy_version_check'' then handlePolicyVersionCheck env c msg w
          else if im_Type msg = ''policy_enforcement'' then handlePolicyEnforcement env now c msg w
          else if im_Type msg = ''software_inventory_snapshot'' then handleSoftwareInventory env now c msg w
          else w)"

text \<open>The end of a connection's read loop.\<close>

definition readPump_end :: "db_env \<Rightarrow> time \<Rightarrow> nat \<Rightarrow> World \<Rightarrow> World" where
  "readPump_end env now c w =
     (let (h, gone) = removeClient c (w_hub w); w = w\<lparr>w_hub := h\<rparr> in
      case gone of
        None \<Rightarrow> w
      | Some a \<Rightarrow> (case UpdateAgentStatus env now (w_db w) a ''offline'' of Inl e \<Rightarrow> w | Inr db \<Rightarrow> w\<lparr>w_db := db\<rparr>))"

end
