(* ===== verification/Delivery.thy ===== *)
theory Delivery
  imports Agent_Session Hub_Handlers Queue_Properties
begin

text \<open>
  A job's way from the server to an agent and back: the JSON forms of a dispatched job, of a result and of
  its acknowledgement join the server's handlers (\<^verbatim>\<open>server/hub.go\<close>, \<^verbatim>\<open>server/deploy.go\<close>) with the agent's
  (\<^verbatim>\<open>agent/main.go\<close>, \<^verbatim>\<open>agent/cmdqueue.go\<close>, \<^verbatim>\<open>agent/ack.go\<close>).  A job number survives the float64 of a
  generic JSON decoder, being far below \<open>2 ^ 53\<close>.  \<open>show_time\<close> is the encoder of \<^verbatim>\<open>time.Time\<close>.
\<close>

subsection \<open>Text in JSON\<close>

text \<open>
  \<^verbatim>\<open>encoding/json\<close> replaces every byte that is not part of a well-formed UTF-8 sequence by U+FFFD.
  \<open>rune_len\<close> is the length of the sequence at the head of a text, 0 when it is malformed.
\<close>

definition byte_in :: "nat \<Rightarrow> nat \<Rightarrow> nat \<Rightarrow> string \<Rightarrow> bool" where
  "byte_in i lo hi s \<longleftrightarrow> i < length s \<and> lo \<le> of_char (s ! i) \<and> of_char (s ! i) \<le> hi"

definition rune_len :: "string \<Rightarrow> nat" where
  "rune_len s =
     (if byte_in 0 0 0x7F s then 1
      else if byte_in 0 0xC2 0xDF s \<and> byte_in 1 0x80 0xBF s then 2
      else if byte_in 0 0xE0 0xEF s
        \<and> byte_in 1 (if byte_in 0 0xE0 0xE0 s then 0xA0 else 0x80) (if byte_in 0 0xED 0xED s then 0x9F else 0xBF) s
        \<and> byte_in 2 0x80 0xBF s then 3
      else if byte_in 0 0xF0 0xF4 s
        \<and> byte_in 1 (if byte_in 0 0xF0 0xF0 s then 0x90 else 0x80) (if byte_in 0 0xF4 0xF4 s then 0x8F else 0xBF) s
        \<and> byte_in 2 0x80 0xBF s \<and> byte_in 3 0x80 0xBF s then 4
      else 0)"

function json_text :: "string \<Rightarrow> string" where
  "json_text s =
     (if s = [] then []
      else if rune_len s = 0 then [CHR 0xEF, CHR 0xBF, CHR 0xBD] @ json_text (tl s)
      else take (rune_len s) s @ json_text (drop (rune_len s) s))"
  by pat_completeness auto
termination by (relation "measure length") (simp_all add: neq_Nil_conv)

declare json_text.simps [simp del]

definition ascii :: "string \<Rightarrow> bool" where
  "ascii s \<longleftrightarrow> list_all (\<lambda>c. of_char c < (0x80 :: nat)) s"

subsection \<open>Messages\<close>

text \<open>
  The JSON object of an \<^verbatim>\<open>OutgoingMessage\<close>: empty fields are omitted.  The rule and application tables of a
  policy update are read by the agent's policy cache and are not part of this object.
\<close>

definition text_member :: "string \<Rightarrow> string \<Rightarrow> (string \<times> json) list" where
  "text_member k s = (if s = '''' then [] else [(k, JStr (json_text s))])"

definition num_member :: "string \<Rightarrow> int \<Rightarrow> (string \<times> json) list" where
  "num_member k n = (if n = 0 then [] else [(k, JNum n)])"

definition message_json :: "(time \<Rightarrow> string) \<Rightarrow> OutgoingMessage \<Rightarrow> json_object" where
  "message_json show_time m =
     map_of ([(''type'', JStr (json_text (om_Type m)))] @ text_member ''job_id'' (om_JobID m) @
       (case om_Attempt m of None \<Rightarrow> [] | Some n \<Rightarrow> [(''attempt'', JNum n)]) @
       text_member ''payload'' (om_Payload m) @ text_member ''filename'' (om_Filename m) @ text_member ''checksum'' (om_Checksum m) @
       text_member ''args'' (om_Args m) @ num_member ''lines'' (om_Lines m) @ text_member ''action'' (om_Action m) @
       text_member ''password'' (om_Password m) @ num_member ''pid'' (om_PID m) @ text_member ''proc_name'' (om_ProcName m) @
       text_member ''path'' (om_Path m) @ text_member ''company'' (om_Company m) @ text_member ''network_mode'' (om_NetworkMode m) @
       (case om_ExpireAt m of None \<Rightarrow> [] | Some t \<Rightarrow> [(''expire_at'', JStr (show_time t))]) @
       num_member ''policy_version'' (om_PolicyVersion m) @ text_member ''device_group'' (om_DeviceGroup m))"

text \<open>
  What the server decodes from a result: an attempt that is neither a number nor null is a decoding error,
  and \<^verbatim>\<open>handleMessage\<close> drops the message.
\<close>

definition result_message :: "exec_result \<Rightarrow> IncomingMessage option" where
  "result_message r =
     (let msg = (\<lambda>attempt. \<lparr>im_Type = json_text (er_Type r), im_AgentID = json_text (er_AgentID r), im_Hostname = '''', im_IP = '''',
            im_OS = '''', im_CPU = 0, im_RAM = 0, im_Processes = [], im_AgentVersion = '''', im_WindowsVersion = '''',
            im_DiskCapacityGB = 0, im_MacAddress = '''', im_JobID = json_text (er_JobID r), im_Attempt = attempt,
            im_Status = json_text (er_Status r), im_Output = json_text (er_Output r), im_ExitCode = er_ExitCode r,
            im_DurationMS = er_DurationMS r, im_NetworkMode = '''', im_EventType = '''', im_Metadata = [],
            im_PolicyVersion = 0, im_SoftwareItems = []\<rparr>)
      in case er_Attempt r of JNull \<Rightarrow> Some (msg None) | JNum n \<Rightarrow> Some (msg (Some n)) | _ \<Rightarrow> None)"

text \<open>A handler's report: one result of the job and attempt of its message, kept until it is acknowledged.\<close>

definition result_of :: "string \<Rightarrow> json_object \<Rightarrow> exec_result \<Rightarrow> bool" where
  "result_of agentID msg r \<longleftrightarrow>
     er_JobID r = str_field msg ''job_id'' \<and> er_Attempt r = field_or_null msg ''attempt'' \<and> er_AgentID r = agentID
     \<and> er_Type r \<in> {''exec_result'', ''deepfreeze_result''} \<and> er_Status r \<in> {''success'', ''error'', ''ok'', ''expired''}"

definition reported :: "time \<Rightarrow> string \<Rightarrow> json_object \<Rightarrow> AgentState \<Rightarrow> AgentState \<Rightarrow> bool" where
  "reported now agentID msg s s' \<longleftrightarrow>
     (\<exists>r. result_of agentID msg r \<and> loadPendingResults s' = pending_put now (str_field msg ''job_id'') r (loadPendingResults s))"

definition sample_server :: server_env where
  "sample_server = \<lparr>sv_env = no_faults, sv_order = watchedLocationMarkers, sv_sep = (\<lambda>c. c = CHR ''/''), sv_marshal = (\<lambda>_. ''{}''),
     sv_unmarshal = (\<lambda>_. Some [])\<rparr>"

subsection \<open>Plain text is carried unchanged\<close>

lemma json_text_ascii: "ascii s \<Longrightarrow> json_text s = s"
proof (induction s)
  case (Cons c s)
  then have "rune_len (c # s) = 1" by (simp add: rune_len_def byte_in_def ascii_def)
  with Cons show ?case by (subst json_text.simps) (simp add: ascii_def)
qed (simp add: json_text.simps)

lemma ascii_literals [simp]: "ascii ''exec_result''" "ascii ''deepfreeze_result''" "ascii ''exec_result_ack''"
  "ascii ''success''" "ascii ''error''" "ascii ''ok''" "ascii ''expired''"
  by (simp_all add: ascii_def)

lemma truncate_output_idem: "truncate_output n (truncate_output n s) = truncate_output n s"
  by (simp add: truncate_output_def)

lemma members_get [simp]:
  "map_of (text_member k s) k' = (if k' = k \<and> s \<noteq> '''' then Some (JStr (json_text s)) else None)"
  "map_of (num_member k n) k' = (if k' = k \<and> n \<noteq> 0 then Some (JNum n) else None)"
  "map_of (case x of None \<Rightarrow> [] | Some v \<Rightarrow> [(k, f v)]) k' = (if k' = k then map_option f x else None)"
  by (simp_all add: text_member_def num_member_def split: option.split)

lemma message_json_get:
  "message_json shw m ''type'' = Some (JStr (json_text (om_Type m)))"
  "str_field (message_json shw m) ''job_id'' = json_text (om_JobID m)"
  "field_or_null (message_json shw m) ''attempt'' = (case om_Attempt m of None \<Rightarrow> JNull | Some n \<Rightarrow> JNum n)"
  by (simp_all add: message_json_def map_add_def str_field_def field_or_null_def json_text.simps [of "''''"] split: option.split)

subsection \<open>Every handler leaves one result to acknowledge\<close>

lemma pending_frames [simp]:
  "loadPendingResults (wsSend m s) = loadPendingResults s"
  "loadPendingResults (triggerImmediateSnapshot s) = loadPendingResults s"
  "loadPendingResults (writeSelfUpdateCheckpoint os now a j f att s) = loadPendingResults s"
  "loadPendingResults (clearSelfUpdateCheckpoint s) = loadPendingResults s"
  "loadPendingResults (recordCompletedResult os now j r s) = loadPendingResults s"
  "loadPendingResults (snd (completedJobResult os now j s)) = loadPendingResults s"
  by (simp_all add: loadPendingResults_def wsSend_def triggerImmediateSnapshot_def writeSelfUpdateCheckpoint_def
      clearSelfUpdateCheckpoint_def recordCompletedResult_def saveCompletedJobs_def lookup_frame split: option.splits)

lemma ssh_pending [simp]: "loadPendingResults (snd (snd (run_ssh_steps os j steps out s))) = loadPendingResults s"
  by (induction os j steps out s rule: run_ssh_steps.induct) (simp_all add: Let_def split: option.splits)

lemma ssh_status: "fst (run_ssh_steps os j steps out s) \<in> {''success'', ''error''}"
  by (induction os j steps out s rule: run_ssh_steps.induct) (simp_all add: Let_def split: option.splits)

lemma command_status: "pr_status (command_result r) \<in> {''success'', ''error''}"
  by (simp add: command_result_def Let_def split: option.splits)

lemma run_status [simp]:
  "pr_status (runPSCommand os c) \<in> {''success'', ''error''}" "pr_status (runStructuredCommand os e args) \<in> {''success'', ''error''}"
  "pr_status (refused t) \<in> {''success'', ''error''}"
  unfolding runPSCommand_def runStructuredCommand_def by (rule command_status)+ (simp add: refused_def)

lemma sendDurable_pending:
  assumes "\<not> os_save_pending_fails os"
  shows "loadPendingResults (sendDurableResult os now j r s) = pending_put now j r (loadPendingResults s)"
proof -
  have "loadPendingResults (persistPendingResult os now j r s) = pending_put now j r (loadPendingResults s)"
    using assms by (simp add: persistPendingResult_def savePendingResults_def loadPendingResults_def [of "s\<lparr>a_pending := _\<rparr>"])
  then show ?thesis by (simp add: sendDurableResult_def)
qed

lemma sendDurable_reported:
  assumes "\<not> os_save_pending_fails os" "result_of agentID msg r"
  shows "reported now agentID msg s (sendDurableResult os now (str_field msg ''job_id'') r s)"
  using assms(2) sendDurable_pending [OF assms(1)] unfolding reported_def by blast

lemma sendExec_reported:
  assumes "\<not> os_save_pending_fails os" "pr_status r \<in> {''success'', ''error''}"
  shows "reported now agentID msg s
    (sendExecResult os now agentID (str_field msg ''job_id'') (field_or_null msg ''attempt'') r s)"
  unfolding sendExecResult_def by (rule sendDurable_reported [OF assms(1)]) (use assms(2) in \<open>auto simp: result_of_def\<close>)

lemma reported_frame:
  "reported now a msg s1 s2 \<Longrightarrow> loadPendingResults s1 = loadPendingResults s \<Longrightarrow> loadPendingResults s3 = loadPendingResults s2 \<Longrightarrow>
   reported now a msg s s3"
  unfolding reported_def by simp

lemma handler_reported:
  assumes pend: "\<not> os_save_pending_fails (ae_os env)" and "command_ok cmd" "reports cmd"
  shows "reported now agentID (ic_Raw cmd) s (fst (runCommandHandler env now agentID cmd (s, n)))"
proof -
  let ?os = "ae_os env" and ?m = "ic_Raw cmd"
  note send = sendExec_reported [OF pend]
  have "reported now agentID ?m s (executeCommand ?os now agentID ?m s)"
    unfolding executeCommand_def Let_def by (auto intro: reported_frame [OF send [OF run_status(1)]] send [OF run_status(1)])
  moreover have "reported now agentID ?m s (executeMsiexecUninstall ?os now agentID ?m s)"
    unfolding executeMsiexecUninstall_def Let_def
    by (auto intro: send [OF run_status(3)] reported_frame [OF send [OF run_status(2)]] split: option.split)
  moreover have "reported now agentID ?m s (executeQuietUninstall ?os now agentID ?m s)"
    unfolding executeQuietUninstall_def Let_def
    by (auto intro: send [OF run_status(3)] reported_frame [OF send [OF run_status(2)]] split: sum.split)
  moreover have "reported now agentID ?m s (deployFile ?os now agentID ?m s)"
    unfolding deployFile_def Let_def
    by (auto intro: send [OF run_status(3)] reported_frame [OF send [OF run_status(1)] _ refl] split: sum.split)
  moreover have "reported now agentID ?m s (handleDeepFreeze ?os now agentID ?m s)"
  proof -
    have "reported now agentID ?m s (send_deepfreeze ?os now agentID (str_field ?m ''job_id'') (field_or_null ?m ''attempt'') status out s)"
      if "status \<in> {''ok'', ''error''}" for status out
      unfolding send_deepfreeze_def by (rule sendDurable_reported [OF pend]) (use that in \<open>auto simp: result_of_def\<close>)
    then show ?thesis unfolding handleDeepFreeze_def Let_def by (simp add: case_prod_beta)
  qed
  moreover have "reported now agentID ?m s (handleInstallSSH ?os now agentID ?m s)"
    unfolding handleInstallSSH_def Let_def case_prod_beta
    by (rule reported_frame [OF sendDurable_reported [OF pend]])
      (use ssh_status [of ?os "str_field ?m ''job_id''" "ssh_steps (str_field ?m ''args'')" "''''" s] in \<open>auto simp: result_of_def\<close>)
  ultimately show ?thesis
    using assms(2,3) unfolding runCommandHandler_def Let_def prod.case command_ok_def reports_def
    by (auto simp: serialCommandTypes_def ListMem_iff)
qed

lemma processCommand_reported:
  assumes "\<not> os_save_pending_fails (ae_os env)" "command_ok cmd" "reports cmd" "wk_running w = None" "ic_JobID cmd \<noteq> ''''"
    and "completed_get (wk_now w) (loadCompletedJobs (wk_agent w)) (ic_JobID cmd) = None"
  shows "reported (wk_now w) agentID (ic_Raw cmd) (wk_agent w) (wk_agent (processCommand env agentID cmd w))"
proof -
  let ?j = "ic_JobID cmd" and ?now = "wk_now w" and ?os = "ae_os env"
  obtain s where look: "completedJobResult ?os ?now ?j (wk_agent w) = (None, s)"
    using completed_get_lookup [OF assms(5), of ?os ?now "wk_agent w"] assms(6) by (metis prod.collapse)
  have s: "loadPendingResults s = loadPendingResults (wk_agent w)"
    using pending_frames(6) [of ?os ?now ?j "wk_agent w"] look by simp
  have job: "ic_JobID cmd = str_field (ic_Raw cmd) ''job_id''" using assms(2) by (simp add: command_ok_def)
  have "reported ?now agentID (ic_Raw cmd) s (sendExpiredResult ?os ?now agentID cmd s)"
    unfolding sendExpiredResult_def job by (rule sendDurable_reported [OF assms(1)]) (simp add: result_of_def)
  moreover have "reported ?now agentID (ic_Raw cmd) s (fst (runCommandHandler env ?now agentID cmd (s, wk_net w)))"
    by (rule handler_reported [OF assms(1-3)])
  ultimately show ?thesis
    using look assms(3-5) s
    by (auto simp: processCommand_def process_begin_def process_end_def Let_def note_event_def noted_def trackCommandDone_def
        case_prod_beta intro: reported_frame)
qed

subsection \<open>The server's side\<close>

lemma fire_results [simp]: "deploy_results (w_db (fire env now a kind msg w)) = deploy_results (w_db w)"
  using fire_db [of env now a kind msg w] by auto

lemma notice_hub [simp]: "w_hub (fire env now a kind msg w) = w_hub w"
  by (simp add: fire_def split: sum.splits)

lemma notifyDeployFailure_frame [simp]:
  "deploy_results (w_db (notifyDeployFailure env now msg out w)) = deploy_results (w_db w)"
  "w_hub (notifyDeployFailure env now msg out w) = w_hub w"
  by (simp_all add: notifyDeployFailure_def Let_def split: sum.split)

lemma handleExecResult_effect:
  assumes "im_JobID msg \<noteq> ''''" "\<not> env [''UpdateDeployResult'', im_JobID msg, im_AgentID msg, im_Status msg]"
    and "hub_inv (w_hub w)" "send_room (w_hub w) (im_AgentID msg)"
  shows "deploy_results (w_db (handleExecResult env now msg w)) =
      map (\<lambda>r. if update_matches (im_JobID msg) (im_AgentID msg) (im_Attempt msg) r
               then set_result now (im_Status msg) (truncate_output 4096 (im_Output msg)) (im_ExitCode msg) (im_DurationMS msg) None r
               else r) (deploy_results (w_db w))"
    "queued_for (w_hub (handleExecResult env now msg w)) (im_AgentID msg) =
      queued_for (w_hub w) (im_AgentID msg) @ [ack_message (im_JobID msg)]"
proof -
  have sent: "queued_for (snd (SendToAgent (w_hub w) (im_AgentID msg) m)) (im_AgentID msg) = queued_for (w_hub w) (im_AgentID msg) @ [m]" for m
    using SendToAgent_sent SendToAgent_iff [OF assms(3)] assms(4) by blast
  show "queued_for (w_hub (handleExecResult env now msg w)) (im_AgentID msg) =
      queued_for (w_hub w) (im_AgentID msg) @ [ack_message (im_JobID msg)]"
    using assms(1,2) sent by (auto simp: handleExecResult_def Let_def UpdateDeployResult_def send_to_hub split: sum.split)
  show "deploy_results (w_db (handleExecResult env now msg w)) =
      map (\<lambda>r. if update_matches (im_JobID msg) (im_AgentID msg) (im_Attempt msg) r
               then set_result now (im_Status msg) (truncate_output 4096 (im_Output msg)) (im_ExitCode msg) (im_DurationMS msg) None r
               else r) (deploy_results (w_db w))"
    using assms(1,2) by (auto simp: handleExecResult_def Let_def UpdateDeployResult_def dest: UpdateJobStatus_results split: sum.split)
qed

subsection \<open>Joining both sides\<close>

lemma result_message_of:
  assumes "result_of a msg r" "field_or_null msg ''attempt'' = JNum n" "ascii a" "ascii (str_field msg ''job_id'')"
  obtains m where "result_message r = Some m" "im_Type m \<in> {''exec_result'', ''deepfreeze_result''}" "im_AgentID m = a"
    "im_JobID m = str_field msg ''job_id''" "im_Attempt m = Some n" "im_Status m = er_Status r" "im_Output m = json_text (er_Output r)"
    "im_ExitCode m = er_ExitCode r" "im_DurationMS m = er_DurationMS r"
  using assms by (auto simp: result_message_def result_of_def json_text_ascii)

lemma handle_result:
  assumes "im_Type m \<in> {''exec_result'', ''deepfreeze_result''}"
  shows "handleMessage sv now c (Some m) w = handleExecResult (sv_env sv) now m w"
  using assms by (auto simp: handleMessage_def)

lemma ack_clears:
  assumes "ascii j" "\<not> os_save_pending_fails os"
  shows "handleServerMessage env (Some (message_json shw (ack_message j))) wk = ([GoClearPending j], wk)"
    "loadPendingResults (clearPendingResult os j s) = filter (\<lambda>e. pe_JobID e \<noteq> j) (loadPendingResults s)"
proof -
  have "str_field (message_json shw (ack_message j)) ''type'' = ''exec_result_ack''"
    by (simp add: str_field_def message_json_get(1) ack_message_def blank_message_def json_text_ascii)
  moreover have "str_field (message_json shw (ack_message j)) ''job_id'' = j"
    by (simp add: message_json_get(2) ack_message_def json_text_ascii assms(1))
  ultimately show "handleServerMessage env (Some (message_json shw (ack_message j))) wk = ([GoClearPending j], wk)"
    by (simp add: handleServerMessage_def ListMem_iff)
  have "l = filter (\<lambda>e. pe_JobID e \<noteq> j) l" if "\<not> list_ex (\<lambda>e. pe_JobID e = j) l" for l
    using that by (auto simp: list_ex_iff filter_id_conv [THEN iffD2])
  with assms(2) show "loadPendingResults (clearPendingResult os j s) = filter (\<lambda>e. pe_JobID e \<noteq> j) (loadPendingResults s)"
    by (cases "list_ex (\<lambda>e. pe_JobID e = j) (loadPendingResults s)")
      (simp_all add: clearPendingResult_def Let_def savePendingResults_def loadPendingResults_def)
qed

lemma ascii_command: "ListMem t serialCommandTypes \<Longrightarrow> ascii t"
  by (auto simp: serialCommandTypes_def ListMem_iff ascii_def)

lemma dispatch_fields:
  assumes "ListMem (dj_Type job) serialCommandTypes" "ascii (dj_ID job)"
  shows "str_field (message_json shw (dispatch_message cks job n)) ''type'' = dj_Type job"
    "str_field (message_json shw (dispatch_message cks job n)) ''job_id'' = dj_ID job"
    "field_or_null (message_json shw (dispatch_message cks job n)) ''attempt'' = JNum n"
proof -
  have "om_Type (dispatch_message cks job n) = dj_Type job" "om_JobID (dispatch_message cks job n) = dj_ID job"
    "om_Attempt (dispatch_message cks job n) = Some n"
    by (simp_all add: dispatch_message_def Let_def blank_message_def)
  then show "str_field (message_json shw (dispatch_message cks job n)) ''type'' = dj_Type job"
    "str_field (message_json shw (dispatch_message cks job n)) ''job_id'' = dj_ID job"
    "field_or_null (message_json shw (dispatch_message cks job n)) ''attempt'' = JNum n"
    using ascii_command [OF assms(1)] assms(2)
    by (simp_all add: str_field_def [of _ "''type''"] message_json_get json_text_ascii)
qed

lemma serial_message:
  assumes "ListMem (str_field msg ''type'') serialCommandTypes"
  shows "handleServerMessage env (Some msg) wk = ([], snd (submitCommand env (str_field msg ''type'') msg wk))"
  using assms by (simp add: handleServerMessage_def Let_def serialCommandTypes_def ListMem_iff disj_ac)

lemma submit_queues:
  assumes "ListMem ty serialCommandTypes" "str_field msg ''job_id'' = j" "j \<noteq> ''''" "wk_started wk" "wk_queue wk = []" "j \<notin> wk_active wk"
    and "completed_get (wk_now wk) (loadCompletedJobs (wk_agent wk)) j = None"
  obtains s where "snd (submitCommand env ty msg wk) =
      wk\<lparr>wk_agent := s, wk_active := insert j (wk_active wk),
         wk_queue := [\<lparr>ic_Type = ty, ic_JobID = j, ic_ExpireAt = parseExpireAt env msg, ic_Raw = msg\<rparr>]\<rparr>"
    "completedJobResult (ae_os env) (wk_now wk) j (wk_agent wk) = (None, s)"
proof -
  obtain s where look: "completedJobResult (ae_os env) (wk_now wk) j (wk_agent wk) = (None, s)"
    using completed_get_lookup [OF assms(3), of "ae_os env" "wk_now wk" "wk_agent wk"] assms(7) by (metis prod.collapse)
  show ?thesis
    by (rule that [OF _ look])
      (use assms look in \<open>simp add: submitCommand_def submit_check_def submit_claim_def Let_def queue_capacity_def\<close>)
qed

lemma lookup_again:
  assumes "completedJobResult os now j s = (None, s')" "j \<noteq> ''''"
  shows "completed_get now (loadCompletedJobs s') j = None"
  using assms by (auto simp: completedJobResult_def Let_def saveCompletedJobs_def completed_get_def loadCompletedJobs_def
      split: if_splits option.splits)

text \<open>
  C39.  A job makes the whole round trip.  An idle agent that receives a dispatched job queues one command;
  when its worker has processed it, one result of that job and attempt waits in the agent's file.  The
  server's handling of that result writes its status and output into exactly the rows of the job, agent and
  attempt that were not cancelled, and queues an acknowledgement, which removes exactly this entry from the
  agent's file.
\<close>

theorem job_round_trip:
  fixes env wk job n shw cks
  defines "wk1 \<equiv> snd (handleServerMessage env (Some (message_json shw (dispatch_message cks job n))) wk)"
  assumes ty: "ListMem (dj_Type job) serialCommandTypes" "dj_Type job \<noteq> ''network_mode''"
    and ids: "ascii (dj_ID job)" "dj_ID job \<noteq> ''''" "ascii a"
    and idle: "wk_started wk" "wk_queue wk = []" "wk_running wk = None" "dj_ID job \<notin> wk_active wk"
      "completed_get (wk_now wk) (loadCompletedJobs (wk_agent wk)) (dj_ID job) = None"
    and disk: "\<not> os_save_pending_fails (ae_os env)"
    and db: "\<forall>status. \<not> sv_env sv [''UpdateDeployResult'', dj_ID job, a, status]"
    and hub: "hub_inv (w_hub w)" "send_room (w_hub w) a"
  shows "\<exists>cmd r. wk_queue wk1 = [cmd] \<and>
    (let wk2 = processCommand env a cmd (wk1\<lparr>wk_queue := []\<rparr>); w' = handleMessage sv now c (result_message r) w in
     er_Status r \<in> {''success'', ''error'', ''ok'', ''expired''}
     \<and> loadPendingResults (wk_agent wk2) = pending_put (wk_now wk) (dj_ID job) r (loadPendingResults (wk_agent wk))
     \<and> deploy_results (w_db w') =
         map (\<lambda>x. if dr_JobID x = dj_ID job \<and> dr_AgentID x = a \<and> dr_Status x \<noteq> ''cancelled'' \<and> dr_RetryCount x = n
                  then set_result now (er_Status r) (truncate_output 4096 (json_text (er_Output r))) (er_ExitCode r) (er_DurationMS r) None x
                  else x) (deploy_results (w_db w))
     \<and> queued_for (w_hub w') a = queued_for (w_hub w) a @ [ack_message (dj_ID job)]
     \<and> fst (handleServerMessage env (Some (message_json shw (ack_message (dj_ID job)))) wk2) = [GoClearPending (dj_ID job)]
     \<and> loadPendingResults (clearPendingResult (ae_os env) (dj_ID job) (wk_agent wk2)) =
         filter (\<lambda>e. pe_JobID e \<noteq> dj_ID job) (loadPendingResults (wk_agent wk)))"
proof -
  let ?msg = "message_json shw (dispatch_message cks job n)" and ?j = "dj_ID job"
  note fields = dispatch_fields [OF ty(1) ids(1), of shw cks n]
  have serial: "ListMem (str_field ?msg ''type'') serialCommandTypes" using ty(1) fields(1) by simp
  have wk1: "wk1 = snd (submitCommand env (dj_Type job) ?msg wk)"
    using serial_message [OF serial] fields(1) by (simp add: wk1_def)
  obtain s where sub: "wk1 = wk\<lparr>wk_agent := s, wk_active := insert ?j (wk_active wk),
         wk_queue := [\<lparr>ic_Type = dj_Type job, ic_JobID = ?j, ic_ExpireAt = parseExpireAt env ?msg, ic_Raw = ?msg\<rparr>]\<rparr>"
    and look: "completedJobResult (ae_os env) (wk_now wk) ?j (wk_agent wk) = (None, s)"
    unfolding wk1 by (rule submit_queues [OF ty(1) fields(2) ids(2) idle(1,2,4,5)])
  let ?cmd = "\<lparr>ic_Type = dj_Type job, ic_JobID = ?j, ic_ExpireAt = parseExpireAt env ?msg, ic_Raw = ?msg\<rparr>"
  let ?wk2 = "processCommand env a ?cmd (wk1\<lparr>wk_queue := []\<rparr>)"
  have s: "loadPendingResults s = loadPendingResults (wk_agent wk)"
    using pending_frames(6) [of "ae_os env" "wk_now wk" ?j "wk_agent wk"] look by simp
  have ok: "command_ok ?cmd" "reports ?cmd" using ty fields(2) by (simp_all add: command_ok_def reports_def)
  have "reported (wk_now wk) a ?msg s (wk_agent ?wk2)"
    using processCommand_reported [OF disk ok, of "wk1\<lparr>wk_queue := []\<rparr>" a] idle(3) ids(2) lookup_again [OF look ids(2)] by (simp add: sub)
  then obtain r where r: "result_of a ?msg r" "loadPendingResults (wk_agent ?wk2) = pending_put (wk_now wk) ?j r (loadPendingResults (wk_agent wk))"
    unfolding reported_def fields(2) s by blast
  obtain m where m: "result_message r = Some m" "im_Type m \<in> {''exec_result'', ''deepfreeze_result''}" "im_AgentID m = a" "im_JobID m = ?j"
    "im_Attempt m = Some n" "im_Status m = er_Status r" "im_Output m = json_text (er_Output r)" "im_ExitCode m = er_ExitCode r"
    "im_DurationMS m = er_DurationMS r"
    using result_message_of [OF r(1) fields(3) ids(3)] fields(2) ids(1) by metis
  have "\<not> sv_env sv [''UpdateDeployResult'', im_JobID m, im_AgentID m, im_Status m]" using db m(3,4) by simp
  note server = handleExecResult_effect [where env = "sv_env sv" and msg = m and w = w and now = now, OF _ this, unfolded m(3-9), OF ids(2) hub]
  have queued: "wk_queue wk1 = [?cmd]" by (simp add: sub)
  have status: "er_Status r \<in> {''success'', ''error'', ''ok'', ''expired''}" using r(1) by (simp add: result_of_def)
  have handled: "handleMessage sv now c (result_message r) w = handleExecResult (sv_env sv) now m w"
    unfolding m(1) by (rule handle_result [OF m(2)])
  have cleared: "loadPendingResults (clearPendingResult (ae_os env) ?j (wk_agent ?wk2)) =
      filter (\<lambda>e. pe_JobID e \<noteq> ?j) (loadPendingResults (wk_agent wk))"
    unfolding ack_clears(2) [OF ids(1) disk] r(2) by (simp add: pending_put_def)
  have acked: "fst (handleServerMessage env (Some (message_json shw (ack_message ?j))) ?wk2) = [GoClearPending ?j]"
    using ack_clears(1) [OF ids(1) disk, of env shw ?wk2] by simp
  show ?thesis
    unfolding Let_def
    by (intro exI conjI, rule queued, rule status, rule r(2), unfold handled, simp add: server(1) update_matches_def,
        rule server(2), rule acked, rule cleared)
qed

text \<open>
  C40.  A retried job is answered by the result of an earlier attempt, and the fence drops it.  While an agent
  retains the result of attempt \<open>k\<close>, the delivery of another attempt of the same job runs nothing and sends
  that result; the server acknowledges it, and the rows of the job, which wait for the new attempt, stay as
  they are.  A job whose first result was lost with its lease is never seen to succeed.
\<close>

theorem retried_job_answered_stale:
  fixes env wk job n shw cks
  defines "out \<equiv> handleServerMessage env (Some (message_json shw (dispatch_message cks job n))) wk"
  assumes ty: "ListMem (dj_Type job) serialCommandTypes" and ids: "ascii (dj_ID job)" "dj_ID job \<noteq> ''''" "ascii a"
    and stored: "wk_started wk" "completed_get (wk_now wk) (loadCompletedJobs (wk_agent wk)) (dj_ID job) = Some r"
    and r: "er_JobID r = dj_ID job" "er_AgentID r = a" "er_Attempt r = JNum k" "er_Type r = ''exec_result''"
    and retried: "k \<noteq> n" "\<forall>x \<in> set (deploy_results (w_db w)). row_key x = (dj_ID job, a) \<longrightarrow> dr_RetryCount x = n"
    and db: "\<forall>status. \<not> sv_env sv [''UpdateDeployResult'', dj_ID job, a, status]"
    and hub: "hub_inv (w_hub w)" "send_room (w_hub w) a"
  shows "fst out = [] \<and> wk_queue (snd out) = wk_queue wk \<and> wk_log (snd out) = wk_log wk
    \<and> a_send (wk_agent (snd out)) = a_send (wsSend (MsgResult r) (wk_agent wk))
    \<and> (let w' = handleMessage sv now c (result_message r) w in
       deploy_results (w_db w') = deploy_results (w_db w) \<and> queued_for (w_hub w') a = queued_for (w_hub w) a @ [ack_message (dj_ID job)])"
proof -
  let ?msg = "message_json shw (dispatch_message cks job n)" and ?j = "dj_ID job"
  note fields = dispatch_fields [OF ty ids(1), of shw cks n]
  obtain s where look: "completedJobResult (ae_os env) (wk_now wk) ?j (wk_agent wk) = (Some r, s)"
    using completed_get_lookup [OF ids(2), of "ae_os env" "wk_now wk" "wk_agent wk"] stored(2) by (metis prod.collapse)
  have "a_send s = a_send (wk_agent wk)" using lookup_frame(2) look by (metis snd_conv)
  then have agent: "fst out = []" "wk_queue (snd out) = wk_queue wk" "wk_log (snd out) = wk_log wk"
    "a_send (wk_agent (snd out)) = a_send (wsSend (MsgResult r) (wk_agent wk))"
    using serial_message [of ?msg env wk] ty fields look ids(2) stored(1)
    by (simp_all add: out_def submitCommand_def submit_check_def Let_def wsSend_def split: option.splits)
  obtain m where m: "result_message r = Some m" "im_Type m = ''exec_result''" "im_AgentID m = a" "im_JobID m = ?j" "im_Attempt m = Some k"
    using r ids by (simp add: result_message_def json_text_ascii)
  have "\<not> sv_env sv [''UpdateDeployResult'', im_JobID m, im_AgentID m, im_Status m]" using db m(3,4) by simp
  note server = handleExecResult_effect [where env = "sv_env sv" and msg = m and w = w and now = now, OF _ this, unfolded m(3-5), OF ids(2) hub]
  have "deploy_results (w_db (handleExecResult (sv_env sv) now m w)) = deploy_results (w_db w)"
    unfolding server(1) using retried by (intro map_idI) (auto simp: update_matches_def row_key_def)
  with server(2) agent show ?thesis using m(1,2) handle_result [of m sv now c w] by (simp add: Let_def)
qed

subsection \<open>A job and its retry\<close>

lemma sample_delivery:
  "ListMem (dj_Type (sample_job j ''exec'' p)) serialCommandTypes" "dj_Type (sample_job j ''exec'' p) \<noteq> ''network_mode''"
  "dj_ID (sample_job j ''exec'' p) = j" "ascii ''j1''" "ascii ''pc1''" "sv_env sample_server stmt = False"
  "\<not> os_save_pending_fails (ae_os sample_env)"
  by (simp_all add: sample_job_def serialCommandTypes_def ListMem_iff ascii_def sample_server_def no_faults_def sample_env_def sample_os_def)

lemma sample_agent_idle:
  "wk_started (startCommandWorker idle_worker)" "wk_queue (startCommandWorker idle_worker) = []"
  "wk_running (startCommandWorker idle_worker) = None" "j \<notin> wk_active (startCommandWorker idle_worker)"
  "completed_get t (loadCompletedJobs (wk_agent (startCommandWorker idle_worker))) j = None"
  by (simp_all add: startCommandWorker_def idle_worker_def completed_get_def loadCompletedJobs_def pruneCompletedJobs_def)

theorem job_round_trip_witness:
  "\<exists>r. let w' = handleMessage sample_server 0 0 (result_message r) (sample_world (sample_job ''j1'' ''exec'' ''hostname'') (sample_running ''j1''))
    in list_all (\<lambda>x. dr_Status x \<in> {''success'', ''error'', ''ok'', ''expired''}) (deploy_results (w_db w'))
       \<and> queued_for (w_hub w') ''pc1'' = [ack_message ''j1'']"
proof -
  let ?job = "sample_job ''j1'' ''exec'' ''hostname''"
  let ?w = "sample_world ?job (sample_running ''j1'')"
  have d: "\<forall>status. \<not> sv_env sample_server [''UpdateDeployResult'', dj_ID ?job, ''pc1'', status]" by (simp add: sample_delivery)
  have ids: "ascii (dj_ID ?job)" "dj_ID ?job \<noteq> ''''" using sample_delivery(3,4) by simp_all
  have "queued_for (w_hub ?w) ''pc1'' = []" "deploy_results (w_db ?w) = [sample_running ''j1'']"
    "dr_JobID (sample_running ''j1'') = ''j1''" "dr_AgentID (sample_running ''j1'') = ''pc1''" "dr_Status (sample_running ''j1'') = ''running''"
    "dr_RetryCount (sample_running ''j1'') = 0"
    by (simp_all add: sample_defs sample_running_def queued_for_def)
  note rows = this
  from job_round_trip [OF sample_delivery(1,2) ids sample_delivery(5) sample_agent_idle sample_delivery(7) d
      sample_hub_inv [of ?job "sample_running ''j1''"] sample_room, where shw = "\<lambda>_. ''''" and cks = Map.empty and n = 0 and now = 0 and c = 0]
  obtain r where r: "er_Status r \<in> {''success'', ''error'', ''ok'', ''expired''}"
    "deploy_results (w_db (handleMessage sample_server 0 0 (result_message r) ?w)) =
         map (\<lambda>x. if dr_JobID x = ''j1'' \<and> dr_AgentID x = ''pc1'' \<and> dr_Status x \<noteq> ''cancelled'' \<and> dr_RetryCount x = 0
                  then set_result 0 (er_Status r) (truncate_output 4096 (json_text (er_Output r))) (er_ExitCode r) (er_DurationMS r) None x
                  else x) (deploy_results (w_db ?w))"
    "queued_for (w_hub (handleMessage sample_server 0 0 (result_message r) ?w)) ''pc1'' = queued_for (w_hub ?w) ''pc1'' @ [ack_message ''j1'']"
    unfolding Let_def sample_delivery(3) by blast
  show ?thesis
    by (rule exI [of _ r]) (use r(1) in \<open>simp add: Let_def r(2,3) rows set_result_def\<close>)
qed

theorem retried_job_answered_stale_witness:
  "let w = sample_world (sample_job ''j1'' ''exec'' ''hostname'') ((sample_running ''j1'')\<lparr>dr_RetryCount := 1\<rparr>) in
   map dr_Status (deploy_results (w_db (handleMessage sample_server 0 0 (result_message stored_result) w))) = [''running'']"
proof -
  let ?job = "sample_job ''j1'' ''exec'' ''hostname''"
  let ?w = "sample_world ?job ((sample_running ''j1'')\<lparr>dr_RetryCount := 1\<rparr>)"
  have d: "\<forall>status. \<not> sv_env sample_server [''UpdateDeployResult'', dj_ID ?job, ''pc1'', status]" by (simp add: sample_delivery)
  have ids: "ascii (dj_ID ?job)" "dj_ID ?job \<noteq> ''''" using sample_delivery(3,4) by simp_all
  have stored: "wk_started answered_worker" "completed_get (wk_now answered_worker) (loadCompletedJobs (wk_agent answered_worker)) (dj_ID ?job) = Some stored_result"
    by (simp_all add: answered_worker_def idle_worker_def completed_get_def loadCompletedJobs_def pruneCompletedJobs_def sample_delivery(3)
        completedJobsTTL_def completedJobsMax_def time_units)
  have r: "er_JobID stored_result = dj_ID ?job" "er_AgentID stored_result = ''pc1''" "er_Attempt stored_result = JNum 0"
    "er_Type stored_result = ''exec_result''" by (simp_all add: stored_result_def sample_delivery(3))
  have rows: "deploy_results (w_db ?w) = [(sample_running ''j1'')\<lparr>dr_RetryCount := 1\<rparr>]" "dr_Status (sample_running ''j1'') = ''running''"
    by (simp_all add: sample_defs sample_running_def)
  then have retried: "\<forall>x \<in> set (deploy_results (w_db ?w)). row_key x = (dj_ID ?job, ''pc1'') \<longrightarrow> dr_RetryCount x = 1" by simp
  from retried_job_answered_stale [OF sample_delivery(1) ids sample_delivery(5) stored r _ retried d sample_hub_inv sample_room,
      where env = sample_env and shw = "\<lambda>_. ''''" and cks = Map.empty and now = 0 and c = 0] rows
  show ?thesis by (simp add: Let_def)
qed

end
