(* ===== verification/Deep_Freeze.thy ===== *)
theory Deep_Freeze
  imports Delivery Commands
begin

text \<open>
  \<^verbatim>\<open>server/deepfreeze.go\<close>: Deep Freeze jobs and the short wait for the answer to a status query.  The polls of
  one wait are the list of the databases they see, each with whether the request is cancelled after it; the
  list ends at the deadline.
\<close>

definition deepFreezeActions :: "string \<Rightarrow> string option" where
  "deepFreezeActions = map_of [(''freeze'', ''freeze''), (''thaw'', ''thaw''), (''status'', ''query_df'')]"

definition validDeepFreezeJobActions :: "string list" where
  "validDeepFreezeJobActions = [''freeze'', ''thaw'', ''query_df'']"

datatype deepfreeze_error = InvalidDeepFreezeAction | DispatchFailed create_error

definition dispatchDeepFreeze ::
  "command_env \<Rightarrow> string \<Rightarrow> string \<Rightarrow> string \<Rightarrow> string \<Rightarrow> World \<Rightarrow> (deepfreeze_error + DeployJob) \<times> World" where
  "dispatchDeepFreeze ce a jobAction password createdBy w =
     (if \<not> ListMem jobAction validDeepFreezeJobActions then (Inl InvalidDeepFreezeAction, w)
      else case CreateJob (ce_db ce) (ce_now ce) (ce_cks ce) (ce_jid ce) w ''deepfreeze'' jobAction password [a] 0 None
                  (DefaultMaxRetry (ce_db ce) (w_db w)) createdBy of
             (Inl e, w) \<Rightarrow> (Inl (DispatchFailed e), w)
           | (Inr job, w) \<Rightarrow> (Inr job, w))"

definition parseDeepFreezeOutput :: "string \<Rightarrow> string \<Rightarrow> string \<times> string" where
  "parseDeepFreezeOutput resultStatus text =
     (if resultStatus \<noteq> ''ok'' then (''error'', text)
      else let verdict = ToUpper (TrimSpace text) in
        if verdict = ''FROZEN'' then (''frozen'', '''')
        else if verdict = ''THAWED'' then (''thawed'', '''')
        else (''unknown'', text))"

fun pollDeepFreezeResult :: "db_env \<Rightarrow> string \<Rightarrow> string \<Rightarrow> (DB \<times> bool) list \<Rightarrow> string \<times> string" where
  "pollDeepFreezeResult env j a [] = (''pending'', '''')"
| "pollDeepFreezeResult env j a ((db, cancelled) # polls) =
     (case (case GetDeployResultsByJobID env db j of
              Inl e \<Rightarrow> None
            | Inr rows \<Rightarrow> find (\<lambda>r. dr_AgentID r = a \<and> \<not> isPendingLikeStatus (dr_Status r)) rows) of
        Some r \<Rightarrow> parseDeepFreezeOutput (dr_Status r) (dr_Output r)
      | None \<Rightarrow> if cancelled then (''unknown'', ''request cancelled'') else pollDeepFreezeResult env j a polls)"

text \<open>The result of a status query on the agent.\<close>

definition query_result :: "os_env \<Rightarrow> string \<Rightarrow> string \<Rightarrow> json \<Rightarrow> exec_result" where
  "query_result os a j attempt =
     (let (frozen, text, err) = queryIsFrozen os in
      \<lparr>er_Type = ''deepfreeze_result'', er_AgentID = a, er_JobID = j, er_Attempt = attempt,
       er_Status = (if \<not> os_is_file os dfcPath \<or> err then ''error'' else ''ok''),
       er_Output = (if \<not> os_is_file os dfcPath then ''DFC.exe tidak ditemukan di '' @ dfcPath
                    else if err then text else frozen_label frozen),
       er_ExitCode = None, er_DurationMS = None\<rparr>)"

definition waiting :: "string \<Rightarrow> string \<Rightarrow> DB \<Rightarrow> bool" where
  "waiting j a db \<longleftrightarrow> list_all (\<lambda>r. dr_JobID r = j \<and> dr_AgentID r = a \<longrightarrow> isPendingLikeStatus (dr_Status r)) (deploy_results db)"

definition sample_query :: json_object where
  "sample_query = [''job_id'' \<mapsto> JStr ''j1'', ''action'' \<mapsto> JStr ''query_df'', ''attempt'' \<mapsto> JNum 0]"

definition frozen_os :: os_env where
  "frozen_os = sample_os\<lparr>os_is_file := (\<lambda>_. True), os_exec := (\<lambda>_ _. \<lparr>ro_timeout = False, ro_output = '''',
     ro_error = Some (ExitError 1 ''exit status 1''), ro_durationMS = 5\<rparr>)\<rparr>"

subsection \<open>Status queries\<close>

lemma query_reported:
  assumes "\<not> os_save_pending_fails os" "str_field msg ''action'' = ''query_df''"
  shows "loadPendingResults (handleDeepFreeze os now a msg s) =
    pending_put now (str_field msg ''job_id'') (query_result os a (str_field msg ''job_id'') (field_or_null msg ''attempt'')) (loadPendingResults s)"
  unfolding handleDeepFreeze_def Let_def send_deepfreeze_def query_result_def assms(2)
  by (simp add: case_prod_beta sendDurable_pending [OF assms(1)])

lemma poll_waiting:
  assumes "list_all (\<lambda>p. waiting j a (fst p) \<and> \<not> snd p) polls"
  shows "pollDeepFreezeResult env j a (polls @ rest) = pollDeepFreezeResult env j a rest"
  using assms
proof (induction polls)
  case (Cons p polls)
  have "find (\<lambda>r. dr_AgentID r = a \<and> \<not> isPendingLikeStatus (dr_Status r)) (filter (\<lambda>r. dr_JobID r = j) (deploy_results (fst p))) = None"
    using Cons.prems by (auto simp: find_None_iff waiting_def list_all_iff)
  with Cons show ?case by (cases p) (simp add: GetDeployResultsByJobID_def)
qed simp

lemma verdict_labels: "ToUpper (TrimSpace (frozen_label frozen)) = frozen_label frozen"
  by (cases frozen) (simp_all add: frozen_label_def, code_simp+)

lemma ascii_labels: "ascii (frozen_label frozen)" "length (frozen_label frozen) \<le> 4096"
  by (simp_all add: frozen_label_def ascii_def)

lemma ascii_path: "ascii (''DFC.exe tidak ditemukan di '' @ dfcPath)" "length (''DFC.exe tidak ditemukan di '' @ dfcPath) \<le> 4096"
  by (simp_all add: dfcPath_def ascii_def)

lemma find_of_filter: "filter P xs = [y] \<Longrightarrow> Q y \<Longrightarrow> find (\<lambda>x. P x \<and> Q x) xs = Some y"
  by (induction xs) (auto split: if_splits)

text \<open>
  C28.  The answer to a status query is the agent's own reading.  The result the agent reports for a
  \<^verbatim>\<open>query_df\<close> job, handled by the server, makes the wait end with \<^verbatim>\<open>frozen\<close> or \<^verbatim>\<open>thawed\<close> exactly as the
  Deep Freeze tool said, and with \<^verbatim>\<open>error\<close> when the tool is missing or failed, however many polls came before.
\<close>

theorem deepfreeze_status_true:
  assumes msg: "str_field msg ''action'' = ''query_df''" "str_field msg ''job_id'' = j" "field_or_null msg ''attempt'' = JNum n"
    and ids: "ascii j" "j \<noteq> ''''" "ascii a" and disk: "\<not> os_save_pending_fails os"
    and tool: "queryIsFrozen os = (frozen, text, err)"
    and row: "filter (\<lambda>x. dr_JobID x = j \<and> dr_AgentID x = a) (deploy_results (w_db w)) = [x]" "dr_Status x \<noteq> ''cancelled''" "dr_RetryCount x = n"
    and db: "\<forall>status. \<not> sv_env sv [''UpdateDeployResult'', j, a, status]"
    and hub: "hub_inv (w_hub w)" "send_room (w_hub w) a"
    and polls: "list_all (\<lambda>p. waiting j a (fst p) \<and> \<not> snd p) before"
  shows "\<exists>r. loadPendingResults (handleDeepFreeze os now' a msg s) = pending_put now' j r (loadPendingResults s)
    \<and> pollDeepFreezeResult no_faults j a (before @ (w_db (handleMessage sv now c (result_message r) w), b) # later) =
      (if \<not> os_is_file os dfcPath then (''error'', ''DFC.exe tidak ditemukan di '' @ dfcPath)
       else if err then (''error'', truncate_output 4096 (json_text text))
       else (if frozen then ''frozen'' else ''thawed'', ''''))"
proof -
  let ?r = "query_result os a j (JNum n)"
  have pending: "loadPendingResults (handleDeepFreeze os now' a msg s) = pending_put now' j ?r (loadPendingResults s)"
    using query_reported [OF disk msg(1)] unfolding msg(2,3) .
  have r: "result_of a [''job_id'' \<mapsto> JStr j, ''attempt'' \<mapsto> JNum n] ?r"
    by (simp add: result_of_def query_result_def case_prod_beta str_field_def field_or_null_def)
  obtain m where m: "result_message ?r = Some m" "im_Type m \<in> {''exec_result'', ''deepfreeze_result''}" "im_AgentID m = a" "im_JobID m = j"
    "im_Attempt m = Some n" "im_Status m = er_Status ?r" "im_Output m = json_text (er_Output ?r)" "im_ExitCode m = er_ExitCode ?r"
    "im_DurationMS m = er_DurationMS ?r"
    by (rule result_message_of [OF r _ ids(3)]) (use ids(1) in \<open>simp_all add: field_or_null_def str_field_def\<close>)
  have "\<not> sv_env sv [''UpdateDeployResult'', im_JobID m, im_AgentID m, im_Status m]" using db m(3,4) by simp
  note server = handleExecResult_effect [where env = "sv_env sv" and msg = m and w = w and now = now, OF _ this, unfolded m(3-9), OF ids(2) hub]
  let ?f = "set_result now (er_Status ?r) (truncate_output 4096 (json_text (er_Output ?r))) (er_ExitCode ?r) (er_DurationMS ?r) None"
  let ?rows = "deploy_results (w_db w)" and ?w' = "handleMessage sv now c (result_message ?r) w"
  have key: "dr_JobID (?f y) = dr_JobID y" "dr_AgentID (?f y) = dr_AgentID y" for y by (simp_all add: set_result_def)
  have "filter (\<lambda>y. dr_AgentID y = a) (filter (\<lambda>y. dr_JobID y = j) (deploy_results (w_db ?w'))) = [?f x]"
  proof -
    have "deploy_results (w_db ?w') = map (\<lambda>y. if update_matches j a (Some n) y then ?f y else y) ?rows"
      unfolding m(1) handle_result [OF m(2)] by (rule server(1))
    moreover have "filter (\<lambda>y. dr_AgentID y = a) (filter (\<lambda>y. dr_JobID y = j) (map (\<lambda>y. if update_matches j a (Some n) y then ?f y else y) l)) =
        map (\<lambda>y. if update_matches j a (Some n) y then ?f y else y) (filter (\<lambda>y. dr_JobID y = j \<and> dr_AgentID y = a) l)" for l
      by (induction l) (simp_all add: key)
    ultimately have "filter (\<lambda>y. dr_AgentID y = a) (filter (\<lambda>y. dr_JobID y = j) (deploy_results (w_db ?w'))) =
        map (\<lambda>y. if update_matches j a (Some n) y then ?f y else y) [x]" unfolding row(1) [symmetric] by (simp only:)
    moreover have "x \<in> set (filter (\<lambda>x. dr_JobID x = j \<and> dr_AgentID x = a) ?rows)" unfolding row(1) by simp
    then have "update_matches j a (Some n) x" using row(2,3) by (simp add: update_matches_def)
    ultimately show ?thesis by (simp only: list.map if_True)
  qed
  moreover have "\<not> isPendingLikeStatus (dr_Status (?f x))"
    by (simp add: set_result_def isPendingLikeStatus_def query_result_def case_prod_beta)
  ultimately have found: "find (\<lambda>r. dr_AgentID r = a \<and> \<not> isPendingLikeStatus (dr_Status r)) (filter (\<lambda>r. dr_JobID r = j) (deploy_results (w_db ?w'))) = Some (?f x)"
    by (rule find_of_filter)
  have out: "dr_Status (?f x) = er_Status ?r" "dr_Output (?f x) = truncate_output 4096 (json_text (er_Output ?r))"
    by (simp_all add: set_result_def)
  have "pollDeepFreezeResult no_faults j a (before @ (w_db ?w', b) # later) = parseDeepFreezeOutput (er_Status ?r) (truncate_output 4096 (json_text (er_Output ?r)))"
    unfolding poll_waiting [OF polls] using found out by (simp add: GetDeployResultsByJobID_def no_faults_def)
  also have "\<dots> = (if \<not> os_is_file os dfcPath then (''error'', ''DFC.exe tidak ditemukan di '' @ dfcPath)
       else if err then (''error'', truncate_output 4096 (json_text text))
       else (if frozen then ''frozen'' else ''thawed'', ''''))"
    using tool ascii_labels [of frozen] verdict_labels [of frozen] ascii_path
    by (simp add: query_result_def parseDeepFreezeOutput_def json_text_ascii Let_def) (simp add: frozen_label_def)
  finally show ?thesis using pending by blast
qed

theorem deepfreeze_status_true_witness:
  "\<exists>r. pollDeepFreezeResult no_faults ''j1'' ''pc1''
     ([(w_db (sample_world (sample_job ''j1'' ''deepfreeze'' ''query_df'') (sample_running ''j1'')), False)] @
      [(w_db (handleMessage sample_server 0 0 (result_message r) (sample_world (sample_job ''j1'' ''deepfreeze'' ''query_df'') (sample_running ''j1''))), False)]) =
     (''frozen'', '''')"
proof -
  let ?w = "sample_world (sample_job ''j1'' ''deepfreeze'' ''query_df'') (sample_running ''j1'')"
  have msg: "str_field sample_query ''action'' = ''query_df''" "str_field sample_query ''job_id'' = ''j1''" "field_or_null sample_query ''attempt'' = JNum 0"
    by (simp_all add: sample_query_def str_field_def field_or_null_def)
  have os: "\<not> os_save_pending_fails frozen_os" "os_is_file frozen_os dfcPath" by (simp_all add: frozen_os_def sample_os_def)
  have tool: "queryIsFrozen frozen_os = (True, TrimSpace '''', False)" by (simp add: queryIsFrozen_def frozen_os_def Let_def)
  have row: "filter (\<lambda>x. dr_JobID x = ''j1'' \<and> dr_AgentID x = ''pc1'') (deploy_results (w_db ?w)) = [sample_running ''j1'']"
    "dr_Status (sample_running ''j1'') \<noteq> ''cancelled''" "dr_RetryCount (sample_running ''j1'') = 0"
    by (simp_all add: sample_defs sample_running_def)
  have db: "\<forall>status. \<not> sv_env sample_server [''UpdateDeployResult'', ''j1'', ''pc1'', status]" by (simp add: sample_delivery)
  have polls: "list_all (\<lambda>p. waiting ''j1'' ''pc1'' (fst p) \<and> \<not> snd p) [(w_db ?w, False)]"
    by (simp add: waiting_def isPendingLikeStatus_def sample_defs sample_running_def)
  from deepfreeze_status_true [OF msg sample_delivery(4) _ sample_delivery(5) os(1) tool row db sample_hub_inv sample_room polls,
      where now' = 0 and s = "wk_agent idle_worker" and now = 0 and c = 0 and b = False and later = "[]"]
  obtain r where r: "pollDeepFreezeResult no_faults ''j1'' ''pc1'' ([(w_db ?w, False)] @ [(w_db (handleMessage sample_server 0 0 (result_message r) ?w), False)]) =
      (if \<not> os_is_file frozen_os dfcPath then (''error'', ''DFC.exe tidak ditemukan di '' @ dfcPath)
       else if False then (''error'', truncate_output 4096 (json_text (TrimSpace ''''))) else (if True then ''frozen'' else ''thawed'', ''''))"
    by blast
  show ?thesis by (rule exI [of _ r]) (simp only: r os(2) if_True if_False not_True_eq_False)
qed

end
