(* ===== verification/Server_Queries.thy ===== *)
theory Server_Queries
  imports Alerts
begin

text \<open>
  The remaining queries of \<^verbatim>\<open>server/db.go\<close> and the read-only projections of \<^verbatim>\<open>server/clients.go\<close> and
  \<^verbatim>\<open>server/computers.go\<close>: lists for the dashboard, the seeding of categories, and their lemmas.  An
  \<^verbatim>\<open>ORDER BY\<close> on one column is a stable sort in row order (SQL leaves the order of equals open).
\<close>

subsection \<open>Agents\<close>

definition SetAgentMeshID :: "db_env \<Rightarrow> DB \<Rightarrow> string \<Rightarrow> string \<Rightarrow> db_error + DB" where
  "SetAgentMeshID env db a mesh =
     (if env [''SetAgentMeshID'', a] then Inl DBFault
      else Inr (update_agent db a (\<lambda>r. r\<lparr>ag_MeshID := mesh\<rparr>)))"

record ClientSummary =
  su_ID :: string
  su_Hostname :: string
  su_IP :: string
  su_MacAddress :: string
  su_OS :: string
  su_AgentVersion :: string
  su_Status :: string
  su_Floor :: string
  su_LastSeen :: time

definition GetAllClients :: "db_env \<Rightarrow> DB \<Rightarrow> db_error + ClientSummary list" where
  "GetAllClients env db =
     (if env [''GetAllClients''] then Inl DBFault
      else Inr (map (\<lambda>a. \<lparr>su_ID = ag_ID a, su_Hostname = ag_Hostname a, su_IP = ag_IP a, su_MacAddress = ag_MacAddress a,
             su_OS = ag_OS a, su_AgentVersion = ag_AgentVersion a, su_Status = ag_Status a, su_Floor = ag_Floor a,
             su_LastSeen = ag_LastSeen a\<rparr>) (sort_key ag_Hostname (agents db))))"

record Computer =
  pc_Hostname :: string
  pc_IPAddress :: string
  pc_MacAddress :: string
  pc_Floor :: string

definition GetComputers :: "db_env \<Rightarrow> DB \<Rightarrow> string \<Rightarrow> string \<Rightarrow> db_error + Computer list" where
  "GetComputers env db fl host =
     (if env [''GetComputers''] then Inl DBFault
      else Inr (map (\<lambda>a. \<lparr>pc_Hostname = ag_Hostname a, pc_IPAddress = ag_IP a, pc_MacAddress = ag_MacAddress a, pc_Floor = ag_Floor a\<rparr>)
        (sort_key ag_Hostname (filter (\<lambda>a. (fl = '''' \<or> ag_Floor a = fl) \<and> (host = '''' \<or> ag_Hostname a = host)) (agents db)))))"

subsection \<open>Alerts, jobs and the audit log\<close>

definition GetRecentAlerts :: "db_env \<Rightarrow> DB \<Rightarrow> nat \<Rightarrow> db_error + Alert list" where
  "GetRecentAlerts env db limit =
     (if env [''GetRecentAlerts''] then Inl DBFault
      else Inr (take limit (sort_key (\<lambda>a. - al_SentAt a) (alerts db))))"

text \<open>The columns hold local time, seven hours ahead of UTC; \<^verbatim>\<open>today\<close> is the last local midnight.\<close>

definition today_start :: "time \<Rightarrow> int" where
  "today_start now = (fmtTime now + 7 * 3600) div 86400 * 86400 - 7 * 3600"

definition GetAlertsTodayCount :: "db_env \<Rightarrow> time \<Rightarrow> DB \<Rightarrow> db_error + nat" where
  "GetAlertsTodayCount env now db =
     (if env [''GetAlertsTodayCount''] then Inl DBFault
      else Inr (length (filter (\<lambda>a. today_start now \<le> fmtTime (al_SentAt a)) (alerts db))))"

definition GetAllDeployJobs :: "db_env \<Rightarrow> DB \<Rightarrow> db_error + DeployJob list" where
  "GetAllDeployJobs env db =
     (if env [''GetAllDeployJobs''] then Inl DBFault
      else Inr (take 100 (sort_key (\<lambda>j. - dj_CreatedAt j) (deploy_jobs db))))"

definition row_limit :: "int \<Rightarrow> nat" where
  "row_limit limit = (if limit \<le> 0 \<or> limit > 1000 then 100 else nat limit)"

definition GetAuditLogs :: "db_env \<Rightarrow> DB \<Rightarrow> int \<Rightarrow> db_error + AuditLog list" where
  "GetAuditLogs env db limit =
     (if env [''GetAuditLogs''] then Inl DBFault else Inr (take (row_limit limit) (rev (audit_logs db))))"

text \<open>Each event with the host name of its agent, newest first.\<close>

definition agent_hostname :: "DB \<Rightarrow> string \<Rightarrow> string" where
  "agent_hostname db a = (case find (\<lambda>r. ag_ID r = a) (agents db) of None \<Rightarrow> '''' | Some r \<Rightarrow> ag_Hostname r)"

definition GetEvents :: "db_env \<Rightarrow> DB \<Rightarrow> string \<Rightarrow> string \<Rightarrow> int \<Rightarrow> db_error + (string \<times> Event) list" where
  "GetEvents env db a kind limit =
     (if env [''GetEvents''] then Inl DBFault
      else Inr (take (row_limit limit) (map (\<lambda>e. (agent_hostname db (ev_AgentID e), e))
        (sort_key (\<lambda>e. - ev_CreatedAt e)
          (rev (filter (\<lambda>e. (a = '''' \<or> ev_AgentID e = a) \<and> (kind = '''' \<or> ev_Type e = kind)) (events db)))))))"

subsection \<open>Categories\<close>

definition defaultCategories :: "string list" where
  "defaultCategories = [''Browser'', ''Office'', ''Academic'', ''Programming'', ''Graphic Design'', ''Multimedia'', ''Games'',
     ''Remote Access'', ''Utilities'', ''System'']"

text \<open>\<^verbatim>\<open>INSERT OR IGNORE\<close>: a name that is there is left alone; nothing deletes a category, so the next id is free.\<close>

definition insert_category :: "string \<Rightarrow> (int \<times> string) list \<Rightarrow> (int \<times> string) list" where
  "insert_category name cs = (if list_ex (\<lambda>c. snd c = name) cs then cs else cs @ [(int (length cs) + 1, name)])"

fun init_categories :: "db_env \<Rightarrow> string list \<Rightarrow> DB \<Rightarrow> db_error option \<times> DB" where
  "init_categories env [] db = (None, db)"
| "init_categories env (n # ns) db =
     (if env [''InitDefaultCategories'', n] then (Some DBFault, db)
      else init_categories env ns (db\<lparr>categories := insert_category n (categories db)\<rparr>))"

definition InitDefaultCategories :: "db_env \<Rightarrow> DB \<Rightarrow> db_error option \<times> DB" where
  "InitDefaultCategories env = init_categories env defaultCategories"

definition GetAllCategories :: "db_env \<Rightarrow> DB \<Rightarrow> db_error + (int \<times> string) list" where
  "GetAllCategories env db =
     (if env [''GetAllCategories''] then Inl DBFault else Inr (sort_key snd (categories db)))"

subsection \<open>Applications\<close>

text \<open>An application with what its sightings add up to; no sighting gives no first and last time.\<close>

record ApplicationWithStats = Application +
  at_CategoryName :: string
  at_DeviceCount :: nat
  at_TotalExecutions :: int
  at_FirstSeen :: "time option"
  at_LastSeen :: "time option"

definition sightings_of :: "DB \<Rightarrow> int \<Rightarrow> AppSighting list" where
  "sightings_of db i = filter (\<lambda>s. as_ApplicationID s = i) (app_sightings db)"

definition with_stats :: "DB \<Rightarrow> Application \<Rightarrow> ApplicationWithStats" where
  "with_stats db a =
     (let ss = sightings_of db (ap_ID a) in
      Application.extend (a\<lparr>ap_SHA256 := ''''\<rparr>)
        (ApplicationWithStats.fields
          (case ap_CategoryID a of None \<Rightarrow> '''' | Some c \<Rightarrow> (case map_of (categories db) c of None \<Rightarrow> '''' | Some n \<Rightarrow> n))
          (length (remdups (map as_AgentID ss)))
          (sum_list (map as_ExecCount ss))
          (if ss = [] then None else Some (Min (set (map as_FirstSeen ss))))
          (if ss = [] then None else Some (Max (set (map as_LastSeen ss))))))"

definition GetApplications :: "db_env \<Rightarrow> DB \<Rightarrow> string \<Rightarrow> int \<Rightarrow> db_error + ApplicationWithStats list" where
  "GetApplications env db status cat =
     (if env [''GetApplications''] then Inl DBFault
      else Inr (map (with_stats db) (sort_key (\<lambda>a. - ap_UpdatedAt a)
        (filter (\<lambda>a. (status = '''' \<or> ap_Status a = status) \<and> (cat = 0 \<or> ap_CategoryID a = Some cat)) (applications db)))))"

definition GetApplicationByID ::
  "db_env \<Rightarrow> DB \<Rightarrow> int \<Rightarrow> db_error + (ApplicationWithStats \<times> (string \<times> AppSighting) list) option" where
  "GetApplicationByID env db i =
     (case GetApplications env db '''' 0 of
        Inl e \<Rightarrow> Inl e
      | Inr apps \<Rightarrow>
          (case find (\<lambda>a. ap_ID a = i) apps of
             None \<Rightarrow> Inr None
           | Some app \<Rightarrow>
               if env [''GetApplicationByID'', show_int i] then Inl DBFault
               else Inr (Some (app, map (\<lambda>s. (agent_hostname db (as_AgentID s), s))
                      (sort_key (\<lambda>s. - as_LastSeen s) (sightings_of db i))))))"

subsection \<open>Lemmas\<close>

text \<open>Seeding twice changes nothing more, and leaves every name once.\<close>

definition categories_ok :: "(int \<times> string) list \<Rightarrow> bool" where
  "categories_ok cs \<longleftrightarrow> distinct (map snd cs) \<and> map fst cs = map (\<lambda>i. int i + 1) [0..<length cs]"

lemma insert_category_ok: "categories_ok cs \<Longrightarrow> categories_ok (insert_category n cs)"
  by (auto simp: categories_ok_def insert_category_def list_ex_iff)

lemma insert_category_names: "set (map snd (insert_category n cs)) = insert n (set (map snd cs))"
  by (auto simp: insert_category_def list_ex_iff rev_image_eqI)

lemma init_categories_effect:
  assumes "categories_ok (categories db)" "\<And>n. n \<in> set ns \<Longrightarrow> \<not> env [''InitDefaultCategories'', n]"
  obtains cs where "init_categories env ns db = (None, db\<lparr>categories := cs\<rparr>)" "categories_ok cs"
    "set (map snd cs) = set ns \<union> set (map snd (categories db))"
proof -
  have "\<exists>cs. init_categories env ns db = (None, db\<lparr>categories := cs\<rparr>) \<and> categories_ok cs
    \<and> set (map snd cs) = set ns \<union> set (map snd (categories db))"
    using assms
  proof (induction ns arbitrary: db)
    case (Cons n ns)
    let ?db = "db\<lparr>categories := insert_category n (categories db)\<rparr>"
    obtain cs where "init_categories env ns ?db = (None, ?db\<lparr>categories := cs\<rparr>)" "categories_ok cs"
      "set (map snd cs) = set ns \<union> set (map snd (categories ?db))"
      using Cons.IH [of ?db] insert_category_ok [OF Cons.prems(1)] Cons.prems(2) by auto
    then show ?case using Cons.prems(2) [of n] insert_category_names [of n "categories db"]
      by (intro exI [of _ cs]) auto
  next
    case Nil
    then show ?case by (intro exI [of _ "categories db"]) simp
  qed
  with that show ?thesis by blast
qed

lemma audit_newest_first:
  assumes "GetAuditLogs env db limit = Inr logs" "0 < limit" "limit \<le> 1000"
  shows "logs = take (nat limit) (rev (audit_logs db))"
  using assms by (simp add: GetAuditLogs_def row_limit_def split: if_splits)

end
