(* ===== verification/Mcp_Tools.thy ===== *)
theory Mcp_Tools
  imports Deep_Freeze Server_Queries
begin

text \<open>
  \<^verbatim>\<open>server/mcp.go\<close>: the tools offered to machine clients.  A tool gives an error text or its output; the
  transport of the protocol is a library and not modelled.  \<open>polls\<close> is what a status query sees while it waits.
\<close>

datatype tool_error =
    ToolDB db_error
  | PCNotFound string
  | ToolCreate create_error
  | ToolDeepFreeze deepfreeze_error
  | PasswordNotConfigured
  | ProcessNameRequired
  | ToolRequest request_error

record MCPPC =
  mp_Hostname :: string
  mp_IP :: string
  mp_LastSeen :: time

record PCActionOutput =
  po_Hostname :: string
  po_JobID :: string
  po_Status :: string

record DeepFreezeStatusOutput =
  fo_Hostname :: string
  fo_Status :: string
  fo_Detail :: string

definition get_online_pcs :: "db_env \<Rightarrow> World \<Rightarrow> tool_error + MCPPC list" where
  "get_online_pcs env w =
     (case GetAllAgents env (w_db w) of
        Inl e \<Rightarrow> Inl (ToolDB e)
      | Inr ags \<Rightarrow>
          Inr (map (\<lambda>a. \<lparr>mp_Hostname = ag_Hostname a, mp_IP = ag_IP a, mp_LastSeen = ag_LastSeen a\<rparr>)
            (filter (\<lambda>a. IsOnline (w_hub w) (ag_ID a)) ags)))"

definition resolveAgentByHostname :: "db_env \<Rightarrow> DB \<Rightarrow> string \<Rightarrow> tool_error + AgentWithMetrics" where
  "resolveAgentByHostname env db hostname =
     (case GetAllAgents env db of
        Inl e \<Rightarrow> Inl (ToolDB e)
      | Inr ags \<Rightarrow>
          (case find (\<lambda>a. EqualFold (ag_Hostname a) hostname) ags of
             None \<Rightarrow> Inl (PCNotFound hostname)
           | Some a \<Rightarrow> Inr a))"

definition dispatchPCJob ::
  "command_env \<Rightarrow> string \<Rightarrow> string \<Rightarrow> string \<Rightarrow> string \<Rightarrow> string \<Rightarrow> World \<Rightarrow> (tool_error + PCActionOutput) \<times> World" where
  "dispatchPCJob ce hostname jobType payload args auditAction w =
     (let env = ce_db ce in
      case resolveAgentByHostname env (w_db w) hostname of
        Inl e \<Rightarrow> (Inl e, w)
      | Inr a \<Rightarrow>
          (case CreateJob env (ce_now ce) (ce_cks ce) (ce_jid ce) w jobType payload args [ag_ID a] 0 None
                  (DefaultMaxRetry env (w_db w)) ''mcp'' of
             (Inl e, w) \<Rightarrow> (Inl (ToolCreate e), w)
           | (Inr job, w) \<Rightarrow>
               (Inr \<lparr>po_Hostname = ag_Hostname a, po_JobID = dj_ID job, po_Status = dj_Status job\<rparr>,
                w\<lparr>w_db := InsertAuditLog env (ce_now ce) (w_db w) auditAction (ag_ID a)
                     (''hostname='' @ ag_Hostname a @ '' via=mcp'') ''mcp''\<rparr>)))"

definition restart_pc :: "command_env \<Rightarrow> string \<Rightarrow> World \<Rightarrow> (tool_error + PCActionOutput) \<times> World" where
  "restart_pc ce hostname = dispatchPCJob ce hostname ''exec'' psRestart '''' ''restart_pc''"

definition shutdown_pc :: "command_env \<Rightarrow> string \<Rightarrow> World \<Rightarrow> (tool_error + PCActionOutput) \<times> World" where
  "shutdown_pc ce hostname = dispatchPCJob ce hostname ''exec'' psShutdown '''' ''shutdown_pc''"

definition freeze_pc :: "command_env \<Rightarrow> string \<Rightarrow> string \<Rightarrow> World \<Rightarrow> (tool_error + PCActionOutput) \<times> World" where
  "freeze_pc ce password hostname w =
     (if password = '''' then (Inl PasswordNotConfigured, w)
      else dispatchPCJob ce hostname ''deepfreeze'' ''freeze'' password ''freeze_pc'' w)"

definition thaw_pc :: "command_env \<Rightarrow> string \<Rightarrow> string \<Rightarrow> World \<Rightarrow> (tool_error + PCActionOutput) \<times> World" where
  "thaw_pc ce password hostname w =
     (if password = '''' then (Inl PasswordNotConfigured, w)
      else dispatchPCJob ce hostname ''deepfreeze'' ''thaw'' password ''thaw_pc'' w)"

definition queryDeepFreezeStatus ::
  "command_env \<Rightarrow> (DB \<times> bool) list \<Rightarrow> string \<Rightarrow> World \<Rightarrow> (tool_error + DeepFreezeStatusOutput) \<times> World" where
  "queryDeepFreezeStatus ce polls hostname w =
     (case resolveAgentByHostname (ce_db ce) (w_db w) hostname of
        Inl e \<Rightarrow> (Inl e, w)
      | Inr a \<Rightarrow>
          (case dispatchDeepFreeze ce (ag_ID a) ''query_df'' '''' ''mcp'' w of
             (Inl e, w) \<Rightarrow> (Inl (ToolDeepFreeze e), w)
           | (Inr job, w) \<Rightarrow>
               if dj_Status job \<noteq> ''dispatched'' then
                 (Inr \<lparr>fo_Hostname = ag_Hostname a, fo_Status = ''offline'',
                       fo_Detail = ''PC is offline, cannot check Deep Freeze status right now''\<rparr>, w)
               else
                 let (status, detail) = pollDeepFreezeResult (ce_db ce) (dj_ID job) (ag_ID a) polls in
                 if status = ''pending'' then
                   (Inr \<lparr>fo_Hostname = ag_Hostname a, fo_Status = ''unknown'', fo_Detail = ''PC did not respond in time''\<rparr>, w)
                 else (Inr \<lparr>fo_Hostname = ag_Hostname a, fo_Status = status, fo_Detail = detail\<rparr>, w)))"

text \<open>A kill and its wait for the agent's answer; what happens meanwhile is \<open>ce_await\<close>.\<close>

definition KillProcess :: "command_env \<Rightarrow> string \<Rightarrow> int \<Rightarrow> string \<Rightarrow> World \<Rightarrow> (request_error + string) \<times> World" where
  "KillProcess ce a pid name w =
     (case KillProcess_begin (ce_chan ce 0) a pid name w of
        (False, w) \<Rightarrow> (Inl AgentNotOnline, w)
      | (True, w) \<Rightarrow> kill_end (ce_chan ce 0) a (ce_await ce 0 w))"

definition mcp_kill_process :: "command_env \<Rightarrow> string \<Rightarrow> string \<Rightarrow> World \<Rightarrow> (tool_error + string \<times> string) \<times> World" where
  "mcp_kill_process ce hostname name w =
     (if name = '''' then (Inl ProcessNameRequired, w)
      else case resolveAgentByHostname (ce_db ce) (w_db w) hostname of
        Inl e \<Rightarrow> (Inl e, w)
      | Inr a \<Rightarrow>
          (case KillProcess ce (ag_ID a) 0 name w of
             (Inl e, w) \<Rightarrow> (Inl (ToolRequest e), w)
           | (Inr text, w) \<Rightarrow>
               (Inr (ag_Hostname a, text),
                w\<lparr>w_db := InsertAuditLog (ce_db ce) (ce_now ce) (w_db w) ''kill_process'' (ag_ID a)
                     (''name='' @ name @ '' via=mcp'') ''mcp''\<rparr>)))"

subsection \<open>Lemmas\<close>

lemma with_metrics_id [simp]: "ag_ID (with_metrics db a) = ag_ID a" "ag_Hostname (with_metrics db a) = ag_Hostname a"
  by (simp_all add: with_metrics_def Agent.defs Let_def)

text \<open>A name is resolved to an agent of the database whose host name agrees with it, ignoring case.\<close>

lemma resolveAgent_sound:
  assumes "resolveAgentByHostname env db hostname = Inr a"
  shows "agent_known db (ag_ID a)" "EqualFold (ag_Hostname a) hostname"
proof -
  from assms have f: "find (\<lambda>a. EqualFold (ag_Hostname a) hostname) (map (with_metrics db) (sort_key ag_Hostname (agents db))) = Some a"
    by (auto simp: resolveAgentByHostname_def GetAllAgents_def split: sum.splits option.splits if_splits)
  then have "a \<in> set (map (with_metrics db) (sort_key ag_Hostname (agents db)))" and eq: "EqualFold (ag_Hostname a) hostname"
    by (auto dest: find_in)
  then show "agent_known db (ag_ID a)" "EqualFold (ag_Hostname a) hostname" by (auto simp: agent_known_def)
qed

lemma resolveAgent_complete:
  assumes "r \<in> set (agents db)" "EqualFold (ag_Hostname r) hostname" "\<not> env [''GetAllAgents'']"
  obtains a where "resolveAgentByHostname env db hostname = Inr a"
proof -
  have "find (\<lambda>a. EqualFold (ag_Hostname a) hostname) (map (with_metrics db) (sort_key ag_Hostname (agents db))) \<noteq> None"
    using assms(1,2) by (auto simp: find_None_iff)
  with assms(3) show thesis using that by (auto simp: resolveAgentByHostname_def GetAllAgents_def)
qed

end
