(* ===== verification/Server_Start.thy ===== *)
theory Server_Start
  imports Server_Queries Wake_On_Lan Auth
begin

text \<open>
  \<^verbatim>\<open>server/config.go\<close> and the parts of \<^verbatim>\<open>server/main.go\<close> with logic of their own: the configuration and its
  defaults, the seeding of the settings table (\<^verbatim>\<open>InitDefaultSettings\<close> of \<^verbatim>\<open>server/db.go\<close>), the rotating log
  file, and the gates in front of the routes.  The YAML parser, the printing of a threshold and the JSON
  encoder are parameters.
\<close>

subsection \<open>Configuration\<close>

record Config =
  cf_Port :: int
  cf_Host :: string
  cf_Token :: string
  cf_AdminCIDRs :: "string list"
  cf_AdminUsername :: string
  cf_AdminPassword :: string
  cf_MCPToken :: string
  cf_DatabasePath :: string
  cf_CPUThreshold :: float64
  cf_RAMThreshold :: float64
  cf_OfflineAfterMinutes :: int
  cf_Blacklist :: "string list"
  cf_TelegramToken :: string
  cf_TelegramChatID :: string
  cf_SMTPHost :: string
  cf_SMTPPort :: int
  cf_SMTPUser :: string
  cf_SMTPPass :: string
  cf_SMTPTo :: string
  cf_MeshURL :: string
  cf_DeepFreezePassword :: string
  cf_UploadsPath :: string
  cf_MaxSizeMB :: int
  cf_LeaseMinutes :: int
  cf_DefaultMaxRetry :: int
  cf_WoLEnabled :: bool
  cf_WoLPort :: int
  cf_WoLNetworks :: "WoLNetwork list"

definition or_int :: "int \<Rightarrow> int \<Rightarrow> int" where "or_int v d = (if v = 0 then d else v)"
definition or_num :: "float64 \<Rightarrow> float64 \<Rightarrow> float64" where "or_num v d = (if v = 0 then d else v)"
definition or_str :: "string \<Rightarrow> string \<Rightarrow> string" where "or_str v d = (if v = '''' then d else v)"

definition config_defaults :: "Config \<Rightarrow> Config" where
  "config_defaults c =
     c\<lparr>cf_Port := or_int (cf_Port c) 8080, cf_Host := or_str (cf_Host c) ''0.0.0.0'',
       cf_DatabasePath := or_str (cf_DatabasePath c) ''./data/library.db'',
       cf_CPUThreshold := or_num (cf_CPUThreshold c) 85, cf_RAMThreshold := or_num (cf_RAMThreshold c) 85,
       cf_OfflineAfterMinutes := or_int (cf_OfflineAfterMinutes c) 5, cf_UploadsPath := or_str (cf_UploadsPath c) ''./uploads'',
       cf_MaxSizeMB := or_int (cf_MaxSizeMB c) 500, cf_MeshURL := or_str (cf_MeshURL c) ''http://192.168.1.10:4430'',
       cf_SMTPPort := or_int (cf_SMTPPort c) 587, cf_LeaseMinutes := or_int (cf_LeaseMinutes c) 10,
       cf_DefaultMaxRetry := or_int (cf_DefaultMaxRetry c) 3, cf_WoLPort := or_int (cf_WoLPort c) 9\<rparr>"

text \<open>
  \<open>file\<close> is what reading \<^verbatim>\<open>config.yaml\<close> gives: its text, no such file, or another error.  A missing file is
  created with the default text; the second component is the file afterwards.
\<close>

datatype read_file = FileText string | FileMissing | FileError

datatype config_error = ReadConfig | CreateConfig | ParseConfig

definition loadConfig ::
  "(string \<Rightarrow> Config option) \<Rightarrow> string \<Rightarrow> bool \<Rightarrow> read_file \<Rightarrow> (config_error + Config) \<times> read_file" where
  "loadConfig unmarshal defaultYAML write_fails file =
     (let parse = (\<lambda>data. case unmarshal data of None \<Rightarrow> Inl ParseConfig | Some c \<Rightarrow> Inr (config_defaults c)) in
      case file of
        FileError \<Rightarrow> (Inl ReadConfig, file)
      | FileMissing \<Rightarrow> if write_fails then (Inl CreateConfig, file) else (parse defaultYAML, FileText defaultYAML)
      | FileText data \<Rightarrow> (parse data, file))"

subsection \<open>Seeding the settings\<close>

definition default_settings :: "(float64 \<Rightarrow> string) \<Rightarrow> (string list \<Rightarrow> string) \<Rightarrow> (WoLNetwork list \<Rightarrow> string) \<Rightarrow> Config \<Rightarrow> (string \<times> string) list" where
  "default_settings print0 marshal_list marshal_networks c =
     [(''cpu_threshold'', print0 (cf_CPUThreshold c)), (''ram_threshold'', print0 (cf_RAMThreshold c)),
      (''offline_after_minutes'', show_int (cf_OfflineAfterMinutes c)), (''blacklist'', marshal_list (cf_Blacklist c)),
      (''auto_kill_enabled'', ''false''), (''telegram_token'', cf_TelegramToken c), (''telegram_chat_id'', cf_TelegramChatID c),
      (''smtp_host'', cf_SMTPHost c), (''smtp_port'', show_int (cf_SMTPPort c)), (''smtp_tls'', ''starttls''), (''smtp_user'', cf_SMTPUser c),
      (''smtp_pass'', cf_SMTPPass c), (''smtp_to'', cf_SMTPTo c), (''mesh_url'', cf_MeshURL c),
      (''lease_minutes'', show_int (cf_LeaseMinutes c)), (''default_max_retry'', show_int (cf_DefaultMaxRetry c)),
      (''wol_enabled'', if cf_WoLEnabled c then ''true'' else ''false''), (''wol_port'', show_int (cf_WoLPort c)),
      (''wol_networks'', marshal_networks (cf_WoLNetworks c))]"

text \<open>The loop over the map of defaults, in the order Go's iteration takes.\<close>

fun InitDefaultSettings :: "db_env \<Rightarrow> (string \<times> string) list \<Rightarrow> DB \<Rightarrow> db_error option \<times> DB" where
  "InitDefaultSettings env [] db = (None, db)"
| "InitDefaultSettings env ((k, v) # ds) db =
     (case GetSetting env db k of
        Inl e \<Rightarrow> (Some e, db)
      | Inr existing \<Rightarrow>
          if existing \<noteq> '''' then InitDefaultSettings env ds db
          else (case SetSetting env db k v of
                  Inl e \<Rightarrow> (Some e, db)
                | Inr db \<Rightarrow> InitDefaultSettings env ds db))"

subsection \<open>The rotating log\<close>

text \<open>
  \<open>rw_files 0\<close> is the current file, \<open>rw_files i\<close> the \<open>i\<close>-th backup.  \<open>opens\<close> says whether the next open succeeds.
\<close>

record rotWriter =
  rw_maxSize :: int
  rw_maxBack :: nat
  rw_files :: "nat \<Rightarrow> string option"
  rw_open :: bool
  rw_size :: int

definition rename_file :: "nat \<Rightarrow> nat \<Rightarrow> (nat \<Rightarrow> string option) \<Rightarrow> nat \<Rightarrow> string option" where
  "rename_file src dst fs = (case fs src of None \<Rightarrow> fs | Some c \<Rightarrow> fs(dst \<mapsto> c, src := None))"

definition rw_open_file :: "bool \<Rightarrow> rotWriter \<Rightarrow> rotWriter" where
  "rw_open_file opens w =
     (if \<not> opens then w
      else let c = (case rw_files w 0 of None \<Rightarrow> '''' | Some c \<Rightarrow> c) in
        w\<lparr>rw_files := (rw_files w)(0 \<mapsto> c), rw_open := True, rw_size := int (length c)\<rparr>)"

fun rename_loop :: "nat \<Rightarrow> (nat \<Rightarrow> string option) \<Rightarrow> nat \<Rightarrow> string option" where
  "rename_loop 0 fs = fs"
| "rename_loop (Suc i) fs = rename_loop i (rename_file i (Suc i) fs)"

definition rotate_log :: "bool \<Rightarrow> rotWriter \<Rightarrow> rotWriter" where
  "rotate_log opens w = rw_open_file opens (w\<lparr>rw_open := False, rw_files := rename_loop (rw_maxBack w) (rw_files w)\<rparr>)"

definition rot_write :: "bool \<Rightarrow> string \<Rightarrow> rotWriter \<Rightarrow> nat option \<times> rotWriter" where
  "rot_write opens p w =
     (let w = (if rw_size w + int (length p) > rw_maxSize w then rotate_log opens w else w) in
      if \<not> rw_open w then (None, w)
      else (Some (length p),
            w\<lparr>rw_files := (rw_files w)(0 \<mapsto> (case rw_files w 0 of None \<Rightarrow> p | Some c \<Rightarrow> c @ p)),
              rw_size := rw_size w + int (length p)\<rparr>))"

text \<open>Everything the log files hold, oldest first.\<close>

definition file_text :: "(nat \<Rightarrow> string option) \<Rightarrow> nat \<Rightarrow> string" where
  "file_text fs i = (case fs i of None \<Rightarrow> '''' | Some c \<Rightarrow> c)"

fun backups :: "nat \<Rightarrow> (nat \<Rightarrow> string option) \<Rightarrow> string" where
  "backups 0 fs = file_text fs 0"
| "backups (Suc i) fs = file_text fs (Suc i) @ backups i fs"

definition rot_inv :: "rotWriter \<Rightarrow> bool" where
  "rot_inv w \<longleftrightarrow> rw_open w \<and> rw_maxBack w > 0 \<and> rw_size w = int (length (file_text (rw_files w) 0))
     \<and> (\<forall>i. int (length (file_text (rw_files w) i)) \<le> rw_maxSize w)"

subsection \<open>The gates\<close>

text \<open>The networks of \<^verbatim>\<open>admin_cidrs\<close>: an address alone is a /32; an invalid entry is skipped.\<close>

definition admin_nets :: "string list \<Rightarrow> IPNet list" where
  "admin_nets cidrs = List.map_filter (\<lambda>c. map_option snd (ParseCIDR (if Contains c ''/'' then c else c @ ''/32''))) cidrs"

definition adminIPWhitelist :: "string list \<Rightarrow> string \<Rightarrow> bool" where
  "adminIPWhitelist cidrs clientIP =
     (let nets = admin_nets cidrs in
      if nets = [] then True
      else case ParseIP clientIP of None \<Rightarrow> False | Some ip \<Rightarrow> list_ex (\<lambda>n. IPNet_Contains n ip) nets)"

definition adminMiddleware :: "Config \<Rightarrow> string \<Rightarrow> bool" where
  "adminMiddleware c clientIP = (if cf_AdminCIDRs c \<noteq> [] then adminIPWhitelist (cf_AdminCIDRs c) clientIP else True)"

definition mcpAuth :: "Config \<Rightarrow> string \<Rightarrow> bool" where
  "mcpAuth c header \<longleftrightarrow> cf_MCPToken c = '''' \<or> TrimPrefix header ''Bearer '' = cf_MCPToken c"

text \<open>The middleware chains of the protected groups and of the tools endpoint.\<close>

definition api_gate :: "Config \<Rightarrow> time \<Rightarrow> AuthManager \<Rightarrow> string \<Rightarrow> string \<Rightarrow> bool" where
  "api_gate c now am clientIP header \<longleftrightarrow> adminMiddleware c clientIP \<and> Middleware now am header"

definition mcp_gate :: "Config \<Rightarrow> string \<Rightarrow> string \<Rightarrow> bool" where
  "mcp_gate c clientIP header \<longleftrightarrow> adminMiddleware c clientIP \<and> mcpAuth c header"

subsection \<open>The log keeps its newest part\<close>

lemma rename_file_simps:
  "fs src = None \<Longrightarrow> rename_file src dst fs = fs"
  "fs src = Some c \<Longrightarrow> rename_file src dst fs = fs(dst \<mapsto> c, src := None)"
  by (simp_all add: rename_file_def)

lemma rename_loop_above: "n < i \<Longrightarrow> rename_loop n fs i = fs i"
  by (induction n arbitrary: fs) (auto simp: rename_file_def split: option.splits)

lemma backups_cong: "(\<And>i. i \<le> n \<Longrightarrow> file_text fs i = file_text fs' i) \<Longrightarrow> backups n fs = backups n fs'"
  by (induction n) auto

text \<open>Taking the file out of slot \<open>n\<close> removes exactly its text from the front.\<close>

lemma backups_front:
  assumes "fs n = Some c"
  shows "backups n fs = c @ backups n (fs(Suc n \<mapsto> c, n := None))"
proof (cases n)
  case (Suc m)
  have "backups m fs = backups m (fs(Suc n \<mapsto> c, n := None))" by (rule backups_cong) (simp add: file_text_def Suc)
  with assms Suc show ?thesis by (simp add: file_text_def)
qed (use assms in \<open>simp add: file_text_def\<close>)

lemma rename_loop_keeps: "fs n = None \<Longrightarrow> backups n (rename_loop n fs) = backups n fs"
proof (induction n arbitrary: fs)
  case (Suc n)
  show ?case
  proof (cases "fs n")
    case None
    then show ?thesis using Suc by (simp add: rename_file_simps file_text_def rename_loop_above)
  next
    case (Some c)
    let ?fs = "fs(Suc n \<mapsto> c, n := None)"
    have "backups n (rename_loop n ?fs) = backups n ?fs" by (rule Suc.IH) simp
    with Some Suc.prems backups_front [of fs n c] show ?thesis
      by (simp add: rename_file_simps file_text_def rename_loop_above)
  qed
qed simp

lemma rename_loop_suffix: "0 < n \<Longrightarrow> \<exists>old. backups n fs = old @ backups n (rename_loop n fs)"
proof (cases n)
  case (Suc m)
  show ?thesis
  proof (cases "fs m")
    case None
    then show ?thesis using rename_loop_keeps [of fs m] Suc
      by (intro exI [of _ "''''"]) (simp add: rename_file_simps file_text_def rename_loop_above)
  next
    case (Some c)
    let ?fs = "fs(n \<mapsto> c, m := None)"
    have "backups m (rename_loop m ?fs) = backups m ?fs" by (rule rename_loop_keeps) simp
    then have "backups n (rename_loop n fs) = backups m fs"
      using Some Suc backups_front [of fs m c] by (simp add: rename_file_simps file_text_def rename_loop_above)
    then show ?thesis using Suc by (intro exI [of _ "file_text fs n"]) simp
  qed
qed simp

lemma rename_loop_current: "0 < n \<Longrightarrow> rename_loop n fs 0 = None"
proof (induction n arbitrary: fs)
  case (Suc n)
  then show ?case by (cases n) (auto simp: rename_file_def split: option.splits)
qed simp

lemma rename_loop_sizes:
  assumes "\<And>i. int (length (file_text fs i)) \<le> m"
  shows "int (length (file_text (rename_loop n fs) i)) \<le> m"
  using assms
proof (induction n arbitrary: fs)
  case (Suc n)
  have "int (length (file_text (rename_file n (Suc n) fs) i)) \<le> m" for i
    using Suc.prems [of i] Suc.prems [of n] Suc.prems [of "Suc n"]
    by (auto simp: rename_file_def file_text_def split: option.splits if_splits)
  then show ?case using Suc.IH by simp
qed simp

lemma backups_append: "backups n (fs(0 \<mapsto> file_text fs 0 @ p)) = backups n fs @ p"
proof (induction n)
  case (Suc n)
  then show ?case by (simp add: file_text_def)
qed (simp add: file_text_def)

lemma backups_open: "backups n (fs(0 \<mapsto> file_text fs 0)) = backups n fs"
  by (rule backups_cong) (simp add: file_text_def)

text \<open>
  A record that fits a file is written whole, every file stays within the limit, and what the files hold is
  the old content followed by the record, less a part of its oldest end.
\<close>

lemma rot_write_ok:
  assumes inv: "rot_inv w" and fits: "int (length p) \<le> rw_maxSize w"
  shows "fst (rot_write True p w) = Some (length p)" "rot_inv (snd (rot_write True p w))"
    "\<exists>old. backups (rw_maxBack w) (rw_files w) @ p = old @ backups (rw_maxBack w) (rw_files (snd (rot_write True p w)))"
proof -
  let ?n = "rw_maxBack w"
  define w1 where "w1 = (if rw_size w + int (length p) > rw_maxSize w then rotate_log True w else w)"
  have n: "0 < ?n" using inv by (simp add: rot_inv_def)
  have room: "rw_open w1 \<and> rw_size w1 = int (length (file_text (rw_files w1) 0)) \<and> rw_size w1 + int (length p) \<le> rw_maxSize w
    \<and> rw_maxBack w1 = ?n \<and> rw_maxSize w1 = rw_maxSize w \<and> (\<forall>i. int (length (file_text (rw_files w1) i)) \<le> rw_maxSize w)"
  proof (cases "rw_size w + int (length p) > rw_maxSize w")
    case True
    have s: "int (length (file_text (rename_loop ?n (rw_files w)) i)) \<le> rw_maxSize w" for i
      by (rule rename_loop_sizes) (use inv in \<open>simp add: rot_inv_def\<close>)
    from True fits s rename_loop_current [OF n, of "rw_files w"] show ?thesis
      by (auto simp: w1_def rotate_log_def rw_open_file_def file_text_def)
  qed (use inv in \<open>auto simp: w1_def rot_inv_def\<close>)
  have front: "\<exists>old. backups ?n (rw_files w) = old @ backups ?n (rw_files w1)"
  proof (cases "rw_size w + int (length p) > rw_maxSize w")
    case True
    have "backups ?n (rw_files w1) = backups ?n (rename_loop ?n (rw_files w))"
      using True backups_open [of ?n "rename_loop ?n (rw_files w)"] rename_loop_current [OF n, of "rw_files w"]
      by (simp add: w1_def rotate_log_def rw_open_file_def file_text_def)
    then show ?thesis using rename_loop_suffix [OF n, of "rw_files w"] by simp
  qed (simp add: w1_def)
  have wr: "rot_write True p w = (Some (length p), w1\<lparr>rw_files := (rw_files w1)(0 \<mapsto> file_text (rw_files w1) 0 @ p),
      rw_size := rw_size w1 + int (length p)\<rparr>)"
    using room by (simp add: rot_write_def w1_def [symmetric] file_text_def split: option.split)
  show "fst (rot_write True p w) = Some (length p)" by (simp add: wr)
  show "rot_inv (snd (rot_write True p w))"
    using room n by (auto simp: wr rot_inv_def file_text_def)
  show "\<exists>old. backups ?n (rw_files w) @ p = old @ backups ?n (rw_files (snd (rot_write True p w)))"
    using front by (auto simp: wr backups_append)
qed

subsection \<open>Seeding\<close>

lemma GetSetting_iff: "\<not> env [''GetSetting'', k] \<Longrightarrow> GetSetting env db k = Inr (case settings db k of None \<Rightarrow> '''' | Some v \<Rightarrow> v)"
  by (simp add: GetSetting_def)

text \<open>A restart keeps every setting that has a value, and gives the others their default.\<close>

lemma InitDefaultSettings_effect:
  assumes "distinct (map fst ds)" "\<And>k. \<not> env [''GetSetting'', k]" "\<And>k. \<not> env [''SetSetting'', k]"
  shows "fst (InitDefaultSettings env ds db) = None"
    "settings (snd (InitDefaultSettings env ds db)) k =
      (if settings db k \<in> {None, Some ''''} \<and> k \<in> fst ` set ds then map_of ds k else settings db k)"
proof -
  have "fst (InitDefaultSettings env ds db) = None \<and> settings (snd (InitDefaultSettings env ds db)) k =
      (if settings db k \<in> {None, Some ''''} \<and> k \<in> fst ` set ds then map_of ds k else settings db k)"
    using assms
  proof (induction ds arbitrary: db)
    case (Cons d ds)
    obtain k0 v where d: "d = (k0, v)" by (cases d)
    have "k0 \<notin> fst ` set ds" using Cons.prems(1) d by simp
    with Cons d show ?case
      by (auto simp: GetSetting_iff SetSetting_def image_iff split: option.splits)
  qed simp
  then show "fst (InitDefaultSettings env ds db) = None" "settings (snd (InitDefaultSettings env ds db)) k =
      (if settings db k \<in> {None, Some ''''} \<and> k \<in> fst ` set ds then map_of ds k else settings db k)" by blast+
qed

subsection \<open>Who passes\<close>

lemma gate_decides:
  assumes "admin_nets (cf_AdminCIDRs c) \<noteq> []" "cf_AdminUsername c \<noteq> ''''" "am_username am = cf_AdminUsername c"
  shows "api_gate c now am clientIP header \<longleftrightarrow>
    (\<exists>ip n. ParseIP clientIP = Some ip \<and> n \<in> set (admin_nets (cf_AdminCIDRs c)) \<and> IPNet_Contains n ip) \<and> Valid now am (bearer_token header)"
  using assms by (auto simp: api_gate_def adminMiddleware_def adminIPWhitelist_def Let_def Middleware_def list_ex_iff admin_nets_def split: option.splits)

text \<open>
  The list of allowed networks fails open: when none of its entries is valid, a request from every address
  passes, as if no list had been configured.
\<close>

theorem whitelist_fails_open:
  assumes "\<forall>c \<in> set cidrs. ParseCIDR (if Contains c ''/'' then c else c @ ''/32'') = None"
  shows "adminIPWhitelist cidrs clientIP"
proof -
  have "admin_nets cidrs = []" using assms by (induction cidrs) (simp_all add: admin_nets_def List.map_filter_def)
  then show ?thesis by (simp add: adminIPWhitelist_def)
qed

theorem whitelist_fails_open_witness: "adminIPWhitelist [''10.5.39.88/33''] ''203.0.113.7''"
proof -
  have "ParseCIDR ''10.5.39.88/33'' = None" by code_simp
  moreover have "Contains ''10.5.39.88/33'' ''/''" by code_simp
  ultimately show ?thesis using whitelist_fails_open [of "[''10.5.39.88/33'']"] by simp
qed

end
