(* ===== verification/Admin_Api.thy ===== *)
theory Admin_Api
  imports Mcp_Tools Server_Start Command_Properties Policy_Properties
begin

text \<open>
  \<^verbatim>\<open>server/api.go\<close>: the dashboard's API, one definition per route.  A request that cannot be decoded is \<open>None\<close>;
  an answer is an HTTP status with a reason, or the body.  The surroundings of a request are the \<open>command_env\<close>
  of the Command API; \<open>online\<close> is the order in which a broadcast visits the online agents.  Paths follow the
  Unix rules of \<^verbatim>\<open>path/filepath\<close>.
\<close>

datatype api_reason =
    Reason string
  | DBReason db_error
  | WolReason wol_error
  | ValidateReason validate_error
  | CreateReason create_error
  | RequestReason request_error
  | DeepFreezeReason deepfreeze_error

type_synonym api_error = "nat \<times> api_reason"

definition reply :: "db_error + 'a \<Rightarrow> api_error + 'a" where
  "reply r = (case r of Inl e \<Rightarrow> Inl (500, DBReason e) | Inr v \<Rightarrow> Inr v)"

definition audit :: "command_env \<Rightarrow> string \<Rightarrow> string \<Rightarrow> string \<Rightarrow> World \<Rightarrow> World" where
  "audit ce action target detail w = w\<lparr>w_db := InsertAuditLog (ce_db ce) (ce_now ce) (w_db w) action target detail (ce_ip ce)\<rparr>"

text \<open>A query parameter read with \<^verbatim>\<open>strconv.Atoi\<close>, its error ignored.\<close>

definition query_int :: "string \<Rightarrow> int" where
  "query_int s = (case Atoi s of None \<Rightarrow> 0 | Some n \<Rightarrow> n)"

subsection \<open>Agents\<close>

definition api_agents :: "command_env \<Rightarrow> World \<Rightarrow> api_error + AgentWithMetrics list" where
  "api_agents ce w = reply (GetAllAgents (ce_db ce) (w_db w))"

definition lookup_agent :: "command_env \<Rightarrow> string \<Rightarrow> World \<Rightarrow> api_error + AgentWithMetrics" where
  "lookup_agent ce a w =
     (if ce_db ce [''GetAgentByID'', a] then Inl (500, DBReason DBFault)
      else case GetAgentByID (w_db w) a of
        None \<Rightarrow> Inl (404, Reason ''agent not found'')
      | Some r \<Rightarrow> Inr (with_metrics (w_db w) r))"

definition api_agent_metrics :: "command_env \<Rightarrow> string \<Rightarrow> World \<Rightarrow> api_error + Metric list" where
  "api_agent_metrics ce a w = reply (GetMetrics24h (ce_db ce) (ce_now ce) (w_db w) a)"

definition api_agent_processes :: "command_env \<Rightarrow> string \<Rightarrow> World \<Rightarrow> api_error + Process list" where
  "api_agent_processes ce a w = reply (GetProcesses (ce_db ce) (w_db w) a)"

definition api_kill :: "command_env \<Rightarrow> string \<Rightarrow> (int \<times> string) option \<Rightarrow> World \<Rightarrow> (api_error + string) \<times> World" where
  "api_kill ce a req w =
     (case req of
        None \<Rightarrow> (Inl (400, Reason ''pid or name required''), w)
      | Some (pid, name) \<Rightarrow>
          if pid = 0 \<and> name = '''' then (Inl (400, Reason ''pid or name required''), w)
          else (case KillProcess ce a pid name w of
                  (Inl e, w) \<Rightarrow> (Inl (400, RequestReason e), w)
                | (Inr text, w) \<Rightarrow> (Inr text, audit ce ''kill_process'' a (''pid='' @ show_int pid @ '' name='' @ name) w)))"

definition validNetworkModes :: "string list" where
  "validNetworkModes = [''ethernet'', ''wifi'', ''both'']"

datatype mode_answer = NotApplied request_error | AppliedLive networkModeResult

definition api_network_mode :: "command_env \<Rightarrow> string \<Rightarrow> string option \<Rightarrow> World \<Rightarrow> (api_error + mode_answer) \<times> World" where
  "api_network_mode ce a req w =
     (case req of
        None \<Rightarrow> (Inl (400, Reason ''mode must be one of: ethernet, wifi, both''), w)
      | Some mode \<Rightarrow>
          if \<not> ListMem mode validNetworkModes then (Inl (400, Reason ''mode must be one of: ethernet, wifi, both''), w)
          else (case SetAgentDesiredNetworkMode (ce_db ce) (w_db w) a mode of
                  Inl e \<Rightarrow> (Inl (500, DBReason e), w)
                | Inr db \<Rightarrow>
                    (case SetNetworkMode ce 0 a mode (audit ce ''set_network_mode'' a mode (w\<lparr>w_db := db\<rparr>)) of
                       (Inl e, w) \<Rightarrow> (Inr (NotApplied e), w)
                     | (Inr result, w) \<Rightarrow> (Inr (AppliedLive result), w))))"

datatype freeze_answer = FreezeJob string string | FreezeOffline string | FreezeStatus string string string

definition api_deepfreeze ::
  "command_env \<Rightarrow> string \<Rightarrow> (DB \<times> bool) list \<Rightarrow> string \<Rightarrow> string option \<Rightarrow> World \<Rightarrow> (api_error + freeze_answer) \<times> World" where
  "api_deepfreeze ce configured polls a req w =
     (case req of
        None \<Rightarrow> (Inl (400, Reason ''bad request''), w)
      | Some action \<Rightarrow>
          (case deepFreezeActions action of
             None \<Rightarrow> (Inl (400, Reason ''action must be freeze, thaw, or status''), w)
           | Some jobAction \<Rightarrow>
               (case lookup_agent ce a w of
                  Inl e \<Rightarrow> (Inl e, w)
                | Inr ag \<Rightarrow>
                    if action \<noteq> ''status'' \<and> configured = ''''
                    then (Inl (400, Reason ''deepfreeze password not configured (set deepfreeze.password in config.yaml)''), w)
                    else (case dispatchDeepFreeze ce a jobAction (if action \<noteq> ''status'' then configured else '''') ''api'' w of
                            (Inl e, w) \<Rightarrow> (Inl (500, DeepFreezeReason e), w)
                          | (Inr job, w) \<Rightarrow>
                              let w = audit ce (''deepfreeze_'' @ action) a ''via=api'' w in
                              if action \<noteq> ''status'' then (Inr (FreezeJob (dj_ID job) (dj_Status job)), w)
                              else if dj_Status job \<noteq> ''dispatched'' then (Inr (FreezeOffline (dj_ID job)), w)
                              else let (status, detail) = pollDeepFreezeResult (ce_db ce) (dj_ID job) a polls
                                   in (Inr (FreezeStatus status (dj_ID job) detail), w)))))"

text \<open>The three optional columns are written one after the other; a failure keeps the earlier ones.\<close>

record AgentPatch =
  pt_MeshID :: "string option"
  pt_DeviceGroup :: "string option"
  pt_Floor :: "string option"

definition patch_column ::
  "(string \<Rightarrow> db_error + DB) \<Rightarrow> (string \<Rightarrow> World \<Rightarrow> World) \<Rightarrow> string option \<Rightarrow> World \<Rightarrow> (World \<Rightarrow> (api_error + unit) \<times> World) \<Rightarrow> (api_error + unit) \<times> World" where
  "patch_column write_col note_col v w k =
     (case v of
        None \<Rightarrow> k w
      | Some s \<Rightarrow> (case write_col s of Inl e \<Rightarrow> (Inl (500, DBReason e), w) | Inr db \<Rightarrow> k (note_col s (w\<lparr>w_db := db\<rparr>))))"

definition api_patch_agent :: "command_env \<Rightarrow> string \<Rightarrow> AgentPatch option \<Rightarrow> World \<Rightarrow> (api_error + unit) \<times> World" where
  "api_patch_agent ce a req w =
     (let env = ce_db ce in
      case req of
        None \<Rightarrow> (Inl (400, Reason ''bad request''), w)
      | Some p \<Rightarrow>
          patch_column (SetAgentMeshID env (w_db w) a) (\<lambda>s w. w) (pt_MeshID p) w (\<lambda>w.
          patch_column (SetAgentDeviceGroup env (w_db w) a) (\<lambda>s. audit ce ''update_device_group'' a s) (pt_DeviceGroup p) w (\<lambda>w.
          patch_column (SetAgentFloor env (w_db w) a) (\<lambda>s. audit ce ''update_floor'' a s) (pt_Floor p) w (\<lambda>w. (Inr (), w)))))"

definition api_delete_agent :: "command_env \<Rightarrow> string \<Rightarrow> World \<Rightarrow> (api_error + unit) \<times> World" where
  "api_delete_agent ce a w =
     (case DeleteAgent (ce_db ce) (w_db w) a of
        Inl e \<Rightarrow> (Inl (500, DBReason e), w)
      | Inr db \<Rightarrow> (Inr (), audit ce ''delete_agent'' a '''' (w\<lparr>w_db := db\<rparr>)))"

subsection \<open>Alerts, applications, events\<close>

definition api_alerts :: "command_env \<Rightarrow> string \<Rightarrow> World \<Rightarrow> api_error + Alert list" where
  "api_alerts ce limit w = reply (GetRecentAlerts (ce_db ce) (w_db w) (row_limit (query_int limit)))"

definition validAppStatuses :: "string list" where
  "validAppStatuses = [''pending_review'', ''allowed'', ''blocked'', ''ignored'']"

definition api_applications :: "command_env \<Rightarrow> string \<Rightarrow> string \<Rightarrow> World \<Rightarrow> api_error + ApplicationWithStats list" where
  "api_applications ce status cat w =
     (if status \<noteq> '''' \<and> \<not> ListMem status validAppStatuses then Inl (400, Reason ''invalid status filter'')
      else case (if cat = '''' then Some 0 else Atoi cat) of
        None \<Rightarrow> Inl (400, Reason ''invalid category_id'')
      | Some i \<Rightarrow> reply (GetApplications (ce_db ce) (w_db w) status i))"

definition api_application ::
  "command_env \<Rightarrow> string \<Rightarrow> World \<Rightarrow> api_error + ApplicationWithStats \<times> (string \<times> AppSighting) list" where
  "api_application ce ident w =
     (case Atoi ident of
        None \<Rightarrow> Inl (400, Reason ''invalid application id'')
      | Some i \<Rightarrow>
          (case GetApplicationByID (ce_db ce) (w_db w) i of
             Inl e \<Rightarrow> Inl (500, DBReason e)
           | Inr None \<Rightarrow> Inl (404, Reason ''application not found'')
           | Inr (Some app) \<Rightarrow> Inr app))"

definition api_patch_application ::
  "command_env \<Rightarrow> string list \<Rightarrow> string \<Rightarrow> (string \<times> int option) option \<Rightarrow> World \<Rightarrow> (api_error + unit) \<times> World" where
  "api_patch_application ce online ident req w =
     (case Atoi ident of
        None \<Rightarrow> (Inl (400, Reason ''invalid application id''), w)
      | Some i \<Rightarrow>
          (case req of
             None \<Rightarrow> (Inl (400, Reason ''bad request''), w)
           | Some (status, cat) \<Rightarrow>
               if \<not> ListMem status validAppStatuses
               then (Inl (400, Reason ''status must be one of pending_review, allowed, blocked, ignored''), w)
               else (case UpdateApplicationStatus (ce_db ce) (ce_now ce) (w_db w) i status cat of
                       (Some e, db) \<Rightarrow> (Inl (500, DBReason e), w\<lparr>w_db := db\<rparr>)
                     | (None, db) \<Rightarrow>
                         (Inr (), bumpPolicyVersionAndBroadcast (ce_db ce) online
                            (audit ce ''update_application'' (show_int i) (''status='' @ status) (w\<lparr>w_db := db\<rparr>))))))"

definition api_categories :: "command_env \<Rightarrow> World \<Rightarrow> api_error + (int \<times> string) list" where
  "api_categories ce w = reply (GetAllCategories (ce_db ce) (w_db w))"

definition api_events :: "command_env \<Rightarrow> string \<Rightarrow> string \<Rightarrow> string \<Rightarrow> World \<Rightarrow> api_error + (string \<times> Event) list" where
  "api_events ce a kind limit w = reply (GetEvents (ce_db ce) (w_db w) a kind (query_int limit))"

subsection \<open>Policy rules\<close>

definition validPolicyActions :: "string list" where
  "validPolicyActions = [''log'', ''notify'', ''block'', ''delete'', ''kill'']"

definition rule_refused :: "PolicyRule \<Rightarrow> api_error option" where
  "rule_refused r =
     (if pr_Name r = '''' then Some (400, Reason ''name is required'')
      else if \<not> ListMem (pr_Action r) validPolicyActions then Some (400, Reason ''action must be one of log, notify, block, delete, kill'')
      else if pr_AppStatus r \<noteq> '''' \<and> \<not> ListMem (pr_AppStatus r) validAppStatuses
      then Some (400, Reason ''app_status must be empty or one of pending_review, allowed, blocked, ignored'')
      else None)"

definition api_policy_rules :: "command_env \<Rightarrow> World \<Rightarrow> api_error + PolicyRule list" where
  "api_policy_rules ce w = reply (GetAllPolicyRules (ce_db ce) (w_db w))"

definition api_create_rule :: "command_env \<Rightarrow> string list \<Rightarrow> PolicyRule option \<Rightarrow> World \<Rightarrow> (api_error + PolicyRule) \<times> World" where
  "api_create_rule ce online req w =
     (case req of
        None \<Rightarrow> (Inl (400, Reason ''bad request''), w)
      | Some r \<Rightarrow>
          (case rule_refused r of
             Some e \<Rightarrow> (Inl e, w)
           | None \<Rightarrow>
               (case InsertPolicyRule (ce_db ce) (ce_now ce) (w_db w) r of
                  Inl e \<Rightarrow> (Inl (500, DBReason e), w)
                | Inr (i, db) \<Rightarrow>
                    (Inr (r\<lparr>pr_ID := i\<rparr>), bumpPolicyVersionAndBroadcast (ce_db ce) online
                       (audit ce ''create_policy_rule'' (show_int i) (pr_Name r) (w\<lparr>w_db := db\<rparr>))))))"

definition api_update_rule :: "command_env \<Rightarrow> string list \<Rightarrow> string \<Rightarrow> PolicyRule option \<Rightarrow> World \<Rightarrow> (api_error + unit) \<times> World" where
  "api_update_rule ce online ident req w =
     (case Atoi ident of
        None \<Rightarrow> (Inl (400, Reason ''invalid rule id''), w)
      | Some i \<Rightarrow>
          (case req of
             None \<Rightarrow> (Inl (400, Reason ''bad request''), w)
           | Some r \<Rightarrow>
               (case rule_refused r of
                  Some e \<Rightarrow> (Inl e, w)
                | None \<Rightarrow>
                    (case UpdatePolicyRule (ce_db ce) (w_db w) i r of
                       Inl e \<Rightarrow> (Inl (500, DBReason e), w)
                     | Inr db \<Rightarrow>
                         (Inr (), bumpPolicyVersionAndBroadcast (ce_db ce) online
                            (audit ce ''update_policy_rule'' (show_int i) (pr_Name r) (w\<lparr>w_db := db\<rparr>)))))))"

definition api_delete_rule :: "command_env \<Rightarrow> string list \<Rightarrow> string \<Rightarrow> World \<Rightarrow> (api_error + unit) \<times> World" where
  "api_delete_rule ce online ident w =
     (case Atoi ident of
        None \<Rightarrow> (Inl (400, Reason ''invalid rule id''), w)
      | Some i \<Rightarrow>
          (case DeletePolicyRule (ce_db ce) (w_db w) i of
             Inl e \<Rightarrow> (Inl (500, DBReason e), w)
           | Inr db \<Rightarrow>
               (Inr (), bumpPolicyVersionAndBroadcast (ce_db ce) online
                  (audit ce ''delete_policy_rule'' (show_int i) '''' (w\<lparr>w_db := db\<rparr>)))))"

subsection \<open>Settings\<close>

definition api_settings :: "command_env \<Rightarrow> World \<Rightarrow> api_error + (string \<Rightarrow> string)" where
  "api_settings ce w = reply (GetAllSettings (ce_db ce) (w_db w))"

text \<open>\<^verbatim>\<open>%v\<close> of a decoded JSON value; a number is whole and below \<open>10 ^ 21\<close>, so it is printed without an exponent.\<close>

fun sprint_v :: "json \<Rightarrow> string" where
  "sprint_v JNull = ''<nil>''"
| "sprint_v (JBool b) = (if b then ''true'' else ''false'')"
| "sprint_v (JNum n) = show_int n"
| "sprint_v (JStr s) = s"
| "sprint_v (JArr l) = ''['' @ Join (map sprint_v l) '' '' @ '']''"
| "sprint_v (JObj m) = ''map['' @ Join (map (\<lambda>(k, v). k @ '':'' @ sprint_v v) m) '' '' @ '']''"

text \<open>
  \<open>networks\<close> is the decoding of a value as a list of network profiles (\<^verbatim>\<open>json.Marshal\<close> then \<^verbatim>\<open>json.Unmarshal\<close>),
  \<open>marshal\<close> the encoder.  The request is the list of its members in the order Go's map iteration takes.
\<close>

definition setting_value :: "(json \<Rightarrow> string) \<Rightarrow> json \<Rightarrow> string" where
  "setting_value marshal v = (case v of JStr s \<Rightarrow> s | JArr l \<Rightarrow> marshal (JArr l) | _ \<Rightarrow> sprint_v v)"

definition requested_port :: "json \<Rightarrow> int" where
  "requested_port v = (case v of JStr s \<Rightarrow> query_int (TrimSpace s) | JNum n \<Rightarrow> n | _ \<Rightarrow> 0)"

definition settings_refused :: "(json \<Rightarrow> WoLNetwork list option) \<Rightarrow> (string \<times> json) list \<Rightarrow> api_error option" where
  "settings_refused networks req =
     (case (case map_of req ''wol_networks'' of
              None \<Rightarrow> None
            | Some v \<Rightarrow>
                (case networks v of
                   None \<Rightarrow> Some (400, Reason ''invalid Wake-on-LAN networks payload'')
                 | Some ns \<Rightarrow> map_option (\<lambda>e. (400, WolReason e)) (validateWoLNetworks ns))) of
        Some e \<Rightarrow> Some e
      | None \<Rightarrow>
          (case map_of req ''wol_port'' of
             None \<Rightarrow> None
           | Some v \<Rightarrow> map_option (\<lambda>e. (400, WolReason e)) (validateWoLPort (requested_port v))))"

fun write_settings :: "db_env \<Rightarrow> (json \<Rightarrow> string) \<Rightarrow> (string \<times> json) list \<Rightarrow> DB \<Rightarrow> db_error option \<times> DB" where
  "write_settings env marshal [] db = (None, db)"
| "write_settings env marshal ((k, v) # kvs) db =
     (case SetSetting env db k (setting_value marshal v) of
        Inl e \<Rightarrow> (Some e, db)
      | Inr db \<Rightarrow> write_settings env marshal kvs db)"

definition api_post_settings ::
  "command_env \<Rightarrow> (json \<Rightarrow> WoLNetwork list option) \<Rightarrow> (json \<Rightarrow> string) \<Rightarrow> (string \<times> json) list option \<Rightarrow> World \<Rightarrow> (api_error + unit) \<times> World" where
  "api_post_settings ce networks marshal req w =
     (case req of
        None \<Rightarrow> (Inl (400, Reason ''bad request''), w)
      | Some kvs \<Rightarrow>
          (case settings_refused networks kvs of
             Some e \<Rightarrow> (Inl e, w)
           | None \<Rightarrow>
               (case write_settings (ce_db ce) marshal kvs (w_db w) of
                  (Some e, db) \<Rightarrow> (Inl (500, DBReason e), w\<lparr>w_db := db\<rparr>)
                | (None, db) \<Rightarrow> (Inr (), w\<lparr>w_db := db\<rparr>))))"

definition api_audit :: "command_env \<Rightarrow> string \<Rightarrow> World \<Rightarrow> api_error + AuditLog list" where
  "api_audit ce limit w = reply (GetAuditLogs (ce_db ce) (w_db w) (query_int limit))"

text \<open>The online agents, and today's alerts (0 when the query fails).\<close>

definition OnlineCount :: "Hub \<Rightarrow> nat" where
  "OnlineCount h = card (dom (hub_clients h))"

definition api_stats :: "command_env \<Rightarrow> World \<Rightarrow> nat \<times> nat" where
  "api_stats ce w =
     (OnlineCount (w_hub w), case GetAlertsTodayCount (ce_db ce) (ce_now ce) (w_db w) of Inl e \<Rightarrow> 0 | Inr n \<Rightarrow> n)"

subsection \<open>Deploying\<close>

record DeployRequest =
  rq_Type :: string
  rq_Payload :: string
  rq_Args :: string
  rq_Targets :: "string list"
  rq_Priority :: int
  rq_ExpireAt :: string
  rq_MaxRetry :: "int option"

definition parse_expiry :: "command_env \<Rightarrow> string \<Rightarrow> api_error + time option" where
  "parse_expiry ce s =
     (if s = '''' then Inr None
      else case ce_parse_time ce s of
        None \<Rightarrow> Inl (400, Reason ''expire_at must be RFC3339'')
      | Some t \<Rightarrow> if t < ce_now ce then Inl (400, Reason ''expire_at must be in the future'') else Inr (Some t))"

definition deploy_checked :: "command_env \<Rightarrow> DeployRequest \<Rightarrow> api_error + time option" where
  "deploy_checked ce req =
     (if rq_Type req = '''' \<or> rq_Targets req = [] then Inl (400, Reason ''type and targets are required'')
      else if rq_Type req \<noteq> ''install_ssh'' \<and> rq_Payload req = '''' then Inl (400, Reason (''payload is required for type '' @ rq_Type req))
      else case validateDeployRequest (rq_Type req) (rq_Payload req) (rq_Args req) of
        Some e \<Rightarrow> Inl (400, ValidateReason e)
      | None \<Rightarrow> parse_expiry ce (rq_ExpireAt req))"

definition payload_preview :: "string \<Rightarrow> string" where
  "payload_preview s = (if length s > 80 then take 80 s @ [CHR 0xE2, CHR 0x80, CHR 0xA6] else s)"

definition api_deploy :: "command_env \<Rightarrow> DeployRequest option \<Rightarrow> World \<Rightarrow> (api_error + DeployJob) \<times> World" where
  "api_deploy ce body w =
     (case body of
        None \<Rightarrow> (Inl (400, Reason ''bad request''), w)
      | Some req \<Rightarrow>
          (case deploy_checked ce req of
             Inl e \<Rightarrow> (Inl e, w)
           | Inr expireAt \<Rightarrow>
               let maxRetry = (case rq_MaxRetry req of None \<Rightarrow> DefaultMaxRetry (ce_db ce) (w_db w) | Some n \<Rightarrow> n) in
               (case CreateJob (ce_db ce) (ce_now ce) (ce_cks ce) (ce_jid ce) w (rq_Type req) (rq_Payload req) (rq_Args req)
                       (rq_Targets req) (rq_Priority req) expireAt maxRetry ''system'' of
                  (Inl e, w) \<Rightarrow> (Inl (500, CreateReason e), w)
                | (Inr job, w) \<Rightarrow>
                    (Inr job, audit ce ''deploy'' (Join (rq_Targets req) '','')
                       (''type='' @ rq_Type req @ '' payload='' @ payload_preview (rq_Payload req) @ '' priority='' @ show_int (rq_Priority req) @
                        '' max_retry='' @ show_int maxRetry) w))))"

definition api_deploy_list :: "command_env \<Rightarrow> World \<Rightarrow> api_error + DeployJob list" where
  "api_deploy_list ce w = reply (GetAllDeployJobs (ce_db ce) (w_db w))"

definition api_cancel_deploy :: "command_env \<Rightarrow> string \<Rightarrow> World \<Rightarrow> (api_error + unit) \<times> World" where
  "api_cancel_deploy ce j w =
     (case CancelDeployJob (ce_db ce) (w_db w) j of
        (Some e, db) \<Rightarrow> (Inl (500, DBReason e), w\<lparr>w_db := db\<rparr>)
      | (None, db) \<Rightarrow> (Inr (), audit ce ''cancel_deploy'' j '''' (w\<lparr>w_db := db\<rparr>)))"

definition api_deploy_job :: "command_env \<Rightarrow> string \<Rightarrow> World \<Rightarrow> api_error + DeployJob \<times> DeployResult list" where
  "api_deploy_job ce j w =
     (case GetDeployJobByID (ce_db ce) (w_db w) j of
        Inl e \<Rightarrow> Inl (500, DBReason e)
      | Inr None \<Rightarrow> Inl (404, Reason ''job not found'')
      | Inr (Some job) \<Rightarrow>
          (case GetDeployResultsByJobID (ce_db ce) (w_db w) (dj_ID job) of
             Inl e \<Rightarrow> Inl (500, DBReason e)
           | Inr rows \<Rightarrow> Inr (job, rows)))"

subsection \<open>Logs\<close>

definition tailFile :: "read_file \<Rightarrow> nat \<Rightarrow> string option" where
  "tailFile file n =
     (case file of
        FileMissing \<Rightarrow> Some ''''
      | FileError \<Rightarrow> None
      | FileText text \<Rightarrow>
          let parts = Split_char (CHR 0x0A) text in
          Some (Join (if length parts > n then drop (length parts - n) parts else parts) [CHR 0x0A]))"

definition api_logs :: "read_file \<Rightarrow> string \<Rightarrow> api_error + string" where
  "api_logs file q =
     (let n = query_int q; n = (if n \<le> 0 \<or> n > 10000 then 100 else n) in
      case tailFile file (nat n) of None \<Rightarrow> Inl (500, Reason ''read error'') | Some text \<Rightarrow> Inr text)"

definition api_agent_logs :: "command_env \<Rightarrow> string \<Rightarrow> string \<Rightarrow> World \<Rightarrow> (api_error + string) \<times> World" where
  "api_agent_logs ce a q w =
     (let n = query_int q; n = (if n \<le> 0 \<or> n > 1000 then 50 else n) in
      case RequestAgentLogs_begin (ce_chan ce 0) a n w of
        (False, w) \<Rightarrow> (Inl (503, RequestReason AgentNotOnline), w)
      | (True, w) \<Rightarrow>
          (case RequestAgentLogs_end (ce_chan ce 0) a (ce_await ce 0 w) of
             (Inl e, w) \<Rightarrow> (Inl (503, RequestReason e), w)
           | (Inr text, w) \<Rightarrow> (Inr text, w)))"

subsection \<open>Uploaded files\<close>

text \<open>\<^verbatim>\<open>filepath.Clean\<close> on Unix: empty and dot components go, a dot-dot takes the component before it.\<close>

fun clean_parts :: "bool \<Rightarrow> string list \<Rightarrow> string list \<Rightarrow> string list" where
  "clean_parts rooted [] done = rev done"
| "clean_parts rooted (p # ps) done =
     (if p = '''' \<or> p = ''.'' then clean_parts rooted ps done
      else if p = ''..'' then
        (case done of
           [] \<Rightarrow> clean_parts rooted ps (if rooted then [] else [''..''])
         | d # ds \<Rightarrow> clean_parts rooted ps (if d = ''..'' then ''..'' # done else ds))
      else clean_parts rooted ps (p # done))"

definition Clean :: "string \<Rightarrow> string" where
  "Clean path =
     (let rooted = HasPrefix path ''/''; parts = clean_parts rooted (Split_char (CHR ''/'') path) [] in
      if rooted then ''/'' @ Join parts ''/'' else if parts = [] then ''.'' else Join parts ''/'')"

text \<open>\<^verbatim>\<open>filepath.Base\<close>: the last component, \<^verbatim>\<open>.\<close> of an empty path and \<^verbatim>\<open>/\<close> of one of slashes only.\<close>

definition strip_slashes :: "string \<Rightarrow> string" where
  "strip_slashes s = rev (dropWhile (\<lambda>c. c = CHR ''/'') (rev s))"

definition Base :: "string \<Rightarrow> string" where
  "Base path =
     (if path = '''' then ''.''
      else let p = strip_slashes path in
        if p = '''' then ''/'' else rev (takeWhile (\<lambda>c. c \<noteq> CHR ''/'') (rev p)))"

definition Path_Join :: "string \<Rightarrow> string \<Rightarrow> string" where
  "Path_Join a b = (if a = '''' \<and> b = '''' then '''' else Clean (if a = '''' then b else if b = '''' then a else a @ ''/'' @ b))"

definition Path_Abs :: "string \<Rightarrow> string \<Rightarrow> string" where
  "Path_Abs cwd path = (if HasPrefix path ''/'' then Clean path else Path_Join cwd path)"

definition allowedUploadExts :: "string list" where
  "allowedUploadExts = [''.exe'', ''.msi'', ''.bat'', ''.ps1'']"

text \<open>The upload directory as a map from names to contents; \<open>save_fails\<close> is a failing write.\<close>

type_synonym uploads = "string \<rightharpoonup> string"

definition api_upload ::
  "command_env \<Rightarrow> int \<Rightarrow> bool \<Rightarrow> (string \<times> string) option \<Rightarrow> uploads \<times> World \<Rightarrow> (api_error + string) \<times> uploads \<times> World" where
  "api_upload ce maxMB save_fails file st =
     (let (up, w) = st in
      case file of
        None \<Rightarrow> (Inl (400, Reason ''no file''), up, w)
      | Some (name, content) \<Rightarrow>
          if maxMB > 0 \<and> int (length content) > maxMB * 1024 * 1024 then (Inl (413, Reason ''file exceeds size limit''), up, w)
          else
            let filename = Base name in
            if filename = ''.'' \<or> filename = ''/'' then (Inl (400, Reason ''invalid filename''), up, w)
            else if \<not> ListMem (ToLower (filepath_Ext (\<lambda>c. c = CHR ''/'') filename)) allowedUploadExts
            then (Inl (400, Reason ''file type not allowed (.exe .msi .bat .ps1 only)''), up, w)
            else if save_fails then (Inl (500, Reason ''save failed''), up, w)
            else (Inr filename, up(filename \<mapsto> content),
                  audit ce ''upload'' filename (''size='' @ show_int (int (length content))) w))"

text \<open>The path of the file a download request is answered with.\<close>

definition publicFileHandler :: "string \<Rightarrow> string \<Rightarrow> string \<Rightarrow> api_error + string" where
  "publicFileHandler cwd uploadsPath param =
     (let safe = Base (Clean param) in
      if safe = ''.'' \<or> safe = ''..'' then Inl (400, Reason ''invalid filename'')
      else
        let dest = Path_Join uploadsPath safe in
        if \<not> HasPrefix (Path_Abs cwd dest) (Path_Abs cwd uploadsPath @ ''/'') then Inl (403, Reason ''access denied'')
        else Inr dest)"

end
