(* ===== verification/Api_Properties.thy ===== *)
theory Api_Properties
  imports Admin_Api
begin

text \<open>
  The routes of the dashboard's API that write, as one step function, and what a refusal means: a request
  that is answered with 400 or 404 changes nothing.
\<close>

subsection \<open>The routes that write\<close>

datatype admin_request =
    Kill string "(int \<times> string) option"
  | SetMode string "string option"
  | Freeze string "string option"
  | PatchAgent string "AgentPatch option"
  | RemoveAgent string
  | PatchApplication string "(string \<times> int option) option"
  | CreateRule "PolicyRule option"
  | UpdateRule string "PolicyRule option"
  | RemoveRule string
  | PostSettings "(string \<times> json) list option"
  | Deploy "DeployRequest option"
  | CancelDeploy string
  | AgentLogs string string

record admin_env =
  ad_ce :: command_env
  ad_online :: "string list"
  ad_password :: string
  ad_polls :: "(DB \<times> bool) list"
  ad_networks :: "json \<Rightarrow> WoLNetwork list option"
  ad_marshal :: "json \<Rightarrow> string"

definition outcome :: "(api_error + 'a) \<times> World \<Rightarrow> api_error option \<times> World" where
  "outcome r = (case fst r of Inl e \<Rightarrow> Some e | Inr v \<Rightarrow> None, snd r)"

fun admin_step :: "admin_env \<Rightarrow> admin_request \<Rightarrow> World \<Rightarrow> api_error option \<times> World" where
  "admin_step ad (Kill a req) w = outcome (api_kill (ad_ce ad) a req w)"
| "admin_step ad (SetMode a req) w = outcome (api_network_mode (ad_ce ad) a req w)"
| "admin_step ad (Freeze a req) w = outcome (api_deepfreeze (ad_ce ad) (ad_password ad) (ad_polls ad) a req w)"
| "admin_step ad (PatchAgent a req) w = outcome (api_patch_agent (ad_ce ad) a req w)"
| "admin_step ad (RemoveAgent a) w = outcome (api_delete_agent (ad_ce ad) a w)"
| "admin_step ad (PatchApplication i req) w = outcome (api_patch_application (ad_ce ad) (ad_online ad) i req w)"
| "admin_step ad (CreateRule req) w = outcome (api_create_rule (ad_ce ad) (ad_online ad) req w)"
| "admin_step ad (UpdateRule i req) w = outcome (api_update_rule (ad_ce ad) (ad_online ad) i req w)"
| "admin_step ad (RemoveRule i) w = outcome (api_delete_rule (ad_ce ad) (ad_online ad) i w)"
| "admin_step ad (PostSettings req) w = outcome (api_post_settings (ad_ce ad) (ad_networks ad) (ad_marshal ad) req w)"
| "admin_step ad (Deploy req) w = outcome (api_deploy (ad_ce ad) req w)"
| "admin_step ad (CancelDeploy j) w = outcome (api_cancel_deploy (ad_ce ad) j w)"
| "admin_step ad (AgentLogs a q) w = outcome (api_agent_logs (ad_ce ad) a q w)"

subsection \<open>Refusals\<close>

lemma outcome_Some: "outcome r = (Some e, w') \<longleftrightarrow> r = (Inl e, w')"
  by (cases r) (auto simp: outcome_def split: sum.splits)

lemma patch_refused: "api_patch_agent ce a req w = (Inl (status, why), w') \<Longrightarrow> status \<in> {400, 404} \<Longrightarrow> w' = w"
  by (auto simp: api_patch_agent_def patch_column_def Let_def split: option.splits sum.splits)

lemma dispatch_refused: "dispatchDeepFreeze ce a ja pw who w = (Inl e, w') \<Longrightarrow> w' = w"
  by (auto simp: dispatchDeepFreeze_def dest: CreateJob_error split: if_splits prod.splits sum.splits)

lemma freeze_refused: "api_deepfreeze ce pw polls a req w = (Inl e, w') \<Longrightarrow> w' = w"
  by (auto simp: api_deepfreeze_def Let_def dest: dispatch_refused split: option.splits sum.splits if_splits prod.splits)

lemma deploy_refused: "api_deploy ce req w = (Inl e, w') \<Longrightarrow> w' = w"
  by (auto simp: api_deploy_def Let_def dest: CreateJob_error split: option.splits sum.splits if_splits prod.splits)

lemma kill_refused: "api_kill ce a req w = (Inl (status, why), w') \<Longrightarrow> \<nexists>e. why = RequestReason e \<Longrightarrow> w' = w"
  by (auto simp: api_kill_def split: option.splits sum.splits if_splits prod.splits)

lemma mode_refused: "api_network_mode ce a req w = (Inl e, w') \<Longrightarrow> w' = w"
  by (auto simp: api_network_mode_def split: option.splits sum.splits if_splits prod.splits)

lemma rule_edits_refused:
  "api_create_rule ce online r w = (Inl e, w') \<Longrightarrow> w' = w" "api_update_rule ce online i r w = (Inl e, w') \<Longrightarrow> w' = w"
  "api_delete_rule ce online i w = (Inl e, w') \<Longrightarrow> w' = w" "api_delete_agent ce a w = (Inl e, w') \<Longrightarrow> w' = w"
  by (auto simp: api_create_rule_def api_update_rule_def api_delete_rule_def api_delete_agent_def split: option.splits sum.splits)

lemma late_refused:
  "api_patch_application ce online i q w = (Inl (400, why), w') \<Longrightarrow> w' = w"
  "api_post_settings ce networks marshal req w = (Inl (400, why), w') \<Longrightarrow> w' = w"
  "api_patch_application ce online i q w \<noteq> (Inl (404, why), w')" "api_post_settings ce networks marshal req w \<noteq> (Inl (404, why), w')"
  by (auto simp: api_patch_application_def api_post_settings_def settings_refused_def split: option.splits prod.splits if_splits)

lemma no_4xx:
  "api_cancel_deploy ce j w = (Inl (s, why), w') \<Longrightarrow> s = 500" "api_agent_logs ce a q w = (Inl (s, why), w') \<Longrightarrow> s = 503"
  by (auto simp: api_cancel_deploy_def api_agent_logs_def Let_def split: option.splits prod.splits sum.splits bool.splits)



end
