(* ===== verification/Server_Composition.thy ===== *)
theory Server_Composition
  imports Api_Properties
begin

text \<open>
  The whole server.  Everything that runs in the server process - a message of an agent, a request of the
  dashboard, a command, an MCP tool, the sweeper, the offline check, the metrics batcher, a finished
  connection - is one action on the shared state, and any sequence of actions keeps the job queue's
  invariant.  A handler that waits for an agent relies on the others for what happens meanwhile.
\<close>

subsection \<open>Actions\<close>

text \<open>The part of the database the queue invariant looks at.\<close>

definition queue_of :: "DB \<Rightarrow> DeployResult list \<times> string list" where
  "queue_of db = (deploy_results db, map dj_ID (deploy_jobs db))"

definition job_budget :: "string \<Rightarrow> int \<Rightarrow> DB \<Rightarrow> bool" where
  "job_budget j m db \<longleftrightarrow> list_all (\<lambda>r. dr_JobID r = j \<longrightarrow> dr_MaxRetry r = m) (deploy_results db)"

text \<open>
  What a waiting request relies on: the other goroutines keep the queue invariant, and none of them adds
  rows with another budget to the job the request is creating (its id is a fresh UUID).
\<close>

definition await_ok :: "command_env \<Rightarrow> bool" where
  "await_ok ce \<longleftrightarrow> (\<forall>i w. queue_inv (w_db w) \<longrightarrow> queue_inv (w_db (ce_await ce i w))
     \<and> (\<forall>m. job_budget (ce_jid ce) m (w_db w) \<longrightarrow> job_budget (ce_jid ce) m (w_db (ce_await ce i w))))"

definition reports_running :: "IncomingMessage option \<Rightarrow> bool" where
  "reports_running data = (case data of None \<Rightarrow> False | Some msg \<Rightarrow> im_Status msg = ''running'')"

text \<open>
  The actions.  An agent never reports \<^verbatim>\<open>running\<close> as the outcome of a job; a connection that opens, a write
  pump that drains a queue and a handler's work on its own reply leave the database alone (\<open>srv_local\<close>).
\<close>

inductive server_action :: "World \<Rightarrow> World \<Rightarrow> bool" where
  srv_message: "\<not> reports_running data \<Longrightarrow> server_action w (handleMessage sv now c data w)"
| srv_disconnect: "server_action w (readPump_end env now c w)"
| srv_admin: "await_ok (ad_ce ad) \<Longrightarrow> server_action w (snd (admin_step ad req w))"
| srv_command: "await_ok ce \<Longrightarrow> server_action w (snd (snd (handlePostCommand ce body w)))"
| srv_mcp_job: "server_action w (snd (dispatchPCJob ce hostname jobType payload args what w))"
| srv_mcp_query: "server_action w (snd (queryDeepFreezeStatus ce polls hostname w))"
| srv_mcp_kill: "await_ok ce \<Longrightarrow> server_action w (snd (mcp_kill_process ce hostname name w))"
| srv_pump: "server_action w (snd (PumpAgent env now cks w a))"
| srv_sweep: "server_action w (lease_sweeper_tick env now cks w)"
| srv_offline: "server_action w (checkOfflineAgents env now w)"
| srv_recovery: "server_action w (CheckRecovery env now a hostname w)"
| srv_autokill: "server_action w (autoKill_end env now a name ans w)"
| srv_exec_policy: "server_action w (actOnExecution_end env now a hostname proc loc decision ans w)"
| srv_batch: "server_action w (snd (batcher_run env ev (buf, w)))"
| srv_purge: "PurgeOldMetrics env now (w_db w) = Inr db \<Longrightarrow> server_action w (w\<lparr>w_db := db\<rparr>)"
| srv_local: "w_db w' = w_db w \<Longrightarrow> server_action w w'"

text \<open>The state of a direct command between two of its targets.\<close>

definition owned :: "string \<Rightarrow> World \<Rightarrow> bool" where
  "owned j w \<longleftrightarrow> queue_inv (w_db w) \<and> job_budget j 0 (w_db w)"

subsection \<open>What leaves the queue alone\<close>

lemma queue_inv_frame: "queue_of db' = queue_of db \<Longrightarrow> queue_inv db \<Longrightarrow> queue_inv db'"
  using queue_inv_cong [of db' db] by (simp add: queue_of_def)


lemma statements_queue:
  "InsertAlert env now db a ty m = Inr db' \<Longrightarrow> queue_of db' = queue_of db"
  "InsertEvent env now db a ev meta fin = Inr db' \<Longrightarrow> queue_of db' = queue_of db"
  "UpsertAgent env db ag = Inr db' \<Longrightarrow> queue_of db' = queue_of db"
  "UpdateAgentStatus env now db a st = Inr db' \<Longrightarrow> queue_of db' = queue_of db"
  "UpsertProcesses env db a procs = Inr db' \<Longrightarrow> queue_of db' = queue_of db"
  "SetAgentDesiredNetworkMode env db a mode = Inr db' \<Longrightarrow> queue_of db' = queue_of db"
  "InsertCommandRequest env now db j ty tg cor = Inr db' \<Longrightarrow> queue_of db' = queue_of db"
  "PurgeOldMetrics env now db = Inr db' \<Longrightarrow> queue_of db' = queue_of db"
  "UpdateAgentNetworkModeResult env now db a mode st detail = Inr db' \<Longrightarrow> queue_of db' = queue_of db"
  "UpsertSighting env now db a app path sz created modified = Inr db' \<Longrightarrow> queue_of db' = queue_of db"
  "ReconcileSoftwareInventory env now db a items = Inr db' \<Longrightarrow> queue_of db' = queue_of db"
  by (auto simp: queue_of_def InsertAlert_def InsertEvent_def UpsertAgent_def UpdateAgentStatus_def UpsertProcesses_def update_agent_def
      SetAgentDesiredNetworkMode_def InsertCommandRequest_def PurgeOldMetrics_def
      UpdateAgentNetworkModeResult_def UpsertSighting_def ReconcileSoftwareInventory_def Let_def split: if_splits option.splits)

lemma logged_statements_queue [simp]:
  "queue_of (InsertAuditLog env now db x y z ip) = queue_of db"
  "queue_of (batcher_flush env entries db) = queue_of db"
  "queue_of (snd (BumpPolicyVersion env db)) = queue_of db"
  by (simp_all add: queue_of_def InsertAuditLog_def batcher_flush_def BumpPolicyVersion_def Let_def split: sum.splits prod.splits)

lemma catalog_queue [simp]:
  "queue_of (snd (UpsertApplication env now db exe company meta)) = queue_of db"
  "queue_of (snd (UpsertApplicationByProduct env now db product publisher meta)) = queue_of db"
  "queue_of (snd (UpdateApplicationStatus env now db i st cat)) = queue_of db"
  by (simp_all add: queue_of_def UpsertApplication_def UpsertApplicationByProduct_def UpdateApplicationStatus_def Let_def
      split: option.split sum.split prod.split)


lemma UpsertApplication_queue: "UpsertApplication env now db exe company meta = (r, db') \<Longrightarrow> queue_of db' = queue_of db"
  by (metis catalog_queue(1) snd_conv)

lemma Observe_queue [simp]: "queue_of (Observe env now a procs db) = queue_of db"
proof -
  have one: "queue_of (observeOne env now a p db) = queue_of db" for p db
    by (auto simp: observeOne_def Let_def dest!: statements_queue(10) UpsertApplication_queue split: sum.split option.split prod.split)
  have "queue_of (Observe_loop env now a procs seen db) = queue_of db" for seen
    by (induction procs arbitrary: seen db) (simp_all add: one)
  then show ?thesis by (simp add: Observe_def)
qed

text \<open>On the shared state: notices, alerts, events, policy messages and the checks built from them.\<close>

lemma fold_queue: "(\<And>x w. queue_of (w_db (f x w)) = queue_of (w_db w)) \<Longrightarrow> queue_of (w_db (fold f xs w)) = queue_of (w_db w)"
  by (induction xs arbitrary: w) simp_all

lemma notices_queue [simp]:
  "w_db (NotifyEvent env m w) = w_db w" "queue_of (w_db (fire env now a kind m w)) = queue_of (w_db w)"
  "w_db (setConsecutive a k n w) = w_db w" "w_db (batcher_Add now a cpu ram w) = w_db w"
  by (simp_all add: NotifyEvent_def fire_def setConsecutive_def batcher_Add_def statements_queue split: sum.split)

lemma alerts_queue [simp]:
  "queue_of (w_db (FireTamperAlert env now a host dev cls w)) = queue_of (w_db w)"
  "queue_of (w_db (CheckRecovery env now a host w)) = queue_of (w_db w)"
  "queue_of (w_db (notifyDeployFailure env now msg out w)) = queue_of (w_db w)"
  "queue_of (w_db (check_threshold env now a host k ty label v thr w)) = queue_of (w_db w)"
  "queue_of (w_db (check_process env now a host bl kill proc w)) = queue_of (w_db w)"
  "queue_of (w_db (check_offline_agent env now cutoff ag w)) = queue_of (w_db w)"
  by (simp_all add: FireTamperAlert_def CheckRecovery_def notifyDeployFailure_def check_threshold_def check_process_def
      check_offline_agent_def Let_def split: sum.split)

lemma checks_queue [simp]:
  "queue_of (w_db (CheckMetrics um env now a host cpu ram procs w)) = queue_of (w_db w)"
  "queue_of (w_db (checkOfflineAgents env now w)) = queue_of (w_db w)"
  by (simp_all add: CheckMetrics_def checkOfflineAgents_def fold_queue Let_def split: sum.split)

lemma event_queue [simp]:
  "queue_of (w_db (case InsertEvent env now db a ev meta fin of Inl e \<Rightarrow> w | Inr db \<Rightarrow> w\<lparr>w_db := db\<rparr>)) =
     (case InsertEvent env now db a ev meta fin of Inl e \<Rightarrow> queue_of (w_db w) | Inr _ \<Rightarrow> queue_of db)"
  by (simp add: statements_queue(2) split: sum.split)

lemma actOnExecution_queue [simp]: "queue_of (w_db (actOnExecution_end env now a host proc loc decision ans w)) = queue_of (w_db w)"
  unfolding actOnExecution_end_def Let_def event_queue by (simp split: sum.split)

lemma relevantApps_db [simp]: "w_db (snd (relevantApps env now w)) = w_db w"
  by (simp add: relevantApps_def split: option.split sum.split prod.split)

lemma policy_queue [simp]:
  "queue_of (w_db (EvaluateProcesses env now order sep a host procs w)) = queue_of (w_db w)"
  "queue_of (w_db (BroadcastPolicyUpdate env online w)) = queue_of (w_db w)"
  "queue_of (w_db (handlePolicyEnforcement env now c msg w)) = queue_of (w_db w)"
  "queue_of (w_db (handlePolicyVersionCheck env c msg w)) = queue_of (w_db w)"
proof -
  obtain r v where rel: "relevantApps env now w = (r, v)" by (cases "relevantApps env now w")
  then have "w_db v = w_db w" using relevantApps_db [of env now w] by simp
  then show "queue_of (w_db (EvaluateProcesses env now order sep a host procs w)) = queue_of (w_db w)"
    unfolding EvaluateProcesses_def Let_def rel prod.case by (subst fold_queue) (auto split: option.split)
qed (simp_all add: BroadcastPolicyUpdate_def handlePolicyEnforcement_def handlePolicyVersionCheck_def fold_queue
    statements_queue Let_def split: sum.split)


subsection \<open>Messages\<close>

lemma act_db [simp]: "w_db (snd (act marshal env a host ev meta decision w)) = w_db w"
  by (auto simp: act_def Let_def send_to_def split: prod.split)

lemma integrateCatalog_queue [simp]: "queue_of (w_db (integrateCatalog env now meta w)) = queue_of (w_db w)"
  by (simp add: integrateCatalog_def Let_def)

lemma Record_queue [simp]: "queue_of (w_db (Record marshal env now a host ev meta w)) = queue_of (w_db w)"
proof -
  let ?d = "PolicyEngine_Evaluate env (w_db w) (event_context env (w_db w) a ev meta)"
  obtain fin v where act: "act marshal env a host ev meta ?d w = (fin, v)" by (cases "act marshal env a host ev meta ?d w")
  then have "w_db v = w_db w" using act_db [of marshal env a host ev meta ?d w] by simp
  then show ?thesis unfolding Record_def Let_def act prod.case by (simp split: sum.split)
qed

lemma register_queue [simp]: "queue_of (w_db (register_connection env c msg w)) = queue_of (w_db w)"
  by (simp add: register_connection_def Let_def split: sum.split)

lemma handleMetrics_queue [simp]: "queue_of (w_db (handleMetrics um env now order sep c msg w)) = queue_of (w_db w)"
  unfolding handleMetrics_def Let_def
  by (auto dest!: statements_queue(3,5) split: sum.split)

lemma replies_queue [simp]:
  "w_db (handleLogResult c msg w) = w_db w" "w_db (handleKillResult c msg w) = w_db w"
  "queue_of (w_db (handleNetworkModeResult env now msg w)) = queue_of (w_db w)"
  "queue_of (w_db (handleSoftwareInventory env now c msg w)) = queue_of (w_db w)"
  "queue_of (w_db (handleEvent marshal env now c msg w)) = queue_of (w_db w)"
  "queue_of (w_db (handleProcessStart env now order sep c msg w)) = queue_of (w_db w)"
  "queue_of (w_db (readPump_end env now c w)) = queue_of (w_db w)"
  by (auto simp: handleLogResult_def handleKillResult_def handleNetworkModeResult_def handleSoftwareInventory_def handleEvent_def
      handleProcessStart_def readPump_end_def offer_def Let_def dest!: statements_queue(4,9,11) split: sum.split option.split prod.split)

lemma handleExecResult_inv:
  assumes "queue_inv (w_db w)" "im_Status msg \<noteq> ''running''"
  shows "queue_inv (w_db (handleExecResult env now msg w))"
proof -
  have upd: "queue_inv db" if "UpdateDeployResult env now (w_db w) (im_JobID msg) (im_AgentID msg) (im_Status msg) out
      (im_ExitCode msg) (im_DurationMS msg) None (im_Attempt msg) = Inr (n, db)" for out n db
    by (rule UpdateDeployResult_inv [OF assms _ that]) (simp add: retry_in_budget_def)
  have noticed: "queue_inv (w_db v) \<Longrightarrow> queue_inv (w_db (notifyDeployFailure env now msg out v))" for out v
    by (rule queue_inv_frame [OF alerts_queue(3)])
  have status: "queue_inv (w_db v) \<Longrightarrow>
      queue_inv (w_db (case UpdateJobStatus env (w_db v) (im_JobID msg) of Inl e \<Rightarrow> v | Inr db \<Rightarrow> v\<lparr>w_db := db\<rparr>))" for v
    by (auto intro: UpdateJobStatus_inv split: sum.split)
  show ?thesis
  proof (cases "UpdateDeployResult env now (w_db w) (im_JobID msg) (im_AgentID msg) (im_Status msg) (truncate_output 4096 (im_Output msg))
      (im_ExitCode msg) (im_DurationMS msg) None (im_Attempt msg)")
    case (Inr p)
    obtain n db where p: "p = (n, db)" by (cases p)
    from upd Inr p have "queue_inv db" by blast
    then have "queue_inv (w_db (snd (send_to (im_AgentID msg) (ack_message (im_JobID msg)) (w\<lparr>w_db := db\<rparr>))))" (is "queue_inv (w_db ?v)")
      by simp
    then have "queue_inv (w_db (if im_Status msg = ''error''
        then notifyDeployFailure env now msg (truncate_output 4096 (im_Output msg)) ?v else ?v))" (is "queue_inv (w_db ?u)")
      using noticed by simp
    from status [OF this] \<open>queue_inv db\<close> show ?thesis
      unfolding handleExecResult_def Let_def Inr p sum.case prod.case go_task_simps by (simp add: assms(1) if_distrib [of w_db] if_distrib [of queue_inv])
  qed (simp add: handleExecResult_def assms(1))
qed

lemma handleMessage_inv:
  assumes "queue_inv (w_db w)" "\<not> reports_running data"
  shows "queue_inv (w_db (handleMessage sv now c data w))"
proof (cases data)
  case None
  with assms(1) show ?thesis by (simp add: handleMessage_def)
next
  case (Some msg)
  with assms(2) have "im_Status msg \<noteq> ''running''" by (simp add: reports_running_def)
  note exec = handleExecResult_inv [OF assms(1) this, of "sv_env sv" now]
  with Some show ?thesis by (auto simp: handleMessage_def Let_def assms(1) intro: queue_inv_frame [OF _ assms(1)])
qed


subsection \<open>Requests that wait\<close>

lemma waits_db:
  "KillProcess_begin ch a pid name w = (b, w') \<Longrightarrow> w_db w' = w_db w" "w_db (snd (kill_end ch a w)) = w_db w"
  "SetNetworkMode_begin ch a mode w = (b, w') \<Longrightarrow> w_db w' = w_db w" "w_db (snd (SetNetworkMode_end ch a w)) = w_db w"
  "RequestAgentLogs_begin ch a n w = (b, w') \<Longrightarrow> w_db w' = w_db w" "w_db (snd (RequestAgentLogs_end ch a w)) = w_db w"
  by (auto simp: KillProcess_begin_def kill_begin_def kill_end_def SetNetworkMode_begin_def SetNetworkMode_end_def
      RequestAgentLogs_begin_def RequestAgentLogs_end_def Let_def send_to_def split: prod.splits if_splits)

lemma await_inv: "await_ok ce \<Longrightarrow> queue_inv (w_db w) \<Longrightarrow> queue_inv (w_db (ce_await ce i w))"
  by (simp add: await_ok_def)

lemma wait_inv:
  assumes "await_ok ce" "queue_inv (w_db w)"
  shows "queue_inv (w_db (snd (KillProcess ce a pid name w)))" "queue_inv (w_db (snd (SetNetworkMode ce i a mode w)))"
    "queue_inv (w_db (snd (api_agent_logs ce a q w)))"
proof -
  have after: "w_db v = w_db w \<Longrightarrow> queue_inv (w_db (ce_await ce i v))" for v i
    using await_inv [OF assms(1), of v i] assms(2) by simp
  show "queue_inv (w_db (snd (KillProcess ce a pid name w)))"
    by (auto simp: KillProcess_def waits_db(2) assms(2) dest!: waits_db(1) intro: after split: prod.split bool.split)
  show "queue_inv (w_db (snd (SetNetworkMode ce i a mode w)))"
    by (auto simp: SetNetworkMode_def waits_db(4) assms(2) dest!: waits_db(3) intro: after split: prod.split bool.split)
  have ended: "RequestAgentLogs_end ch a v = (r, v') \<Longrightarrow> w_db v' = w_db v" for ch a v r v'
    by (auto simp: RequestAgentLogs_end_def)
  show "queue_inv (w_db (snd (api_agent_logs ce a q w)))"
    unfolding api_agent_logs_def Let_def
    by (auto simp: assms(2) dest!: waits_db(5) ended intro: after split: prod.split bool.split sum.split)
qed

lemma audit_queue [simp]: "queue_of (w_db (audit ce x y z w)) = queue_of (w_db w)"
  by (simp add: audit_def)

lemma audit_inv [simp]: "queue_inv (w_db (audit ce x y z w)) \<longleftrightarrow> queue_inv (w_db w)"
  using queue_inv_frame [OF audit_queue] queue_inv_frame [OF audit_queue [symmetric]] by blast

lemma auditlog_inv [simp]: "queue_inv (InsertAuditLog env now db x y z ip) \<longleftrightarrow> queue_inv db"
  using queue_inv_frame [OF logged_statements_queue(1)] queue_inv_frame [OF logged_statements_queue(1) [symmetric]] by blast

subsection \<open>Requests that create a job\<close>

lemma CreateJob_inv:
  assumes "queue_inv (w_db w)" "CreateJob env now cks jid w ty pl ar ts pr ex mr who = (r, w')"
  shows "queue_inv (w_db w')"
  using queue_steps_inv [OF CreateJob_steps [OF assms(1)] assms(1)] assms(2) by (metis snd_conv)

lemma dispatchDeepFreeze_inv: "queue_inv (w_db w) \<Longrightarrow> dispatchDeepFreeze ce a ja pw who w = (r, w') \<Longrightarrow> queue_inv (w_db w')"
  by (auto simp: dispatchDeepFreeze_def dest: CreateJob_inv split: if_splits prod.splits sum.splits)

lemma create_inv:
  assumes "queue_inv (w_db w)"
  shows "queue_inv (w_db (snd (api_deploy ce dreq w)))" "queue_inv (w_db (snd (api_deepfreeze ce pw polls a freq w)))"
    "queue_inv (w_db (snd (create_job ce ty pl ar ids pr ex mr who w)))"
    "queue_inv (w_db (snd (dispatchPCJob ce host ty pl ar what w)))"
    "queue_inv (w_db (snd (queryDeepFreezeStatus ce polls host w)))"
  by (auto simp: assms api_deploy_def api_deepfreeze_def create_job_def dispatchPCJob_def queryDeepFreezeStatus_def Let_def
      dest: CreateJob_inv [OF assms] dispatchDeepFreeze_inv [OF assms] split: option.split sum.split prod.split)

lemma mcp_kill_inv: "await_ok ce \<Longrightarrow> queue_inv (w_db w) \<Longrightarrow> queue_inv (w_db (snd (mcp_kill_process ce host name w)))"
proof -
  assume "await_ok ce" "queue_inv (w_db w)"
  then have "KillProcess ce a pid n w = (r, v) \<Longrightarrow> queue_inv (w_db v)" for a pid n r v by (metis snd_conv wait_inv(1))
  then show ?thesis using \<open>queue_inv (w_db w)\<close> by (auto simp: mcp_kill_process_def split: sum.split prod.split)
qed


subsection \<open>Requests of the dashboard\<close>

lemma outcome_snd [simp]: "snd (outcome r) = snd r"
  by (simp add: outcome_def)

lemma bump_queue [simp]: "queue_of (w_db (bumpPolicyVersionAndBroadcast env online w)) = queue_of (w_db w)"
proof -
  have "BumpPolicyVersion env (w_db w) = (r, db) \<Longrightarrow> queue_of db = queue_of (w_db w)" for r db
    by (metis logged_statements_queue(3) snd_conv)
  then show ?thesis by (auto simp: bumpPolicyVersionAndBroadcast_def split: sum.split prod.split)
qed

lemma settings_queue: "write_settings env marshal kvs db = (r, db') \<Longrightarrow> queue_of db' = queue_of db"
  by (induction env marshal kvs db rule: write_settings.induct) (auto simp: SetSetting_def queue_of_def split: if_splits)

lemma edits_queue [simp]:
  "queue_of (w_db (snd (api_patch_agent ce a preq w))) = queue_of (w_db w)"
  "queue_of (w_db (snd (api_post_settings ce nets mar sreq w))) = queue_of (w_db w)"
  "queue_of (w_db (snd (api_create_rule ce online rreq w))) = queue_of (w_db w)"
  "queue_of (w_db (snd (api_update_rule ce online i ureq w))) = queue_of (w_db w)"
  "queue_of (w_db (snd (api_delete_rule ce online i w))) = queue_of (w_db w)"
proof -
  show "queue_of (w_db (snd (api_patch_agent ce a preq w))) = queue_of (w_db w)"
    by (auto simp: api_patch_agent_def patch_column_def SetAgentMeshID_def SetAgentDeviceGroup_def SetAgentFloor_def update_agent_def
        queue_of_def audit_def InsertAuditLog_def Let_def split: option.splits sum.splits if_splits)
  show "queue_of (w_db (snd (api_post_settings ce nets mar sreq w))) = queue_of (w_db w)"
    by (auto simp: api_post_settings_def dest: settings_queue split: option.split prod.split)
  have "InsertPolicyRule env now db r = Inr (i, db') \<Longrightarrow> queue_of db' = queue_of db" for env now db r i db'
    by (auto simp: InsertPolicyRule_def queue_of_def split: if_splits)
  then show "queue_of (w_db (snd (api_create_rule ce online rreq w))) = queue_of (w_db w)"
    by (auto simp: api_create_rule_def split: option.split sum.split prod.split)
  have "UpdatePolicyRule env db k r = Inr db' \<Longrightarrow> queue_of db' = queue_of db" for env db k r db'
    by (auto simp: UpdatePolicyRule_def queue_of_def split: if_splits)
  then show "queue_of (w_db (snd (api_update_rule ce online i ureq w))) = queue_of (w_db w)"
    by (auto simp: api_update_rule_def split: option.split sum.split prod.split)
  have "DeletePolicyRule env db k = Inr db' \<Longrightarrow> queue_of db' = queue_of db" for env db k db'
    by (auto simp: DeletePolicyRule_def queue_of_def split: if_splits)
  then show "queue_of (w_db (snd (api_delete_rule ce online i w))) = queue_of (w_db w)"
    by (auto simp: api_delete_rule_def split: option.split sum.split prod.split)
qed

lemma patch_application_queue [simp]: "queue_of (w_db (snd (api_patch_application ce online i areq w))) = queue_of (w_db w)"
proof -
  have "UpdateApplicationStatus env now db k st cat = (r, db') \<Longrightarrow> queue_of db' = queue_of db" for env now db k st cat r db'
    by (metis catalog_queue(3) snd_conv)
  then show ?thesis by (auto simp: api_patch_application_def split: option.split prod.split)
qed

lemma cancel_inv: "queue_inv (w_db w) \<Longrightarrow> queue_inv (w_db (snd (api_cancel_deploy ce j w)))"
proof -
  assume inv: "queue_inv (w_db w)"
  obtain e db where c: "CancelDeployJob (ce_db ce) (w_db w) j = (e, db)" by (cases "CancelDeployJob (ce_db ce) (w_db w) j")
  from CancelDeployJob_inv [OF inv] c have "queue_inv db" by (metis snd_conv)
  with c show ?thesis by (auto simp: api_cancel_deploy_def split: option.split)
qed

lemma admin_step_inv:
  assumes "queue_inv (w_db w)" "await_ok (ad_ce ad)"
  shows "queue_inv (w_db (snd (admin_step ad req w)))"
proof -
  have kill: "KillProcess (ad_ce ad) a pid n w = (r, v) \<Longrightarrow> queue_inv (w_db v)" for a pid n r v by (metis snd_conv wait_inv(1) assms)
  have mode: "SetNetworkMode (ad_ce ad) i a m v = (r, v') \<Longrightarrow> queue_inv (w_db v) \<Longrightarrow> queue_inv (w_db v')" for i a m v r v'
    by (metis snd_conv wait_inv(2) assms(2))
  have set: "SetAgentDesiredNetworkMode env (w_db w) a m = Inr db \<Longrightarrow> queue_inv db" for env a m db
    using queue_inv_frame [OF statements_queue(6) assms(1)] .
  show ?thesis
  proof (cases req)
    case (Kill a k)
    then show ?thesis by (auto simp: assms(1) api_kill_def dest: kill split: option.split sum.split prod.split)
  next
    case (SetMode a m)
    then show ?thesis by (auto simp: assms(1) api_network_mode_def dest!: mode dest: set split: option.split sum.split prod.split)
  next
    case (RemoveAgent a)
    then show ?thesis by (auto simp: assms(1) api_delete_agent_def intro: DeleteAgent_inv [OF assms(1)] split: sum.split)
  qed (simp_all add: wait_inv assms create_inv cancel_inv queue_inv_frame [OF _ assms(1)])
qed

subsection \<open>Commands\<close>

lemma new_job_budget:
  assumes "queue_inv db" "InsertDeployJob env db job = Inr db'"
  shows "job_budget (dj_ID job) m db'"
proof -
  from assms(2) have "\<not> job_known db (dj_ID job)" "deploy_results db' = deploy_results db"
    by (auto simp: InsertDeployJob_def job_known_def split: if_splits)
  with queue_invD(5) [OF assms(1)] show ?thesis by (fastforce simp: job_budget_def list_all_iff)
qed

lemma insert_row_inv:
  assumes "queue_inv (w_db w)" "job_budget j 0 (w_db w)" "st \<noteq> ''running''"
  shows "queue_inv (w_db (insertDeployResultRow env j a st out w))" "job_budget j 0 (w_db (insertDeployResultRow env j a st out w))"
proof -
  have same: "r \<in> set (deploy_results (w_db w)) \<Longrightarrow> row_key r = (j, a) \<Longrightarrow> dr_MaxRetry r = 0" for r
    using assms(2) by (auto simp: job_budget_def list_all_iff row_key_def)
  then show "queue_inv (w_db (insertDeployResultRow env j a st out w))"
    using InsertDeployResult_inv [OF assms(1) _ assms(3)] by (auto simp: insertDeployResultRow_def assms(1) split: sum.split)
  show "job_budget j 0 (w_db (insertDeployResultRow env j a st out w))"
    using assms(2) by (auto simp: insertDeployResultRow_def job_budget_def new_result_row_def dest!: InsertDeployResult_rows split: sum.split)
qed


lemma insert_row_owned: "owned j w \<Longrightarrow> st \<noteq> ''running'' \<Longrightarrow> owned j (insertDeployResultRow env j a st out w)"
  by (simp add: owned_def insert_row_inv)

lemma owned_cong: "queue_of (w_db v) = queue_of (w_db w) \<Longrightarrow> owned j w \<Longrightarrow> owned j v"
  using queue_inv_frame [of "w_db v" "w_db w"] by (simp add: owned_def job_budget_def queue_of_def)

lemma SetNetworkMode_owned:
  assumes "await_ok ce" "owned (ce_jid ce) w"
  shows "owned (ce_jid ce) (snd (SetNetworkMode ce i a mode w))"
proof -
  have "owned (ce_jid ce) (ce_await ce i v)" if "w_db v = w_db w" for v
    using assms that by (simp add: await_ok_def owned_def)
  then show ?thesis
    by (auto simp: SetNetworkMode_def owned_def waits_db(4) assms(2) [unfolded owned_def] dest!: waits_db(3) split: prod.split bool.split)
qed

lemma toggle_one_owned:
  assumes "await_ok ce" "owned (ce_jid ce) w"
  shows "owned (ce_jid ce) (toggle_one ce action ia w)"
proof -
  have moved: "owned (ce_jid ce) v" if "SetAgentDesiredNetworkMode (ce_db ce) (w_db w) a m = Inr db"
    "SetNetworkMode ce i a m (w\<lparr>w_db := db\<rparr>) = (r, v)" for a m db i r v
  proof -
    have "owned (ce_jid ce) (w\<lparr>w_db := db\<rparr>)" by (rule owned_cong [OF _ assms(2)]) (simp add: statements_queue(6) [OF that(1)])
    from SetNetworkMode_owned [OF assms(1) this, of i a m] that(2) show ?thesis by simp
  qed
  show ?thesis unfolding toggle_one_def Let_def
    by (auto intro!: insert_row_owned intro: moved assms(2) split: prod.split sum.split option.split request_error.split)
qed

lemma wake_one_owned: "owned (ce_jid ce) (snd st) \<Longrightarrow> owned (ce_jid ce) (snd (wake_one ce cfg a st))"
  unfolding wake_one_def Let_def by (auto intro!: insert_row_owned split: prod.split sum.split option.split)

lemma finish_job_inv: "queue_inv (w_db w) \<Longrightarrow> queue_inv (w_db (snd (finish_job ce job w)))"
  by (auto simp: finish_job_def intro: UpdateDeployJobStatus_inv split: sum.split)

lemma direct_inv:
  assumes "queue_inv (w_db w)"
  shows "await_ok ce \<Longrightarrow> queue_inv (w_db (snd (createNetworkToggleCommand ce action ids who w)))"
    "queue_inv (w_db (snd (snd (createWakeCommand ce ids who w))))"
proof -
  have start: "owned (ce_jid ce) (w\<lparr>w_db := db\<rparr>)" if "InsertDeployJob (ce_db ce) (w_db w) (command_job ce ty pl ids who) = Inr db" for ty pl db
    using InsertDeployJob_inv [OF assms that] new_job_budget [OF assms that] by (simp add: owned_def command_job_def)
  have toggles: "owned (ce_jid ce) v \<Longrightarrow> await_ok ce \<Longrightarrow> owned (ce_jid ce) (fold (toggle_one ce action) xs v)" for xs v
    by (induction xs arbitrary: v) (simp_all add: toggle_one_owned)
  have wakes: "owned (ce_jid ce) (snd st) \<Longrightarrow> owned (ce_jid ce) (snd (fold (wake_one ce cfg) xs st))" for cfg xs st
    by (induction xs arbitrary: st) (simp_all add: wake_one_owned)
  have finish: "finish_job ce job v = (job', v') \<Longrightarrow> owned (ce_jid ce) v \<Longrightarrow> queue_inv (w_db v')" for job v job' v'
    using finish_job_inv [of v ce job] by (simp add: owned_def)
  show "queue_inv (w_db (snd (createNetworkToggleCommand ce action ids who w)))" if "await_ok ce"
    unfolding createNetworkToggleCommand_def Let_def
    by (auto simp: assms elim!: finish intro!: toggles start that split: option.split sum.split prod.split)
  have woken: "fold (wake_one ce cfg) xs ([], v) = (sent, u) \<Longrightarrow> owned (ce_jid ce) v \<Longrightarrow> owned (ce_jid ce) u" for cfg xs v sent u
    using wakes [of "([], v)" cfg xs] by simp
  show "queue_inv (w_db (snd (snd (createWakeCommand ce ids who w))))"
    unfolding createWakeCommand_def Let_def
    by (auto simp: assms elim!: finish woken intro: start split: option.split sum.split prod.split)
qed


lemma run_action_inv:
  assumes "queue_inv (w_db w)" "await_ok ce"
  shows "queue_inv (w_db (snd (snd (run_action ce req ids who w))))"
proof -
  have toggled: "createNetworkToggleCommand ce action ids who w = (r, v) \<Longrightarrow> queue_inv (w_db v)" for action r v
    using direct_inv(1) [OF assms, of action ids who] by simp
  have created: "create_job ce ty pl ar ids pr ex mr who w = (r, v) \<Longrightarrow> queue_inv (w_db v)" for ty pl ar pr ex mr r v
    using create_inv(3) [OF assms(1), of ce ty pl ar ids pr ex mr who] by simp
  have passed: "createDeployPassthroughCommand ce params ids who w = (r, v) \<Longrightarrow> queue_inv (w_db v)" for params r v
    using assms(1) unfolding createDeployPassthroughCommand_def Let_def
    by (auto dest: created split: if_splits option.splits sum.splits)
  show ?thesis unfolding run_action_def Let_def
    by (auto simp: assms(1) direct_inv(2) dest: toggled passed created split: sum.split option.split prod.split)
qed

lemma handlePostCommand_inv:
  assumes "queue_inv (w_db w)" "await_ok ce"
  shows "queue_inv (w_db (snd (snd (handlePostCommand ce body w))))"
proof -
  have ran: "run_action ce req ids who w = (r, sent, v) \<Longrightarrow> queue_inv (w_db v)" for req ids who r sent v
    using run_action_inv [OF assms, of req ids who] by simp
  have listed: "InsertCommandRequest env now db j act' tg cor = Inr db' \<Longrightarrow> queue_inv db \<Longrightarrow> queue_inv db'" for env now db j act' tg cor db'
    using queue_inv_frame [OF statements_queue(7)] .
  show ?thesis unfolding handlePostCommand_def Let_def
    by (auto simp: assms(1) dest!: ran dest: listed split: option.split sum.split prod.split)
qed

subsection \<open>Every run of the server\<close>

lemma autoKill_queue [simp]: "queue_of (w_db (autoKill_end env now a name ans w)) = queue_of (w_db w)"
  by (simp add: autoKill_end_def split: sum.split)

lemma batcher_queue [simp]: "queue_of (w_db (snd (batcher_run env ev (buf, w)))) = queue_of (w_db w)"
  by (simp add: batcher_run_def Let_def split: batch_event.split list.split)

lemma server_action_inv: "server_action w w' \<Longrightarrow> queue_inv (w_db w) \<Longrightarrow> queue_inv (w_db w')"
proof (induction rule: server_action.induct)
  case (srv_pump w env now cks a)
  from queue_steps_inv [OF PumpAgent_steps this] show ?case .
next
  case (srv_sweep w env now cks)
  from queue_steps_inv [OF lease_sweeper_tick_steps [OF this] this] show ?case .
next
  case (srv_purge env now w db)
  then show ?case using queue_inv_frame [OF statements_queue(8)] by simp
qed (auto intro: handleMessage_inv admin_step_inv handlePostCommand_inv create_inv mcp_kill_inv queue_inv_frame [rotated])

interpretation server: safe_system "\<lambda>w. queue_inv (w_db w)" server_action "\<lambda>w. queue_inv (w_db w)"
  by unfold_locales (auto intro: server_action_inv)



text \<open>The sample agent is handed its job.\<close>

lemma sample_job_id [simp]: "dj_ID (sample_job j ty pl) = j"
  by (simp add: sample_job_def)

lemma sample_pumped:
  obtains l where "deploy_results (w_db (snd (PumpAgent no_faults 0 Map.empty
    (sample_world (sample_job ''j1'' ''exec'' ''whoami'') (sample_row ''j1'')) ''pc1''))) = [claim_row l (sample_row ''j1'')]"
proof -
  let ?w = "sample_world (sample_job ''j1'' ''exec'' ''whoami'') (sample_row ''j1'')"
  from fst_True [OF sample_sends] obtain job n db
    where acq: "AcquireNextJob no_faults 0 (w_db ?w) ''pc1'' (0 + leaseMinutes no_faults (w_db ?w)) = (Inr (Some (job, n)), db)"
      and v: "snd (PumpAgent no_faults 0 Map.empty ?w ''pc1'') = snd (dispatch Map.empty (?w\<lparr>w_db := db\<rparr>) ''pc1'' job n)"
    by (rule PumpAgent_sent)
  from acq sample_inv obtain row where "first_claim (claim_candidates 0 (w_db ?w) ''pc1'') = Some (job, row)"
      "db = claim_rows (0 + leaseMinutes no_faults (w_db ?w)) (w_db ?w) (dj_ID job) ''pc1''"
    by (rule AcquireNextJob_Some)
  then have db: "db = claim_rows (0 + leaseMinutes no_faults (w_db ?w)) (w_db ?w) ''j1'' ''pc1''"
    unfolding sample_candidates by auto
  have rows: "deploy_results (w_db ?w) = [sample_row ''j1'']" "dr_JobID (sample_row ''j1'') = ''j1''" "dr_AgentID (sample_row ''j1'') = ''pc1''"
    by (simp_all add: sample_world_def sample_row_def new_result_row_def)
  show thesis
    by (rule that [of "0 + leaseMinutes no_faults (w_db ?w)"]) (simp only: v dispatch_db, simp add: db claim_rows_def rows)
qed


end
