(* ===== verification/Agent_Watchers.thy ===== *)
theory Agent_Watchers
  imports Go_Net "HOL-Library.AList"
begin

text \<open>
  The agent's event watchers: \<^verbatim>\<open>agent/usbwatch.go\<close>, \<^verbatim>\<open>agent/peripheralwatch.go\<close>, \<^verbatim>\<open>agent/desktopwatch.go\<close>,
  \<^verbatim>\<open>agent/configwatch.go\<close>, \<^verbatim>\<open>agent/installwatch.go\<close>, \<^verbatim>\<open>agent/downloadwatch.go\<close> and \<^verbatim>\<open>agent/events.go\<close>.  What the
  operating system answers to a query is an argument (\<open>None\<close> when the query fails); a step gives the events
  sent, in order, and the watcher's new memory.  A Go map is the list of its entries in the order an
  iteration visits them; the properties do not depend on that order.
\<close>

unbundle bit_operations_syntax

subsection \<open>Events\<close>

type_synonym event = "string \<times> (string \<times> json) list"

definition sendEvent :: "string \<Rightarrow> event \<Rightarrow> json" where
  "sendEvent agentID ev =
     JObj [(''type'', JStr ''event''), (''agent_id'', JStr agentID), (''event_type'', JStr (fst ev)), (''metadata'', JObj (snd ev))]"

text \<open>A map filled by assignments in the order of the list.\<close>

definition build_map :: "('a \<Rightarrow> string) \<Rightarrow> 'a list \<Rightarrow> (string \<times> 'a) list" where
  "build_map key xs = fold (\<lambda>x m. AList.update (key x) x m) xs []"

definition absent_in :: "(string \<times> 'b) list \<Rightarrow> (string \<times> 'a) list \<Rightarrow> (string \<times> 'a) list" where
  "absent_in other m = filter (\<lambda>e. map_of other (fst e) = None) m"

subsection \<open>USB drives\<close>

record win32LogicalDisk =
  ld_DeviceID :: string
  ld_VolumeName :: string
  ld_FileSystem :: string
  ld_Size :: "64 word"

record win32DiskDriveUSB =
  dd_Model :: string
  dd_PNPDeviceID :: string
  dd_SerialNumber :: string
  dd_Size :: "64 word"

definition queryUSBDiskDrives :: "win32DiskDriveUSB list option \<Rightarrow> json" where
  "queryUSBDiskDrives answer =
     (case answer of
        None \<Rightarrow> JNull
      | Some drives \<Rightarrow> JArr (map (\<lambda>d. JObj [(''model'', JStr (dd_Model d)), (''pnp_device_id'', JStr (dd_PNPDeviceID d)),
            (''serial_number'', JStr (dd_SerialNumber d)), (''capacity'', JNum (uint (dd_Size d)))]) drives))"

definition usb_inserted :: "json \<Rightarrow> win32LogicalDisk \<Rightarrow> event" where
  "usb_inserted usbSources d =
     (''usb_inserted'', [(''drive_letter'', JStr (ld_DeviceID d)), (''volume_name'', JStr (ld_VolumeName d)),
        (''file_system'', JStr (ld_FileSystem d)), (''capacity'', JNum (uint (ld_Size d))), (''sources'', usbSources),
        (''location'', JStr ''usb'')])"

definition usb_removed :: "win32LogicalDisk \<Rightarrow> event" where
  "usb_removed d = (''usb_removed'', [(''drive_letter'', JStr (ld_DeviceID d)), (''volume_name'', JStr (ld_VolumeName d)), (''location'', JStr ''usb'')])"

text \<open>One poll: what the query for drives answers, and what the query made for each new drive answers.\<close>

definition usb_poll ::
  "(string \<times> win32LogicalDisk) list \<Rightarrow> win32LogicalDisk list option \<times> (string \<Rightarrow> win32DiskDriveUSB list option)
    \<Rightarrow> event list \<times> (string \<times> win32LogicalDisk) list" where
  "usb_poll known answers =
     (case fst answers of
        None \<Rightarrow> ([], known)
      | Some disks \<Rightarrow>
          let current = build_map ld_DeviceID disks in
          (map (\<lambda>e. usb_inserted (queryUSBDiskDrives (snd answers (fst e))) (snd e)) (absent_in known current)
             @ map (\<lambda>e. usb_removed (snd e)) (absent_in current known), current))"

subsection \<open>Keyboards and mice\<close>

definition peripheralMissingStreak :: int where "peripheralMissingStreak = 2"

record peripheralDevice =
  ph_DeviceID :: string
  ph_Name :: string
  ph_Manufacturer :: string
  ph_Class :: string

definition queryPeripherals ::
  "(string \<times> string) list option \<Rightarrow> (string \<times> string \<times> string) list option \<Rightarrow> (string \<times> peripheralDevice) list" where
  "queryPeripherals kbs pds =
     build_map ph_DeviceID
       ((case kbs of None \<Rightarrow> []
         | Some ks \<Rightarrow> map (\<lambda>(i, n). \<lparr>ph_DeviceID = i, ph_Name = n, ph_Manufacturer = '''', ph_Class = ''keyboard''\<rparr>) ks)
        @ (case pds of None \<Rightarrow> []
         | Some ps \<Rightarrow> map (\<lambda>(i, n, m). \<lparr>ph_DeviceID = i, ph_Name = n, ph_Manufacturer = m, ph_Class = ''pointing_device''\<rparr>) ps))"

definition peripheral_event :: "string \<Rightarrow> peripheralDevice \<Rightarrow> event" where
  "peripheral_event ty d =
     (ty, [(''device_name'', JStr (ph_Name d)), (''device_id'', JStr (ph_DeviceID d)), (''device_class'', JStr (ph_Class d)),
           (''manufacturer'', JStr (ph_Manufacturer d))])"

record peripheralWatch =
  pw_known :: "(string \<times> peripheralDevice) list"
  pw_streak :: "string \<rightharpoonup> int"

text \<open>The two loops of a poll: over what is there, then over what is known and not there.\<close>

definition peripheral_seen :: "(string \<times> peripheralDevice) list \<Rightarrow> peripheralWatch \<Rightarrow> event list \<times> peripheralWatch" where
  "peripheral_seen current p =
     (let fresh = absent_in (pw_known p) current in
      (map (\<lambda>e. peripheral_event ''peripheral_connected'' (snd e)) fresh,
       p\<lparr>pw_known := pw_known p @ fresh, pw_streak := (\<lambda>i. if map_of current i = None then pw_streak p i else None)\<rparr>))"

definition peripheral_missed :: "string \<times> peripheralDevice \<Rightarrow> event list \<times> peripheralWatch \<Rightarrow> event list \<times> peripheralWatch" where
  "peripheral_missed e st =
     (let (evs, p) = st; n = (case pw_streak p (fst e) of None \<Rightarrow> 0 | Some k \<Rightarrow> k) + 1 in
      if n < peripheralMissingStreak then (evs, p\<lparr>pw_streak := (pw_streak p)(fst e \<mapsto> n)\<rparr>)
      else (evs @ [peripheral_event ''peripheral_removed'' (snd e)],
            p\<lparr>pw_known := AList.delete (fst e) (pw_known p), pw_streak := (pw_streak p)(fst e := None)\<rparr>))"

definition peripheral_poll :: "peripheralWatch \<Rightarrow> (string \<times> peripheralDevice) list \<Rightarrow> event list \<times> peripheralWatch" where
  "peripheral_poll p current =
     (let st = peripheral_seen current p in fold peripheral_missed (absent_in current (pw_known (snd st))) st)"

subsection \<open>Registry notifications\<close>

text \<open>
  What a blocking wait for a change ends with: an error, a cancelled context, or a change, with what the
  key reads then.  \<open>notice_loop\<close> is the loop the registry watchers share: it ends at the first of the
  former two.
\<close>

datatype 'o notice = NoticeFailed | NoticeCancelled | NoticeChanged 'o

fun notice_loop :: "('s \<Rightarrow> 'o \<Rightarrow> event list \<times> 's) \<Rightarrow> 's \<Rightarrow> 'o notice list \<Rightarrow> event list \<times> 's" where
  "notice_loop changed s (NoticeChanged x # ns) =
     (let (evs, s) = changed s x; (rest, s) = notice_loop changed s ns in (evs @ rest, s))"
| "notice_loop changed s _ = ([], s)"

text \<open>
  The frame around it: a subkey with a zero character and a key that does not open (\<open>None\<close>) end the watcher
  without a memory; otherwise the first reading is the memory the loop starts from.
\<close>

definition watch_key :: "('o \<Rightarrow> 's) \<Rightarrow> ('s \<Rightarrow> 'o \<Rightarrow> event list \<times> 's) \<Rightarrow> string \<Rightarrow> 'o option \<Rightarrow> 'o notice list \<Rightarrow> event list \<times> 's option" where
  "watch_key reading changed subkey opened notices =
     (if CHR 0x00 \<in> set subkey then ([], None)
      else case opened of
        None \<Rightarrow> ([], None)
      | Some first \<Rightarrow> map_prod id Some (notice_loop changed (reading first) notices))"

text \<open>\<^verbatim>\<open>binary.LittleEndian\<close>.\<close>

definition le16 :: "byte list \<Rightarrow> 16 word" where
  "le16 b = ucast (b ! 0) OR push_bit 8 (ucast (b ! 1))"

definition le32 :: "byte list \<Rightarrow> 32 word" where
  "le32 b = ucast (b ! 0) OR push_bit 8 (ucast (b ! 1)) OR push_bit 16 (ucast (b ! 2)) OR push_bit 24 (ucast (b ! 3))"

text \<open>The UTF-16 units of a byte sequence; turning them into text is \<open>utf16\<close>, \<^verbatim>\<open>windows.UTF16ToString\<close>.\<close>

fun utf16_units :: "byte list \<Rightarrow> 16 word list" where
  "utf16_units (a # b # bs) = le16 [a, b] # utf16_units bs"
| "utf16_units bs = []"

subsection \<open>Wallpaper and theme\<close>

record regWatchTarget =
  rw_subkey :: string
  rw_valueName :: string
  rw_eventType :: string

definition desktopWatchTargets :: "regWatchTarget list" where
  "desktopWatchTargets =
     [\<lparr>rw_subkey = ''Control Panel'' @ [CHR 0x5C] @ ''Desktop'', rw_valueName = ''Wallpaper'', rw_eventType = ''wallpaper_changed''\<rparr>,
      \<lparr>rw_subkey = ''Software'' @ [CHR 0x5C] @ ''Microsoft'' @ [CHR 0x5C] @ ''Windows'' @ [CHR 0x5C] @ ''CurrentVersion'' @ [CHR 0x5C] @ ''Themes'',
       rw_valueName = ''CurrentTheme'', rw_eventType = ''theme_changed''\<rparr>]"

text \<open>
  \<^verbatim>\<open>readRegistryString\<close>: the size the first query gives and the data of the second, each \<open>None\<close> on an error.
  The data is at most as long as the size asked for.
\<close>

definition readRegistryString :: "(16 word list \<Rightarrow> string) \<Rightarrow> string \<Rightarrow> nat option \<times> byte list option \<Rightarrow> string" where
  "readRegistryString utf16 valueName answers =
     (if CHR 0x00 \<in> set valueName then ''''
      else case fst answers of
        None \<Rightarrow> ''''
      | Some bufLen \<Rightarrow>
          if bufLen = 0 then ''''
          else (case snd answers of None \<Rightarrow> '''' | Some buf \<Rightarrow> utf16 (utf16_units buf)))"

definition registryValue_changed :: "string \<Rightarrow> string \<Rightarrow> string \<Rightarrow> event list \<times> string" where
  "registryValue_changed eventType lastValue newValue =
     (if newValue \<noteq> lastValue
      then ([(eventType, [(''old_value'', JStr lastValue), (''new_value'', JStr newValue)])], newValue)
      else ([], lastValue))"

definition watchRegistryValue ::
  "(16 word list \<Rightarrow> string) \<Rightarrow> regWatchTarget \<Rightarrow> (nat option \<times> byte list option) option \<Rightarrow> (nat option \<times> byte list option) notice list
    \<Rightarrow> event list \<times> string option" where
  "watchRegistryValue utf16 target =
     (let reading = readRegistryString utf16 (rw_valueName target) in
      watch_key reading (\<lambda>lastValue x. registryValue_changed (rw_eventType target) lastValue (reading x)) (rw_subkey target))"

subsection \<open>Startup entries and scheduled tasks\<close>

record runKeyTarget =
  rk_machine :: bool
  rk_subkey :: string
  rk_label :: string

definition runKeyTargets :: "runKeyTarget list" where
  "runKeyTargets =
     (let run = ''Software'' @ [CHR 0x5C] @ ''Microsoft'' @ [CHR 0x5C] @ ''Windows'' @ [CHR 0x5C] @ ''CurrentVersion'' @ [CHR 0x5C] @ ''Run'' in
      [\<lparr>rk_machine = False, rk_subkey = run, rk_label = ''HKCU'' @ [CHR 0x5C] @ ''Run''\<rparr>,
       \<lparr>rk_machine = False, rk_subkey = run @ ''Once'', rk_label = ''HKCU'' @ [CHR 0x5C] @ ''RunOnce''\<rparr>,
       \<lparr>rk_machine = True, rk_subkey = run, rk_label = ''HKLM'' @ [CHR 0x5C] @ ''Run''\<rparr>,
       \<lparr>rk_machine = True, rk_subkey = run @ ''Once'', rk_label = ''HKLM'' @ [CHR 0x5C] @ ''RunOnce''\<rparr>])"

definition diffRegistryValues :: "(string \<times> string) list \<Rightarrow> (string \<times> string) list \<Rightarrow> string list" where
  "diffRegistryValues before after =
     List.map_filter (\<lambda>(name, val). case map_of before name of
        None \<Rightarrow> Some (''added: '' @ name)
      | Some old \<Rightarrow> if old \<noteq> val then Some (''modified: '' @ name) else None) after
     @ map (\<lambda>e. ''removed: '' @ fst e) (absent_in after before)"

text \<open>The values of a key by name; a value that is not a string counts as empty.\<close>

definition enumerateRegistryValues :: "(string \<times> string option) list option \<Rightarrow> (string \<times> string) list" where
  "enumerateRegistryValues answer =
     (case answer of
        None \<Rightarrow> []
      | Some vs \<Rightarrow> fold (\<lambda>(n, v) m. AList.update n (case v of None \<Rightarrow> '''' | Some s \<Rightarrow> s) m) vs [])"

definition config_event :: "string \<Rightarrow> string list \<Rightarrow> event list" where
  "config_event label changes =
     (if changes = [] then [] else [(''config_changed'', [(''location'', JStr label), (''changes'', JArr (map JStr changes))])])"

definition runKey_changed :: "string \<Rightarrow> (string \<times> string) list \<Rightarrow> (string \<times> string option) list option \<Rightarrow> event list \<times> (string \<times> string) list" where
  "runKey_changed label lastValues answer =
     (let newValues = enumerateRegistryValues answer in (config_event label (diffRegistryValues lastValues newValues), newValues))"

definition watchRunKey ::
  "runKeyTarget \<Rightarrow> (string \<times> string option) list option option \<Rightarrow> (string \<times> string option) list option notice list
    \<Rightarrow> event list \<times> (string \<times> string) list option" where
  "watchRunKey target = watch_key enumerateRegistryValues (runKey_changed (rk_label target)) (rk_subkey target)"

text \<open>The task names of the first column of the CSV rows \<^verbatim>\<open>schtasks\<close> prints.\<close>

definition queryScheduledTaskNames :: "string list list option \<Rightarrow> string list" where
  "queryScheduledTaskNames answer =
     (case answer of
        None \<Rightarrow> []
      | Some rows \<Rightarrow> remdups (List.map_filter (\<lambda>row. case row of [] \<Rightarrow> None | n # _ \<Rightarrow> if n = '''' then None else Some n) rows))"

definition watchScheduledTasks :: "string list \<Rightarrow> string list list option \<Rightarrow> event list \<times> string list" where
  "watchScheduledTasks known answer =
     (let current = queryScheduledTaskNames answer;
          changes = map (\<lambda>n. ''added: '' @ n) (filter (\<lambda>n. n \<notin> set known) current)
            @ map (\<lambda>n. ''removed: '' @ n) (filter (\<lambda>n. n \<notin> set current) known)
      in (config_event ''Scheduled Tasks'' changes, current))"

subsection \<open>Installed software\<close>

record installedApp =
  ia_DisplayName :: string
  ia_Publisher :: string
  ia_DisplayVersion :: string

text \<open>A subkey that can not be opened is \<open>None\<close>; an opened one gives its string values.\<close>

definition snapshotInstalledApps :: "(string \<times> (string \<rightharpoonup> string) option) list option \<Rightarrow> (string \<times> installedApp) list" where
  "snapshotInstalledApps answer =
     (case answer of
        None \<Rightarrow> []
      | Some subs \<Rightarrow>
          fold (\<lambda>(name, sub) m. case sub of
              None \<Rightarrow> m
            | Some vals \<Rightarrow>
                (case vals ''DisplayName'' of
                   None \<Rightarrow> m
                 | Some displayName \<Rightarrow>
                     if displayName = '''' then m
                     else AList.update name
                       \<lparr>ia_DisplayName = displayName, ia_Publisher = (case vals ''Publisher'' of None \<Rightarrow> '''' | Some s \<Rightarrow> s),
                        ia_DisplayVersion = (case vals ''DisplayVersion'' of None \<Rightarrow> '''' | Some s \<Rightarrow> s)\<rparr> m)) subs [])"

definition install_event :: "string \<Rightarrow> installedApp \<Rightarrow> (string \<times> json) list \<Rightarrow> event" where
  "install_event ty app extra =
     (ty, [(''display_name'', JStr (ia_DisplayName app)), (''publisher'', JStr (ia_Publisher app)), (''version'', JStr (ia_DisplayVersion app))] @ extra)"

definition emitInstallDiff :: "(string \<times> installedApp) list \<Rightarrow> (string \<times> installedApp) list \<Rightarrow> event list" where
  "emitInstallDiff before after =
     List.map_filter (\<lambda>(name, app). case map_of before name of
        None \<Rightarrow> Some (install_event ''software_installed'' app [])
      | Some old \<Rightarrow>
          if ia_DisplayVersion old \<noteq> ia_DisplayVersion app
          then Some (install_event ''software_updated'' app [(''old_version'', JStr (ia_DisplayVersion old))]) else None) after
     @ map (\<lambda>e. install_event ''software_removed'' (snd e) []) (absent_in after before)"

definition watchUninstallKey ::
  "string \<Rightarrow> (string \<times> (string \<rightharpoonup> string) option) list option option \<Rightarrow> (string \<times> (string \<rightharpoonup> string) option) list option notice list
    \<Rightarrow> event list \<times> (string \<times> installedApp) list option" where
  "watchUninstallKey =
     watch_key snapshotInstalledApps (\<lambda>lastApps x. let newApps = snapshotInstalledApps x in (emitInstallDiff lastApps newApps, newApps))"


subsection \<open>Files\<close>

definition fileActionAdded :: "32 word" where "fileActionAdded = 1"
definition fileActionRemoved :: "32 word" where "fileActionRemoved = 2"
definition fileActionModified :: "32 word" where "fileActionModified = 3"
definition fileActionRenamedOldName :: "32 word" where "fileActionRenamedOldName = 4"
definition fileActionRenamedNewName :: "32 word" where "fileActionRenamedNewName = 5"

record watchedFolder =
  wf_path :: string
  wf_location :: string

definition decodeUTF16Name :: "(16 word list \<Rightarrow> string) \<Rightarrow> byte list \<Rightarrow> string" where
  "decodeUTF16Name utf16 b = utf16 (utf16_units b)"

text \<open>
  \<^verbatim>\<open>handleNotifyBuffer\<close> from an offset on: the notifications found, each an action and a name, and whether the
  loop ended in a panic.  The end of a name is computed in 32 bits, so it may wrap below its start, which
  makes the slice expression panic.
\<close>

function handleNotifyBuffer :: "(16 word list \<Rightarrow> string) \<Rightarrow> byte list \<Rightarrow> (32 word \<times> string) list \<times> bool" where
  "handleNotifyBuffer utf16 rec =
     (if length rec < 12 then ([], False)
      else
        let nextEntryOffset = le32 (take 4 rec); action = le32 (take 4 (drop 4 rec)); nameLen = le32 (take 4 (drop 8 rec));
            fits = unat (12 + nameLen) \<le> length rec;
            found = (if fits then [(action, decodeUTF16Name utf16 (take (unat nameLen) (drop 12 rec)))] else [])
        in if fits \<and> 12 + nameLen < 12 then ([], True)
           else if nextEntryOffset = 0 then (found, False)
           else let (evs, panicked) = handleNotifyBuffer utf16 (drop (unat nextEntryOffset) rec) in (found @ evs, panicked))"
  by pat_completeness auto
termination
proof (relation "measure (\<lambda>(utf16, rec). length rec)")
  show "((utf16, drop (unat next_off) rec), utf16, rec) \<in> measure (\<lambda>(utf16, rec). length rec)"
    if "\<not> length rec < 12" "next_off \<noteq> 0" for utf16 :: "16 word list \<Rightarrow> string" and next_off :: "32 word" and rec :: "byte list"
  proof -
    from that have "0 < unat next_off" "0 < length rec" by (auto simp: unat_gt_0)
    then show ?thesis by simp
  qed
qed simp

text \<open>The same loop with the offset it keeps, for a given number of rounds; \<open>None\<close> when they are used up.\<close>

fun notify_loop :: "nat \<Rightarrow> (16 word list \<Rightarrow> string) \<Rightarrow> byte list \<Rightarrow> nat \<Rightarrow> ((32 word \<times> string) list \<times> bool) option" where
  "notify_loop 0 utf16 buf offset = None"
| "notify_loop (Suc rounds) utf16 buf offset =
     (if offset + 12 > length buf then Some ([], False)
      else
        let rec = drop offset buf;
            nextEntryOffset = le32 (take 4 rec); action = le32 (take 4 (drop 4 rec)); nameLen = le32 (take 4 (drop 8 rec));
            fits = unat (12 + nameLen) \<le> length rec;
            found = (if fits then [(action, decodeUTF16Name utf16 (take (unat nameLen) (drop 12 rec)))] else [])
        in if fits \<and> 12 + nameLen < 12 then Some ([], True)
           else if nextEntryOffset = 0 then Some (found, False)
           else map_option (\<lambda>(evs, panicked). (found @ evs, panicked)) (notify_loop rounds utf16 buf (offset + unat nextEntryOffset)))"

text \<open>\<^verbatim>\<open>filepath.Join\<close> of a watched folder, whose path is clean, and the name of an entry of it.\<close>

definition file_join :: "string \<Rightarrow> string \<Rightarrow> string" where
  "file_join dir name = dir @ [CHR 0x5C] @ name"

text \<open>The event of one notification; \<open>stat\<close> gives the size of a file that exists.\<close>

definition handleFileEvent :: "(string \<Rightarrow> int option) \<Rightarrow> watchedFolder \<Rightarrow> 32 word \<times> string \<Rightarrow> event list" where
  "handleFileEvent stat folder note =
     (let (action, name) = note; fullPath = file_join (wf_path folder) name in
      if action = fileActionAdded \<or> action = fileActionRenamedNewName then
        [(''download_created'', [(''path'', JStr fullPath),
           (''extension'', JStr (TrimPrefix (ToLower (filepath_Ext windows_sep name)) ''.'')),
           (''size'', JNum (case stat fullPath of None \<Rightarrow> 0 | Some n \<Rightarrow> n)), (''location'', JStr (wf_location folder))])]
      else if action = fileActionRemoved then
        [(''download_deleted'', [(''path'', JStr fullPath), (''location'', JStr (wf_location folder))])]
      else [])"

definition startDownloadWatch :: "string \<Rightarrow> watchedFolder list" where
  "startDownloadWatch home =
     [\<lparr>wf_path = file_join home ''Downloads'', wf_location = ''downloads''\<rparr>,
      \<lparr>wf_path = file_join home ''Desktop'', wf_location = ''desktop''\<rparr>,
      \<lparr>wf_path = file_join home ''Documents'', wf_location = ''documents''\<rparr>]"

text \<open>
  \<^verbatim>\<open>watchFolder\<close>: what each call of \<^verbatim>\<open>ReadDirectoryChanges\<close> gives, with the files there are while its buffer is
  read; an empty buffer is skipped.  The flag tells a panic.
\<close>

fun watchFolder_loop :: "(16 word list \<Rightarrow> string) \<Rightarrow> watchedFolder \<Rightarrow> (byte list \<times> (string \<Rightarrow> int option)) notice list \<Rightarrow> event list \<times> bool" where
  "watchFolder_loop utf16 folder (NoticeChanged (buf, stat) # ns) =
     (if buf = [] then watchFolder_loop utf16 folder ns
      else
        let (notes, panicked) = handleNotifyBuffer utf16 buf; evs = concat (map (handleFileEvent stat folder) notes) in
        if panicked then (evs, True)
        else let (rest, panicked) = watchFolder_loop utf16 folder ns in (evs @ rest, panicked))"
| "watchFolder_loop utf16 folder _ = ([], False)"

definition watchFolder ::
  "(16 word list \<Rightarrow> string) \<Rightarrow> watchedFolder \<Rightarrow> bool \<Rightarrow> (byte list \<times> (string \<Rightarrow> int option)) notice list \<Rightarrow> event list \<times> bool" where
  "watchFolder utf16 folder opened notices =
     (if CHR 0x00 \<in> set (wf_path folder) \<or> \<not> opened then ([], False) else watchFolder_loop utf16 folder notices)"


subsection \<open>Specifications\<close>

text \<open>A run of a watcher over the answers it gets, and the events replayed by whoever receives them.\<close>

fun run_watch :: "('s \<Rightarrow> 'o \<Rightarrow> event list \<times> 's) \<Rightarrow> 's \<Rightarrow> 'o list \<Rightarrow> event list \<times> 's" where
  "run_watch poll s [] = ([], s)"
| "run_watch poll s (x # xs) = (let (evs, s) = poll s x; (rest, s) = run_watch poll s xs in (evs @ rest, s))"

text \<open>The changes a watcher sees before its wait fails or is cancelled.\<close>

fun answered :: "'o notice list \<Rightarrow> 'o list" where
  "answered (NoticeChanged x # ns) = x # answered ns"
| "answered _ = []"

lemma notice_loop_run: "notice_loop changed s ns = run_watch changed s (answered ns)"
  by (induction changed s ns rule: notice_loop.induct) (auto simp: Let_def split: prod.splits)

definition text_of :: "string \<Rightarrow> event \<Rightarrow> string" where
  "text_of key ev = (case map_of (snd ev) key of Some (JStr s) \<Rightarrow> s | _ \<Rightarrow> '''')"

definition replay :: "string \<Rightarrow> string \<Rightarrow> string \<Rightarrow> event \<Rightarrow> string set \<Rightarrow> string set" where
  "replay add del key ev S =
     (if fst ev = add then insert (text_of key ev) S else if fst ev = del then S - {text_of key ev} else S)"

definition replay_change :: "string \<Rightarrow> string set \<Rightarrow> string set" where
  "replay_change c S =
     (if HasPrefix c ''added: '' then insert (drop 7 c) S else if HasPrefix c ''removed: '' then S - {drop 9 c} else S)"

definition replay_config :: "event \<Rightarrow> string set \<Rightarrow> string set" where
  "replay_config ev S =
     (case map_of (snd ev) ''changes'' of
        Some (JArr cs) \<Rightarrow> fold (\<lambda>c. case c of JStr s \<Rightarrow> replay_change s | _ \<Rightarrow> id) cs S
      | _ \<Rightarrow> S)"

text \<open>Entries of a map stand under their own key.\<close>

definition keyed :: "('a \<Rightarrow> string) \<Rightarrow> (string \<times> 'a) list \<Rightarrow> bool" where
  "keyed key m \<longleftrightarrow> distinct (map fst m) \<and> list_all (\<lambda>e. key (snd e) = fst e) m"

definition peripheral_inv :: "peripheralWatch \<Rightarrow> bool" where
  "peripheral_inv p \<longleftrightarrow> keyed ph_DeviceID (pw_known p) \<and> (\<forall>i n. pw_streak p i = Some n \<longrightarrow> n = 1 \<and> map_of (pw_known p) i \<noteq> None)"

text \<open>A known device that is missing again after a poll without it is reported.\<close>

definition overdue :: "peripheralWatch \<Rightarrow> string \<times> peripheralDevice \<Rightarrow> bool" where
  "overdue p e \<longleftrightarrow> (case pw_streak p (fst e) of None \<Rightarrow> 0 | Some k \<Rightarrow> k) + 1 \<ge> peripheralMissingStreak"

text \<open>The records Windows writes: each holds the offset of the next, aligned to four bytes, and the last holds 0.\<close>

definition bytes32 :: "32 word \<Rightarrow> byte list" where
  "bytes32 w = [ucast w, ucast (drop_bit 8 w), ucast (drop_bit 16 w), ucast (drop_bit 24 w)]"

definition bytes16 :: "16 word \<Rightarrow> byte list" where
  "bytes16 w = [ucast w, ucast (drop_bit 8 w)]"

definition record_size :: "16 word list \<Rightarrow> nat" where
  "record_size units = (let n = 12 + 2 * length units in n + (4 - n mod 4) mod 4)"

fun notify_records :: "(32 word \<times> 16 word list) list \<Rightarrow> byte list" where
  "notify_records [] = []"
| "notify_records ((action, units) # rs) =
     (let name = concat (map bytes16 units);
          body = bytes32 action @ bytes32 (of_nat (length name)) @ name
      in if rs = [] then bytes32 0 @ body
         else bytes32 (of_nat (record_size units)) @ body @ replicate (record_size units - (12 + length name)) 0 @ notify_records rs)"


subsection \<open>Watchers report every change\<close>

text \<open>
  The contract of a watcher: its events, replayed on what the receiver knew, give what the watcher knows
  now.  Then the receiver of all events of a run knows what the watcher saw last.
\<close>

locale watcher =
  fixes poll :: "'s \<Rightarrow> 'o \<Rightarrow> event list \<times> 's" and ok :: "'s \<Rightarrow> bool" and view :: "'s \<Rightarrow> string set"
    and replay_event :: "event \<Rightarrow> string set \<Rightarrow> string set"
  assumes ok_poll: "ok s \<Longrightarrow> ok (snd (poll s x))"
    and tracks: "ok s \<Longrightarrow> fold replay_event (fst (poll s x)) (view s) = view (snd (poll s x))"
begin

lemma run_tracks: "ok s \<Longrightarrow> ok (snd (run_watch poll s xs)) \<and> fold replay_event (fst (run_watch poll s xs)) (view s) = view (snd (run_watch poll s xs))"
proof (induction xs arbitrary: s)
  case (Cons x xs)
  obtain evs t where p: "poll s x = (evs, t)" by (cases "poll s x")
  with ok_poll [OF Cons.prems, of x] tracks [OF Cons.prems, of x] have "ok t" "fold replay_event evs (view s) = view t" by simp_all
  with Cons.IH [of t] p show ?case by (simp add: split_def Let_def)
qed simp

lemma notices_track:
  "ok s \<Longrightarrow> fold replay_event (fst (notice_loop poll s ns)) (view s) = view (snd (notice_loop poll s ns))"
  using run_tracks [of s "answered ns"] by (simp add: notice_loop_run)

end

lemma keyed_update: "keyed key m \<Longrightarrow> keyed key (AList.update (key x) x m)"
proof -
  assume *: "keyed key m"
  have "list_all (\<lambda>e. key (snd e) = fst e) (AList.update (key x) x m)"
    using * by (induction m) (auto simp: keyed_def)
  with * show ?thesis by (simp add: keyed_def distinct_update)
qed

lemma keyed_build: "keyed key (build_map key xs)"
proof -
  have "keyed key m \<Longrightarrow> keyed key (fold (\<lambda>x m. AList.update (key x) x m) xs m)" for m
    by (induction xs arbitrary: m) (simp_all add: keyed_update)
  then show ?thesis by (simp add: build_map_def keyed_def)
qed

lemma keyed_filter: "keyed key m \<Longrightarrow> keyed key (filter P m)"
  by (auto simp: keyed_def distinct_map_filter list_all_iff)

lemma keyed_append: "keyed key m \<Longrightarrow> keyed key m' \<Longrightarrow> fst ` set m \<inter> fst ` set m' = {} \<Longrightarrow> keyed key (m @ m')"
  by (simp add: keyed_def)

lemma keyed_key: "keyed key m \<Longrightarrow> e \<in> set m \<Longrightarrow> key (snd e) = fst e"
  by (auto simp: keyed_def list_all_iff)

lemma fold_insert_keys: "(\<And>e S. e \<in> set m \<Longrightarrow> f e S = insert (fst e) S) \<Longrightarrow> fold f m S = S \<union> fst ` set m"
  by (induction m arbitrary: S) auto

lemma fold_remove_keys: "(\<And>e S. e \<in> set m \<Longrightarrow> f e S = S - {fst e}) \<Longrightarrow> fold f m S = S - fst ` set m"
  by (induction m arbitrary: S) auto

lemma absent_keys: "fst ` set (absent_in other m) = fst ` set m - fst ` set other"
  by (auto simp: absent_in_def map_of_eq_None_iff)

lemma replay_usb:
  "text_of ''drive_letter'' (usb_inserted src d) = ld_DeviceID d" "text_of ''drive_letter'' (usb_removed d) = ld_DeviceID d"
  "fst (usb_inserted src d) = ''usb_inserted''" "fst (usb_removed d) = ''usb_removed''"
  by (simp_all add: text_of_def usb_inserted_def usb_removed_def)

interpretation usb: watcher usb_poll "keyed ld_DeviceID" "\<lambda>known. fst ` set known" "replay ''usb_inserted'' ''usb_removed'' ''drive_letter''"
proof
  fix known :: "(string \<times> win32LogicalDisk) list" and x :: "win32LogicalDisk list option \<times> (string \<Rightarrow> win32DiskDriveUSB list option)"
  assume k: "keyed ld_DeviceID known"
  then show "keyed ld_DeviceID (snd (usb_poll known x))" by (simp add: usb_poll_def keyed_build Let_def split: option.split)
  let ?replay = "replay ''usb_inserted'' ''usb_removed'' ''drive_letter''"
  show "fold ?replay (fst (usb_poll known x)) (fst ` set known) = fst ` set (snd (usb_poll known x))"
  proof (cases "fst x")
    case (Some disks)
    let ?cur = "build_map ld_DeviceID disks"
    have "fold ?replay (map (\<lambda>e. usb_inserted (src e) (snd e)) (absent_in known ?cur)) S = S \<union> fst ` set (absent_in known ?cur)" for src S
      unfolding fold_map
      by (intro fold_insert_keys) (auto simp: replay_def replay_usb absent_in_def dest: keyed_key [OF keyed_build])
    moreover have "fold ?replay (map (\<lambda>e. usb_removed (snd e)) (absent_in ?cur known)) S = S - fst ` set (absent_in ?cur known)" for S
      unfolding fold_map
      by (intro fold_remove_keys) (auto simp: replay_def replay_usb absent_in_def dest: keyed_key [OF k])
    ultimately show ?thesis using Some by (auto simp: usb_poll_def Let_def absent_keys)
  qed (simp add: usb_poll_def)
qed


subsection \<open>Keyboards and mice\<close>

lemma peripheral_missed_other: "fst e' \<noteq> fst e \<Longrightarrow> overdue (snd (peripheral_missed e st)) e' = overdue (snd st) e'"
  by (auto simp: peripheral_missed_def overdue_def Let_def split_def)

lemma delete_filter: "AList.delete k m = filter (\<lambda>x. fst x \<noteq> k) m"
  unfolding AList.delete_eq by (rule filter_cong) auto

lemma missed_fold:
  assumes "distinct (map fst es)"
  shows "fst (fold peripheral_missed es st) = fst st @ map (\<lambda>e. peripheral_event ''peripheral_removed'' (snd e)) (filter (overdue (snd st)) es)
    \<and> pw_known (snd (fold peripheral_missed es st)) = filter (\<lambda>e. fst e \<notin> fst ` set (filter (overdue (snd st)) es)) (pw_known (snd st))
    \<and> pw_streak (snd (fold peripheral_missed es st)) =
      (\<lambda>i. if i \<in> fst ` set (filter (overdue (snd st)) es) then None
       else if i \<in> fst ` set es then Some ((case pw_streak (snd st) i of None \<Rightarrow> 0 | Some k \<Rightarrow> k) + 1) else pw_streak (snd st) i)"
  using assms
proof (induction es arbitrary: st)
  case (Cons e es)
  let ?st = "peripheral_missed e st"
  from Cons.prems have fresh: "fst e \<notin> fst ` set es" and d: "distinct (map fst es)" by auto
  have same: "filter (overdue (snd ?st)) es = filter (overdue (snd st)) es"
    by (rule filter_cong) (use fresh in \<open>auto simp: peripheral_missed_other image_iff\<close>)
  have here: "peripheral_missed e st = (if overdue (snd st) e
      then (fst st @ [peripheral_event ''peripheral_removed'' (snd e)],
        (snd st)\<lparr>pw_known := filter (\<lambda>x. fst x \<noteq> fst e) (pw_known (snd st)), pw_streak := (pw_streak (snd st))(fst e := None)\<rparr>)
      else (fst st, (snd st)\<lparr>pw_streak := (pw_streak (snd st))(fst e \<mapsto> (case pw_streak (snd st) (fst e) of None \<Rightarrow> 0 | Some k \<Rightarrow> k) + 1)\<rparr>))"
    by (auto simp: peripheral_missed_def overdue_def split_def Let_def delete_filter)
  have "filter (\<lambda>x. fst x \<notin> fst ` set xs) (filter (\<lambda>x. fst x \<noteq> fst e) k) = filter (\<lambda>x. fst x \<noteq> fst e \<and> fst x \<notin> fst ` set xs) k"
    for xs k :: "(string \<times> peripheralDevice) list" by (simp add: conj_commute)
  with Cons.IH [OF d, of ?st] fresh show ?case
    unfolding same by (cases "overdue (snd st) e") (auto simp: here fun_eq_iff)
qed simp

text \<open>One poll: what it reports and what it remembers.\<close>

lemma peripheral_poll_effect:
  assumes "peripheral_inv p" "keyed ph_DeviceID current"
  defines "gone \<equiv> filter (\<lambda>e. map_of current (fst e) = None \<and> pw_streak p (fst e) \<noteq> None) (pw_known p)"
  shows "fst (peripheral_poll p current) = map (\<lambda>e. peripheral_event ''peripheral_connected'' (snd e)) (absent_in (pw_known p) current)
      @ map (\<lambda>e. peripheral_event ''peripheral_removed'' (snd e)) gone"
    and "pw_known (snd (peripheral_poll p current)) = filter (\<lambda>e. fst e \<notin> fst ` set gone) (pw_known p) @ absent_in (pw_known p) current"
    and "pw_streak (snd (peripheral_poll p current)) =
      (\<lambda>i. if i \<in> fst ` set (pw_known p) \<and> map_of current i = None \<and> pw_streak p i = None then Some 1 else None)"
proof -
  let ?fresh = "absent_in (pw_known p) current"
  let ?p1 = "snd (peripheral_seen current p)"
  let ?L = "absent_in current (pw_known ?p1)"
  have known: "distinct (map fst (pw_known p))" and cur: "distinct (map fst current)"
    and one: "pw_streak p i = Some n \<Longrightarrow> n = 1 \<and> i \<in> fst ` set (pw_known p)" for i n
    using assms(1,2) by (auto simp: peripheral_inv_def keyed_def map_of_eq_None_iff)
  have none: "absent_in current ?fresh = []"
    by (auto simp: absent_in_def filter_empty_conv map_of_eq_None_iff)
  have L: "?L = absent_in current (pw_known p)"
    using none by (simp add: peripheral_seen_def Let_def absent_in_def)
  have dist: "distinct (map fst ?L)" unfolding L using known by (simp add: absent_in_def distinct_map_filter)
  have "overdue ?p1 e \<longleftrightarrow> pw_streak p (fst e) \<noteq> None" if "map_of current (fst e) = None" for e
    using one [of "fst e"] that by (auto simp: overdue_def peripheral_seen_def Let_def peripheralMissingStreak_def split: option.splits)
  then have late: "filter (overdue ?p1) ?L = gone"
    unfolding L unfolding gone_def absent_in_def filter_filter by (intro filter_cong) auto
  have seen: "fst (peripheral_seen current p) = map (\<lambda>e. peripheral_event ''peripheral_connected'' (snd e)) ?fresh"
    "pw_known ?p1 = pw_known p @ ?fresh" "pw_streak ?p1 = (\<lambda>i. if map_of current i = None then pw_streak p i else None)"
    by (simp_all add: peripheral_seen_def Let_def)
  have eff: "peripheral_poll p current = fold peripheral_missed ?L (peripheral_seen current p)"
    by (simp add: peripheral_poll_def Let_def)
  note fold = missed_fold [OF dist, of "peripheral_seen current p", unfolded late, folded eff]
  show "fst (peripheral_poll p current) = map (\<lambda>e. peripheral_event ''peripheral_connected'' (snd e)) ?fresh
      @ map (\<lambda>e. peripheral_event ''peripheral_removed'' (snd e)) gone"
    using fold seen(1) by simp
  have "filter (\<lambda>e. fst e \<notin> fst ` set gone) ?fresh = ?fresh"
    by (rule filter_True) (auto simp: gone_def absent_in_def map_of_eq_None_iff)
  then show "pw_known (snd (peripheral_poll p current)) = filter (\<lambda>e. fst e \<notin> fst ` set gone) (pw_known p) @ ?fresh"
    using fold seen(2) by simp
  have s: "pw_streak (snd (peripheral_poll p current)) i = (if i \<in> fst ` set gone then None
      else if i \<in> fst ` set ?L then Some ((case pw_streak ?p1 i of None \<Rightarrow> 0 | Some k \<Rightarrow> k) + 1) else pw_streak ?p1 i)" for i
    using fold by simp
  have l: "i \<in> fst ` set ?L \<longleftrightarrow> i \<in> fst ` set (pw_known p) \<and> map_of current i = None" for i
    unfolding L by (auto simp: absent_in_def)
  have g: "i \<in> fst ` set gone \<longleftrightarrow> i \<in> fst ` set (pw_known p) \<and> map_of current i = None \<and> pw_streak p i \<noteq> None" for i
    unfolding gone_def by force
  show "pw_streak (snd (peripheral_poll p current)) =
      (\<lambda>i. if i \<in> fst ` set (pw_known p) \<and> map_of current i = None \<and> pw_streak p i = None then Some 1 else None)"
  proof
    fix i
    show "pw_streak (snd (peripheral_poll p current)) i =
        (if i \<in> fst ` set (pw_known p) \<and> map_of current i = None \<and> pw_streak p i = None then Some 1 else None)"
      unfolding s l g seen(3) using one [of i] by (cases "pw_streak p i") auto
  qed
qed

lemma peripheral_inv_poll:
  assumes "peripheral_inv p" "keyed ph_DeviceID current"
  shows "peripheral_inv (snd (peripheral_poll p current))"
proof -
  let ?gone = "filter (\<lambda>e. map_of current (fst e) = None \<and> pw_streak p (fst e) \<noteq> None) (pw_known p)"
  let ?q = "snd (peripheral_poll p current)"
  have known: "pw_known ?q = filter (\<lambda>e. fst e \<notin> fst ` set ?gone) (pw_known p) @ absent_in (pw_known p) current"
    using peripheral_poll_effect(2) [OF assms] .
  have "keyed ph_DeviceID (pw_known p)" using assms(1) by (simp add: peripheral_inv_def)
  moreover have "fst ` set (filter P (pw_known p)) \<inter> fst ` set (absent_in (pw_known p) current) = {}" for P
    unfolding absent_keys using image_mono [OF filter_is_subset, of fst P "pw_known p"] by blast
  ultimately have "keyed ph_DeviceID (pw_known ?q)"
    unfolding known by (intro keyed_append keyed_filter) (auto simp: absent_in_def keyed_filter assms(2))
  moreover have "n = 1 \<and> i \<in> fst ` set (pw_known ?q)" if "pw_streak ?q i = Some n" for i n
    using that unfolding peripheral_poll_effect(3) [OF assms] known by (force split: if_splits)
  ultimately show ?thesis by (auto simp: peripheral_inv_def map_of_eq_None_iff)
qed

lemma peripheral_event_simps [simp]:
  "text_of ''device_id'' (peripheral_event ty d) = ph_DeviceID d" "fst (peripheral_event ty d) = ty"
  by (simp_all add: text_of_def peripheral_event_def)

lemma peripheral_event_eq: "peripheral_event ty d = peripheral_event ty' d' \<longleftrightarrow> ty = ty' \<and> d = d'"
  by (cases d; cases d') (auto simp: peripheral_event_def)

interpretation peripheral: watcher "\<lambda>p answers. peripheral_poll p (queryPeripherals (fst answers) (snd answers))" peripheral_inv
  "\<lambda>p. fst ` set (pw_known p)" "replay ''peripheral_connected'' ''peripheral_removed'' ''device_id''"
proof
  fix p :: peripheralWatch and x :: "(string \<times> string) list option \<times> (string \<times> string \<times> string) list option"
  assume inv: "peripheral_inv p"
  let ?cur = "queryPeripherals (fst x) (snd x)"
  have cur: "keyed ph_DeviceID ?cur" by (simp add: queryPeripherals_def keyed_build)
  show "peripheral_inv (snd (peripheral_poll p ?cur))" by (rule peripheral_inv_poll [OF inv cur])
  let ?replay = "replay ''peripheral_connected'' ''peripheral_removed'' ''device_id''"
  let ?gone = "filter (\<lambda>e. map_of ?cur (fst e) = None \<and> pw_streak p (fst e) \<noteq> None) (pw_known p)"
  have "keyed ph_DeviceID (pw_known p)" using inv by (simp add: peripheral_inv_def)
  then have "fold ?replay (map (\<lambda>e. peripheral_event ''peripheral_removed'' (snd e)) ?gone) S = S - fst ` set ?gone" for S
    unfolding fold_map by (intro fold_remove_keys) (auto simp: replay_def dest: keyed_key)
  moreover have "fold ?replay (map (\<lambda>e. peripheral_event ''peripheral_connected'' (snd e)) (absent_in (pw_known p) ?cur)) S
      = S \<union> fst ` set (absent_in (pw_known p) ?cur)" for S
    unfolding fold_map by (intro fold_insert_keys) (auto simp: replay_def absent_in_def dest: keyed_key [OF cur])
  ultimately show "fold ?replay (fst (peripheral_poll p ?cur)) (fst ` set (pw_known p)) = fst ` set (pw_known (snd (peripheral_poll p ?cur)))"
    unfolding peripheral_poll_effect(1,2) [OF inv cur] by (auto simp: absent_in_def map_of_eq_None_iff)
qed

subsection \<open>Configuration\<close>

lemma replay_change_simps:
  "replay_change (''added: '' @ n) S = insert n S" "replay_change (''removed: '' @ n) S = S - {n}" "replay_change (''modified: '' @ n) S = S"
  by (simp_all add: replay_change_def)

lemma fold_replay_config: "fold replay_config (config_event label cs) S = fold replay_change cs S"
proof -
  have "fold (\<lambda>c. case c of JStr s \<Rightarrow> replay_change s | _ \<Rightarrow> id) (map JStr cs) S = fold replay_change cs S"
    unfolding fold_map by (rule fold_cong) auto
  then show ?thesis by (simp add: config_event_def replay_config_def)
qed

lemma fold_added: "fold replay_change (map (\<lambda>n. ''added: '' @ n) ns) S = S \<union> set ns"
  by (induction ns arbitrary: S) (simp_all add: replay_change_simps(1) del: append_Cons)

lemma fold_removed: "fold replay_change (map (\<lambda>n. ''removed: '' @ n) ns) S = S - set ns"
  by (induction ns arbitrary: S) (auto simp: replay_change_simps(2) simp del: append_Cons)

lemma fold_diff_values:
  "fold replay_change (List.map_filter (\<lambda>(name, val). case map_of before name of
      None \<Rightarrow> Some (''added: '' @ name)
    | Some old \<Rightarrow> if old \<noteq> val then Some (''modified: '' @ name) else None) after) S
   = S \<union> fst ` set (absent_in before after)"
  by (induction after arbitrary: S)
    (auto simp: List.map_filter_simps absent_in_def replay_change_simps simp del: append_Cons split: option.splits if_splits)

lemma replay_diff: "fold replay_change (diffRegistryValues before after) (fst ` set before) = fst ` set after"
proof -
  have "fold replay_change (map (\<lambda>e. ''removed: '' @ fst e) (absent_in after before)) S = S - fst ` set (absent_in after before)" for S
    using fold_removed [of "map fst (absent_in after before)" S] by (simp add: comp_def)
  then show ?thesis by (auto simp: diffRegistryValues_def fold_diff_values absent_keys)
qed

interpretation run_key: watcher "runKey_changed label" "\<lambda>_. True" "\<lambda>known. fst ` set known" replay_config for label
  by unfold_locales (simp_all add: runKey_changed_def Let_def fold_replay_config replay_diff)

interpretation tasks: watcher watchScheduledTasks "\<lambda>_. True" set replay_config
  by unfold_locales (auto simp: watchScheduledTasks_def Let_def fold_replay_config fold_added fold_removed simp del: append_Cons)

subsection \<open>Properties of the watchers\<close>

text \<open>
  C33.  The events of a watcher are complete.  Over any sequence of answers of the operating system, failed
  queries included, a receiver that replays the events sent - a drive or device is there from its insertion
  to its removal, a startup entry or task from \<^verbatim>\<open>added\<close> to \<^verbatim>\<open>removed\<close> - knows exactly the drives, the devices,
  the entries and the tasks the agent knows at the end.  Drives and devices start from nothing, tasks from
  the first reading, entries from what the key held when it was opened; a key that is not watched sends
  nothing.
\<close>

theorem watch_events_replay:
  "fold (replay ''usb_inserted'' ''usb_removed'' ''drive_letter'') (fst (run_watch usb_poll [] usb_answers)) {}
     = fst ` set (snd (run_watch usb_poll [] usb_answers))
   \<and> fold (replay ''peripheral_connected'' ''peripheral_removed'' ''device_id'')
       (fst (run_watch (\<lambda>p q. peripheral_poll p (queryPeripherals (fst q) (snd q))) \<lparr>pw_known = [], pw_streak = Map.empty\<rparr> wmi_answers)) {}
     = fst ` set (pw_known (snd (run_watch (\<lambda>p q. peripheral_poll p (queryPeripherals (fst q) (snd q)))
         \<lparr>pw_known = [], pw_streak = Map.empty\<rparr> wmi_answers)))
   \<and> (case watchRunKey target opened notices of
        (evs, None) \<Rightarrow> evs = []
      | (evs, Some now) \<Rightarrow> fold replay_config evs (fst ` set (enumerateRegistryValues (the opened))) = fst ` set now)
   \<and> fold replay_config (fst (run_watch watchScheduledTasks tasks tables)) (set tasks) = set (snd (run_watch watchScheduledTasks tasks tables))"
proof (intro conjI)
  have "keyed ld_DeviceID []" by (simp add: keyed_def)
  from usb.run_tracks [OF this, of usb_answers]
  show "fold (replay ''usb_inserted'' ''usb_removed'' ''drive_letter'') (fst (run_watch usb_poll [] usb_answers)) {}
     = fst ` set (snd (run_watch usb_poll [] usb_answers))" by simp
next
  have "peripheral_inv \<lparr>pw_known = [], pw_streak = Map.empty\<rparr>" by (simp add: peripheral_inv_def keyed_def)
  from peripheral.run_tracks [OF this, of wmi_answers]
  show "fold (replay ''peripheral_connected'' ''peripheral_removed'' ''device_id'')
       (fst (run_watch (\<lambda>p q. peripheral_poll p (queryPeripherals (fst q) (snd q))) \<lparr>pw_known = [], pw_streak = Map.empty\<rparr> wmi_answers)) {}
     = fst ` set (pw_known (snd (run_watch (\<lambda>p q. peripheral_poll p (queryPeripherals (fst q) (snd q)))
         \<lparr>pw_known = [], pw_streak = Map.empty\<rparr> wmi_answers)))" by simp
next
  have "fold replay_config (fst (notice_loop (runKey_changed label) known notices)) (fst ` set known)
      = fst ` set (snd (notice_loop (runKey_changed label) known notices))" for label known
    using run_key.notices_track by simp
  then show "case watchRunKey target opened notices of
        (evs, None) \<Rightarrow> evs = []
      | (evs, Some now) \<Rightarrow> fold replay_config evs (fst ` set (enumerateRegistryValues (the opened))) = fst ` set now"
    by (simp add: watchRunKey_def watch_key_def map_prod_def split_def split: option.split)
next
  show "fold replay_config (fst (run_watch watchScheduledTasks tasks tables)) (set tasks) = set (snd (run_watch watchScheduledTasks tasks tables))"
    using tasks.run_tracks by simp
qed

text \<open>
  C34.  A removed keyboard or mouse is reported only after it was missing in two polls in a row, and then
  it is: a poll reports the removal of a device exactly when the device was known and was missing both
  in this poll and in the one before without having been reported then.
\<close>

theorem peripheral_removal_confirmed:
  assumes "peripheral_inv p" "keyed ph_DeviceID c1" "keyed ph_DeviceID c2"
    and q: "q = snd (peripheral_poll p c1)"
  shows "(''peripheral_removed'', meta) \<in> set (fst (peripheral_poll q c2)) \<longleftrightarrow>
    (\<exists>i d. (i, d) \<in> set (pw_known p) \<and> map_of c1 i = None \<and> map_of c2 i = None
       \<and> peripheral_event ''peripheral_removed'' d \<notin> set (fst (peripheral_poll p c1))
       \<and> (''peripheral_removed'', meta) = peripheral_event ''peripheral_removed'' d)"
proof -
  have inv: "peripheral_inv q" unfolding q by (rule peripheral_inv_poll [OF assms(1,2)])
  have k: "keyed ph_DeviceID (pw_known p)" using assms(1) by (simp add: peripheral_inv_def)
  have first: "peripheral_event ''peripheral_removed'' d \<in> set (fst (peripheral_poll p c1)) \<longleftrightarrow> map_of c1 i = None \<and> pw_streak p i \<noteq> None"
    if "(i, d) \<in> set (pw_known p)" for i d
    unfolding peripheral_poll_effect(1) [OF assms(1,2)] using that keyed_key [OF k that]
    by (auto simp: peripheral_event_eq dest: keyed_key [OF k] intro!: rev_image_eqI [where x = "(i, d)"])
  have "M \<in> set (fst (peripheral_poll q c2)) \<longleftrightarrow> (\<exists>i d. (i, d) \<in> set (pw_known q) \<and> map_of c2 i = None
      \<and> pw_streak q i \<noteq> None \<and> M = peripheral_event ''peripheral_removed'' d)" if "fst M = ''peripheral_removed''" for M
    unfolding peripheral_poll_effect(1) [OF inv assms(3)] using that by (force simp: image_iff)
  then have "(''peripheral_removed'', meta) \<in> set (fst (peripheral_poll q c2)) \<longleftrightarrow> (\<exists>i d. (i, d) \<in> set (pw_known q) \<and> map_of c2 i = None
      \<and> pw_streak q i \<noteq> None \<and> (''peripheral_removed'', meta) = peripheral_event ''peripheral_removed'' d)" by simp
  also have "\<dots> \<longleftrightarrow> (\<exists>i d. (i, d) \<in> set (pw_known p) \<and> map_of c1 i = None \<and> map_of c2 i = None \<and> pw_streak p i = None
      \<and> (''peripheral_removed'', meta) = peripheral_event ''peripheral_removed'' d)"
  proof -
    have "(i, d) \<in> set (pw_known q) \<and> pw_streak q i \<noteq> None \<longleftrightarrow> (i, d) \<in> set (pw_known p) \<and> map_of c1 i = None \<and> pw_streak p i = None" for i d
      unfolding q peripheral_poll_effect(2,3) [OF assms(1,2)] by (force simp: absent_in_def map_of_eq_None_iff)
    then show ?thesis by blast
  qed
  also have "\<dots> \<longleftrightarrow> (\<exists>i d. (i, d) \<in> set (pw_known p) \<and> map_of c1 i = None \<and> map_of c2 i = None
       \<and> peripheral_event ''peripheral_removed'' d \<notin> set (fst (peripheral_poll p c1))
       \<and> (''peripheral_removed'', meta) = peripheral_event ''peripheral_removed'' d)"
    using first by blast
  finally show ?thesis .
qed

theorem peripheral_removal_confirmed_witness:
  "let d = \<lparr>ph_DeviceID = ''kb0'', ph_Name = ''Keyboard'', ph_Manufacturer = '''', ph_Class = ''keyboard''\<rparr>;
       p = \<lparr>pw_known = [(''kb0'', d)], pw_streak = Map.empty\<rparr>
   in peripheral_event ''peripheral_removed'' d \<in> set (fst (peripheral_poll (snd (peripheral_poll p [])) []))"
proof -
  let ?d = "\<lparr>ph_DeviceID = ''kb0'', ph_Name = ''Keyboard'', ph_Manufacturer = '''', ph_Class = ''keyboard''\<rparr>"
  let ?p = "\<lparr>pw_known = [(''kb0'', ?d)], pw_streak = Map.empty\<rparr>"
  have inv: "peripheral_inv ?p" by (simp add: peripheral_inv_def keyed_def)
  have none: "keyed ph_DeviceID []" by (simp add: keyed_def)
  have "fst (peripheral_poll ?p []) = []" unfolding peripheral_poll_effect(1) [OF inv none] by (simp add: absent_in_def)
  with peripheral_removal_confirmed [OF inv none none refl, of "snd (peripheral_event ''peripheral_removed'' ?d)"]
  show ?thesis by (auto simp: peripheral_event_def Let_def)
qed

subsection \<open>Directory notifications\<close>

lemma le32_bytes [simp]: "le32 (bytes32 w @ bs) = w"
proof (rule bit_word_eqI)
  fix n :: nat
  assume n: "n < LENGTH(32)"
  have *: "bit (le32 (bytes32 w @ bs)) n \<longleftrightarrow> n < 8 \<and> bit w n \<or> 8 \<le> n \<and> n - 8 < 8 \<and> bit w n
      \<or> 16 \<le> n \<and> n - 16 < 8 \<and> bit w n \<or> 24 \<le> n \<and> n - 24 < 8 \<and> bit w n"
    using n by (auto simp: le32_def bytes32_def bit_simps)
  from n show "bit (le32 (bytes32 w @ bs)) n = bit w n" unfolding * by auto
qed

lemma le16_bytes [simp]: "le16 (bytes16 w) = w"
proof (rule bit_word_eqI)
  fix n :: nat
  assume n: "n < LENGTH(16)"
  have *: "bit (le16 (bytes16 w)) n \<longleftrightarrow> n < 8 \<and> bit w n \<or> 8 \<le> n \<and> n - 8 < 8 \<and> bit w n"
    using n by (auto simp: le16_def bytes16_def bit_simps)
  from n show "bit (le16 (bytes16 w)) n = bit w n" unfolding * by auto
qed

lemma bytes_length [simp]: "length (bytes32 w) = 4" "length (bytes16 u) = 2" "length (concat (map bytes16 us)) = 2 * length us"
  by (induction us) (simp_all add: bytes32_def bytes16_def)

lemma units_bytes [simp]: "utf16_units (concat (map bytes16 us)) = us"
proof (induction us)
  case (Cons u us)
  have "bytes16 u = [bytes16 u ! 0, bytes16 u ! 1]" by (simp add: bytes16_def)
  then have "utf16_units (bytes16 u @ bs) = le16 (bytes16 u) # utf16_units bs" for bs
    by (metis append_Cons append_Nil utf16_units.simps(1))
  with Cons show ?case by simp
qed simp

declare handleNotifyBuffer.simps [simp del]

lemma notify_step:
  fixes nx a :: "32 word" and us :: "16 word list" and rest :: "byte list"
  assumes "12 + 2 * length us < 2 ^ 32"
  defines "buf \<equiv> bytes32 nx @ bytes32 a @ bytes32 (of_nat (2 * length us)) @ concat (map bytes16 us) @ rest"
  shows "handleNotifyBuffer utf16 buf = (if nx = 0 then ([(a, utf16 us)], False)
    else let (evs, panicked) = handleNotifyBuffer utf16 (drop (unat nx) buf) in ((a, utf16 us) # evs, panicked))"
proof -
  have len: "length buf = 12 + 2 * length us + length rest" by (simp add: buf_def)
  have fields: "le32 (take 4 buf) = nx" "le32 (take 4 (drop 4 buf)) = a" "le32 (take 4 (drop 8 buf)) = of_nat (2 * length us)"
    "take (2 * length us) (drop 12 buf) = concat (map bytes16 us)"
    using le32_bytes [of _ "[]"] by (simp_all add: buf_def)
  have sum_word: "12 + (of_nat (2 * length us) :: 32 word) = of_nat (12 + 2 * length us)" by simp
  have sizes: "unat (12 + (of_nat (2 * length us) :: 32 word)) = 12 + 2 * length us" "unat (of_nat (2 * length us) :: 32 word) = 2 * length us"
    unfolding sum_word using assms(1) by (simp_all add: unat_of_nat del: of_nat_add of_nat_mult)
  have wraps: "\<not> 12 + (of_nat (2 * length us) :: 32 word) < 12" by (simp only: word_less_nat_alt sizes) simp
  show ?thesis
    by (subst handleNotifyBuffer.simps)
      (simp add: fields sizes wraps len decodeUTF16Name_def Let_def split_def del: of_nat_mult of_nat_add)
qed

lemma record_size_bounds: "12 + 2 * length us \<le> record_size us" "record_size us \<noteq> 0"
  by (simp_all add: record_size_def Let_def)

lemma notify_buffer_read:
  assumes "list_all (\<lambda>r. record_size (snd r) < 2 ^ 32) rs"
  shows "handleNotifyBuffer utf16 (notify_records rs) = (map (\<lambda>r. (fst r, utf16 (snd r))) rs, False)"
  using assms
proof (induction rs rule: notify_records.induct)
  case 1
  show ?case by (simp add: handleNotifyBuffer.simps)
next
  case (2 a us rs)
  from 2(2) have small: "record_size us < 2 ^ 32" "12 + 2 * length us < 2 ^ 32" using record_size_bounds(1) [of us] by simp_all
  show ?case
  proof (cases "rs = []")
    case True
    then show ?thesis using notify_step [OF small(2), where nx = 0 and rest = "[]"] by simp
  next
    case False
    let ?nx = "of_nat (record_size us) :: 32 word"
    let ?pad = "replicate (record_size us - (12 + 2 * length us)) (0 :: byte)"
    let ?buf = "bytes32 ?nx @ bytes32 a @ bytes32 (of_nat (2 * length us)) @ concat (map bytes16 us) @ ?pad @ notify_records rs"
    have nx: "unat ?nx = record_size us" using small(1) by (simp add: unat_of_nat)
    then have "?nx \<noteq> 0" using record_size_bounds(2) [of us] by (metis unat_0)
    moreover have "drop (unat ?nx) ?buf = notify_records rs" unfolding nx using record_size_bounds(1) [of us] by simp
    moreover have "notify_records ((a, us) # rs) = ?buf" using False by (simp add: Let_def)
    ultimately show ?thesis
      using notify_step [OF small(2), where nx = ?nx and rest = "?pad @ notify_records rs"] 2 False by simp
  qed
qed

lemma notify_records_empty: "notify_records rs = [] \<longleftrightarrow> rs = []"
  by (cases rs rule: notify_records.cases) (simp_all add: Let_def bytes32_def split: if_split)

lemma watchFolder_loop_reads:
  assumes "list_all (\<lambda>b. list_all (\<lambda>r. record_size (snd r) < 2 ^ 32) (fst b)) bufs"
  shows "watchFolder_loop utf16 folder (map (\<lambda>b. NoticeChanged (notify_records (fst b), snd b)) bufs @ [NoticeCancelled])
    = (concat (map (\<lambda>b. concat (map (\<lambda>r. handleFileEvent (snd b) folder (fst r, utf16 (snd r))) (fst b))) bufs), False)"
  using assms
proof (induction bufs)
  case (Cons b bufs)
  then have "handleNotifyBuffer utf16 (notify_records (fst b)) = (map (\<lambda>r. (fst r, utf16 (snd r))) (fst b), False)"
    by (intro notify_buffer_read) simp
  with Cons show ?case by (simp add: notify_records_empty Let_def comp_def)
qed simp

text \<open>
  C35.  A folder watcher reports what Windows wrote: from any sequence of buffers, each a sequence of
  records shorter than the 32-bit range laid out with their links and padding, it sends exactly the
  events of their actions and names, record by record, and does not panic.
\<close>

theorem notify_round_trip:
  assumes "list_all (\<lambda>b. list_all (\<lambda>r. record_size (snd r) < 2 ^ 32) (fst b)) bufs" "CHR 0x00 \<notin> set (wf_path folder)"
  shows "watchFolder utf16 folder True (map (\<lambda>b. NoticeChanged (notify_records (fst b), snd b)) bufs @ [NoticeCancelled])
    = (concat (map (\<lambda>b. concat (map (\<lambda>r. handleFileEvent (snd b) folder (fst r, utf16 (snd r))) (fst b))) bufs), False)"
  using watchFolder_loop_reads [OF assms(1)] assms(2) by (simp add: watchFolder_def)

theorem notify_round_trip_witness:
  "let folder = \<lparr>wf_path = ''D'', wf_location = ''downloads''\<rparr>; file = ''D'' @ [CHR 0x5C] @ ''b'' in
   watchFolder (map (\<lambda>u. char_of (unat u))) folder True
     (map (\<lambda>b. NoticeChanged (notify_records (fst b), snd b)) [([(3, [0x62]), (2, [0x62])], Map.empty)] @ [NoticeCancelled])
   = ([(''download_deleted'', [(''path'', JStr file), (''location'', JStr ''downloads'')])], False)"
proof -
  let ?bufs = "[([(3 :: 32 word, [0x62 :: 16 word]), (2, [0x62])], Map.empty :: string \<rightharpoonup> int)]"
  let ?folder = "\<lparr>wf_path = ''D'', wf_location = ''downloads''\<rparr>"
  have "list_all (\<lambda>b. list_all (\<lambda>r. record_size (snd r) < 2 ^ 32) (fst b)) ?bufs" "CHR 0x00 \<notin> set (wf_path ?folder)"
    by (simp_all add: record_size_def Let_def)
  note notify_round_trip [OF this, of "map (\<lambda>u. char_of (unat u))"]
  moreover have "map (\<lambda>u. char_of (unat u)) [0x62 :: 16 word] = ''b''" by code_simp
  ultimately show ?thesis
    by (simp del: list.map(2) notify_records.simps)
      (simp add: handleFileEvent_def file_join_def fileActionAdded_def fileActionRemoved_def fileActionRenamedNewName_def)
qed

lemma notify_loop_from:
  "length buf - offset < rounds \<Longrightarrow> notify_loop rounds utf16 buf offset = Some (handleNotifyBuffer utf16 (drop offset buf))"
proof (induction rounds utf16 buf offset rule: notify_loop.induct)
  case (2 rounds utf16 buf offset)
  show ?case
  proof (cases "offset + 12 > length buf")
    case True
    then have "length buf - offset < 12" by linarith
    with True show ?thesis by (subst handleNotifyBuffer.simps) simp
  next
    case False
    let ?next = "le32 (take 4 (drop offset buf))"
    have "length buf - (offset + unat ?next) < rounds" if "?next \<noteq> 0"
      using 2(2) False that unat_gt_0 [of ?next] by linarith
    with 2(1) [OF False refl refl refl refl refl refl] False show ?thesis
      by (subst handleNotifyBuffer.simps) (auto simp: Let_def split_def add.commute)
  qed
qed simp

text \<open>
  C36.  The loop over a directory notification ends for every buffer, whatever its links say: within one
  round more than the buffer has bytes it returns, with the notifications the recursive reading finds.
\<close>

theorem notify_loop_terminates: "notify_loop (Suc (length buf)) utf16 buf 0 = Some (handleNotifyBuffer utf16 buf)"
  using notify_loop_from [of buf 0 "Suc (length buf)" utf16] by simp

text \<open>
  A length close to the 32-bit limit wraps: the record is taken to fit and the slice of its name panics.
\<close>

theorem notify_length_wraps: "snd (handleNotifyBuffer utf16 (bytes32 0 @ bytes32 1 @ bytes32 0xFFFFFFF8))"
proof -
  have "le32 (take 4 (drop 8 (bytes32 0 @ bytes32 1 @ bytes32 0xFFFFFFF8))) = 0xFFFFFFF8"
    using le32_bytes [of "0xFFFFFFF8" "[]"] by simp
  then show ?thesis by (subst handleNotifyBuffer.simps) (simp add: Let_def)
qed

end
