(* ===== verification/Agent_Inventory.thy ===== *)
theory Agent_Inventory
  imports Delivery Go_Net
begin

text \<open>
  The agent's software inventory (\<^verbatim>\<open>agent/softwareinventory.go\<close>): the scan of the uninstall keys, the
  enrichment by winget's table, the snapshot the agent keeps and sends, and its way to the server's
  inventory and back as an uninstall job.  What the registry and winget answer are arguments, \<open>None\<close> when
  the call fails.
\<close>

subsection \<open>Scanning the registry\<close>

text \<open>The identity of an entry, \<^verbatim>\<open>softwareEntry.identityKey\<close>.\<close>

definition entry_identityKey :: "softwareEntry \<Rightarrow> string" where
  "entry_identityKey e = SoftwareIdentity_Key
     \<lparr>si_WindowsInstaller = se_WindowsInstaller e, si_ProductCode = se_ProductCode e,
      si_DisplayName = se_DisplayName e, si_Publisher = se_Publisher e\<rparr>"

record inventoryRoot =
  ir_currentUser :: bool
  ir_path :: string
  ir_hive :: string
  ir_arch :: string
  ir_scope :: string

definition inventoryRoots :: "inventoryRoot list" where
  "inventoryRoots =
     (let tail_path = ''Microsoft'' @ [CHR 0x5C] @ ''Windows'' @ [CHR 0x5C] @ ''CurrentVersion'' @ [CHR 0x5C] @ ''Uninstall'' in
      [\<lparr>ir_currentUser = False, ir_path = ''Software'' @ [CHR 0x5C] @ tail_path, ir_hive = ''HKLM'', ir_arch = ''x64'', ir_scope = ''machine''\<rparr>,
       \<lparr>ir_currentUser = False, ir_path = ''Software'' @ [CHR 0x5C] @ ''WOW6432Node'' @ [CHR 0x5C] @ tail_path,
        ir_hive = ''HKLM'', ir_arch = ''x86'', ir_scope = ''machine''\<rparr>,
       \<lparr>ir_currentUser = True, ir_path = ''Software'' @ [CHR 0x5C] @ tail_path, ir_hive = ''HKCU'', ir_arch = ''x64'', ir_scope = ''user''\<rparr>])"

text \<open>The values of a subkey: its strings and its integers by name.  A string that can not be read is empty.\<close>

record subkey_values =
  kv_strings :: "string \<rightharpoonup> string"
  kv_integers :: "string \<rightharpoonup> 64 word"

definition GetStringValue :: "subkey_values \<Rightarrow> string \<Rightarrow> string" where
  "GetStringValue sub name = (case kv_strings sub name of None \<Rightarrow> '''' | Some s \<Rightarrow> s)"

definition scan_subkey :: "inventoryRoot \<Rightarrow> string \<times> subkey_values option \<Rightarrow> softwareEntry list" where
  "scan_subkey r k =
     (case snd k of
        None \<Rightarrow> []
      | Some sub \<Rightarrow>
          if kv_strings sub ''DisplayName'' = None \<or> GetStringValue sub ''DisplayName'' = '''' then []
          else
            let windowsInstaller = (kv_integers sub ''WindowsInstaller'' = Some 1) in
            [\<lparr>se_DisplayName = GetStringValue sub ''DisplayName'', se_Publisher = GetStringValue sub ''Publisher'',
              se_DisplayVersion = GetStringValue sub ''DisplayVersion'', se_InstallDate = GetStringValue sub ''InstallDate'',
              se_WindowsInstaller = windowsInstaller,
              se_ProductCode = (if windowsInstaller \<and> NormalizeProductCode (fst k) \<noteq> None then fst k else ''''),
              se_UninstallString = GetStringValue sub ''UninstallString'',
              se_QuietUninstallString = GetStringValue sub ''QuietUninstallString'',
              se_Hive = ir_hive r, se_Arch = ir_arch r, se_Scope = ir_scope r, se_WingetID = '''', se_WingetAvailableVersion = ''''\<rparr>])"

definition scanInventoryRoot :: "inventoryRoot \<Rightarrow> (string \<times> subkey_values option) list option \<Rightarrow> softwareEntry list" where
  "scanInventoryRoot r answer = (case answer of None \<Rightarrow> [] | Some names \<Rightarrow> concat (map (scan_subkey r) names))"

definition scanFullInventory :: "(inventoryRoot \<Rightarrow> (string \<times> subkey_values option) list option) \<Rightarrow> softwareEntry list" where
  "scanFullInventory registry = concat (map (\<lambda>r. scanInventoryRoot r (registry r)) inventoryRoots)"

subsection \<open>Winget's table\<close>

record wingetRow =
  wr_Name :: string
  wr_ID :: string
  wr_Version :: string
  wr_Available :: string

text \<open>\<^verbatim>\<open>strings.Index\<close>.\<close>

fun string_Index :: "string \<Rightarrow> string \<Rightarrow> int" where
  "string_Index [] sub = (if sub = [] then 0 else -1)"
| "string_Index (c # cs) sub =
     (if HasPrefix (c # cs) sub then 0 else let i = string_Index cs sub in if i < 0 then -1 else i + 1)"

text \<open>The closure \<^verbatim>\<open>slice\<close> of the parser; its start is never negative.\<close>

definition column_slice :: "string \<Rightarrow> int \<Rightarrow> int \<Rightarrow> string" where
  "column_slice line from till =
     (if from \<ge> int (length line) then ''''
      else let till = (if till < 0 \<or> till > int (length line) then int (length line) else till) in
        if till < from then '''' else TrimSpace (take (nat (till - from)) (drop (nat from) line)))"

definition winget_row :: "int \<Rightarrow> int \<Rightarrow> int \<Rightarrow> string \<Rightarrow> wingetRow option" where
  "winget_row idCol versionCol availableCol l =
     (if TrimSpace l = '''' then None
      else
        let name = column_slice l 0 idCol; ident = column_slice l idCol versionCol;
            (version, available) =
              (if availableCol > 0 then (column_slice l versionCol availableCol, column_slice l availableCol (-1))
               else (column_slice l versionCol (-1), ''''))
        in if name = '''' \<or> ident = '''' then None
           else Some \<lparr>wr_Name = name, wr_ID = ident, wr_Version = version, wr_Available = available\<rparr>)"

definition parseWingetListOutput :: "string \<Rightarrow> wingetRow list" where
  "parseWingetListOutput out =
     (case dropWhile (\<lambda>l. \<not> (Contains l ''Id'' \<and> Contains l ''Version'')) (Split_char (CHR 0x0A) out) of
        [] \<Rightarrow> []
      | header # rest \<Rightarrow>
          if length rest < 2 then []
          else
            let idCol = string_Index header ''Id''; versionCol = string_Index header ''Version'';
                availableCol = string_Index header ''Available''
            in if idCol < 0 \<or> versionCol < 0 then []
               else List.map_filter (winget_row idCol versionCol availableCol) (tl rest))"

definition normalizeSoftwareName :: "string \<Rightarrow> string" where
  "normalizeSoftwareName s = ToLower (TrimSpace s)"

definition winget_by_name :: "wingetRow list \<Rightarrow> string \<rightharpoonup> wingetRow" where
  "winget_by_name rows = fold (\<lambda>row m. m(normalizeSoftwareName (wr_Name row) \<mapsto> row)) rows Map.empty"

definition enrichWithWinget :: "string option \<Rightarrow> softwareEntry list \<Rightarrow> softwareEntry list" where
  "enrichWithWinget out entries =
     (case out of
        None \<Rightarrow> entries
      | Some text \<Rightarrow>
          let rows = parseWingetListOutput text in
          if rows = [] then entries
          else map (\<lambda>e. case winget_by_name rows (normalizeSoftwareName (se_DisplayName e)) of
                 None \<Rightarrow> e
               | Some row \<Rightarrow> e\<lparr>se_WingetID := wr_ID row, se_WingetAvailableVersion := wr_Available row\<rparr>) entries)"

subsection \<open>The snapshot\<close>

definition replaceInventorySnapshot :: "softwareEntry list \<Rightarrow> AgentState \<Rightarrow> AgentState" where
  "replaceInventorySnapshot entries s =
     s\<lparr>a_inventory := fold (\<lambda>e m. m(entry_identityKey e \<mapsto> e)) entries Map.empty\<rparr>"

definition lookupInventoryEntry :: "string \<Rightarrow> AgentState \<Rightarrow> softwareEntry option" where
  "lookupInventoryEntry key s = a_inventory s key"

definition buildAndSendSnapshot ::
  "(inventoryRoot \<Rightarrow> (string \<times> subkey_values option) list option) \<Rightarrow> string option \<Rightarrow> string \<Rightarrow> AgentState \<Rightarrow> AgentState" where
  "buildAndSendSnapshot registry winget agentID s =
     (let entries = enrichWithWinget winget (scanFullInventory registry)
      in wsSend (MsgSnapshot agentID entries) (replaceInventorySnapshot entries s))"

text \<open>What the server decodes from the snapshot's JSON.\<close>

definition snapshot_item :: "softwareEntry \<Rightarrow> SoftwareInventoryItem" where
  "snapshot_item e =
     \<lparr>it_DisplayName = json_text (se_DisplayName e), it_Publisher = json_text (se_Publisher e),
      it_DisplayVersion = json_text (se_DisplayVersion e), it_InstallDate = json_text (se_InstallDate e),
      it_WindowsInstaller = se_WindowsInstaller e, it_ProductCode = json_text (se_ProductCode e),
      it_UninstallString = json_text (se_UninstallString e), it_QuietUninstallString = json_text (se_QuietUninstallString e),
      it_Hive = json_text (se_Hive e), it_Arch = json_text (se_Arch e), it_Scope = json_text (se_Scope e),
      it_WingetID = json_text (se_WingetID e), it_WingetAvailableVersion = json_text (se_WingetAvailableVersion e)\<rparr>"

definition snapshot_message :: "string \<Rightarrow> softwareEntry list \<Rightarrow> IncomingMessage" where
  "snapshot_message agentID entries =
     \<lparr>im_Type = ''software_inventory_snapshot'', im_AgentID = json_text agentID, im_Hostname = '''', im_IP = '''', im_OS = '''',
      im_CPU = 0, im_RAM = 0, im_Processes = [], im_AgentVersion = '''', im_WindowsVersion = '''', im_DiskCapacityGB = 0,
      im_MacAddress = '''', im_JobID = '''', im_Attempt = None, im_Status = '''', im_Output = '''', im_ExitCode = None,
      im_DurationMS = None, im_NetworkMode = '''', im_EventType = '''', im_Metadata = [], im_PolicyVersion = 0,
      im_SoftwareItems = map snapshot_item entries\<rparr>"

subsection \<open>What enrichment and snapshots keep\<close>

text \<open>An entry whose texts, and the key made from them, are well-formed UTF-8.\<close>

definition json_safe :: "softwareEntry \<Rightarrow> bool" where
  "json_safe e \<longleftrightarrow> list_all (\<lambda>s. json_text s = s)
     [se_DisplayName e, se_Publisher e, se_ProductCode e, se_QuietUninstallString e, entry_identityKey e]"

definition registry_view :: "softwareEntry \<Rightarrow> softwareEntry" where
  "registry_view e = e\<lparr>se_WingetID := '''', se_WingetAvailableVersion := ''''\<rparr>"

lemma enrich_keeps_registry: "map registry_view (enrichWithWinget out entries) = map registry_view entries"
  by (simp add: enrichWithWinget_def registry_view_def Let_def split: option.split)

lemma registry_view_key: "registry_view e = registry_view e' \<Longrightarrow> entry_identityKey e = entry_identityKey e'"
  by (cases e; cases e') (simp add: registry_view_def entry_identityKey_def)

lemma snapshot_by_key: "fold (\<lambda>e m. m(entry_identityKey e \<mapsto> e)) entries m0 k =
    (case find (\<lambda>e. entry_identityKey e = k) (rev entries) of None \<Rightarrow> m0 k | Some e \<Rightarrow> Some e)"
  by (induction entries arbitrary: m0) (auto simp: find_append split: option.splits)

lemma snapshot_item_key: "json_safe e \<Longrightarrow> identityKey (snapshot_item e) = entry_identityKey e"
  by (simp add: json_safe_def identityKey_def entry_identityKey_def snapshot_item_def)

lemma last_snapshot_item:
  "list_all json_safe entries \<Longrightarrow>
    last_item (map snapshot_item entries) k = map_option snapshot_item (find (\<lambda>e. entry_identityKey e = k) (rev entries))"
  by (induction entries) (auto simp: last_item_def find_append snapshot_item_key split: option.splits)

lemma find_set: "find P xs = Some x \<Longrightarrow> x \<in> set xs \<and> P x"
  by (induction xs) (auto split: if_splits)

text \<open>After a snapshot the row the server holds and the entry the agent holds come from the same entry.\<close>

lemma snapshot_agrees:
  assumes safe: "list_all json_safe entries" and inv: "inventory_inv (w_db w)"
    and conn: "conn_agent (w_hub w) c = a" "a \<noteq> ''''" and known: "agent_known (w_db w) a" and healthy: "\<not> sv_env sv [''ReconcileSoftwareInventory'', a]"
    and row: "installed (w_db (handleMessage sv now c (Some (snapshot_message a entries)) w)) a k = Some row"
  obtains e f n where "find (\<lambda>e. entry_identityKey e = k) (rev entries) = Some e" "json_safe e" "entry_identityKey e = k"
    "row = stored_item a f n (snapshot_item e)"
proof -
  let ?items = "map snapshot_item entries"
  obtain db' where db': "ReconcileSoftwareInventory (sv_env sv) now (w_db w) a ?items = Inr db'"
    using known healthy by (simp add: ReconcileSoftwareInventory_def Let_def)
  then have "w_db (handleMessage sv now c (Some (snapshot_message a entries)) w) = db'"
    using conn by (simp add: handleMessage_def handleSoftwareInventory_def snapshot_message_def sender_def Let_def)
  with row reconcile_effect [OF inv db', of a k] obtain item f n where item: "last_item ?items k = Some item" "row = stored_item a f n item"
    by (auto split: option.splits)
  then obtain e where e: "find (\<lambda>e. entry_identityKey e = k) (rev entries) = Some e" "item = snapshot_item e"
    by (auto simp: last_snapshot_item [OF safe])
  then have "e \<in> set entries" "entry_identityKey e = k" using find_set [of _ "rev entries"] by auto
  with safe e item that show ?thesis by (auto simp: list_all_iff)
qed

lemma message_json_job:
  "str_field (message_json shw m) ''payload'' = json_text (om_Payload m)"
  "str_field (message_json shw m) ''args'' = json_text (om_Args m)"
  by (simp_all add: message_json_def map_add_def str_field_def json_text.simps [of "''''"] split: option.split)

lemma split_covers: "set s \<subseteq> insert sep (\<Union> (set ` set (Split_char sep s)))"
  by (induction sep s rule: Split_char.induct) (fastforce split: list.splits if_splits)+

lemma product_code_ascii: "NormalizeProductCode raw = Some guid \<Longrightarrow> ascii guid"
proof -
  assume "NormalizeProductCode raw = Some guid"
  then obtain body where body: "is_guid body" "guid = ''{'' @ ToUpper body @ ''}''" by (auto simp: NormalizeProductCode_def Let_def split: if_splits)
  from body(1) have "is_guid (ToUpper body)" by simp
  then have "\<forall>c \<in> set (ToUpper body). is_hex c \<or> c = CHR ''-''"
    using split_covers [of "ToUpper body" "CHR ''-''"] by (fastforce simp: is_guid_def list_all_iff)
  moreover have "is_hex c \<or> c = CHR ''-'' \<Longrightarrow> of_char c < (128 :: nat)" for c by (auto simp: is_hex_def is_digit_def)
  ultimately show ?thesis by (auto simp: body ascii_def list_all_iff)
qed

lemma dispatched_uninstall:
  assumes "dj_Type job \<in> {''quiet_uninstall'', ''msiexec_uninstall''}"
  shows "om_Payload (dispatch_message cks job n) = dj_Payload job" "om_Args (dispatch_message cks job n) = dj_Args job"
    "om_JobID (dispatch_message cks job n) = dj_ID job" "om_Attempt (dispatch_message cks job n) = Some n"
  using assms by (auto simp: dispatch_message_def Let_def blank_message_def)

lemma classify_quiet:
  assumes "up_jobType (classifyUninstall row) = ''quiet_uninstall''"
  shows "sw_QuietUninstallString row \<noteq> ''''" "ParseQuietUninstallCommand (sw_QuietUninstallString row) \<noteq> None"
    "up_payload (classifyUninstall row) = sw_QuietUninstallString row" "up_args (classifyUninstall row) = sw_IdentityKey row"
  using assms unfolding classifyUninstall_def by (auto split: option.splits if_splits)

lemma classify_msi:
  assumes "up_jobType (classifyUninstall row) = ''msiexec_uninstall''"
  shows "sw_WindowsInstaller row \<and> NormalizeProductCode (sw_ProductCode row) = Some (up_payload (classifyUninstall row))"
  using assms unfolding classifyUninstall_def by (auto split: option.splits if_splits)

subsection \<open>Offered uninstalls run\<close>


definition app_registry :: "inventoryRoot \<Rightarrow> (string \<times> subkey_values option) list option" where
  "app_registry r =
     (if ir_currentUser r
      then Some [(''App'', Some \<lparr>kv_strings = [''DisplayName'' \<mapsto> ''App'', ''QuietUninstallString'' \<mapsto> ''C:'' @ [CHR 0x5C] @ ''u.exe /S''],
                   kv_integers = Map.empty\<rparr>)]
      else None)"

definition app_entry :: softwareEntry where
  "app_entry = \<lparr>se_DisplayName = ''App'', se_Publisher = '''', se_DisplayVersion = '''', se_InstallDate = '''', se_WindowsInstaller = False,
     se_ProductCode = '''', se_UninstallString = '''', se_QuietUninstallString = ''C:'' @ [CHR 0x5C] @ ''u.exe /S'', se_Hive = ''HKCU'',
     se_Arch = ''x64'', se_Scope = ''user'', se_WingetID = '''', se_WingetAvailableVersion = ''''\<rparr>"

lemma app_scan: "enrichWithWinget None (scanFullInventory app_registry) = [app_entry]"
  by (simp add: enrichWithWinget_def scanFullInventory_def inventoryRoots_def scanInventoryRoot_def scan_subkey_def app_registry_def
      GetStringValue_def app_entry_def Let_def)

lemma app_key: "entry_identityKey app_entry = ''np:app|''"
  by code_simp

lemma app_safe: "json_safe app_entry"
  by (simp add: json_safe_def app_key) (simp add: app_entry_def json_text_ascii ascii_def)

lemma app_command: "ParseQuietUninstallCommand (se_QuietUninstallString app_entry) = Some (''C:'' @ [CHR 0x5C] @ ''u.exe'', [''/S''])"
  by code_simp


subsection \<open>Reading winget's table back\<close>

text \<open>
  The table as winget prints it: columns of fixed width, a header, a rule and a line per row.  The column
  of available versions is there only when \<open>avail\<close> holds.
\<close>

definition pad :: "nat \<Rightarrow> string \<Rightarrow> string" where
  "pad n s = s @ replicate (n - length s) (CHR '' '')"

definition winget_line :: "nat \<Rightarrow> nat \<Rightarrow> nat \<Rightarrow> bool \<Rightarrow> wingetRow \<Rightarrow> string" where
  "winget_line n1 n2 n3 avail r =
     pad n1 (wr_Name r) @ pad n2 (wr_ID r) @ pad n3 (wr_Version r) @ (if avail then wr_Available r else '''')"

definition winget_header :: wingetRow where
  "winget_header = \<lparr>wr_Name = ''Name'', wr_ID = ''Id'', wr_Version = ''Version'', wr_Available = ''Available''\<rparr>"

definition winget_table :: "nat \<Rightarrow> nat \<Rightarrow> nat \<Rightarrow> bool \<Rightarrow> string \<Rightarrow> wingetRow list \<Rightarrow> string" where
  "winget_table n1 n2 n3 avail rule_line rows =
     concat (map (\<lambda>l. l @ [CHR 0x0A]) (winget_line n1 n2 n3 avail winget_header # rule_line # map (winget_line n1 n2 n3 avail) rows))"

text \<open>A row that fits: its texts are trimmed, on one line and within their columns.\<close>

definition row_fits :: "nat \<Rightarrow> nat \<Rightarrow> nat \<Rightarrow> bool \<Rightarrow> wingetRow \<Rightarrow> bool" where
  "row_fits n1 n2 n3 avail r \<longleftrightarrow>
     list_all (\<lambda>s. TrimSpace s = s \<and> CHR 0x0A \<notin> set s) [wr_Name r, wr_ID r, wr_Version r, wr_Available r]
     \<and> wr_Name r \<noteq> '''' \<and> wr_ID r \<noteq> '''' \<and> length (wr_Name r) \<le> n1 \<and> length (wr_ID r) \<le> n2 \<and> length (wr_Version r) \<le> n3
     \<and> (avail \<or> wr_Available r = '''')"

lemma length_pad [simp]: "length (pad n s) = max n (length s)"
  by (simp add: pad_def)

lemma set_pad: "set (pad n s) \<subseteq> insert (CHR '' '') (set s)"
  by (auto simp: pad_def)

lemma TrimSpace_pad [simp]: "TrimSpace (pad n s) = TrimSpace s"
proof -
  have sp: "is_space (CHR '' '')" by (simp add: is_space_def)
  then have blank: "dropWhile is_space (replicate k (CHR '' '') @ t) = dropWhile is_space t" for k t by (induction k) simp_all
  then have "dropWhile is_space (s @ replicate k (CHR '' '')) =
      (if dropWhile is_space s = [] then [] else dropWhile is_space s @ replicate k (CHR '' ''))" for k
    using blank [of k "[]"] by (induction s) simp_all
  then show ?thesis by (cases "dropWhile is_space s = []") (simp_all add: TrimSpace_def pad_def blank del: dropWhile_eq_Nil_conv)
qed

lemma TrimSpace_empty: "TrimSpace s = '''' \<longleftrightarrow> list_all is_space s"
  by (simp add: TrimSpace_def dropWhile_eq_Nil_conv list_all_iff) (metis set_dropWhileD set_takeWhileD takeWhile_dropWhile_id Un_iff set_append)

lemma column_between:
  "from = int (length A) \<Longrightarrow> till = int (length A + length B) \<Longrightarrow> column_slice (A @ B @ C) from till = TrimSpace B"
proof -
  assume "from = int (length A)" "till = int (length A + length B)"
  moreover have "int (length B) + int (length C) \<le> 0 \<longleftrightarrow> B = [] \<and> C = []" by (cases B; cases C) simp_all
  ultimately show ?thesis by (auto simp: column_slice_def Let_def TrimSpace_def)
qed

lemma column_to_end: "from = int (length A) \<Longrightarrow> column_slice (A @ B) from (-1) = TrimSpace B"
  by (cases "B = []") (auto simp: column_slice_def Let_def TrimSpace_def)

lemma index_first: "c \<notin> set u \<Longrightarrow> string_Index (u @ c # cs @ v) (c # cs) = int (length u)"
  by (induction u) (auto simp: Let_def HasPrefix_iff)

lemma index_none: "c \<notin> set u \<Longrightarrow> string_Index u (c # cs) = -1"
  by (induction u) (auto simp: Let_def)

lemma winget_row_line:
  assumes "row_fits n1 n2 n3 avail r"
  shows "winget_row (int n1) (int (n1 + n2)) (if avail then int (n1 + n2 + n3) else -1) (winget_line n1 n2 n3 avail r) = Some r"
proof -
  let ?l = "winget_line n1 n2 n3 avail r"
  have len: "max n1 (length (wr_Name r)) = n1" "max n2 (length (wr_ID r)) = n2" "max n3 (length (wr_Version r)) = n3"
    and trimmed: "TrimSpace (wr_Name r) = wr_Name r" "TrimSpace (wr_ID r) = wr_ID r" "TrimSpace (wr_Version r) = wr_Version r"
      "TrimSpace (wr_Available r) = wr_Available r" and given: "wr_Name r \<noteq> ''''" "wr_ID r \<noteq> ''''" "avail \<or> wr_Available r = ''''"
    using assms by (simp_all add: row_fits_def)
  have "\<not> list_all is_space (wr_Name r)" using TrimSpace_empty [of "wr_Name r"] trimmed(1) given(1) by simp
  then have "TrimSpace ?l \<noteq> ''''" by (simp add: TrimSpace_empty winget_line_def pad_def)
  moreover have "column_slice ?l 0 (int n1) = wr_Name r"
    using column_between [of 0 "[]" "int n1" "pad n1 (wr_Name r)"] by (simp add: winget_line_def len trimmed)
  moreover have "column_slice ?l (int n1) (int (n1 + n2)) = wr_ID r"
    using column_between [of "int n1" "pad n1 (wr_Name r)" "int (n1 + n2)" "pad n2 (wr_ID r)"] by (simp add: winget_line_def len trimmed)
  moreover have "column_slice ?l (int (n1 + n2)) (int (n1 + n2 + n3)) = wr_Version r"
    using column_between [of "int (n1 + n2)" "pad n1 (wr_Name r) @ pad n2 (wr_ID r)" "int (n1 + n2 + n3)" "pad n3 (wr_Version r)"]
    by (simp add: winget_line_def len trimmed)
  moreover have "column_slice ?l (int (n1 + n2 + n3)) (-1) = wr_Available r" if avail
    using that column_to_end [of "int (n1 + n2 + n3)" "pad n1 (wr_Name r) @ pad n2 (wr_ID r) @ pad n3 (wr_Version r)" "wr_Available r"]
    by (simp add: winget_line_def len trimmed)
  moreover have "column_slice ?l (int (n1 + n2)) (-1) = wr_Version r" if "\<not> avail"
    using that column_to_end [of "int (n1 + n2)" "pad n1 (wr_Name r) @ pad n2 (wr_ID r)" "pad n3 (wr_Version r)"]
    by (simp add: winget_line_def len trimmed)
  moreover have "0 < n1" using given(1) len(1) by (cases "wr_Name r") auto
  then have "0 < int n1 + int n2 + int n3" by simp
  ultimately show ?thesis using given by (cases avail) (simp_all add: winget_row_def)
qed

lemma header_parts:
  "winget_line n1 n2 n3 avail winget_header =
     pad n1 ''Name'' @ ''Id'' @ drop 2 (pad n2 ''Id'') @ pad n3 ''Version'' @ (if avail then ''Available'' else '''')"
  "winget_line n1 n2 n3 avail winget_header =
     (pad n1 ''Name'' @ pad n2 ''Id'') @ ''Version'' @ drop 7 (pad n3 ''Version'') @ (if avail then ''Available'' else '''')"
  by (simp_all add: winget_line_def winget_header_def pad_def)

lemma header_columns:
  assumes "4 < n1" "2 < n2" "7 < n3"
  shows "string_Index (winget_line n1 n2 n3 avail winget_header) ''Id'' = int n1"
    "string_Index (winget_line n1 n2 n3 avail winget_header) ''Version'' = int (n1 + n2)"
    "string_Index (winget_line n1 n2 n3 avail winget_header) ''Available'' = (if avail then int (n1 + n2 + n3) else -1)"
proof -
  let ?h = "winget_line n1 n2 n3 avail winget_header"
  show "string_Index ?h ''Id'' = int n1"
    unfolding header_parts(1) using assms by (subst append_Cons, subst index_first) (auto simp: pad_def)
  show "string_Index ?h ''Version'' = int (n1 + n2)"
    unfolding header_parts(2) using assms by (subst append_Cons, subst index_first) (auto simp: pad_def)
  show "string_Index ?h ''Available'' = (if avail then int (n1 + n2 + n3) else -1)"
  proof (cases avail)
    case True
    then have h: "?h = (pad n1 ''Name'' @ pad n2 ''Id'' @ pad n3 ''Version'') @ CHR ''A'' # ''vailable'' @ ''''" by (simp add: winget_line_def winget_header_def)
    show ?thesis unfolding h using True assms by (subst index_first) (auto simp: pad_def)
  next
    case False
    then show ?thesis by (subst index_none) (auto simp: winget_line_def winget_header_def pad_def)
  qed
qed

lemma line_one_line: "row_fits n1 n2 n3 avail r \<Longrightarrow> CHR 0x0A \<notin> set (winget_line n1 n2 n3 avail r)"
  by (auto simp: row_fits_def winget_line_def pad_def)

lemma split_lines:
  "list_all (\<lambda>l. CHR 0x0A \<notin> set l) ls \<Longrightarrow> Split_char (CHR 0x0A) (concat (map (\<lambda>l. l @ [CHR 0x0A]) ls)) = ls @ ['''']"
  by (induction ls) (simp_all add: Split_char_append)



text \<open>
  Winget's table has a last column with the source of a package.  The parser takes all that follows the
  heading of the available versions, so the source becomes part of the version it reports.
\<close>

theorem winget_source_in_version:
  "let line = (\<lambda>name ident version available src. pad 8 name @ pad 8 ident @ pad 9 version @ pad 11 available @ src @ [CHR 0x0A]) in
   map wr_Available (parseWingetListOutput
     (line ''Name'' ''Id'' ''Version'' ''Available'' ''Source'' @ ''-----'' @ [CHR 0x0A] @ line ''App'' ''Co.App'' ''1.0'' ''1.2'' ''winget''))
   = [''1.2        winget'']"
  by code_simp

end
