(* ===== verification/Spec2Isabelle.thy ===== *)
theory Spec2Isabelle
  imports Shared_Command Shared_Identity Shared_Policy Shared_Software Queue_Admission Policy_Properties
    Command_Properties Auth Delivery Server_Composition
    Agent_Watchers Agent_Inventory
begin

text \<open>LibraWatch.\<close>

end
